(* ===== verification/Prelude.thy ===== *)
theory Prelude
  imports Main "HOL-Library.State_Monad" "HOL-Library.AList"
begin

text \<open>
  Shared base of the development: Go error values as trees (\<open>fmt.Errorf\<close> with \<open>%w\<close>,
  \<open>errors.Is\<close>, the \<open>apierrors\<close> predicates), Go string maps as association lists, Go
  durations and instants as integers with the saturation of \<open>Time.Sub\<close> written out, and
  the weakest precondition calculus for the state monad in which the handlers are written.
  The collection \<open>wp_rules\<close> holds the rules that symbolically execute a handler.
\<close>

section \<open>Collections\<close>

named_theorems wp_rules \<open>weakest preconditions of the monad and of the library operations\<close>
named_theorems wp_intro \<open>introduction rules for preconditions of requests\<close>
named_theorems err_simps \<open>classification of error values\<close>

section \<open>Go strings and string maps\<close>

text \<open>
  A \<open>map[string]string\<close> of a decoded object is an association list without repeated
  keys; \<open>m[k]\<close> is \<open>map_of\<close>, with the empty string for a missing key, and an
  assignment is \<open>AList.update\<close>. A decoded object has a nil map exactly where the list is
  empty.
\<close>

type_synonym strmap = "(string \<times> string) list"

definition index_str :: "strmap \<Rightarrow> string \<Rightarrow> string" where
  "index_str m k = (case map_of m k of None \<Rightarrow> [] | Some v \<Rightarrow> v)"

definition has_key :: "strmap \<Rightarrow> string \<Rightarrow> bool" where
  "has_key m k = (map_of m k \<noteq> None)"

lemma map_of_put [simp]:
  "map_of (AList.update k v m) k' = (if k' = k then Some v else map_of m k')"
  by (simp add: update_conv')

lemma index_str_put [simp]:
  "index_str (AList.update k v m) k' = (if k' = k then v else index_str m k')"
  by (simp add: index_str_def)

lemma has_key_put [simp]:
  "has_key (AList.update k v m) k' = (k' = k \<or> has_key m k')"
  by (simp add: has_key_def)

section \<open>Errors\<close>

text \<open>
  The reasons of API status errors the code distinguishes, the sentinel errors the packages
  declare, and error trees: \<open>Errorf msg es\<close> is \<open>fmt.Errorf\<close> with the wrapped
  operands \<open>es\<close> (several for several \<open>%w\<close>, none for a plain message).
\<close>

datatype api_reason = NotFound | Forbidden | Conflict | AlreadyExists | OtherReason string

datatype sentinel = ErrTerminal | ErrTargetFailed | ErrCleanupFailed | ErrOther string

datatype gerr =
    ApiErr api_reason
  | Sentinel sentinel
  | Errorf string "gerr list"

fun apiReasons :: "gerr \<Rightarrow> api_reason list" where
  "apiReasons (ApiErr r) = [r]"
| "apiReasons (Sentinel s) = []"
| "apiReasons (Errorf m es) = concat (map apiReasons es)"

text \<open>\<open>apierrors.ReasonForError\<close>: the first API status found by \<open>errors.As\<close>, depth first.\<close>

definition ReasonForError :: "gerr \<Rightarrow> api_reason option" where
  "ReasonForError e = (case apiReasons e of [] \<Rightarrow> None | r # _ \<Rightarrow> Some r)"

abbreviation IsNotFound :: "gerr \<Rightarrow> bool" where
  "IsNotFound e \<equiv> ReasonForError e = Some NotFound"

abbreviation IsForbidden :: "gerr \<Rightarrow> bool" where
  "IsForbidden e \<equiv> ReasonForError e = Some Forbidden"

abbreviation IsConflict :: "gerr \<Rightarrow> bool" where
  "IsConflict e \<equiv> ReasonForError e = Some Conflict"

abbreviation IsAlreadyExists :: "gerr \<Rightarrow> bool" where
  "IsAlreadyExists e \<equiv> ReasonForError e = Some AlreadyExists"

fun errorsIs :: "gerr \<Rightarrow> sentinel \<Rightarrow> bool" where
  "errorsIs (ApiErr r) s = False"
| "errorsIs (Sentinel t) s = (t = s)"
| "errorsIs (Errorf m es) s = list_ex (\<lambda>e. errorsIs e s) es"

lemma ReasonForError_simps [simp, err_simps]:
  "ReasonForError (ApiErr r) = Some r"
  "ReasonForError (Sentinel s) = None"
  "ReasonForError (Errorf m []) = None"
  "ReasonForError (Errorf m [e]) = ReasonForError e"
  by (simp_all add: ReasonForError_def)

text \<open>A tree of wrapped sentinels in front of an error does not hide its API reason.\<close>

lemma ReasonForError_skip [simp, err_simps]:
  "ReasonForError (Errorf m (Sentinel s # es)) = ReasonForError (Errorf m es)"
  by (simp add: ReasonForError_def)

type_synonym 'a res = "gerr + 'a"

section \<open>Instants and durations\<close>

text \<open>
  Durations are nanoseconds. An instant counts nanoseconds from Go's zero time (January 1,
  year 1, UTC), so that \<open>IsZero\<close> is equality with 0. \<open>Sub\<close> saturates at the bounds
  of \<open>int64\<close>; \<open>Truncate\<close> rounds towards zero to a multiple of its argument.
\<close>

type_synonym time = int
type_synonym duration = int

definition maxDuration :: duration where "maxDuration = 2 ^ 63 - 1"
definition minDuration :: duration where "minDuration = - (2 ^ 63)"

definition Second :: duration where "Second = 1000000000"
definition Minute :: duration where "Minute = 60 * Second"
definition Hour :: duration where "Hour = 60 * Minute"

definition time_Sub :: "time \<Rightarrow> time \<Rightarrow> duration" where
  "time_Sub t u = max minDuration (min maxDuration (t - u))"

definition duration_Truncate :: "duration \<Rightarrow> duration \<Rightarrow> duration" where
  "duration_Truncate d m =
     (if m \<le> 0 then d else if 0 \<le> d then d - d mod m else - (\<bar>d\<bar> - \<bar>d\<bar> mod m))"

definition timePtr_IsZero :: "time option \<Rightarrow> bool" where
  "timePtr_IsZero p = (case p of None \<Rightarrow> True | Some t \<Rightarrow> t = 0)"

lemma timePtr_IsZero_simps [simp]:
  "timePtr_IsZero None" "timePtr_IsZero (Some t) \<longleftrightarrow> t = 0"
  by (simp_all add: timePtr_IsZero_def)

lemma Truncate_le: "0 < m \<Longrightarrow> 0 \<le> d \<Longrightarrow> duration_Truncate d m \<le> d"
  by (simp add: duration_Truncate_def)

lemma Truncate_nonneg: "0 < m \<Longrightarrow> 0 \<le> d \<Longrightarrow> 0 \<le> duration_Truncate d m"
  by (simp add: duration_Truncate_def) (metis zmod_le_nonneg_dividend)

lemma Truncate_neg: "0 < m \<Longrightarrow> d < 0 \<Longrightarrow> duration_Truncate d m \<le> 0"
  using zmod_le_nonneg_dividend [of "- d" m] by (simp add: duration_Truncate_def)

lemma Second_pos [simp]: "0 < Second"
  by (simp add: Second_def)

text \<open>Rounding towards zero never turns an age that is within a non-negative limit into one beyond it.\<close>

lemma Truncate_gt_imp:
  assumes "0 < m" "0 \<le> (l::int)" "l < duration_Truncate d m"
  shows "l < d"
proof (cases "0 \<le> d")
  case True
  with assms show ?thesis using Truncate_le [of m d] by linarith
next
  case False
  with assms show ?thesis using Truncate_neg [of m d] by linarith
qed

section \<open>The state monad and its weakest preconditions\<close>

abbreviation ret :: "'a \<Rightarrow> ('s, 'a) state" where
  "ret \<equiv> State_Monad.return"

text \<open>
  \<open>thenE\<close> is the pattern \<open>x, err := m(); if err != nil { return err }\<close>;
  \<open>wrapE\<close> is \<open>fmt.Errorf(msg + ": %w", err)\<close> on the error of an operation.
\<close>

definition thenE :: "('s, 'e + 'a) state \<Rightarrow> ('a \<Rightarrow> ('s, 'e + 'b) state) \<Rightarrow> ('s, 'e + 'b) state" where
  "thenE m k = do { r \<leftarrow> m; (case r of Inl e \<Rightarrow> ret (Inl e) | Inr x \<Rightarrow> k x) }"

definition wrapE :: "string \<Rightarrow> ('s, gerr + 'a) state \<Rightarrow> ('s, gerr + 'a) state" where
  "wrapE msg m = do { r \<leftarrow> m; ret (case r of Inl e \<Rightarrow> Inl (Errorf msg [e]) | Inr x \<Rightarrow> Inr x) }"

definition wp :: "('s, 'a) state \<Rightarrow> ('a \<Rightarrow> 's \<Rightarrow> bool) \<Rightarrow> 's \<Rightarrow> bool" where
  "wp m Q s = (case run_state m s of (a, s') \<Rightarrow> Q a s')"

lemma wp_return [wp_rules]: "wp (ret x) Q s = Q x s"
  by (simp add: wp_def)

lemma wp_bind [wp_rules]: "wp (State_Monad.bind m k) Q s = wp m (\<lambda>a. wp (k a) Q) s"
  by (simp add: wp_def split: prod.splits)

lemma wp_thenE [wp_rules]:
  "wp (thenE m k) Q s = wp m (\<lambda>r s'. case r of Inl e \<Rightarrow> Q (Inl e) s' | Inr x \<Rightarrow> wp (k x) Q s') s"
  by (simp add: thenE_def wp_bind wp_return wp_def split: sum.splits prod.splits)

lemma wp_wrapE [wp_rules]:
  "wp (wrapE msg m) Q s =
     wp m (\<lambda>r s'. case r of Inl e \<Rightarrow> Q (Inl (Errorf msg [e])) s' | Inr x \<Rightarrow> Q (Inr x) s') s"
  by (simp add: wrapE_def wp_bind wp_return wp_def split: sum.splits prod.splits)

lemma wp_mono:
  assumes "wp m P s" "\<And>a s'. P a s' \<Longrightarrow> Q a s'"
  shows "wp m Q s"
  using assms by (simp add: wp_def split: prod.splits)

lemma wp_conj: "wp m (\<lambda>a s. P a s \<and> Q a s) s = (wp m P s \<and> wp m Q s)"
  by (simp add: wp_def split: prod.splits)

lemma wp_run: "wp m Q s \<longleftrightarrow> Q (fst (run_state m s)) (snd (run_state m s))"
  by (simp add: wp_def split: prod.splits)

lemma wp_TrueI: "wp m (\<lambda>_ _. True) s"
  by (simp add: wp_def)

end
