(* ===== verification/Objects.thy ===== *)
theory Objects
  imports Prelude
begin

text \<open>
  The Kubernetes objects the module reads and writes, as records with the source's fields
  (\<open>src/api/v1alpha1\<close> for the module's own kinds; of the foreign kinds, the fields that
  the code under \<open>src/\<close> reads or writes). Pointers are options, enumerated strings with an
  open set of values stay strings, and the three legal condition statuses are a datatype.
\<close>

section \<open>Metadata\<close>

record ownerref =
  or_apiVersion :: string
  or_kind :: string
  or_name :: string
  or_uid :: string
  or_controller :: "bool option"
  or_blockOwnerDeletion :: "bool option"

record objmeta =
  m_name :: string
  m_namespace :: string
  m_uid :: string
  m_labels :: strmap
  m_annotations :: strmap
  m_owners :: "ownerref list"
  m_finalizers :: "string list"
  m_deletion :: "time option"
  m_generation :: int
  m_resourceVersion :: string

definition emptyMeta :: objmeta where
  "emptyMeta = \<lparr>m_name = [], m_namespace = [], m_uid = [], m_labels = [], m_annotations = [],
     m_owners = [], m_finalizers = [], m_deletion = None, m_generation = 0,
     m_resourceVersion = []\<rparr>"

lemma emptyMeta_sel [simp]:
  "m_name emptyMeta = []" "m_namespace emptyMeta = []" "m_uid emptyMeta = []"
  "m_labels emptyMeta = []" "m_annotations emptyMeta = []" "m_owners emptyMeta = []"
  "m_finalizers emptyMeta = []" "m_deletion emptyMeta = None" "m_generation emptyMeta = 0"
  "m_resourceVersion emptyMeta = []"
  by (simp_all add: emptyMeta_def)

datatype cstatus = ConditionTrue | ConditionFalse | ConditionUnknown

record condition =
  c_type :: string
  c_status :: cstatus
  c_reason :: string
  c_message :: string
  c_observedGeneration :: int
  c_lastTransitionTime :: time

record objref =
  ref_apiVersion :: string
  ref_kind :: string
  ref_name :: string
  ref_namespace :: string
  ref_uid :: string
  ref_resourceVersion :: string

section \<open>VolumeCaptureRequest and VolumeRestoreRequest\<close>

record volumeCaptureTarget =
  vt_uid :: string
  vt_apiVersion :: string
  vt_kind :: string
  vt_name :: string
  vt_namespace :: string

record artifactRef =
  ar_apiVersion :: string
  ar_kind :: string
  ar_name :: string
  ar_uid :: string

record volumeDataBinding =
  vdb_artifactRef :: artifactRef

record vcrStatus =
  vcs_completionTimestamp :: "time option"
  vcs_conditions :: "condition list"
  vcs_data :: "volumeDataBinding option"

record volumeCaptureRequest =
  vcr_meta :: objmeta
  vcr_mode :: string
  vcr_target :: "volumeCaptureTarget option"
  vcr_status :: vcrStatus

record pvcTemplateSpec =
  tmpl_name :: string
  tmpl_annotations :: strmap
  tmpl_labels :: strmap
  tmpl_accessModes :: "string list"
  tmpl_requests :: strmap
  tmpl_storageClassName :: "string option"
  tmpl_volumeMode :: "string option"

record vrrStatus =
  vrs_completionTimestamp :: "time option"
  vrs_conditions :: "condition list"
  vrs_pvcRef :: "objref option"

record volumeRestoreRequest =
  vrr_meta :: objmeta
  vrr_sourceRef :: objref
  vrr_pvcTemplate :: pvcTemplateSpec
  vrr_fsType :: string
  vrr_status :: vrrStatus

section \<open>DataImport and DataExport\<close>

record dataArtifact =
  da_artifactRef :: "artifactRef option"
  da_fsType :: string

record dataExportImportStatus =
  ds_url :: string
  ds_ca :: string
  ds_publicURL :: string
  ds_accessTimestamp :: time
  ds_conditions :: "condition list"
  ds_volumeMode :: string
  ds_phase :: string
  ds_completionTimestamp :: "time option"
  ds_serverState :: string
  ds_data :: "dataArtifact option"

record storageParamsSpec =
  sp_storageClassName :: string
  sp_size :: string
  sp_volumeMode :: string

record dataImport =
  di_meta :: objmeta
  di_ttl :: string
  di_publish :: bool
  di_waitForFirstConsumer :: bool
  di_mode :: string
  di_snapshotRef :: "objref option"
  di_storageParams :: "storageParamsSpec option"
  di_pvcTemplate :: "pvcTemplateSpec option"
  di_status :: dataExportImportStatus

record dataExport =
  de_meta :: objmeta
  de_ttl :: string
  de_publish :: bool
  de_publicIngress :: string
  de_targetGroup :: string
  de_targetKind :: string
  de_targetName :: string
  de_status :: dataExportImportStatus

section \<open>Core and CSI kinds\<close>

record persistentVolumeClaim =
  pvc_meta :: objmeta
  pvc_volumeName :: string
  pvc_storageClassName :: "string option"
  pvc_volumeMode :: "string option"
  pvc_accessModes :: "string list"
  pvc_requests :: strmap
  pvc_dataSourceRef :: "objref option"
  pvc_phase :: string

record csiSource =
  csi_driver :: string
  csi_volumeHandle :: string
  csi_fsType :: string

record persistentVolume =
  pv_meta :: objmeta
  pv_claimRef :: "objref option"
  pv_csi :: "csiSource option"
  pv_reclaimPolicy :: string

record storageClass =
  sc_meta :: objmeta
  sc_provisioner :: string
  sc_volumeBindingMode :: "string option"

record volumeSnapshotClass =
  vsclass_meta :: objmeta
  vsclass_driver :: string
  vsclass_deletionPolicy :: string

record vscError =
  ve_message :: "string option"
  ve_time :: "time option"

record vscStatus =
  vscs_readyToUse :: "bool option"
  vscs_error :: "vscError option"

record volumeSnapshotContent =
  vsc_meta :: objmeta
  vsc_driver :: string
  vsc_className :: "string option"
  vsc_deletionPolicy :: string
  vsc_volumeHandle :: "string option"
  vsc_status :: "vscStatus option"

record objectKeeper =
  ok_meta :: objmeta
  ok_mode :: string
  ok_followObjectRef :: "objref option"


section \<open>Kinds of the data server\<close>

record tokenReview =
  trv_token :: string
  trv_authenticated :: bool
  trv_username :: string
  trv_groups :: "string list"

record subjectAccessReview =
  sar_user :: string
  sar_groups :: "string list"
  sar_namespace :: string
  sar_verb :: string
  sar_group :: string
  sar_version :: string
  sar_resource :: string
  sar_subresource :: string
  sar_allowed :: bool
  sar_reason :: string

record secret =
  sec_meta :: objmeta
  sec_type :: string
  sec_data :: strmap

section \<open>Workloads and networking\<close>

record container =
  ct_name :: string
  ct_image :: string
  ct_args :: "string list"
  ct_env :: "(string \<times> string) list"
  ct_volumeMounts :: "(string \<times> string) list"
  ct_volumeDevices :: "(string \<times> string) list"
  ct_ports :: "(string \<times> int) list"
  ct_runAsUser :: "int option"

text \<open>A volume with its claim and the read-only flag; no claim for any other volume source.\<close>

record podVolume =
  vol_name :: string
  vol_claim :: "(string \<times> bool) option"

record podSpec =
  ps_serviceAccountName :: string
  ps_imagePullSecrets :: "string list"
  ps_containers :: "container list"
  ps_volumes :: "podVolume list"
  ps_restartPolicy :: string

record podTemplate =
  pt_labels :: strmap
  pt_annotations :: strmap
  pt_spec :: podSpec

record job =
  job_meta :: objmeta
  job_ttlSecondsAfterFinished :: int
  job_template :: podTemplate
  job_conditions :: "(string \<times> cstatus) list"

record deploymentSpec =
  dsp_replicas :: "int option"
  dsp_matchLabels :: strmap
  dsp_template :: podTemplate

record deployment =
  dep_meta :: objmeta
  dep_spec :: deploymentSpec
  dep_readyReplicas :: int
  dep_availableReplicas :: int
  dep_conditions :: "(string \<times> cstatus \<times> string) list"

text \<open>The target port is 0 where it is not set.\<close>

record servicePort =
  sport_name :: string
  sport_port :: int
  sport_protocol :: string
  sport_targetPort :: int

record serviceSpec =
  ssp_clusterIP :: string
  ssp_clusterIPs :: "string list"
  ssp_selector :: strmap
  ssp_ports :: "servicePort list"

record service =
  svc_meta :: objmeta
  svc_spec :: serviceSpec

record ingressPath =
  ip_path :: string
  ip_pathType :: "string option"
  ip_serviceName :: string
  ip_servicePort :: int

record ingressRule =
  ir_host :: string
  ir_paths :: "ingressPath list"

record ingressSpec =
  isp_rules :: "ingressRule list"
  isp_tls :: "(string list \<times> string) list"
  isp_className :: "string option"

record ingress =
  ing_meta :: objmeta
  ing_spec :: ingressSpec
  ing_loadBalancer :: "string list"

record configMap =
  cm_meta :: objmeta
  cm_data :: strmap

section \<open>Kinds the export controller reads\<close>

record pod =
  pod_meta :: objmeta
  pod_spec :: podSpec
  pod_phase :: string
  pod_ip :: string

record volumeAttachment =
  va_meta :: objmeta
  va_persistentVolumeName :: "string option"
  va_attached :: bool

record virtualDisk =
  vd_meta :: objmeta
  vd_conditions :: "condition list"
  vd_targetClaim :: string

record customResourceDefinition =
  crd_meta :: objmeta

text \<open>
  Snapshot leaves and contents are of kinds the module does not compile in. Their records
  hold what the accessors \<open>unstructured.NestedString\<close> and \<open>NestedMap\<close> return at the paths the
  code reads: the text of an error where the value has another type and the code looks at the
  error, the empty string where it is absent or, where the code drops the error, of another type.
\<close>

record snapshotLeaf =
  leaf_meta :: objmeta
  leaf_boundSnapshotContentName :: "string + string"

record snapshotData =
  sd_artifactKind :: string
  sd_artifactName :: string
  sd_volumeMode :: string
  sd_storageClassName :: string
  sd_fsType :: string
  sd_sourceNamespace :: string

record snapshotContent =
  snc_meta :: objmeta
  snc_snapshotRefNamespace :: string
  snc_data :: "string + snapshotData option"

section \<open>The VolumeSnapshot of the snapshot tree\<close>

text \<open>
  The CSI VolumeSnapshot with the capture protocol in its status, as \<open>src/api/snapshot/v1\<close>
  extends it. The references to children and to excluded objects are of types of another
  repository; the code only hands them on, so they are kept as their JSON text. The excluded
  references distinguish a nil slice from an empty one.
\<close>

record domainCaptureState =
  dcs_manifestCaptureRequestName :: string
  dcs_volumeCaptureRequestName :: string
  dcs_excludedRefs :: "string list option"
  dcs_phase :: string
  dcs_reason :: string
  dcs_message :: string

record coreCaptureState =
  ccs_manifestCaptured :: "bool option"
  ccs_dataCaptured :: "bool option"

record captureStateStatus =
  cs_commonController :: "coreCaptureState option"
  cs_domainSpecificController :: "domainCaptureState option"

record snapshotSource =
  ss_apiVersion :: string
  ss_kind :: string
  ss_name :: string
  ss_namespace :: string
  ss_uid :: string

record volumeSnapshotStatus =
  vss_captureState :: "captureStateStatus option"
  vss_childrenSnapshotRefs :: "string list"
  vss_sourceRef :: "snapshotSource option"
  vss_conditions :: "condition list"

record volumeSnapshot =
  vs_meta :: objmeta
  vs_mode :: string
  vs_persistentVolumeClaimName :: "string option"
  vs_volumeSnapshotContentName :: "string option"
  vs_volumeSnapshotClassName :: "string option"
  vs_status :: volumeSnapshotStatus

section \<open>Kinds of the module hooks\<close>

text \<open>
  Of an object that is read without its type the hooks use the metadata only; the string is its
  group, version and kind.
\<close>

record policyRule =
  pr_apiGroups :: "string list"
  pr_resources :: "string list"
  pr_verbs :: "string list"

record clusterRole =
  cr_meta :: objmeta
  cr_rules :: "policyRule list"

record roleSubject =
  rs_kind :: string
  rs_name :: string
  rs_namespace :: string

record clusterRoleBinding =
  crb_meta :: objmeta
  crb_roleRef :: "string \<times> string \<times> string"
  crb_subjects :: "roleSubject list"

record untyped =
  un_gvk :: string
  un_meta :: objmeta

end
