(* ===== verification/Api.thy ===== *)
theory Api
  imports Objects
begin

text \<open>
  The boundary of the controllers. The API server, its caches, every other writer of the
  cluster, the clock and the helper packages of \<open>k8s.io\<close> and \<open>deckhouse\<close> are not code
  of this repository: they are the fields of a record \<open>env\<close>, an argument of every
  operation. The server answers a request by an arbitrary function of everything that was
  asked before, so a statement for all environments covers every interleaving with other
  writers and every failure. The locales state the documented behaviour of the helpers; a
  theorem that needs it has the hypothesis \<open>env_ok E\<close>.
\<close>

section \<open>Requests, responses, histories\<close>

datatype kind =
    KVolumeCaptureRequest | KVolumeRestoreRequest | KDataImport | KDataExport
  | KPersistentVolumeClaim | KPersistentVolume | KStorageClass
  | KVolumeSnapshotClass | KVolumeSnapshotContent | KVolumeSnapshot | KObjectKeeper
  | KJob | KDeployment | KService | KIngress | KSecret | KConfigMap
  | KPod | KVolumeAttachment | KVirtualDisk | KCustomResourceDefinition | KSnapshotContent
  | KClusterRole | KClusterRoleBinding | KValidatingWebhookConfiguration
  | KResource string

datatype kobj =
    OVcr volumeCaptureRequest
  | OVrr volumeRestoreRequest
  | ODataImport dataImport
  | ODataExport dataExport
  | OPvc persistentVolumeClaim
  | OPv persistentVolume
  | OStorageClass storageClass
  | OVsClass volumeSnapshotClass
  | OVsc volumeSnapshotContent
  | OKeeper objectKeeper
  | OTokenReview tokenReview
  | OSar subjectAccessReview
  | OSecret secret
  | OJob job
  | ODeployment deployment
  | OService service
  | OIngress ingress
  | OConfigMap configMap
  | OPod pod
  | OVolumeAttachment volumeAttachment
  | OVirtualDisk virtualDisk
  | OCrd customResourceDefinition
  | OSnapshotLeaf snapshotLeaf
  | OSnapshotContent snapshotContent
  | OVolumeSnapshot volumeSnapshot
  | OClusterRole clusterRole
  | OClusterRoleBinding clusterRoleBinding
  | OUntyped untyped

type_synonym nsname = "string \<times> string"

text \<open>
  A patch carries the base it is computed from, the modified object, and whether the base's
  resource version is a precondition (\<open>MergeFromWithOptimisticLock\<close>). A list is unrestricted,
  restricted to a namespace, or restricted to the objects with a label. A resource of a kind
  that is only known at run time is addressed by \<open>KResource\<close>. The operations of the snapshot
  SDK, a package of another repository, are requests with the object they are given: what the
  SDK does with the cluster and how it changes the object is its answer.
\<close>

datatype sdkCall =
    PublishSnapshotSource snapshotSource
  | EnsureManifestCapture "(string \<times> string \<times> string) list"
  | ApplyPhase string "string option"

datatype req =
    Get kind nsname
  | ListAll kind
  | ListIn kind string
  | ListLabeled kind string string
  | Create kobj
  | Update kobj
  | StatusUpdate kobj
  | Patch bool kobj kobj
  | StatusPatch kobj kobj
  | Delete kind nsname
  | Sdk volumeSnapshot sdkCall

datatype resp =
    RErr api_reason
  | RObj kobj
  | RList "kobj list"
  | ROk

type_synonym hist = "(req \<times> resp) list"
type_synonym 'a io = "(hist, 'a) state"

fun isWrite :: "req \<Rightarrow> bool" where
  "isWrite (Get k n) = False"
| "isWrite (ListAll k) = False"
| "isWrite (ListIn k ns) = False"
| "isWrite (ListLabeled k l v) = False"
| "isWrite _ = True"

section \<open>The environment\<close>

record env =
  api :: "hist \<Rightarrow> req \<Rightarrow> resp"
  clock :: "hist \<Rightarrow> time"
  FindStatusCondition :: "condition list \<Rightarrow> string \<Rightarrow> condition option"
  SetStatusCondition :: "condition list \<Rightarrow> condition \<Rightarrow> condition list"
  RemoveStatusCondition :: "condition list \<Rightarrow> string \<Rightarrow> condition list"
  RetryOnConflict :: "string res io \<Rightarrow> string res io"
  StampDeleteProtected :: "strmap \<Rightarrow> strmap"
  sha256 :: "string \<Rightarrow> nat list"
  formatRFC3339 :: "time \<Rightarrow> string"

definition logged :: "hist \<Rightarrow> req \<Rightarrow> resp \<Rightarrow> hist" where
  "logged h r a = h @ [(r, a)]"

definition call :: "env \<Rightarrow> req \<Rightarrow> resp io" where
  "call E r = State (\<lambda>h. let a = api E h r in (a, logged h r a))"

definition now :: "env \<Rightarrow> time io" where
  "now E = State (\<lambda>h. (clock E h, h))"

text \<open>A reply that is not of the kind that was asked for is a decoding error of the client.\<close>

definition decodeErr :: gerr where
  "decodeErr = ApiErr (OtherReason ''decode'')"

definition respErr :: "resp \<Rightarrow> string res" where
  "respErr a = (case a of RErr e \<Rightarrow> Inl (ApiErr e) | _ \<Rightarrow> Inr [])"

definition exec :: "env \<Rightarrow> req \<Rightarrow> string res io" where
  "exec E r = do { a \<leftarrow> call E r; ret (respErr a) }"

definition getObj :: "env \<Rightarrow> kind \<Rightarrow> (kobj \<Rightarrow> 'a option) \<Rightarrow> nsname \<Rightarrow> 'a res io" where
  "getObj E k dec n = do {
     a \<leftarrow> call E (Get k n);
     ret (case a of
            RErr e \<Rightarrow> Inl (ApiErr e)
          | RObj x \<Rightarrow> (case dec x of None \<Rightarrow> Inl decodeErr | Some y \<Rightarrow> Inr y)
          | _ \<Rightarrow> Inl decodeErr) }"

text \<open>A write whose answer is decoded back into the object.\<close>

definition sendObj :: "env \<Rightarrow> req \<Rightarrow> (kobj \<Rightarrow> 'a option) \<Rightarrow> 'a res io" where
  "sendObj E r dec = do {
     a \<leftarrow> call E r;
     ret (case a of
            RErr e \<Rightarrow> Inl (ApiErr e)
          | RObj x \<Rightarrow> (case dec x of None \<Rightarrow> Inl decodeErr | Some y \<Rightarrow> Inr y)
          | _ \<Rightarrow> Inl decodeErr) }"

text \<open>A list is decoded item by item; an item of another kind is a decoding error.\<close>

fun decodeAll :: "(kobj \<Rightarrow> 'a option) \<Rightarrow> kobj list \<Rightarrow> 'a list option" where
  "decodeAll dec [] = Some []"
| "decodeAll dec (x # xs) =
     (case dec x of
        None \<Rightarrow> None
      | Some y \<Rightarrow> (case decodeAll dec xs of None \<Rightarrow> None | Some ys \<Rightarrow> Some (y # ys)))"

definition listReq :: "env \<Rightarrow> req \<Rightarrow> (kobj \<Rightarrow> 'a option) \<Rightarrow> 'a list res io" where
  "listReq E r dec = do {
     a \<leftarrow> call E r;
     ret (case a of
            RErr e \<Rightarrow> Inl (ApiErr e)
          | RList xs \<Rightarrow> (case decodeAll dec xs of None \<Rightarrow> Inl decodeErr | Some ys \<Rightarrow> Inr ys)
          | _ \<Rightarrow> Inl decodeErr) }"

definition listObj :: "env \<Rightarrow> kind \<Rightarrow> (kobj \<Rightarrow> 'a option) \<Rightarrow> 'a list res io" where
  "listObj E k dec = listReq E (ListAll k) dec"

fun decVcr :: "kobj \<Rightarrow> volumeCaptureRequest option" where
  "decVcr (OVcr x) = Some x" | "decVcr _ = None"
fun decVrr :: "kobj \<Rightarrow> volumeRestoreRequest option" where
  "decVrr (OVrr x) = Some x" | "decVrr _ = None"
fun decDataImport :: "kobj \<Rightarrow> dataImport option" where
  "decDataImport (ODataImport x) = Some x" | "decDataImport _ = None"
fun decDataExport :: "kobj \<Rightarrow> dataExport option" where
  "decDataExport (ODataExport x) = Some x" | "decDataExport _ = None"
fun decPvc :: "kobj \<Rightarrow> persistentVolumeClaim option" where
  "decPvc (OPvc x) = Some x" | "decPvc _ = None"
fun decPv :: "kobj \<Rightarrow> persistentVolume option" where
  "decPv (OPv x) = Some x" | "decPv _ = None"
fun decStorageClass :: "kobj \<Rightarrow> storageClass option" where
  "decStorageClass (OStorageClass x) = Some x" | "decStorageClass _ = None"
fun decVsClass :: "kobj \<Rightarrow> volumeSnapshotClass option" where
  "decVsClass (OVsClass x) = Some x" | "decVsClass _ = None"
fun decVsc :: "kobj \<Rightarrow> volumeSnapshotContent option" where
  "decVsc (OVsc x) = Some x" | "decVsc _ = None"
fun decKeeper :: "kobj \<Rightarrow> objectKeeper option" where
  "decKeeper (OKeeper x) = Some x" | "decKeeper _ = None"

fun decTokenReview :: "kobj \<Rightarrow> tokenReview option" where
  "decTokenReview (OTokenReview x) = Some x" | "decTokenReview _ = None"
fun decSar :: "kobj \<Rightarrow> subjectAccessReview option" where
  "decSar (OSar x) = Some x" | "decSar _ = None"
fun decSecret :: "kobj \<Rightarrow> secret option" where
  "decSecret (OSecret x) = Some x" | "decSecret _ = None"

fun decJob :: "kobj \<Rightarrow> job option" where
  "decJob (OJob x) = Some x" | "decJob _ = None"
fun decDeployment :: "kobj \<Rightarrow> deployment option" where
  "decDeployment (ODeployment x) = Some x" | "decDeployment _ = None"
fun decService :: "kobj \<Rightarrow> service option" where
  "decService (OService x) = Some x" | "decService _ = None"
fun decIngress :: "kobj \<Rightarrow> ingress option" where
  "decIngress (OIngress x) = Some x" | "decIngress _ = None"
fun decConfigMap :: "kobj \<Rightarrow> configMap option" where
  "decConfigMap (OConfigMap x) = Some x" | "decConfigMap _ = None"

fun decPod :: "kobj \<Rightarrow> pod option" where
  "decPod (OPod x) = Some x" | "decPod _ = None"
fun decVolumeAttachment :: "kobj \<Rightarrow> volumeAttachment option" where
  "decVolumeAttachment (OVolumeAttachment x) = Some x" | "decVolumeAttachment _ = None"
fun decVirtualDisk :: "kobj \<Rightarrow> virtualDisk option" where
  "decVirtualDisk (OVirtualDisk x) = Some x" | "decVirtualDisk _ = None"
fun decCrd :: "kobj \<Rightarrow> customResourceDefinition option" where
  "decCrd (OCrd x) = Some x" | "decCrd _ = None"
fun decSnapshotLeaf :: "kobj \<Rightarrow> snapshotLeaf option" where
  "decSnapshotLeaf (OSnapshotLeaf x) = Some x" | "decSnapshotLeaf _ = None"
fun decSnapshotContent :: "kobj \<Rightarrow> snapshotContent option" where
  "decSnapshotContent (OSnapshotContent x) = Some x" | "decSnapshotContent _ = None"

fun decVolumeSnapshot :: "kobj \<Rightarrow> volumeSnapshot option" where
  "decVolumeSnapshot (OVolumeSnapshot x) = Some x" | "decVolumeSnapshot _ = None"
fun decClusterRole :: "kobj \<Rightarrow> clusterRole option" where
  "decClusterRole (OClusterRole x) = Some x" | "decClusterRole _ = None"
fun decClusterRoleBinding :: "kobj \<Rightarrow> clusterRoleBinding option" where
  "decClusterRoleBinding (OClusterRoleBinding x) = Some x" | "decClusterRoleBinding _ = None"
fun decUntyped :: "kobj \<Rightarrow> untyped option" where
  "decUntyped (OUntyped x) = Some x" | "decUntyped _ = None"

lemma dec_Some [simp]:
  "decVcr x = Some a \<longleftrightarrow> x = OVcr a"
  "decVrr x = Some b \<longleftrightarrow> x = OVrr b"
  "decDataImport x = Some c \<longleftrightarrow> x = ODataImport c"
  "decDataExport x = Some d \<longleftrightarrow> x = ODataExport d"
  "decPvc x = Some e \<longleftrightarrow> x = OPvc e"
  "decPv x = Some f \<longleftrightarrow> x = OPv f"
  "decStorageClass x = Some g \<longleftrightarrow> x = OStorageClass g"
  "decVsClass x = Some i \<longleftrightarrow> x = OVsClass i"
  "decVsc x = Some j \<longleftrightarrow> x = OVsc j"
  "decKeeper x = Some k \<longleftrightarrow> x = OKeeper k"
  "decTokenReview x = Some tr \<longleftrightarrow> x = OTokenReview tr"
  "decSar x = Some sa \<longleftrightarrow> x = OSar sa"
  "decSecret x = Some se \<longleftrightarrow> x = OSecret se"
  "decJob x = Some jo \<longleftrightarrow> x = OJob jo"
  "decDeployment x = Some de \<longleftrightarrow> x = ODeployment de"
  "decService x = Some sv \<longleftrightarrow> x = OService sv"
  "decIngress x = Some ig \<longleftrightarrow> x = OIngress ig"
  "decConfigMap x = Some cm \<longleftrightarrow> x = OConfigMap cm"
  "decPod x = Some po \<longleftrightarrow> x = OPod po"
  "decVolumeAttachment x = Some va \<longleftrightarrow> x = OVolumeAttachment va"
  "decVirtualDisk x = Some vd \<longleftrightarrow> x = OVirtualDisk vd"
  "decCrd x = Some cr \<longleftrightarrow> x = OCrd cr"
  "decSnapshotLeaf x = Some sl \<longleftrightarrow> x = OSnapshotLeaf sl"
  "decSnapshotContent x = Some sn \<longleftrightarrow> x = OSnapshotContent sn"
  "decVolumeSnapshot x = Some vs \<longleftrightarrow> x = OVolumeSnapshot vs"
  "decClusterRole x = Some cl \<longleftrightarrow> x = OClusterRole cl"
  "decClusterRoleBinding x = Some cb \<longleftrightarrow> x = OClusterRoleBinding cb"
  "decUntyped x = Some un \<longleftrightarrow> x = OUntyped un"
  by (cases x; simp)+

section \<open>Symbolic execution of requests\<close>

lemma wp_call: "wp (call E r) Q h = Q (api E h r) (logged h r (api E h r))"
  by (simp add: call_def wp_def Let_def)

lemma wp_now [wp_rules]: "wp (now E) Q h = Q (clock E h) h"
  by (simp add: now_def wp_def)

text \<open>
  The server's answer is generalised: a condition holds after a request if it holds for
  every answer. The error reason, or the object decoded, is named in the history.
\<close>

lemma wp_exec [wp_intro]:
  assumes "\<And>a. Q (respErr a) (logged h r a)"
  shows "wp (exec E r) Q h"
  by (simp add: exec_def wp_rules wp_call assms)

lemma wp_getObj [wp_intro]:
  assumes "\<And>e a. e = OtherReason ''decode'' \<or> a = RErr e \<Longrightarrow> Q (Inl (ApiErr e)) (logged h (Get k n) a)"
    and "\<And>x y. dec x = Some y \<Longrightarrow> Q (Inr y) (logged h (Get k n) (RObj x))"
  shows "wp (getObj E k dec n) Q h"
  using assms
  by (simp add: getObj_def wp_rules wp_call decodeErr_def split: resp.splits option.splits)

lemma wp_sendObj [wp_intro]:
  assumes "\<And>e a. e = OtherReason ''decode'' \<or> a = RErr e \<Longrightarrow> Q (Inl (ApiErr e)) (logged h r a)"
    and "\<And>x y. dec x = Some y \<Longrightarrow> Q (Inr y) (logged h r (RObj x))"
  shows "wp (sendObj E r dec) Q h"
  using assms
  by (simp add: sendObj_def wp_rules wp_call decodeErr_def split: resp.splits option.splits)

lemma wp_listReq [wp_intro]:
  assumes "\<And>e a. e = OtherReason ''decode'' \<or> a = RErr e \<Longrightarrow> Q (Inl (ApiErr e)) (logged h r a)"
    and "\<And>xs ys. decodeAll dec xs = Some ys \<Longrightarrow> Q (Inr ys) (logged h r (RList xs))"
  shows "wp (listReq E r dec) Q h"
  using assms
  by (simp add: listReq_def wp_rules wp_call decodeErr_def split: resp.splits option.splits)

section \<open>What a history shows\<close>

text \<open>A later history knows everything an earlier one does.\<close>

definition later :: "hist \<Rightarrow> hist \<Rightarrow> bool" where
  "later h h' \<longleftrightarrow> set h \<subseteq> set h'"

lemma later_refl [simp, intro]: "later h h"
  by (simp add: later_def)

lemma later_trans: "later g h \<Longrightarrow> later h h' \<Longrightarrow> later g h'"
  by (auto simp: later_def)

lemma later_logged [simp, intro]: "later g h \<Longrightarrow> later g (logged h r a)"
  by (auto simp: later_def logged_def)

lemma logged_later [simp]: "later (logged h r a) h' \<longleftrightarrow> (r, a) \<in> set h' \<and> later h h'"
  by (auto simp: later_def logged_def)

lemma later_mem: "later h h' \<Longrightarrow> x \<in> set h \<Longrightarrow> x \<in> set h'"
  by (auto simp: later_def)

lemma set_logged [simp]: "set (logged h r a) = insert (r, a) (set h)"
  by (simp add: logged_def)

text \<open>The object was returned by a read, respectively the write was accepted.\<close>

definition readAs :: "hist \<Rightarrow> kobj \<Rightarrow> bool" where
  "readAs h x \<longleftrightarrow> (\<exists>k n. (Get k n, RObj x) \<in> set h)"

definition accepted :: "hist \<Rightarrow> req \<Rightarrow> bool" where
  "accepted h r \<longleftrightarrow> (\<exists>a. (r, a) \<in> set h \<and> (\<exists>x. respErr a = Inr x))"

lemma readAs_snoc [simp]:
  "readAs (logged h r a) x \<longleftrightarrow> readAs h x \<or> (\<exists>k n. r = Get k n) \<and> a = RObj x"
  by (auto simp: readAs_def)

lemma accepted_snoc [simp]:
  "accepted (logged h r' a) r \<longleftrightarrow> accepted h r \<or> r' = r \<and> (\<exists>x. respErr a = Inr x)"
  by (auto simp: accepted_def)

lemma readAsI [intro]: "(Get k n, RObj x) \<in> set h \<Longrightarrow> readAs h x"
  unfolding readAs_def by blast

lemma readAs_mono: "readAs h x \<Longrightarrow> later h h' \<Longrightarrow> readAs h' x"
  by (auto simp: readAs_def later_def)

lemma accepted_mono: "accepted h x \<Longrightarrow> later h h' \<Longrightarrow> accepted h' x"
  by (auto simp: accepted_def later_def)

section \<open>Histories that respect a rule\<close>

text \<open>
  \<open>obeys P h\<close>: every request of the history was allowed by \<open>P\<close> at the moment it was made,
  given what had been asked and answered before.
\<close>

fun obeysFrom :: "(hist \<Rightarrow> req \<Rightarrow> bool) \<Rightarrow> hist \<Rightarrow> hist \<Rightarrow> bool" where
  "obeysFrom P p [] = True"
| "obeysFrom P p ((r, a) # h) = (P p r \<and> obeysFrom P (p @ [(r, a)]) h)"

definition obeys :: "(hist \<Rightarrow> req \<Rightarrow> bool) \<Rightarrow> hist \<Rightarrow> bool" where
  "obeys P h = obeysFrom P [] h"

lemma obeysFrom_snoc:
  "obeysFrom P p (h @ [(r, a)]) = (obeysFrom P p h \<and> P (p @ h) r)"
  by (induction h arbitrary: p) auto

lemma obeys_Nil [simp]: "obeys P []"
  by (simp add: obeys_def)

lemma obeys_logged [simp]: "obeys P (logged h r a) = (obeys P h \<and> P h r)"
  by (simp add: obeys_def obeysFrom_snoc logged_def)

text \<open>What a part of a handler keeps: the rule is obeyed and nothing is forgotten.\<close>

definition keeps :: "(hist \<Rightarrow> req \<Rightarrow> bool) \<Rightarrow> hist \<Rightarrow> hist \<Rightarrow> bool" where
  "keeps R g h \<longleftrightarrow> obeys R h \<and> later g h"

lemma keeps_refl [simp]: "keeps R h h \<longleftrightarrow> obeys R h"
  by (simp add: keeps_def)

lemma keeps_logged [simp, intro!]: "keeps R g h \<Longrightarrow> R h r \<Longrightarrow> keeps R g (logged h r a)"
  by (simp add: keeps_def)

lemma keeps_obeys: "keeps R g h \<Longrightarrow> obeys R h"
  by (simp add: keeps_def)

lemma keeps_later: "keeps R g h \<Longrightarrow> later g h"
  by (simp add: keeps_def)

lemma obeysFrom_mono:
  "obeysFrom P p h \<Longrightarrow> (\<And>g r. P g r \<Longrightarrow> Q g r) \<Longrightarrow> obeysFrom Q p h"
  by (induction h arbitrary: p) auto

lemma obeys_mono: "obeys P h \<Longrightarrow> (\<And>g r. P g r \<Longrightarrow> Q g r) \<Longrightarrow> obeys Q h"
  unfolding obeys_def by (rule obeysFrom_mono)

lemma obeysFrom_nth:
  "obeysFrom P p h \<Longrightarrow> i < length h \<Longrightarrow> P (p @ take i h) (fst (h ! i))"
proof (induction h arbitrary: p i)
  case (Cons x h)
  obtain r a where x: "x = (r, a)" by (cases x)
  from Cons show ?case
    by (cases i) (force simp: x)+
qed simp

lemma obeys_nth: "obeys P h \<Longrightarrow> i < length h \<Longrightarrow> P (take i h) (fst (h ! i))"
  using obeysFrom_nth [of P "[]" h i] by (simp add: obeys_def)

lemma obeysFrom_append:
  "obeysFrom P p (g @ h) = (obeysFrom P p g \<and> obeysFrom P (p @ g) h)"
  by (induction g arbitrary: p) auto

lemma obeys_split: "obeys P (p @ (r, a) # s) \<Longrightarrow> P p r"
  by (simp add: obeys_def obeysFrom_append)

text \<open>A server that gives one answer to a request, whenever it is asked.\<close>

definition answers :: "env \<Rightarrow> req \<Rightarrow> resp \<Rightarrow> bool" where
  "answers E r a \<longleftrightarrow> (\<forall>h. api E h r = a)"

lemma wp_getObj_answers:
  "answers E (Get k n) (RObj x) \<Longrightarrow> dec x = Some y \<Longrightarrow>
     wp (getObj E k dec n) Q h = Q (Inr y) (logged h (Get k n) (RObj x))"
  by (simp add: answers_def getObj_def wp_rules wp_call)

lemma wp_exec_answers:
  "answers E r ROk \<Longrightarrow> wp (exec E r) Q h = Q (Inr []) (logged h r ROk)"
  by (simp add: answers_def exec_def wp_rules wp_call respErr_def)

lemma obeys_mem:
  assumes "obeys P h" "(r, a) \<in> set h"
  shows "\<exists>p s. h = p @ (r, a) # s \<and> P p r"
proof -
  from assms(2) obtain i where i: "i < length h" "h ! i = (r, a)"
    by (auto simp: in_set_conv_nth)
  then have "h = take i h @ (r, a) # drop (Suc i) h"
    by (metis id_take_nth_drop)
  moreover have "P (take i h) r"
    using obeys_nth [OF assms(1) i(1)] i(2) by simp
  ultimately show ?thesis by blast
qed

end
