(* ===== verification/Kube_Lib.thy ===== *)
theory Kube_Lib
  imports Api
begin

text \<open>
  The helper packages the controllers call, as interfaces: the condition helpers of
  \<open>k8s.io/apimachinery/pkg/api/meta\<close> and \<open>retry.RetryOnConflict\<close> of
  \<open>k8s.io/client-go/util/retry\<close> (of SHA-256 only that a digest has 32 bytes is used). Each locale fixes the functions and assumes what their
  documentation promises; \<open>env_ok\<close> says that an environment provides them. Reference
  functions \<open>find_cond\<close>, \<open>set_cond\<close>, \<open>remove_cond\<close> and \<open>retry_upto\<close> satisfy the laws
  and make the environments of the witnesses executable.
\<close>

section \<open>Status conditions\<close>

definition same_report :: "condition \<Rightarrow> condition \<Rightarrow> bool" where
  "same_report c d \<longleftrightarrow>
     c_type c = c_type d \<and> c_status c = c_status d \<and> c_reason c = c_reason d \<and>
     c_message c = c_message d \<and> c_observedGeneration c = c_observedGeneration d"

lemma same_reportD:
  "same_report c d \<Longrightarrow> c_type c = c_type d" "same_report c d \<Longrightarrow> c_status c = c_status d"
  "same_report c d \<Longrightarrow> c_reason c = c_reason d" "same_report c d \<Longrightarrow> c_message c = c_message d"
  by (simp_all add: same_report_def)

locale condition_api =
  fixes find :: "condition list \<Rightarrow> string \<Rightarrow> condition option"
    and set_c :: "condition list \<Rightarrow> condition \<Rightarrow> condition list"
    and remove :: "condition list \<Rightarrow> string \<Rightarrow> condition list"
  assumes find_first: "find cs t = List.find (\<lambda>c. c_type c = t) cs"
    and find_set_same: "\<exists>d. find (set_c cs c) (c_type c) = Some d \<and> same_report d c"
    and find_set_other: "t \<noteq> c_type c \<Longrightarrow> find (set_c cs c) t = find cs t"
    and set_types: "d \<in> set (set_c cs c) \<Longrightarrow> c_type d = c_type c \<or> d \<in> set cs"
    and find_remove_same: "find (remove cs t) t = None"
    and find_remove_other: "t' \<noteq> t \<Longrightarrow> find (remove cs t) t' = find cs t'"
begin

lemma find_Some: "find cs t = Some c \<Longrightarrow> c \<in> set cs \<and> c_type c = t"
  by (auto simp: find_first find_Some_iff)

lemma find_None: "find cs t = None \<Longrightarrow> c \<in> set cs \<Longrightarrow> c_type c \<noteq> t"
  by (simp add: find_first find_None_iff)

lemma find_set:
  "find (set_c cs c) t =
     (if t = c_type c then find (set_c cs c) (c_type c) else find cs t)"
  by (simp add: find_set_other)

lemma find_set_sameE:
  obtains d where "find (set_c cs c) (c_type c) = Some d" "same_report d c"
  using find_set_same [of cs c] by blast

lemma find_present: "c \<in> set cs \<Longrightarrow> \<exists>d. find cs (c_type c) = Some d"
  using find_None [of cs "c_type c" c] by (cases "find cs (c_type c)") auto

end

fun find_cond :: "condition list \<Rightarrow> string \<Rightarrow> condition option" where
  "find_cond [] t = None"
| "find_cond (c # cs) t = (if c_type c = t then Some c else find_cond cs t)"

fun set_cond :: "condition list \<Rightarrow> condition \<Rightarrow> condition list" where
  "set_cond [] n = [n]"
| "set_cond (c # cs) n =
     (if c_type c = c_type n
      then n\<lparr>c_lastTransitionTime :=
               (if c_status c = c_status n then c_lastTransitionTime c
                else c_lastTransitionTime n)\<rparr> # cs
      else c # set_cond cs n)"

definition remove_cond :: "condition list \<Rightarrow> string \<Rightarrow> condition list" where
  "remove_cond cs t = filter (\<lambda>c. c_type c \<noteq> t) cs"

lemma find_cond_first: "find_cond cs t = List.find (\<lambda>c. c_type c = t) cs"
  by (induction cs) auto

lemma find_set_cond: "\<exists>d. find_cond (set_cond cs c) (c_type c) = Some d \<and> same_report d c"
  by (induction cs) (auto simp: same_report_def)

lemma find_set_cond_other: "t \<noteq> c_type c \<Longrightarrow> find_cond (set_cond cs c) t = find_cond cs t"
  by (induction cs) auto

lemma set_set_cond: "d \<in> set (set_cond cs c) \<Longrightarrow> c_type d = c_type c \<or> d \<in> set cs"
  by (induction cs) (auto split: if_splits)

lemma find_remove_cond: "find_cond (remove_cond cs t) t' = (if t' = t then None else find_cond cs t')"
  by (induction cs) (auto simp: remove_cond_def)

interpretation ref_cond: condition_api find_cond set_cond remove_cond
  by unfold_locales
    (blast dest: set_set_cond
      | simp add: find_cond_first [symmetric] find_set_cond find_set_cond_other find_remove_cond)+

section \<open>Retrying on conflict\<close>

text \<open>
  \<open>retries f h (r, h')\<close>: starting from \<open>h\<close>, some positive number of runs of \<open>f\<close>, every one
  but the last failing with a conflict, ends with the result \<open>r\<close>. A final conflict means
  that the attempts of the backoff are used up.
\<close>

inductive retries :: "'a res io \<Rightarrow> hist \<Rightarrow> 'a res \<times> hist \<Rightarrow> bool" for f where
  last_run: "run_state f h = (r, h') \<Longrightarrow> retries f h (r, h')"
| again: "run_state f h = (Inl e, h') \<Longrightarrow> IsConflict e \<Longrightarrow> retries f h' x \<Longrightarrow> retries f h x"

locale conflict_retry =
  fixes retry :: "string res io \<Rightarrow> string res io"
  assumes retry_runs: "retries f h (run_state (retry f) h)"
begin

text \<open>An invariant that every conflicting run keeps holds when the last run starts.\<close>

lemma wp_retry:
  assumes "I h"
    and "\<And>h. I h \<Longrightarrow> wp f (\<lambda>r h'. Q r h' \<and> (case r of Inl e \<Rightarrow> IsConflict e \<longrightarrow> I h' | _ \<Rightarrow> True)) h"
  shows "wp (retry f) Q h"
proof -
  have "retries f h x \<Longrightarrow> I h \<Longrightarrow> Q (fst x) (snd x)" for x
  proof (induction rule: retries.induct)
    case (last_run h r h')
    then show ?case using assms(2) [of h] by (simp add: wp_def)
  next
    case (again h e h' x)
    then show ?case using assms(2) [of h] by (simp add: wp_def)
  qed
  then show ?thesis using assms(1) retry_runs [of f h] by (simp add: wp_run)
qed

end

fun retry_upto :: "nat \<Rightarrow> 'a res io \<Rightarrow> 'a res io" where
  "retry_upto 0 f = f"
| "retry_upto (Suc n) f = do {
     r \<leftarrow> f;
     (case r of
        Inl e \<Rightarrow> (if IsConflict e then retry_upto n f else ret (Inl e))
      | Inr x \<Rightarrow> ret (Inr x)) }"

lemma retries_retry_upto: "retries f h (run_state (retry_upto n f) h)"
proof (induction n arbitrary: h)
  case 0
  show ?case by (cases "run_state f h") (auto intro: retries.last_run)
next
  case (Suc n)
  obtain r h' where r: "run_state f h = (r, h')" by (cases "run_state f h")
  show ?case
  proof (cases r)
    case (Inl e)
    show ?thesis
    proof (cases "IsConflict e")
      case True
      with r Inl Suc.IH [of h'] show ?thesis by (auto intro: retries.again)
    next
      case False
      with r Inl show ?thesis by (auto intro: retries.last_run)
    qed
  next
    case (Inr x)
    with r show ?thesis by (auto intro: retries.last_run)
  qed
qed

interpretation ref_retry: conflict_retry "retry_upto n" for n
  by unfold_locales (rule retries_retry_upto)

section \<open>Environments that provide the helpers\<close>

definition env_ok :: "env \<Rightarrow> bool" where
  "env_ok E \<longleftrightarrow>
     condition_api (FindStatusCondition E) (SetStatusCondition E) (RemoveStatusCondition E) \<and>
     conflict_retry (RetryOnConflict E) \<and>
     (\<forall>s. length (sha256 E s) = 32 \<and> list_all (\<lambda>b. b < 256) (sha256 E s))"

lemma env_ok_cond:
  "env_ok E \<Longrightarrow>
     condition_api (FindStatusCondition E) (SetStatusCondition E) (RemoveStatusCondition E)"
  by (simp add: env_ok_def)

lemma env_ok_retry: "env_ok E \<Longrightarrow> conflict_retry (RetryOnConflict E)"
  by (simp add: env_ok_def)

lemma env_ok_sha256:
  "env_ok E \<Longrightarrow> length (sha256 E s) = 32 \<and> list_all (\<lambda>b. b < 256) (sha256 E s)"
  by (simp add: env_ok_def)

lemmas wp_RetryOnConflict = conflict_retry.wp_retry [OF env_ok_retry]

text \<open>
  The reference environment over a server and a clock: five attempts, as in
  \<open>retry.DefaultRetry\<close>.
\<close>

definition ref_env :: "(hist \<Rightarrow> req \<Rightarrow> resp) \<Rightarrow> (hist \<Rightarrow> time) \<Rightarrow> env" where
  "ref_env srv clk = \<lparr>api = srv, clock = clk,
     FindStatusCondition = find_cond, SetStatusCondition = set_cond,
     RemoveStatusCondition = remove_cond, RetryOnConflict = retry_upto 4,
     StampDeleteProtected = AList.update ''delete-protected'' ''true'',
     sha256 = (\<lambda>s. replicate 31 0 @ [length s mod 256]),
     formatRFC3339 = (\<lambda>t. ''1970-01-01T00:00:00Z'')\<rparr>"

lemma ref_env_ok: "env_ok (ref_env srv clk)"
  by (simp add: env_ok_def ref_env_def ref_cond.condition_api_axioms
      ref_retry.conflict_retry_axioms list_all_iff)

lemma ref_env_sel [simp]:
  "api (ref_env srv clk) = srv" "clock (ref_env srv clk) = clk"
  "FindStatusCondition (ref_env srv clk) = find_cond"
  "SetStatusCondition (ref_env srv clk) = set_cond"
  "RemoveStatusCondition (ref_env srv clk) = remove_cond"
  "RetryOnConflict (ref_env srv clk) = retry_upto 4"
  "StampDeleteProtected (ref_env srv clk) = AList.update ''delete-protected'' ''true''"
  "sha256 (ref_env srv clk) s = replicate 31 0 @ [length s mod 256]"
  by (simp_all add: ref_env_def)

end
