(* ===== verification/Common.thy ===== *)
theory Common
  imports Kube_Lib
begin

text \<open>
  The package \<open>src/common\<close>: string lists and finalizers (\<open>common.go\<close>), the lifecycle
  phases, server states and condition helpers of DataImport and DataExport
  (\<open>conditions.go\<close>), and the deterministic resource names (\<open>names.go\<close>).
\<close>

section \<open>Results of a reconciliation\<close>

text \<open>
  \<open>ctrl.Result\<close>. The controllers return a result or an error, never a requeue delay
  together with an error, so a reconciliation ends in \<open>ctrlResult res\<close>. A \<open>step\<close> is a part
  of a longer function: it ends the function or goes on with a value.
\<close>

record ctrlResult =
  RequeueAfter :: duration

abbreviation emptyResult :: ctrlResult where
  "emptyResult \<equiv> \<lparr>RequeueAfter = 0\<rparr>"

datatype 'a step = Return "ctrlResult res" | Continue 'a

definition thenS :: "'a step io \<Rightarrow> ('a \<Rightarrow> ctrlResult res io) \<Rightarrow> ctrlResult res io" where
  "thenS m k = do { r \<leftarrow> m; (case r of Return x \<Rightarrow> ret x | Continue a \<Rightarrow> k a) }"

lemma wp_thenS [wp_rules]:
  "wp (thenS m k) Q s = wp m (\<lambda>r s'. case r of Return x \<Rightarrow> Q x s' | Continue a \<Rightarrow> wp (k a) Q s') s"
  by (simp add: thenS_def wp_bind wp_return wp_def split: step.splits prod.splits)

section \<open>String lists and finalizers\<close>

fun ContainsString :: "string list \<Rightarrow> string \<Rightarrow> bool" where
  "ContainsString [] s = False"
| "ContainsString (x # xs) s = (if x = s then True else ContainsString xs s)"

fun RemoveString :: "string list \<Rightarrow> string \<Rightarrow> string list" where
  "RemoveString [] s = []"
| "RemoveString (x # xs) s = (if x \<noteq> s then x # RemoveString xs s else RemoveString xs s)"

definition EnsureFinalizer :: "objmeta \<Rightarrow> string \<Rightarrow> objmeta \<times> bool" where
  "EnsureFinalizer m f =
     (if \<not> ContainsString (m_finalizers m) f
      then (m\<lparr>m_finalizers := m_finalizers m @ [f]\<rparr>, True) else (m, False))"

definition RemoveFinalizer :: "objmeta \<Rightarrow> string \<Rightarrow> objmeta \<times> bool" where
  "RemoveFinalizer m f =
     (if ContainsString (m_finalizers m) f
      then (m\<lparr>m_finalizers := RemoveString (m_finalizers m) f\<rparr>, True) else (m, False))"

definition ReconcileFinalizer :: "string list \<Rightarrow> string \<Rightarrow> bool \<Rightarrow> string list" where
  "ReconcileFinalizer live f want =
     (let has = ContainsString live f in
      if want \<and> \<not> has then live @ [f]
      else if \<not> want \<and> has then RemoveString live f
      else live)"

lemma ContainsString_iff [simp]: "ContainsString xs s \<longleftrightarrow> s \<in> set xs"
  by (induction xs) auto

lemma RemoveString_filter [simp]: "RemoveString xs s = filter (\<lambda>x. x \<noteq> s) xs"
  by (induction xs) auto

section \<open>Phases, server states, conditions\<close>

definition StorageManagerFinalizerName :: string where
  "StorageManagerFinalizerName = ''storage-foundation.deckhouse.io/storage-manager-controller''"

definition PhasePending :: string where
  "PhasePending = ''Pending''"
definition PhaseReady :: string where
  "PhaseReady = ''Ready''"
definition PhaseCompleted :: string where
  "PhaseCompleted = ''Completed''"
definition PhaseExpired :: string where
  "PhaseExpired = ''Expired''"
definition PhaseFailed :: string where
  "PhaseFailed = ''Failed''"
definition PhaseTerminating :: string where
  "PhaseTerminating = ''Terminating''"

definition ServerStateReady :: string where
  "ServerStateReady = ''Ready''"
definition ServerStateFinished :: string where
  "ServerStateFinished = ''Finished''"
definition ServerStateIdleExpired :: string where
  "ServerStateIdleExpired = ''IdleExpired''"

definition ConditionReady :: string where
  "ConditionReady = ''Ready''"
definition ConditionUploadFinished :: string where
  "ConditionUploadFinished = ''UploadFinished''"
definition ConditionCompleted :: string where
  "ConditionCompleted = ''Completed''"

lemmas phase_defs = PhasePending_def PhaseReady_def PhaseCompleted_def PhaseExpired_def
  PhaseFailed_def PhaseTerminating_def
lemmas serverState_defs = ServerStateReady_def ServerStateFinished_def ServerStateIdleExpired_def
lemmas conditionType_defs = ConditionReady_def ConditionUploadFinished_def ConditionCompleted_def

definition IsTerminal :: "string \<Rightarrow> bool" where
  "IsTerminal p = (p = PhaseCompleted \<or> p = PhaseExpired \<or> p = PhaseFailed)"

lemma IsTerminal_cases [simp]:
  "IsTerminal PhaseCompleted" "IsTerminal PhaseExpired" "IsTerminal PhaseFailed"
  "\<not> IsTerminal PhasePending" "\<not> IsTerminal PhaseReady" "\<not> IsTerminal PhaseTerminating"
  "\<not> IsTerminal []"
  by (simp_all add: IsTerminal_def phase_defs)

text \<open>The loop of \<open>StripConditionsNotIn\<close>, with the conditions kept so far and the change flag.\<close>

fun stripLoop :: "string list \<Rightarrow> condition list \<Rightarrow> condition list \<Rightarrow> bool \<Rightarrow> condition list \<times> bool" where
  "stripLoop allowed [] kept changed = (kept, changed)"
| "stripLoop allowed (c # cs) kept changed =
     (if c_type c \<in> set allowed then stripLoop allowed cs (kept @ [c]) changed
      else stripLoop allowed cs kept True)"

definition StripConditionsNotIn ::
  "dataExportImportStatus \<Rightarrow> string list \<Rightarrow> dataExportImportStatus \<times> bool" where
  "StripConditionsNotIn st allowed =
     (if ds_conditions st = [] then (st, False)
      else (case stripLoop allowed (ds_conditions st) [] False of
              (kept, changed) \<Rightarrow>
                (if changed then st\<lparr>ds_conditions := kept\<rparr> else st, changed)))"

definition SetCompletionTimestampOnce ::
  "dataExportImportStatus \<Rightarrow> string \<Rightarrow> time \<Rightarrow> dataExportImportStatus \<times> bool" where
  "SetCompletionTimestampOnce st phase t =
     (if IsTerminal phase \<and> ds_completionTimestamp st = None
      then (st\<lparr>ds_completionTimestamp := Some t\<rparr>, True) else (st, False))"

fun GetCondition :: "condition list \<Rightarrow> string \<Rightarrow> condition option" where
  "GetCondition [] t = None"
| "GetCondition (c # cs) t = (if c_type c = t then Some c else GetCondition cs t)"

lemma stripLoop_filter:
  "stripLoop allowed cs kept ch =
     (kept @ filter (\<lambda>c. c_type c \<in> set allowed) cs, ch \<or> (\<exists>c\<in>set cs. c_type c \<notin> set allowed))"
  by (induction cs arbitrary: kept ch) auto

lemma StripConditions_conditions:
  "ds_conditions (fst (StripConditionsNotIn st allowed)) =
     filter (\<lambda>c. c_type c \<in> set allowed) (ds_conditions st)"
  by (auto simp: StripConditionsNotIn_def stripLoop_filter filter_id_conv)

lemma StripConditions_frame [simp]:
  "ds_phase (fst (StripConditionsNotIn st a)) = ds_phase st"
  "ds_completionTimestamp (fst (StripConditionsNotIn st a)) = ds_completionTimestamp st"
  "ds_serverState (fst (StripConditionsNotIn st a)) = ds_serverState st"
  "ds_data (fst (StripConditionsNotIn st a)) = ds_data st"
  "ds_publicURL (fst (StripConditionsNotIn st a)) = ds_publicURL st"
  by (auto simp: StripConditionsNotIn_def split: prod.splits)

section \<open>Resource names\<close>

definition KindPVC :: string where
  "KindPVC = ''PersistentVolumeClaim''"
definition KindPVCShort :: string where
  "KindPVCShort = ''pvc''"
definition KindVolumeSnapshotShort :: string where
  "KindVolumeSnapshotShort = ''vs''"
definition KindVirtualDiskShort :: string where
  "KindVirtualDiskShort = ''vd''"
definition KindVirtualDiskSnapshotShort :: string where
  "KindVirtualDiskSnapshotShort = ''vdsnapshot''"
definition KindSnapshotShort :: string where
  "KindSnapshotShort = ''snap''"

lemmas shortKind_defs = KindPVCShort_def KindVolumeSnapshotShort_def KindVirtualDiskShort_def
  KindVirtualDiskSnapshotShort_def KindSnapshotShort_def

record names =
  TargetName :: string
  TargetKindShort :: string
  HashSuffix :: string
  DeployName :: string
  CASecretName :: string
  HeadlessServiceName :: string
  IngressResourceName :: string
  ExportPVCName :: string
  DummyJobName :: string

text \<open>
  Base 32 in the extended hex alphabet, lower-cased, without padding: the bytes as a bit
  string, most significant bit first, cut into groups of five, the last one filled up with
  zeros.
\<close>

definition byteBits :: "nat \<Rightarrow> bool list" where
  "byteBits b = map (\<lambda>i. odd (b div 2 ^ i)) [7, 6, 5, 4, 3, 2, 1, 0]"

definition bitsValue :: "bool list \<Rightarrow> nat" where
  "bitsValue bs = foldl (\<lambda>v b. 2 * v + (if b then 1 else 0)) 0 bs"

definition hexAlphabet :: string where
  "hexAlphabet = ''0123456789abcdefghijklmnopqrstuv''"

fun base32Groups :: "bool list \<Rightarrow> string" where
  "base32Groups [] = []"
| "base32Groups (b # bs) =
     hexAlphabet ! bitsValue (take 5 ((b # bs) @ replicate 4 False)) # base32Groups (drop 4 bs)"

definition base32HexLower :: "nat list \<Rightarrow> string" where
  "base32HexLower bytes = base32Groups (concat (map byteBits bytes))"

definition generateHashSuffix :: "env \<Rightarrow> string \<Rightarrow> string \<Rightarrow> string" where
  "generateHashSuffix E ns n = base32HexLower (take 10 (sha256 E (ns @ [CHR 0x00] @ n)))"

definition getShortKind :: "string \<Rightarrow> string" where
  "getShortKind k =
     (if k = ''PersistentVolumeClaim'' then KindPVCShort
      else if k = ''VirtualDisk'' then KindVirtualDiskShort
      else if k = ''VolumeSnapshot'' then KindVolumeSnapshotShort
      else if k = ''VirtualDiskSnapshot'' then KindVirtualDiskSnapshotShort
      else k)"

definition NewNamesFromShort :: "env \<Rightarrow> string \<Rightarrow> string \<Rightarrow> string \<Rightarrow> string \<Rightarrow> names" where
  "NewNamesFromShort E short target ns n =
     (let hash = generateHashSuffix E ns n in
      \<lparr>TargetName = target, TargetKindShort = short, HashSuffix = hash,
       DeployName = ''deploy-for-'' @ short @ ''-'' @ hash,
       CASecretName = ''ca-secret-for-'' @ short @ ''-'' @ hash,
       HeadlessServiceName = ''service-for-'' @ short @ ''-'' @ hash,
       IngressResourceName = ''ingress-for-'' @ short @ ''-'' @ hash,
       ExportPVCName = ''pvc-for-'' @ short @ ''-'' @ hash,
       DummyJobName = ''dummy-for-'' @ short @ ''-'' @ hash\<rparr>)"

definition NewNames :: "env \<Rightarrow> string \<Rightarrow> string \<Rightarrow> string \<Rightarrow> string \<Rightarrow> names" where
  "NewNames E k target ns n = NewNamesFromShort E (getShortKind k) target ns n"

definition DeployNameForHash :: "string \<Rightarrow> string \<Rightarrow> string" where
  "DeployNameForHash short hash = ''deploy-for-'' @ short @ ''-'' @ hash"

definition ExportPVCNameForHash :: "string \<Rightarrow> string \<Rightarrow> string" where
  "ExportPVCNameForHash short hash = ''pvc-for-'' @ short @ ''-'' @ hash"

definition isValidHashSuffix :: "env \<Rightarrow> string \<Rightarrow> string \<Rightarrow> string \<Rightarrow> bool" where
  "isValidHashSuffix E hash ns n = (hash = generateHashSuffix E ns n)"

definition isValidTargetKind :: "string \<Rightarrow> bool" where
  "isValidTargetKind k = (k \<in> set [KindPVCShort, KindVirtualDiskShort, KindVolumeSnapshotShort,
     KindVirtualDiskSnapshotShort, KindSnapshotShort])"

definition ValidateHashAndTarget :: "env \<Rightarrow> string \<Rightarrow> string \<Rightarrow> string \<Rightarrow> string \<Rightarrow> unit res" where
  "ValidateHashAndTarget E short hash ns n =
     (if \<not> isValidTargetKind short then Inl (Errorf (''invalid targetKindShort: '' @ short) [])
      else if \<not> isValidHashSuffix E hash ns n then Inl (Errorf (''invalid hashSuffix: '' @ hash) [])
      else Inr ())"

subsection \<open>Lengths and alphabet of the generated names\<close>

lemma length_byteBits [simp]: "length (byteBits b) = 8"
  by (simp add: byteBits_def)

lemma length_bits: "length (concat (map byteBits bs)) = 8 * length bs"
  by (induction bs) auto

lemma length_base32Groups: "length (base32Groups bs) = (length bs + 4) div 5"
proof (induction bs rule: base32Groups.induct)
  case (2 b bs)
  then show ?case by (cases "length bs \<le> 4") auto
qed simp

lemma bitsValue_snoc: "bitsValue (bs @ [b]) = 2 * bitsValue bs + (if b then 1 else 0)"
  by (simp add: bitsValue_def)

lemma bitsValue_bound: "bitsValue bs < 2 ^ length bs"
proof (induction bs rule: rev_induct)
  case Nil
  show ?case by (simp add: bitsValue_def)
next
  case (snoc b bs)
  then show ?case by (simp add: bitsValue_snoc)
qed

lemma base32Groups_alphabet: "set (base32Groups bs) \<subseteq> set hexAlphabet"
proof (induction bs rule: base32Groups.induct)
  case (2 b bs)
  let ?g = "take 5 ((b # bs) @ replicate 4 False)"
  have "bitsValue ?g < 2 ^ length ?g" by (rule bitsValue_bound)
  moreover have "length ?g = 5" by simp
  moreover have "length hexAlphabet = 32" by (simp add: hexAlphabet_def)
  ultimately have "hexAlphabet ! bitsValue ?g \<in> set hexAlphabet"
    by (intro nth_mem) (simp only:, simp)
  with 2 show ?case by simp
qed simp

lemma hashSuffix_length:
  assumes "env_ok E"
  shows "length (generateHashSuffix E ns n) = 16"
  using env_ok_sha256 [OF assms]
  by (simp add: generateHashSuffix_def base32HexLower_def length_base32Groups length_bits)

lemma hashSuffix_alphabet: "set (generateHashSuffix E ns n) \<subseteq> set hexAlphabet"
  by (simp add: generateHashSuffix_def base32HexLower_def base32Groups_alphabet)

lemma dash_notin_hash: "CHR ''-'' \<notin> set (generateHashSuffix E ns n)"
proof -
  have "CHR ''-'' \<notin> set hexAlphabet" by (simp add: hexAlphabet_def)
  with hashSuffix_alphabet [of E ns n] show ?thesis by blast
qed

end
