(* ===== verification/Gc.thy ===== *)
theory Gc
  imports Common "HOL-Library.Multiset"
begin

text \<open>
  The generic garbage collector \<open>src/common/gc\<close>: the selection of objects
  (\<open>filter.go\<close>), the settings (\<open>settings.go\<close>), the cron source (\<open>cron_source.go\<close>)
  and the reconciler (\<open>gc_reconciler.go\<close>). Objects are any type with metadata; the
  interface \<open>ReconcileGCManager\<close> is the locale \<open>gc_manager\<close>, interpreted in the
  theories of the managers.
\<close>

section \<open>Ages and the filter\<close>

definition getAge :: "'o \<Rightarrow> ('o \<Rightarrow> time) \<Rightarrow> time \<Rightarrow> duration" where
  "getAge obj ageTime t =
     (let u = ageTime obj in if u = 0 then 0 else duration_Truncate (time_Sub t u) Second)"

definition isTerminating :: "('o \<Rightarrow> objmeta) \<Rightarrow> 'o \<Rightarrow> bool" where
  "isTerminating meta obj = (\<not> timePtr_IsZero (m_deletion (meta obj)))"

text \<open>The first loop: the candidates, split into expired and retained ones.\<close>

fun filterLoop ::
  "('o \<Rightarrow> objmeta) \<Rightarrow> ('o \<Rightarrow> bool) \<Rightarrow> duration \<Rightarrow> ('o \<Rightarrow> time) \<Rightarrow> time \<Rightarrow>
   'o list \<Rightarrow> 'o list \<Rightarrow> 'o list \<Rightarrow> 'o list \<times> 'o list" where
  "filterLoop meta cand ttl ageTime t [] expired nonExpired = (expired, nonExpired)"
| "filterLoop meta cand ttl ageTime t (obj # objs) expired nonExpired =
     (if \<not> cand obj then filterLoop meta cand ttl ageTime t objs expired nonExpired
      else if isTerminating meta obj then filterLoop meta cand ttl ageTime t objs expired nonExpired
      else if getAge obj ageTime t > ttl
        then filterLoop meta cand ttl ageTime t objs (expired @ [obj]) nonExpired
      else filterLoop meta cand ttl ageTime t objs expired (nonExpired @ [obj]))"

text \<open>The second loop: everything beyond the first \<open>maxCount\<close> of an index overflows.\<close>

fun overflowLoop ::
  "('o \<Rightarrow> string) \<Rightarrow> int \<Rightarrow> (string \<Rightarrow> int) \<Rightarrow> 'o list \<Rightarrow> 'o list \<Rightarrow> 'o list" where
  "overflowLoop indexFunc maxCount indexed [] result = result"
| "overflowLoop indexFunc maxCount indexed (obj # objs) result =
     (let index = indexFunc obj; count = indexed index in
      overflowLoop indexFunc maxCount (indexed(index := count + 1)) objs
        (if count \<ge> maxCount then result @ [obj] else result))"

text \<open>\<open>slices.SortFunc\<close> is not stable: any function that orders by the key is allowed.\<close>

locale sort_func =
  fixes sortFunc :: "('o \<Rightarrow> int) \<Rightarrow> 'o list \<Rightarrow> 'o list"
  assumes mset_sortFunc: "mset (sortFunc k xs) = mset xs"
    and sorted_sortFunc: "sorted (map k (sortFunc k xs))"

interpretation ref_sort: sort_func sort_key
  by unfold_locales simp_all

definition DefaultFilter ::
  "(('o \<Rightarrow> int) \<Rightarrow> 'o list \<Rightarrow> 'o list) \<Rightarrow> ('o \<Rightarrow> objmeta) \<Rightarrow> 'o list \<Rightarrow> ('o \<Rightarrow> bool) \<Rightarrow> duration \<Rightarrow>
   ('o \<Rightarrow> time) \<Rightarrow> ('o \<Rightarrow> string) option \<Rightarrow> int \<Rightarrow> time \<Rightarrow> 'o list" where
  "DefaultFilter sortFunc meta objs cand ttl ageTime indexFunc maxCount t =
     (case filterLoop meta cand ttl ageTime t objs [] [] of
        (expired, nonExpired) \<Rightarrow>
          (case indexFunc of
             None \<Rightarrow> expired
           | Some f \<Rightarrow>
               if maxCount \<le> 0 then expired
               else overflowLoop f maxCount (\<lambda>_. 0)
                      (sortFunc (\<lambda>obj. getAge obj ageTime t) nonExpired) expired))"

subsection \<open>What the loops compute\<close>

abbreviation retained ::
  "('o \<Rightarrow> objmeta) \<Rightarrow> ('o \<Rightarrow> bool) \<Rightarrow> duration \<Rightarrow> ('o \<Rightarrow> time) \<Rightarrow> time \<Rightarrow> 'o \<Rightarrow> bool" where
  "retained meta cand ttl ageTime t obj \<equiv>
     cand obj \<and> \<not> isTerminating meta obj \<and> getAge obj ageTime t \<le> ttl"

abbreviation expired ::
  "('o \<Rightarrow> objmeta) \<Rightarrow> ('o \<Rightarrow> bool) \<Rightarrow> duration \<Rightarrow> ('o \<Rightarrow> time) \<Rightarrow> time \<Rightarrow> 'o \<Rightarrow> bool" where
  "expired meta cand ttl ageTime t obj \<equiv>
     cand obj \<and> \<not> isTerminating meta obj \<and> ttl < getAge obj ageTime t"

lemma filterLoop_filter:
  "filterLoop meta cand ttl ageTime t objs es ns =
     (es @ filter (expired meta cand ttl ageTime t) objs,
      ns @ filter (retained meta cand ttl ageTime t) objs)"
  by (induction objs arbitrary: es ns) auto

lemma overflowLoop_result:
  "overflowLoop f n cnt xs res = res @ overflowLoop f n cnt xs []"
proof (induction xs arbitrary: cnt res)
  case (Cons x xs)
  show ?case
    unfolding overflowLoop.simps Let_def
    by (subst Cons.IH, subst (2) Cons.IH) simp
qed simp

text \<open>Of each index, the overflow is what follows the first \<open>maxCount - count\<close> objects.\<close>

lemma overflowLoop_index:
  "filter (\<lambda>ob. f ob = i) (overflowLoop f n cnt xs []) =
     drop (nat (n - cnt i)) (filter (\<lambda>ob. f ob = i) xs)"
proof (induction xs arbitrary: cnt)
  case (Cons x xs)
  show ?case
  proof (cases "cnt (f x) \<ge> n")
    case True
    then have "nat (n - (if i = f x then cnt (f x) + 1 else cnt i)) = nat (n - cnt i)"
      if "i = f x" using that by simp
    with True show ?thesis
      by (auto simp: Let_def overflowLoop_result [of f n _ xs "[x]"] Cons.IH)
  next
    case False
    then have "nat (n - cnt (f x)) = Suc (nat (n - (cnt (f x) + 1)))" by simp
    with False show ?thesis
      by (auto simp: Let_def Cons.IH)
  qed
qed simp

lemma set_overflowLoop: "set (overflowLoop f n cnt xs []) \<subseteq> set xs"
proof
  fix x assume x: "x \<in> set (overflowLoop f n cnt xs [])"
  then have "x \<in> set (filter (\<lambda>ob. f ob = f x) (overflowLoop f n cnt xs []))" by simp
  then show "x \<in> set xs"
    unfolding overflowLoop_index by (auto dest: in_set_dropD)
qed

lemma DefaultFilter_uncapped:
  "DefaultFilter sf meta objs cand ttl ageTime None m t =
     filter (expired meta cand ttl ageTime t) objs"
  by (simp add: DefaultFilter_def filterLoop_filter)

section \<open>Settings\<close>

record baseGcSettings =
  gs_ttl :: duration
  gs_schedule :: string

text \<open>
  \<open>getenv\<close> is the process environment; \<open>parseDuration\<close> is \<open>time.ParseDuration\<close>, about
  which nothing is needed.
\<close>

definition GetBaseGcSettingsFromEnv ::
  "(string \<Rightarrow> string option) \<Rightarrow> (string \<Rightarrow> duration res) \<Rightarrow> string \<Rightarrow> string \<Rightarrow>
   baseGcSettings \<Rightarrow> baseGcSettings res" where
  "GetBaseGcSettingsFromEnv getenv parseDuration envSchedule envTTL dflt =
     (let settings =
            (case getenv envSchedule of
               Some v \<Rightarrow> (if v \<noteq> [] then dflt\<lparr>gs_schedule := v\<rparr> else dflt)
             | None \<Rightarrow> dflt) in
      case getenv envTTL of
        None \<Rightarrow> Inr settings
      | Some v \<Rightarrow>
          if v = [] then Inr settings
          else (case parseDuration v of
                  Inl e \<Rightarrow> Inl (Errorf (''invalid GC TTL '' @ v @ '' from '' @ envTTL) [e])
                | Inr d \<Rightarrow>
                    if d \<le> 0 then Inl (Errorf (''invalid GC settings: TTL from '' @ envTTL @ '' must be positive'') [])
                    else Inr (settings\<lparr>gs_ttl := d\<rparr>)))"

section \<open>Cron source\<close>

definition nextScheduleTimeDuration :: "(time \<Rightarrow> time) \<Rightarrow> time \<Rightarrow> duration" where
  "nextScheduleTimeDuration nxt t = time_Sub (nxt t) t"

text \<open>The requests that one tick adds to the queue, from the lister's answer.\<close>

definition enqueueObjects :: "('o \<Rightarrow> objmeta) \<Rightarrow> 'o list res \<Rightarrow> nsname list" where
  "enqueueObjects meta r =
     (case r of
        Inl e \<Rightarrow> []
      | Inr objs \<Rightarrow> map (\<lambda>obj. (m_namespace (meta obj), m_name (meta obj))) objs)"

section \<open>Reconciler\<close>

definition IgnoreNotFound :: "string res \<Rightarrow> string res" where
  "IgnoreNotFound r = (case r of Inl e \<Rightarrow> (if IsNotFound e then Inr [] else Inl e) | Inr x \<Rightarrow> Inr x)"

text \<open>
  A manager: the kind, its decoder and metadata (\<open>New\<close> and \<open>client.Object\<close>), the
  decision, and the optional hook.
\<close>

record 'o gcManager =
  gm_kind :: kind
  gm_dec :: "kobj \<Rightarrow> 'o option"
  gm_meta :: "'o \<Rightarrow> objmeta"
  gm_shouldBeDeleted :: "time \<Rightarrow> 'o \<Rightarrow> bool"
  gm_preDelete :: "('o \<Rightarrow> string res io) option"

definition gcReconcile :: "env \<Rightarrow> 'o gcManager \<Rightarrow> nsname \<Rightarrow> ctrlResult res io" where
  "gcReconcile E mgr n = do {
     r \<leftarrow> getObj E (gm_kind mgr) (gm_dec mgr) n;
     (case r of
        Inl e \<Rightarrow> ret (if IsNotFound e then Inr emptyResult else Inl e)
      | Inr obj \<Rightarrow>
          if \<not> timePtr_IsZero (m_deletion (gm_meta mgr obj)) then ret (Inr emptyResult)
          else do {
            t \<leftarrow> now E;
            if gm_shouldBeDeleted mgr t obj
            then thenE (case gm_preDelete mgr of None \<Rightarrow> ret (Inr []) | Some pd \<Rightarrow> pd obj)
                   (\<lambda>_. do {
                      d \<leftarrow> exec E (Delete (gm_kind mgr)
                             (m_namespace (gm_meta mgr obj), m_name (gm_meta mgr obj)));
                      ret (case IgnoreNotFound d of Inl e \<Rightarrow> Inl e | Inr _ \<Rightarrow> Inr emptyResult) })
            else ret (Inr emptyResult) }) }"

text \<open>
  The sweep truncates ages to seconds and the reconcilers do not: what the sweep lists is past
  its retention for a reconciler too.
\<close>

lemma swept_due:
  assumes "0 \<le> ttl" "ttl < getAge obj (\<lambda>ob. case fin ob of None \<Rightarrow> 0 | Some c \<Rightarrow> c) t"
  shows "\<exists>c. fin obj = Some c \<and> c \<noteq> 0 \<and> ttl < time_Sub t c"
proof (cases "fin obj")
  case None
  with assms show ?thesis by (simp add: getAge_def)
next
  case (Some c)
  with assms have "c \<noteq> 0" by (auto simp: getAge_def)
  with Some assms have "ttl < duration_Truncate (time_Sub t c) Second" by (simp add: getAge_def)
  then have "ttl < time_Sub t c" using Truncate_gt_imp [OF Second_pos assms(1)] by blast
  with Some \<open>c \<noteq> 0\<close> show ?thesis by simp
qed

text \<open>
  The contract of a manager. \<open>terminal\<close> is the manager's own notion of a finished object,
  \<open>completed\<close> its completion instant, \<open>selects\<close> what the cron sweep lists at an
  instant. An object is accepted for deletion only if it is finished, not being deleted and
  past its retention, and whatever the sweep lists is accepted at the same instant.
\<close>

locale gc_manager =
  fixes mgr :: "'o gcManager"
    and ttl :: duration
    and terminal :: "'o \<Rightarrow> bool"
    and completed :: "'o \<Rightarrow> time option"
    and selects :: "time \<Rightarrow> 'o list \<Rightarrow> 'o list"
  assumes should_iff:
      "gm_shouldBeDeleted mgr t obj \<longleftrightarrow>
         timePtr_IsZero (m_deletion (gm_meta mgr obj)) \<and> terminal obj \<and>
         (\<exists>c. completed obj = Some c \<and> c \<noteq> 0 \<and> ttl < time_Sub t c)"
    and selects_should:
      "0 \<le> ttl \<Longrightarrow> obj \<in> set (selects t objs) \<Longrightarrow> obj \<in> set objs \<and> gm_shouldBeDeleted mgr t obj"
begin

lemma unfinished_kept: "\<not> terminal obj \<Longrightarrow> \<not> gm_shouldBeDeleted mgr t obj"
  by (simp add: should_iff)

lemma young_kept: "completed obj = Some c \<Longrightarrow> time_Sub t c \<le> ttl \<Longrightarrow> \<not> gm_shouldBeDeleted mgr t obj"
  by (auto simp: should_iff)

lemma selected_finished:
  "0 \<le> ttl \<Longrightarrow> obj \<in> set (selects t objs) \<Longrightarrow>
     terminal obj \<and> (\<exists>c. completed obj = Some c \<and> ttl < time_Sub t c)"
  using selects_should should_iff by blast

text \<open>The sweep and the reconciler agree: an object stays collectable as time passes.\<close>

lemma should_mono:
  assumes "gm_shouldBeDeleted mgr t obj" "t \<le> u"
  shows "gm_shouldBeDeleted mgr u obj"
proof -
  have "time_Sub t c \<le> time_Sub u c" for c
    using assms(2) by (simp add: time_Sub_def)
  then show ?thesis using assms(1) unfolding should_iff by (meson less_le_trans)
qed

text \<open>
  The reconciler writes only if the object it has read is finished and past its retention at
  the clock's reading; then it deletes that object, after what the hook does.
\<close>

lemma reconcile_obeys:
  fixes E n x
  defines "t0 \<equiv> clock E [(Get (gm_kind mgr) n, RObj x)]"
  assumes read: "api E [] (Get (gm_kind mgr) n) = RObj x" "gm_dec mgr x = Some obj"
    and P: "\<And>g r. \<not> isWrite r \<Longrightarrow> P g r"
      "\<And>g. gm_shouldBeDeleted mgr t0 obj \<Longrightarrow>
         P g (Delete (gm_kind mgr) (m_namespace (gm_meta mgr obj), m_name (gm_meta mgr obj)))"
    and hook: "\<And>pd g. gm_preDelete mgr = Some pd \<Longrightarrow> gm_shouldBeDeleted mgr t0 obj \<Longrightarrow>
         obeys P g \<Longrightarrow> wp (pd obj) (\<lambda>_ g'. obeys P g') g"
  shows "obeys P (snd (run_state (gcReconcile E mgr n) []))"
proof -
  have h: "obeys P [(Get (gm_kind mgr) n, RObj x)]" by (simp add: obeys_def P)
  have "wp (gcReconcile E mgr n) (\<lambda>_. obeys P) []"
  proof (cases "gm_preDelete mgr")
    case None
    show ?thesis
      unfolding gcReconcile_def getObj_def
      by (auto simp: wp_rules wp_call read P None h t0_def [symmetric] logged_def [of "[]"] intro!: wp_exec)
  next
    case (Some pd)
    show ?thesis
      unfolding gcReconcile_def getObj_def
      by (auto simp: wp_rules wp_call read P Some h t0_def [symmetric] logged_def [of "[]"]
          intro!: wp_mono [OF hook [OF Some]] wp_exec split: sum.splits)
  qed
  then show ?thesis by (simp add: wp_run)
qed

end

section \<open>The cap per index\<close>

lemma sorted_take_drop:
  assumes "sorted (map k xs)" "x \<in> set (take n xs)" "y \<in> set (drop n xs)"
  shows "k x \<le> (k y :: int)"
proof -
  have "sorted (map k (take n xs @ drop n xs))" using assms(1) by simp
  then show ?thesis using assms(2,3) unfolding map_append sorted_append by auto
qed

lemma sorted_map_filter: "sorted (map (k :: 'o \<Rightarrow> int) xs) \<Longrightarrow> sorted (map k (filter P xs))"
  by (induction xs) auto

context sort_func
begin

text \<open>The result of a capped filter, by index: the expired objects and all but the youngest.\<close>

lemma capped_index:
  assumes "0 < m"
  shows "\<exists>ys. mset ys = mset (filter (\<lambda>ob. retained meta cand ttl ageTime t ob \<and> f ob = i) objs) \<and>
      sorted (map (\<lambda>ob. getAge ob ageTime t) ys) \<and>
      filter (\<lambda>ob. f ob = i) (DefaultFilter sortFunc meta objs cand ttl ageTime (Some f) m t) =
        filter (\<lambda>ob. expired meta cand ttl ageTime t ob \<and> f ob = i) objs @ drop (nat m) ys"
proof -
  let ?k = "\<lambda>ob. getAge ob ageTime t"
  let ?xs = "sortFunc ?k (filter (retained meta cand ttl ageTime t) objs)"
  have "mset (filter (\<lambda>ob. f ob = i) ?xs) =
      mset (filter (\<lambda>ob. retained meta cand ttl ageTime t ob \<and> f ob = i) objs)"
    by (simp add: mset_filter mset_sortFunc filter_filter_mset conj_commute)
  moreover have "sorted (map ?k (filter (\<lambda>ob. f ob = i) ?xs))"
    by (rule sorted_map_filter, rule sorted_sortFunc)
  moreover have "filter (\<lambda>ob. f ob = i) (DefaultFilter sortFunc meta objs cand ttl ageTime (Some f) m t) =
      filter (\<lambda>ob. expired meta cand ttl ageTime t ob \<and> f ob = i) objs @
      drop (nat m) (filter (\<lambda>ob. f ob = i) ?xs)"
    using assms
    by (simp add: DefaultFilter_def filterLoop_filter overflowLoop_result [of f m _ _ "filter _ _"]
        overflowLoop_index conj_commute)
  ultimately show ?thesis by blast
qed

end


section \<open>Properties\<close>

text \<open>
  C25. What the garbage collector selects, for any sort function that orders by age: every
  selected object is a candidate that is not already being deleted; every candidate past its
  retention is selected; and of the candidates within their retention that share an index,
  all but the \<open>maxCount\<close> youngest are selected, and nothing if there are at most
  \<open>maxCount\<close>.
\<close>

theorem gc_filter_cap:
  fixes sf :: "('o \<Rightarrow> int) \<Rightarrow> 'o list \<Rightarrow> 'o list"
  assumes "sort_func sf" "distinct objs" "0 < m"
    and res: "res = DefaultFilter sf meta objs cand ttl ageTime (Some f) m t"
    and young: "young = {ob \<in> set objs. f ob = i \<and> cand ob \<and> \<not> isTerminating meta ob \<and> getAge ob ageTime t \<le> ttl}"
    and old: "old = {ob \<in> set objs. f ob = i \<and> cand ob \<and> \<not> isTerminating meta ob \<and> ttl < getAge ob ageTime t}"
  shows "old \<subseteq> set res \<and> {ob \<in> set res. f ob = i} \<subseteq> old \<union> young \<and>
    card (young - set res) = min (nat m) (card young) \<and>
    (\<forall>x \<in> young - set res. \<forall>y \<in> set res. f y = i \<longrightarrow> getAge x ageTime t \<le> getAge y ageTime t)"
proof (intro conjI)
  obtain ys where ys: "mset ys = mset (filter (\<lambda>ob. retained meta cand ttl ageTime t ob \<and> f ob = i) objs)"
      "sorted (map (\<lambda>ob. getAge ob ageTime t) ys)"
      "filter (\<lambda>ob. f ob = i) res = filter (\<lambda>ob. expired meta cand ttl ageTime t ob \<and> f ob = i) objs @ drop (nat m) ys"
    using sort_func.capped_index [OF assms(1,3), where meta = meta and cand = cand and ttl = ttl and ageTime = ageTime
      and t = t and f = f and i = i and objs = objs]
    unfolding res by blast
  have "set ys = set (filter (\<lambda>ob. retained meta cand ttl ageTime t ob \<and> f ob = i) objs)"
    using ys(1) by (metis set_mset_mset)
  then have set_ys: "set ys = young" by (auto simp: young)
  have "set (filter (\<lambda>ob. f ob = i) res) = old \<union> set (drop (nat m) ys)"
    unfolding ys(3) by (auto simp: old)
  then have set_res: "{ob \<in> set res. f ob = i} = old \<union> set (drop (nat m) ys)" by simp
  have "distinct ys" using ys(1) assms(2) by (metis distinct_filter mset_eq_imp_distinct_iff)
  then have disj: "set (take (nat m) ys) \<inter> set (drop (nat m) ys) = {}" "distinct (take (nat m) ys)"
    by (simp_all add: set_take_disj_set_drop_if_distinct)
  have split: "young = set (take (nat m) ys) \<union> set (drop (nat m) ys)"
    unfolding set_ys [symmetric] by (metis append_take_drop_id set_append)
  have ids: "f ob = i" if "ob \<in> young" for ob using that by (simp add: young)
  have no_old: "ob \<notin> old" if "ob \<in> young" for ob using that by (auto simp: young old)
  have mem: "ob \<in> set res \<longleftrightarrow> ob \<in> set (drop (nat m) ys)" if "ob \<in> young" for ob
    using set_res ids [OF that] no_old [OF that] by blast
  have kept: "young - set res = set (take (nat m) ys)"
    using mem split disj(1) by blast
  show "old \<subseteq> set res" "{ob \<in> set res. f ob = i} \<subseteq> old \<union> young"
    using set_res split by blast+
  have "card (set (take (nat m) ys)) = min (nat m) (card (set ys))"
    using \<open>distinct ys\<close> disj(2) by (simp add: distinct_card min.commute)
  then show "card (young - set res) = min (nat m) (card young)"
    unfolding kept set_ys .
  show "\<forall>x \<in> young - set res. \<forall>y \<in> set res. f y = i \<longrightarrow> getAge x ageTime t \<le> getAge y ageTime t"
  proof (intro ballI impI)
    fix x y assume x: "x \<in> young - set res" and y: "y \<in> set res" "f y = i"
    then have "y \<in> old \<or> y \<in> set (drop (nat m) ys)" using set_res by blast
    then show "getAge x ageTime t \<le> getAge y ageTime t"
    proof
      assume "y \<in> old"
      with x show ?thesis by (simp add: old young)
    next
      assume "y \<in> set (drop (nat m) ys)"
      then show ?thesis using sorted_take_drop [OF ys(2)] x unfolding kept by blast
    qed
  qed
qed


text \<open>Three snapshots of one index, one of them beyond the retention, with room for one.\<close>

definition exObjs :: "(string \<times> time) list" where
  "exObjs = [(''a'', 10 * Second), (''b'', 90 * Second), (''c'', 95 * Second)]"

theorem gc_filter_cap_witness:
  "DefaultFilter sort_key (\<lambda>_. emptyMeta) exObjs (\<lambda>_. True) (60 * Second) snd (Some (\<lambda>_. [])) 1 (100 * Second) =
     [(''a'', 10 * Second), (''b'', 90 * Second)] \<and>
   card ({(''b'', 90 * Second), (''c'', 95 * Second)} - set (DefaultFilter sort_key (\<lambda>_. emptyMeta) exObjs
     (\<lambda>_. True) (60 * Second) snd (Some (\<lambda>_. [])) 1 (100 * Second))) = 1"
proof
  show res: "DefaultFilter sort_key (\<lambda>_. emptyMeta) exObjs (\<lambda>_. True) (60 * Second) snd (Some (\<lambda>_. [])) 1 (100 * Second) =
     [(''a'', 10 * Second), (''b'', 90 * Second)]"
    by code_simp
  have "distinct exObjs" by code_simp
  have young: "{ob \<in> set exObjs. ([]::string) = [] \<and> True \<and> \<not> isTerminating (\<lambda>_. emptyMeta) ob \<and>
      getAge ob snd (100 * Second) \<le> 60 * Second} = {(''b'', 90 * Second), (''c'', 95 * Second)}"
    by code_simp
  show "card ({(''b'', 90 * Second), (''c'', 95 * Second)} - set (DefaultFilter sort_key (\<lambda>_. emptyMeta) exObjs
     (\<lambda>_. True) (60 * Second) snd (Some (\<lambda>_. [])) 1 (100 * Second))) = 1"
    using gc_filter_cap [OF ref_sort.sort_func_axioms \<open>distinct exObjs\<close> zero_less_one refl young [symmetric] refl]
    by (simp add: Second_def)
qed

text \<open>
  The retention read from the process environment is positive whenever the built-in
  default is: an empty variable keeps the default, and zero, negative or malformed values are
  errors.
\<close>

theorem gc_settings_positive:
  assumes "0 < gs_ttl dflt"
    and "GetBaseGcSettingsFromEnv getenv parseDuration envSchedule envTTL dflt = Inr settings"
  shows "0 < gs_ttl settings \<and>
    (gs_ttl settings = gs_ttl dflt \<or> (\<exists>v. getenv envTTL = Some v \<and> parseDuration v = Inr (gs_ttl settings)))"
  using assms
  by (auto simp: GetBaseGcSettingsFromEnv_def Let_def split: option.splits if_splits sum.splits)

theorem gc_settings_positive_witness:
  "0 < gs_ttl \<lparr>gs_ttl = 5 * Second, gs_schedule = ''0 * * * *''\<rparr>"
proof -
  let ?env = "\<lambda>k. if k = ''GC_VCR_TTL'' then Some ''5s'' else None"
  let ?parse = "\<lambda>v. if v = ''5s'' then Inr (5 * Second) else Inl (Errorf ''bad duration'' [])"
  let ?dflt = "\<lparr>gs_ttl = 24 * Hour, gs_schedule = ''0 * * * *''\<rparr>"
  have "GetBaseGcSettingsFromEnv ?env ?parse ''GC_VCR_SCHEDULE'' ''GC_VCR_TTL'' ?dflt =
      Inr \<lparr>gs_ttl = 5 * Second, gs_schedule = ''0 * * * *''\<rparr>"
    by code_simp
  then show ?thesis
    using gc_settings_positive [of ?dflt] by (simp add: Hour_def Minute_def Second_def)
qed

end
