(* ===== verification/Controllers.thy ===== *)
theory Controllers
  imports Common
begin

text \<open>
  What the request controllers of \<open>src/images/controller/internal/controllers\<close> share:
  the condition helpers of \<open>utils.go\<close>, the constants, and the ObjectKeeper that follows a
  request.
\<close>

abbreviation ConditionTypeReady :: string where "ConditionTypeReady \<equiv> ''Ready''"
abbreviation ReasonCompleted :: string where "ReasonCompleted \<equiv> ''Completed''"
abbreviation ReasonInvalidMode :: string where "ReasonInvalidMode \<equiv> ''InvalidMode''"
abbreviation ReasonInternalError :: string where "ReasonInternalError \<equiv> ''InternalError''"
abbreviation ReasonNotFound :: string where "ReasonNotFound \<equiv> ''NotFound''"
abbreviation ReasonRBACDenied :: string where "ReasonRBACDenied \<equiv> ''RBACDenied''"
abbreviation ReasonInvalidSource :: string where "ReasonInvalidSource \<equiv> ''InvalidSource''"
abbreviation ReasonTargetsPending :: string where "ReasonTargetsPending \<equiv> ''TargetsPending''"

abbreviation APIGroupDeckhouse :: string where "APIGroupDeckhouse \<equiv> ''deckhouse.io/v1alpha1''"
abbreviation APIGroupStorageDeckhouse :: string where
  "APIGroupStorageDeckhouse \<equiv> ''storage-foundation.deckhouse.io/v1alpha1''"
abbreviation KindObjectKeeper :: string where "KindObjectKeeper \<equiv> ''ObjectKeeper''"
abbreviation KindVolumeCaptureRequest :: string where "KindVolumeCaptureRequest \<equiv> ''VolumeCaptureRequest''"
abbreviation KindVolumeRestoreRequest :: string where "KindVolumeRestoreRequest \<equiv> ''VolumeRestoreRequest''"

section \<open>Conditions\<close>

definition setSingleCondition :: "env \<Rightarrow> condition list \<Rightarrow> condition \<Rightarrow> condition list" where
  "setSingleCondition E cs c = SetStatusCondition E (RemoveStatusCondition E cs (c_type c)) c"

definition isConditionTrue :: "env \<Rightarrow> condition list \<Rightarrow> string \<Rightarrow> bool" where
  "isConditionTrue E cs t =
     (case FindStatusCondition E cs t of None \<Rightarrow> False | Some c \<Rightarrow> c_status c = ConditionTrue)"

definition isConditionFalse :: "env \<Rightarrow> condition list \<Rightarrow> string \<Rightarrow> bool" where
  "isConditionFalse E cs t =
     (case FindStatusCondition E cs t of None \<Rightarrow> False | Some c \<Rightarrow> c_status c = ConditionFalse)"

definition isTerminal :: "env \<Rightarrow> condition list \<Rightarrow> string \<Rightarrow> bool" where
  "isTerminal E cs t =
     (case FindStatusCondition E cs t of
        None \<Rightarrow> False
      | Some c \<Rightarrow> c_status c = ConditionTrue \<or> c_status c = ConditionFalse)"

definition isVolumeCaptureTerminal :: "env \<Rightarrow> condition list \<Rightarrow> bool" where
  "isVolumeCaptureTerminal E cs =
     (case FindStatusCondition E cs ConditionTypeReady of
        None \<Rightarrow> False
      | Some c \<Rightarrow>
          if c_status c = ConditionTrue then True
          else if c_status c = ConditionFalse \<and> c_reason c \<noteq> ReasonTargetsPending then True
          else False)"

lemma find_setSingle:
  assumes "env_ok E"
  shows "\<exists>d. FindStatusCondition E (setSingleCondition E cs c) (c_type c) = Some d \<and> same_report d c"
  unfolding setSingleCondition_def
  by (rule condition_api.find_set_same [OF env_ok_cond [OF assms]])

text \<open>What a request controller reports is what its own predicates then read.\<close>

lemma isTerminal_setSingle:
  assumes "env_ok E" "c_type c = t" "c_status c \<noteq> ConditionUnknown"
  shows "isTerminal E (setSingleCondition E cs c) t"
proof -
  obtain d where "FindStatusCondition E (setSingleCondition E cs c) t = Some d" "same_report d c"
    using find_setSingle [OF assms(1), of cs c] assms(2) by blast
  with assms(3) show ?thesis
    by (cases "c_status c") (auto simp: isTerminal_def same_report_def)
qed

lemma isVolumeCaptureTerminal_setSingle:
  assumes "env_ok E" "c_type c = ConditionTypeReady"
  shows "isVolumeCaptureTerminal E (setSingleCondition E cs c) \<longleftrightarrow>
    c_status c = ConditionTrue \<or> c_status c = ConditionFalse \<and> c_reason c \<noteq> ReasonTargetsPending"
proof -
  obtain d where "FindStatusCondition E (setSingleCondition E cs c) ConditionTypeReady = Some d"
    "same_report d c"
    using find_setSingle [OF assms(1), of cs c] assms(2) by auto
  then show ?thesis
    by (auto simp: isVolumeCaptureTerminal_def same_report_def)
qed

lemma isConditionTrue_setSingle:
  assumes "env_ok E" "c_type c = t"
  shows "isConditionTrue E (setSingleCondition E cs c) t \<longleftrightarrow> c_status c = ConditionTrue"
proof -
  obtain d where "FindStatusCondition E (setSingleCondition E cs c) t = Some d" "same_report d c"
    using find_setSingle [OF assms(1), of cs c] assms(2) by blast
  then show ?thesis by (auto simp: isConditionTrue_def same_report_def)
qed

definition readyCondition :: "cstatus \<Rightarrow> string \<Rightarrow> string \<Rightarrow> time \<Rightarrow> condition" where
  "readyCondition st reason msg t =
     \<lparr>c_type = ConditionTypeReady, c_status = st, c_reason = reason, c_message = msg,
      c_observedGeneration = 0, c_lastTransitionTime = t\<rparr>"

lemma readyCondition_sel [simp]:
  "c_type (readyCondition st r m t) = ConditionTypeReady"
  "c_status (readyCondition st r m t) = st" "c_reason (readyCondition st r m t) = r"
  "c_message (readyCondition st r m t) = m"
  by (simp_all add: readyCondition_def)

section \<open>Typed reads\<close>

abbreviation getVcr :: "env \<Rightarrow> nsname \<Rightarrow> volumeCaptureRequest res io" where
  "getVcr E \<equiv> getObj E KVolumeCaptureRequest decVcr"
abbreviation getVrr :: "env \<Rightarrow> nsname \<Rightarrow> volumeRestoreRequest res io" where
  "getVrr E \<equiv> getObj E KVolumeRestoreRequest decVrr"
abbreviation getPvc :: "env \<Rightarrow> nsname \<Rightarrow> persistentVolumeClaim res io" where
  "getPvc E \<equiv> getObj E KPersistentVolumeClaim decPvc"
abbreviation getPv :: "env \<Rightarrow> string \<Rightarrow> persistentVolume res io" where
  "getPv E n \<equiv> getObj E KPersistentVolume decPv ([], n)"
abbreviation getStorageClass :: "env \<Rightarrow> string \<Rightarrow> storageClass res io" where
  "getStorageClass E n \<equiv> getObj E KStorageClass decStorageClass ([], n)"
abbreviation getVsClass :: "env \<Rightarrow> string \<Rightarrow> volumeSnapshotClass res io" where
  "getVsClass E n \<equiv> getObj E KVolumeSnapshotClass decVsClass ([], n)"
abbreviation getVsc :: "env \<Rightarrow> string \<Rightarrow> volumeSnapshotContent res io" where
  "getVsc E n \<equiv> getObj E KVolumeSnapshotContent decVsc ([], n)"
abbreviation getKeeper :: "env \<Rightarrow> string \<Rightarrow> objectKeeper res io" where
  "getKeeper E n \<equiv> getObj E KObjectKeeper decKeeper ([], n)"

definition keyOf :: "objmeta \<Rightarrow> nsname" where
  "keyOf m = (m_namespace m, m_name m)"

section \<open>Keepers that follow a request\<close>

text \<open>
  The keeper object both request controllers create: named by the caller, following the
  request by kind, namespace, name and UID, without a TTL.
\<close>

definition followKeeper :: "string \<Rightarrow> string \<Rightarrow> objmeta \<Rightarrow> objectKeeper" where
  "followKeeper name followKind m =
     \<lparr>ok_meta = emptyMeta\<lparr>m_name := name\<rparr>, ok_mode = ''FollowObject'',
      ok_followObjectRef = Some \<lparr>ref_apiVersion = APIGroupStorageDeckhouse, ref_kind = followKind,
        ref_name = m_name m, ref_namespace = m_namespace m, ref_uid = m_uid m, ref_resourceVersion = []\<rparr>\<rparr>"

text \<open>A keeper belongs to the request with metadata \<open>m\<close>.\<close>

definition keeperFollows :: "string \<Rightarrow> objmeta \<Rightarrow> objectKeeper \<Rightarrow> bool" where
  "keeperFollows followKind m k \<longleftrightarrow>
     ok_mode k = ''FollowObject'' \<and>
     (\<exists>f. ok_followObjectRef k = Some f \<and> ref_kind f = followKind \<and> ref_uid f = m_uid m \<and>
        ref_namespace f = m_namespace m \<and> ref_name f = m_name m)"

lemma followKeeper_follows: "keeperFollows followKind m (followKeeper name followKind m)"
  by (simp add: keeperFollows_def followKeeper_def)

lemma followKeeper_sel [simp]: "ok_meta (followKeeper name followKind m) = emptyMeta\<lparr>m_name := name\<rparr>"
  by (simp add: followKeeper_def)

text \<open>The controller owner reference to a keeper that the produced artifacts carry.\<close>

definition keeperOwner :: "string \<Rightarrow> string \<Rightarrow> ownerref" where
  "keeperOwner name uid =
     \<lparr>or_apiVersion = APIGroupDeckhouse, or_kind = KindObjectKeeper, or_name = name, or_uid = uid,
      or_controller = Some True, or_blockOwnerDeletion = Some True\<rparr>"

end
