(* ===== verification/Vcr.thy ===== *)
theory Vcr
  imports Controllers
begin

text \<open>
  The VolumeCaptureRequest controller: \<open>volumecapturerequest_controller.go\<close>,
  \<open>volumecapturerequest_snapshot.go\<close> and \<open>volumecapturerequest_single_target.go\<close> of
  \<open>src/images/controller/internal/controllers\<close>. A VCR captures one PVC, either as a CSI
  VolumeSnapshotContent (mode Snapshot) or by detaching its PersistentVolume (mode Detach).
\<close>

section \<open>Names and bindings\<close>

definition hexDigit :: "nat \<Rightarrow> char" where
  "hexDigit n = ''0123456789abcdef'' ! n"

definition hexEncode :: "nat list \<Rightarrow> string" where
  "hexEncode bs = concat (map (\<lambda>b. [hexDigit (b div 16), hexDigit (b mod 16)]) bs)"

definition objectKeeperNameForVCR :: "string \<Rightarrow> string" where
  "objectKeeperNameForVCR uid = ''retainer-vcr-'' @ uid"

definition retainerPVName :: "string \<Rightarrow> string" where
  "retainerPVName uid = ''retainer-pv-'' @ uid"

definition snapshotTargetHashHexLen :: nat where
  "snapshotTargetHashHexLen = 12"

definition targetUIDHash :: "env \<Rightarrow> string \<Rightarrow> string" where
  "targetUIDHash E uid = take snapshotTargetHashHexLen (hexEncode (sha256 E uid))"

definition snapshotVSCName :: "env \<Rightarrow> string \<Rightarrow> string \<Rightarrow> string" where
  "snapshotVSCName E vcrUID targetUID = ''snapshot-'' @ vcrUID @ ''-'' @ targetUIDHash E targetUID"

definition volumeSnapshotBinding :: "string \<Rightarrow> string \<Rightarrow> volumeDataBinding" where
  "volumeSnapshotBinding vscName vscUID =
     \<lparr>vdb_artifactRef = \<lparr>ar_apiVersion = ''snapshot.storage.k8s.io/v1'',
        ar_kind = ''VolumeSnapshotContent'', ar_name = vscName, ar_uid = vscUID\<rparr>\<rparr>"

definition requireCaptureTarget :: "volumeCaptureRequest \<Rightarrow> volumeCaptureTarget res" where
  "requireCaptureTarget vcr =
     (case vcr_target vcr of
        None \<Rightarrow> Inl (Errorf ''spec.target is required'' [])
      | Some t \<Rightarrow> Inr t)"

definition setPersistentVolumeDataRef :: "volumeCaptureRequest \<Rightarrow> string \<Rightarrow> string \<Rightarrow> volumeCaptureRequest" where
  "setPersistentVolumeDataRef vcr pvName pvUID =
     vcr\<lparr>vcr_status := (vcr_status vcr)\<lparr>vcs_data :=
       Some \<lparr>vdb_artifactRef = \<lparr>ar_apiVersion = ''v1'', ar_kind = ''PersistentVolume'',
               ar_name = pvName, ar_uid = pvUID\<rparr>\<rparr>\<rparr>\<rparr>"

definition dataArtifactRef :: "vcrStatus \<Rightarrow> artifactRef option" where
  "dataArtifactRef st = map_option vdb_artifactRef (vcs_data st)"

section \<open>Status writes\<close>

text \<open>The message of an error value is not modelled further than its first line.\<close>

fun errorText :: "gerr \<Rightarrow> string" where
  "errorText (ApiErr r) = ''api error''"
| "errorText (Sentinel s) = ''sentinel''"
| "errorText (Errorf m es) = m"

definition finalizedStatus :: "env \<Rightarrow> vcrStatus \<Rightarrow> cstatus \<Rightarrow> string \<Rightarrow> string \<Rightarrow> time \<Rightarrow> vcrStatus" where
  "finalizedStatus E st status reason msg t =
     (let st1 = (if vcs_completionTimestamp st = None
                 then st\<lparr>vcs_completionTimestamp := Some t\<rparr> else st) in
      st1\<lparr>vcs_conditions := setSingleCondition E (vcs_conditions st1) (readyCondition status reason msg t)\<rparr>)"

definition finalizeVCR ::
  "env \<Rightarrow> volumeCaptureRequest \<Rightarrow> cstatus \<Rightarrow> string \<Rightarrow> string \<Rightarrow> string res io" where
  "finalizeVCR E vcr status reason msg = do {
     t \<leftarrow> now E;
     let st = finalizedStatus E (vcr_status vcr) status reason msg t;
     r \<leftarrow> RetryOnConflict E
            (thenE (getVcr E (keyOf (vcr_meta vcr)))
               (\<lambda>current. exec E (StatusPatch (OVcr current) (OVcr (current\<lparr>vcr_status := st\<rparr>)))));
     ret (case r of
            Inl e \<Rightarrow> (if IsNotFound e then Inr [] else Inl (Errorf ''failed to update VCR status'' [e]))
          | Inr _ \<Rightarrow> Inr []) }"

definition markFailed :: "env \<Rightarrow> volumeCaptureRequest \<Rightarrow> string \<Rightarrow> string \<Rightarrow> ctrlResult res io" where
  "markFailed E vcr reason msg =
     thenE (finalizeVCR E vcr ConditionFalse reason msg) (\<lambda>_. ret (Inr emptyResult))"

definition pendingStatus :: "env \<Rightarrow> vcrStatus \<Rightarrow> string \<Rightarrow> time \<Rightarrow> vcrStatus" where
  "pendingStatus E st msg t =
     st\<lparr>vcs_conditions := setSingleCondition E (vcs_conditions st)
          (readyCondition ConditionFalse ReasonTargetsPending msg t),
        vcs_completionTimestamp := None\<rparr>"

definition patchVCRSnapshotPending :: "env \<Rightarrow> volumeCaptureRequest \<Rightarrow> string \<Rightarrow> string res io" where
  "patchVCRSnapshotPending E vcr message = do {
     let msg = (if message = [] then ''target capture in progress'' else message);
     t \<leftarrow> now E;
     RetryOnConflict E
       (thenE (getVcr E (keyOf (vcr_meta vcr)))
          (\<lambda>current. exec E (StatusPatch (OVcr current)
             (OVcr (current\<lparr>vcr_status := pendingStatus E (vcr_status current) msg t\<rparr>))))) }"

section \<open>The ownership anchor\<close>

definition ensureObjectKeeper ::
  "env \<Rightarrow> string \<Rightarrow> volumeCaptureRequest \<Rightarrow> (objectKeeper option \<times> ctrlResult) res io" where
  "ensureObjectKeeper E name vcr = do {
     r \<leftarrow> getKeeper E name;
     (case r of
        Inl e \<Rightarrow>
          if IsNotFound e
          then thenE (wrapE ''failed to create ObjectKeeper''
                 (exec E (Create (OKeeper (followKeeper name KindVolumeCaptureRequest (vcr_meta vcr))))))
               (\<lambda>_. thenE (wrapE ''failed to re-read ObjectKeeper after Create'' (getKeeper E name))
               (\<lambda>k. if m_uid (ok_meta k) = [] then ret (Inr (None, \<lparr>RequeueAfter = Second\<rparr>))
                    else ret (Inr (Some k, emptyResult))))
          else ret (Inl (Errorf ''failed to get ObjectKeeper'' [e]))
      | Inr k \<Rightarrow>
          (case ok_followObjectRef k of
             None \<Rightarrow> ret (Inl (Errorf ''ObjectKeeper has no FollowObjectRef'' []))
           | Some f \<Rightarrow>
               if ref_uid f \<noteq> m_uid (vcr_meta vcr)
                 then ret (Inl (Errorf ''ObjectKeeper belongs to another VCR'' []))
               else if ok_mode k \<noteq> ''FollowObject''
                 then ret (Inl (Errorf ''ObjectKeeper has invalid mode'' []))
               else if m_uid (ok_meta k) = []
                 then ret (Inr (None, \<lparr>RequeueAfter = Second\<rparr>))
               else if ref_kind f \<noteq> KindVolumeCaptureRequest
                 then ret (Inl (Errorf ''ObjectKeeper FollowObjectRef.Kind mismatch'' []))
               else if ref_namespace f \<noteq> m_namespace (vcr_meta vcr)
                 then ret (Inl (Errorf ''ObjectKeeper FollowObjectRef.Namespace mismatch'' []))
               else if ref_name f \<noteq> m_name (vcr_meta vcr)
                 then ret (Inl (Errorf ''ObjectKeeper FollowObjectRef.Name mismatch'' []))
               else ret (Inr (Some k, emptyResult)))) }"

definition requeueIfObjectKeeperUIDEmpty ::
  "env \<Rightarrow> string \<Rightarrow> (objectKeeper option \<times> ctrlResult) res io" where
  "requeueIfObjectKeeperUIDEmpty E retainerName =
     thenE (getKeeper E retainerName)
       (\<lambda>k. if m_uid (ok_meta k) = [] then ret (Inr (None, \<lparr>RequeueAfter = Second\<rparr>))
            else ret (Inr (Some k, emptyResult)))"

section \<open>Snapshot mode\<close>

record snapshotTargetError =
  ste_target :: volumeCaptureTarget
  ste_reason :: string
  ste_message :: string

record snapshotTargetResult =
  str_binding :: "volumeDataBinding option"
  str_ready :: bool
  str_pending :: bool
  str_pendingMessage :: string
  str_terminal :: "snapshotTargetError option"

definition targetTerminal :: "volumeCaptureTarget \<Rightarrow> string \<Rightarrow> string \<Rightarrow> snapshotTargetResult" where
  "targetTerminal target reason msg =
     \<lparr>str_binding = None, str_ready = False, str_pending = False, str_pendingMessage = [],
      str_terminal = Some \<lparr>ste_target = target, ste_reason = reason, ste_message = msg\<rparr>\<rparr>"

definition targetPending :: "string \<Rightarrow> snapshotTargetResult" where
  "targetPending msg =
     \<lparr>str_binding = None, str_ready = False, str_pending = True, str_pendingMessage = msg,
      str_terminal = None\<rparr>"

definition targetReady :: "volumeDataBinding \<Rightarrow> snapshotTargetResult" where
  "targetReady b =
     \<lparr>str_binding = Some b, str_ready = True, str_pending = False, str_pendingMessage = [],
      str_terminal = None\<rparr>"

definition failTarget ::
  "volumeCaptureTarget \<Rightarrow> string \<Rightarrow> string \<Rightarrow> (snapshotTargetResult \<times> ctrlResult) res io" where
  "failTarget target reason msg = ret (Inr (targetTerminal target reason msg, emptyResult))"

text \<open>\<open>status.error.message\<close> of a VolumeSnapshotContent, when it is set and not empty.\<close>

definition vscErrorMessage :: "volumeSnapshotContent \<Rightarrow> string option" where
  "vscErrorMessage vsc =
     (case vsc_status vsc of
        None \<Rightarrow> None
      | Some st \<Rightarrow>
          (case vscs_error st of
             None \<Rightarrow> None
           | Some er \<Rightarrow> (case ve_message er of
                           None \<Rightarrow> None
                         | Some m \<Rightarrow> (if m = [] then None else Some m))))"

definition vscReadyToUse :: "volumeSnapshotContent \<Rightarrow> bool" where
  "vscReadyToUse vsc =
     (case vsc_status vsc of None \<Rightarrow> False | Some st \<Rightarrow> vscs_readyToUse st = Some True)"

text \<open>The payload of the CREATE: owned by the keeper, already stamped as protected.\<close>

definition captureVSC ::
  "env \<Rightarrow> string \<Rightarrow> string \<Rightarrow> string \<Rightarrow> volumeSnapshotClass \<Rightarrow> string \<Rightarrow> volumeSnapshotContent" where
  "captureVSC E name retainerName keeperUID cls handle =
     \<lparr>vsc_meta = emptyMeta\<lparr>m_name := name, m_owners := [keeperOwner retainerName keeperUID],
                         m_labels := StampDeleteProtected E []\<rparr>,
      vsc_driver = vsclass_driver cls, vsc_className = Some (m_name (vsclass_meta cls)),
      vsc_deletionPolicy = vsclass_deletionPolicy cls, vsc_volumeHandle = Some handle,
      vsc_status = None\<rparr>"

definition createTargetVSC ::
  "env \<Rightarrow> string \<Rightarrow> string \<Rightarrow> volumeSnapshotClass \<Rightarrow> string \<Rightarrow>
   (snapshotTargetResult \<times> ctrlResult) res io" where
  "createTargetVSC E csiVSCName retainerName cls handle =
     thenE (requeueIfObjectKeeperUIDEmpty E retainerName)
       (\<lambda>(k, rr). case k of
          None \<Rightarrow> ret (Inr (targetPending [], rr))
        | Some keeper \<Rightarrow>
            thenE (wrapE ''failed to create VolumeSnapshotContent''
                     (exec E (Create (OVsc (captureVSC E csiVSCName retainerName
                        (m_uid (ok_meta keeper)) cls handle)))))
              (\<lambda>_. ret (Inr (targetPending [], \<lparr>RequeueAfter = 5 * Second\<rparr>))))"

definition observeTargetVSC ::
  "env \<Rightarrow> string \<Rightarrow> persistentVolumeClaim \<Rightarrow> volumeSnapshotContent \<Rightarrow> snapshotTargetResult \<times> ctrlResult" where
  "observeTargetVSC E csiVSCName pvc vsc =
     (case vscErrorMessage vsc of
        Some errorMsg \<Rightarrow>
          (let details = ''VSC '' @ csiVSCName @ '', PVC '' @ m_namespace (pvc_meta pvc) @ ''/'' @
                 m_name (pvc_meta pvc) @ '': '' @ errorMsg;
               details' = (case Option.bind (vsc_status vsc) (\<lambda>st. Option.bind (vscs_error st) ve_time) of
                  None \<Rightarrow> details
                | Some t \<Rightarrow> details @ '' (error time: '' @ formatRFC3339 E t @ '')'') in
           (targetPending (''CSI snapshot creation reported an error (will retry): '' @ details'),
            \<lparr>RequeueAfter = 5 * Second\<rparr>))
      | None \<Rightarrow>
          if \<not> vscReadyToUse vsc then (targetPending [], \<lparr>RequeueAfter = 5 * Second\<rparr>)
          else (targetReady (volumeSnapshotBinding csiVSCName (m_uid (vsc_meta vsc))), emptyResult))"

definition captureWithClass ::
  "env \<Rightarrow> volumeCaptureRequest \<Rightarrow> string \<Rightarrow> volumeCaptureTarget \<Rightarrow> persistentVolumeClaim \<Rightarrow>
   csiSource \<Rightarrow> string \<Rightarrow> string \<Rightarrow> (snapshotTargetResult \<times> ctrlResult) res io" where
  "captureWithClass E vcr retainerName target pvc csi scName vscClassName = do {
     rc \<leftarrow> getVsClass E vscClassName;
     (case rc of
        Inl e \<Rightarrow>
          if IsNotFound e then failTarget target ReasonNotFound
            (''VolumeSnapshotClass '' @ vscClassName @ '' (from StorageClass '' @ scName @ '' annotation) not found'')
          else if IsForbidden e then failTarget target ReasonRBACDenied
            (''Access denied to VolumeSnapshotClass '' @ vscClassName)
          else ret (Inl (Errorf ''failed to get VolumeSnapshotClass'' [e]))
      | Inr cls \<Rightarrow>
          if vsclass_driver cls \<noteq> csi_driver csi then failTarget target ReasonInternalError
            (''VolumeSnapshotClass '' @ vscClassName @ '' driver '' @ vsclass_driver cls @
             '' does not match PV CSI driver '' @ csi_driver csi)
          else do {
            let csiVSCName = snapshotVSCName E (m_uid (vcr_meta vcr)) (vt_uid target);
            rv \<leftarrow> getVsc E csiVSCName;
            (case rv of
               Inl e \<Rightarrow>
                 if IsNotFound e
                 then createTargetVSC E csiVSCName retainerName cls (csi_volumeHandle csi)
                 else ret (Inl (Errorf ''failed to get VolumeSnapshotContent'' [e]))
             | Inr vsc \<Rightarrow> ret (Inr (observeTargetVSC E csiVSCName pvc vsc))) }) }"

definition captureBoundClaim ::
  "env \<Rightarrow> volumeCaptureRequest \<Rightarrow> string \<Rightarrow> volumeCaptureTarget \<Rightarrow> persistentVolumeClaim \<Rightarrow>
   csiSource \<Rightarrow> (snapshotTargetResult \<times> ctrlResult) res io" where
  "captureBoundClaim E vcr retainerName target pvc csi =
     (case pvc_storageClassName pvc of
        None \<Rightarrow> failTarget target ReasonInternalError ''PVC does not have StorageClassName''
      | Some scName \<Rightarrow>
          if scName = [] then failTarget target ReasonInternalError ''PVC does not have StorageClassName''
          else do {
            rs \<leftarrow> getStorageClass E scName;
            (case rs of
               Inl e \<Rightarrow>
                 if IsNotFound e then failTarget target ReasonNotFound
                   (''StorageClass '' @ scName @ '' not found'')
                 else if IsForbidden e then failTarget target ReasonRBACDenied
                   (''Access denied to StorageClass '' @ scName)
                 else ret (Inl (Errorf ''failed to get StorageClass'' [e]))
             | Inr sc \<Rightarrow>
                 (let vscClassName = index_str (m_annotations (sc_meta sc))
                        ''storage.deckhouse.io/volumesnapshotclass'' in
                  if vscClassName = [] then failTarget target ReasonNotFound
                    (''StorageClass '' @ scName @
                     '' does not have storage.deckhouse.io/volumesnapshotclass annotation'')
                  else captureWithClass E vcr retainerName target pvc csi scName vscClassName)) })"

definition processSnapshotTarget ::
  "env \<Rightarrow> volumeCaptureRequest \<Rightarrow> string \<Rightarrow> volumeCaptureTarget \<Rightarrow>
   (snapshotTargetResult \<times> ctrlResult) res io" where
  "processSnapshotTarget E vcr retainerName target = do {
     r \<leftarrow> getPvc E (vt_namespace target, vt_name target);
     (case r of
        Inl e \<Rightarrow>
          if IsNotFound e then failTarget target ReasonNotFound
            (''PVC '' @ vt_namespace target @ ''/'' @ vt_name target @ '' not found'')
          else if IsForbidden e then failTarget target ReasonRBACDenied
            (''Access denied to PVC '' @ vt_namespace target @ ''/'' @ vt_name target)
          else ret (Inl (Errorf ''failed to get PVC'' [e]))
      | Inr pvc \<Rightarrow>
          if pvc_volumeName pvc = [] then failTarget target ReasonInternalError
            (''PVC '' @ m_namespace (pvc_meta pvc) @ ''/'' @ m_name (pvc_meta pvc) @ '' is not bound'')
          else do {
            rp \<leftarrow> getPv E (pvc_volumeName pvc);
            (case rp of
               Inl e \<Rightarrow>
                 if IsNotFound e then failTarget target ReasonNotFound
                   (''PV '' @ pvc_volumeName pvc @ '' not found'')
                 else ret (Inl (Errorf ''failed to get PV'' [e]))
             | Inr pv \<Rightarrow>
                 (case pv_csi pv of
                    None \<Rightarrow> failTarget target ReasonInternalError
                      (''PV '' @ m_name (pv_meta pv) @ '' does not have CSI volume handle'')
                  | Some csi \<Rightarrow>
                      if csi_volumeHandle csi = [] then failTarget target ReasonInternalError
                        (''PV '' @ m_name (pv_meta pv) @ '' does not have CSI volume handle'')
                      else captureBoundClaim E vcr retainerName target pvc csi)) }) }"

definition processSnapshotMode :: "env \<Rightarrow> volumeCaptureRequest \<Rightarrow> ctrlResult res io" where
  "processSnapshotMode E vcr =
     (case requireCaptureTarget vcr of
        Inl e \<Rightarrow> markFailed E vcr ReasonInternalError (errorText e)
      | Inr target0 \<Rightarrow>
          (let target = target0\<lparr>vt_namespace := m_namespace (vcr_meta vcr)\<rparr>;
               retainerName = objectKeeperNameForVCR (m_uid (vcr_meta vcr)) in
           thenE (ensureObjectKeeper E retainerName vcr) (\<lambda>(_, result).
             if RequeueAfter result > 0 then ret (Inr result)
             else thenE (processSnapshotTarget E vcr retainerName target) (\<lambda>(tr, targetResult).
               case str_terminal tr of
                 Some te \<Rightarrow> markFailed E vcr (ste_reason te) (ste_message te)
               | None \<Rightarrow>
                   if str_ready tr \<and> str_binding tr \<noteq> None
                   then thenE (finalizeVCR E
                                 (vcr\<lparr>vcr_status := (vcr_status vcr)\<lparr>vcs_data := str_binding tr\<rparr>\<rparr>)
                                 ConditionTrue ReasonCompleted ''target ready'')
                          (\<lambda>_. ret (Inr emptyResult))
                   else thenE (patchVCRSnapshotPending E vcr (str_pendingMessage tr))
                          (\<lambda>_. ret (Inr \<lparr>RequeueAfter =
                             (if RequeueAfter targetResult = 0 then 5 * Second
                              else RequeueAfter targetResult)\<rparr>))))))"


section \<open>Detach mode\<close>

definition detachPvNameKey :: string where
  "detachPvNameKey = ''storage-foundation.deckhouse.io/detach-pv-name''"

definition detachedKey :: string where
  "detachedKey = ''storage-foundation.deckhouse.io/detached''"

text \<open>
  Steps 2 to 5 of \<open>processDetachMode\<close>: the volume to detach, and the claim when it still
  exists. While the claim exists, the name of the volume is recorded on the request.
\<close>

definition detachRecordPV :: "env \<Rightarrow> volumeCaptureRequest \<Rightarrow> persistentVolume \<Rightarrow> string res io" where
  "detachRecordPV E vcr pv =
     (if index_str (m_annotations (vcr_meta vcr)) detachPvNameKey = m_name (pv_meta pv)
         \<and> m_annotations (vcr_meta vcr) \<noteq> []
      then ret (Inr [])
      else thenE (wrapE ''failed to get VCR for annotation patch'' (getVcr E (keyOf (vcr_meta vcr))))
        (\<lambda>current. wrapE ''failed to patch VCR annotation''
           (exec E (Patch False (OVcr current)
              (OVcr (current\<lparr>vcr_meta := (vcr_meta current)\<lparr>m_annotations :=
                 AList.update detachPvNameKey (m_name (pv_meta pv)) (m_annotations (vcr_meta current))\<rparr>\<rparr>))))))"

definition detachLoadPV ::
  "env \<Rightarrow> volumeCaptureRequest \<Rightarrow> volumeCaptureTarget \<Rightarrow>
   (persistentVolumeClaim option \<times> persistentVolume) step io" where
  "detachLoadPV E vcr target = do {
     let pvNameFromAnnotation = index_str (m_annotations (vcr_meta vcr)) detachPvNameKey;
     r \<leftarrow> getPvc E (vt_namespace target, vt_name target);
     (case r of
        Inl e \<Rightarrow>
          if IsNotFound e then
            (case (if pvNameFromAnnotation \<noteq> [] then Some pvNameFromAnnotation
                   else (case dataArtifactRef (vcr_status vcr) of
                           Some a \<Rightarrow> (if ar_kind a = ''PersistentVolume'' then Some (ar_name a) else None)
                         | None \<Rightarrow> None)) of
               None \<Rightarrow> ret (Return (Inl (Errorf
                 ''PVC deleted but cannot determine PV name (no annotation or status)'' [])))
             | Some pvName \<Rightarrow> do {
                 rp \<leftarrow> getPv E pvName;
                 ret (case rp of
                        Inl e \<Rightarrow> Return (Inl (Errorf (''failed to get PV '' @ pvName) [e]))
                      | Inr pv \<Rightarrow> Continue (None, pv)) })
          else if IsForbidden e then do {
            x \<leftarrow> markFailed E vcr ReasonRBACDenied
                   (''Access denied to PVC '' @ vt_namespace target @ ''/'' @ vt_name target);
            ret (Return x) }
          else ret (Return (Inl (Errorf ''failed to get PVC'' [e])))
      | Inr pvc \<Rightarrow>
          if pvc_volumeName pvc = [] then do {
            x \<leftarrow> markFailed E vcr ReasonInternalError
                   (''PVC '' @ m_namespace (pvc_meta pvc) @ ''/'' @ m_name (pvc_meta pvc) @ '' is not bound'');
            ret (Return x) }
          else do {
            rp \<leftarrow> getPv E (pvc_volumeName pvc);
            (case rp of
               Inl e \<Rightarrow>
                 if IsNotFound e then do {
                   x \<leftarrow> markFailed E vcr ReasonNotFound (''PV '' @ pvc_volumeName pvc @ '' not found'');
                   ret (Return x) }
                 else ret (Return (Inl (Errorf ''failed to get PV'' [e])))
             | Inr pv \<Rightarrow> do {
                 ra \<leftarrow> detachRecordPV E vcr pv;
                 ret (case ra of Inl e \<Rightarrow> Return (Inl e) | Inr _ \<Rightarrow> Continue (Some pvc, pv)) }) }) }"

text \<open>Step 7: the claim is deleted, and the function waits for the deletion to be over.\<close>

definition detachDeletePVC :: "env \<Rightarrow> persistentVolumeClaim option \<Rightarrow> unit step io" where
  "detachDeletePVC E claim =
     (case claim of
        None \<Rightarrow> ret (Continue ())
      | Some pvc \<Rightarrow> do {
          r \<leftarrow> getPvc E (keyOf (pvc_meta pvc));
          (case r of
             Inl e \<Rightarrow> ret (if IsNotFound e then Continue ()
                        else Return (Inl (Errorf ''failed to check PVC status'' [e])))
           | Inr pvcToDelete \<Rightarrow> do {
               d \<leftarrow> exec E (Delete KPersistentVolumeClaim (keyOf (pvc_meta pvcToDelete)));
               ret (case d of
                      Inl e \<Rightarrow> (if IsNotFound e then Continue ()
                               else Return (Inl (Errorf ''failed to delete PVC'' [e])))
                    | Inr _ \<Rightarrow> Return (Inr \<lparr>RequeueAfter = 5 * Second\<rparr>)) }) })"

text \<open>The patched volume: no claim, the annotation, and the keeper among its owners.\<close>

definition hasKeeperOwner :: "string \<Rightarrow> string \<Rightarrow> ownerref list \<Rightarrow> bool" where
  "hasKeeperOwner name uid owners =
     list_ex (\<lambda>ref. or_kind ref = KindObjectKeeper \<and> or_name ref = name \<and> or_uid ref = uid) owners"

definition detachedPV :: "string \<Rightarrow> string \<Rightarrow> persistentVolume \<Rightarrow> persistentVolume" where
  "detachedPV retainerName keeperUID pv =
     (let m = pv_meta pv;
          m1 = m\<lparr>m_annotations := AList.update detachedKey ''true'' (m_annotations m)\<rparr>;
          m2 = (if hasKeeperOwner retainerName keeperUID (m_owners m1) then m1
                else m1\<lparr>m_owners := m_owners m1 @ [keeperOwner retainerName keeperUID]\<rparr>) in
      pv\<lparr>pv_claimRef := None, pv_meta := m2\<rparr>)"

text \<open>
  Steps 8 to 10. A name or UID read from the object after the patch is the one it had
  before: both are immutable.
\<close>

definition detachPatchPV :: "env \<Rightarrow> volumeCaptureRequest \<Rightarrow> persistentVolume \<Rightarrow> ctrlResult res io" where
  "detachPatchPV E vcr pv =
     (let retainerName = retainerPVName (m_uid (vcr_meta vcr)) in
      thenE (ensureObjectKeeper E retainerName vcr) (\<lambda>(keeper, result).
        if RequeueAfter result > 0 then ret (Inr result)
        else (case keeper of
          None \<Rightarrow> ret (Inl (Errorf ''invalid memory address or nil pointer dereference'' []))
        | Some objectKeeper \<Rightarrow>
            thenE (wrapE ''failed to re-read PV before detach'' (getPv E (m_name (pv_meta pv)))) (\<lambda>base.
            let updatedPV = detachedPV retainerName (m_uid (ok_meta objectKeeper)) base in
            thenE (wrapE ''failed to detach PV and set ownerRef''
                     (exec E (Patch False (OPv base) (OPv updatedPV)))) (\<lambda>_.
            thenE (finalizeVCR E
                     (setPersistentVolumeDataRef vcr (m_name (pv_meta updatedPV)) (m_uid (pv_meta updatedPV)))
                     ConditionTrue ReasonCompleted
                     (''PV '' @ m_name (pv_meta updatedPV) @ '' detached'')) (\<lambda>_.
            ret (Inr emptyResult)))))))"

definition processDetachMode :: "env \<Rightarrow> volumeCaptureRequest \<Rightarrow> ctrlResult res io" where
  "processDetachMode E vcr =
     (case requireCaptureTarget vcr of
        Inl e \<Rightarrow> markFailed E vcr ReasonInternalError (errorText e)
      | Inr target0 \<Rightarrow>
          (let target = target0\<lparr>vt_namespace := m_namespace (vcr_meta vcr)\<rparr> in
           thenS (detachLoadPV E vcr target) (\<lambda>(claim, pv).
             if pv_claimRef pv = None
             then thenE (finalizeVCR E
                           (setPersistentVolumeDataRef vcr (m_name (pv_meta pv)) (m_uid (pv_meta pv)))
                           ConditionTrue ReasonCompleted
                           (''PV '' @ m_name (pv_meta pv) @ '' already detached''))
                    (\<lambda>_. ret (Inr emptyResult))
             else thenS (detachDeletePVC E claim) (\<lambda>_. detachPatchPV E vcr pv))))"

section \<open>Reconciliation and the artifact hook\<close>

definition ModeSnapshot :: string where
  "ModeSnapshot = ''Snapshot''"
definition ModeDetach :: string where
  "ModeDetach = ''Detach''"

definition vcrReconcile :: "env \<Rightarrow> nsname \<Rightarrow> ctrlResult res io" where
  "vcrReconcile E n = do {
     r \<leftarrow> getVcr E n;
     (case r of
        Inl e \<Rightarrow> ret (if IsNotFound e then Inr emptyResult else Inl e)
      | Inr vcr \<Rightarrow>
          if isVolumeCaptureTerminal E (vcs_conditions (vcr_status vcr)) then ret (Inr emptyResult)
          else if \<not> timePtr_IsZero (m_deletion (vcr_meta vcr)) then ret (Inr emptyResult)
          else if vcr_mode vcr = ModeSnapshot then processSnapshotMode E vcr
          else if vcr_mode vcr = ModeDetach then processDetachMode E vcr
          else thenE (finalizeVCR E vcr ConditionFalse ReasonInvalidMode
                        (''Unknown mode: '' @ vcr_mode vcr))
                 (\<lambda>_. ret (Inr emptyResult))) }"

definition deleteOwnerless :: "env \<Rightarrow> kind \<Rightarrow> objmeta \<Rightarrow> string res io" where
  "deleteOwnerless E k m =
     (if m_owners m \<noteq> [] then ret (Inr [])
      else do {
        d \<leftarrow> exec E (Delete k (keyOf m));
        ret (case d of Inl e \<Rightarrow> (if \<not> IsNotFound e then Inl e else Inr []) | Inr _ \<Rightarrow> Inr []) })"

definition cleanupVCRArtifacts :: "env \<Rightarrow> volumeCaptureRequest \<Rightarrow> string res io" where
  "cleanupVCRArtifacts E vcr =
     (case vcs_data (vcr_status vcr) of
        None \<Rightarrow> ret (Inr [])
      | Some d \<Rightarrow>
          (let artifact = vdb_artifactRef d in
           if ar_name artifact = [] then ret (Inr [])
           else if ar_kind artifact = ''VolumeSnapshotContent'' then do {
             r \<leftarrow> getVsc E (ar_name artifact);
             (case r of
                Inl e \<Rightarrow> ret (if IsNotFound e then Inr [] else Inl e)
              | Inr content \<Rightarrow> deleteOwnerless E KVolumeSnapshotContent (vsc_meta content)) }
           else if ar_kind artifact = ''PersistentVolume'' then do {
             r \<leftarrow> getPv E (ar_name artifact);
             (case r of
                Inl e \<Rightarrow> ret (if IsNotFound e then Inr [] else Inl e)
              | Inr pv \<Rightarrow> deleteOwnerless E KPersistentVolume (pv_meta pv)) }
           else ret (Inr [])))"


section \<open>What a reconciliation may ask for\<close>

text \<open>
  The evidence for a captured volume: the artifact is a VolumeSnapshotContent that was read
  as ready and without a CSI error, or a PersistentVolume that was read without a claim, or
  whose detaching patch the server accepted.
\<close>

definition captured :: "hist \<Rightarrow> artifactRef \<Rightarrow> bool" where
  "captured h a \<longleftrightarrow>
     (ar_kind a = ''VolumeSnapshotContent'' \<and>
        (\<exists>v. (Get KVolumeSnapshotContent ([], ar_name a), RObj (OVsc v)) \<in> set h \<and>
           ar_uid a = m_uid (vsc_meta v) \<and> vscReadyToUse v \<and> vscErrorMessage v = None)) \<or>
     (ar_kind a = ''PersistentVolume'' \<and>
        (\<exists>pv. ar_name a = m_name (pv_meta pv) \<and> ar_uid a = m_uid (pv_meta pv) \<and> pv_claimRef pv = None \<and>
           (readAs h (OPv pv) \<or> (\<exists>base. readAs h (OPv base) \<and> accepted h (Patch False (OPv base) (OPv pv))))))"

lemma captured_mono: "captured h a \<Longrightarrow> later h h' \<Longrightarrow> captured h' a"
  unfolding captured_def by (meson readAs_mono accepted_mono later_mem)

text \<open>
  The statuses the controller writes: the request is pending and has no completion time, or
  it is finished, has one, and is successful only with evidence for the artifact it names.
\<close>

definition goodStatus :: "env \<Rightarrow> hist \<Rightarrow> vcrStatus \<Rightarrow> bool" where
  "goodStatus E h st \<longleftrightarrow>
     (isVolumeCaptureTerminal E (vcs_conditions st) \<longleftrightarrow> vcs_completionTimestamp st \<noteq> None) \<and>
     (isConditionTrue E (vcs_conditions st) ConditionTypeReady \<longrightarrow>
        (\<exists>a. dataArtifactRef st = Some a \<and> captured h a))"

inductive vcrAllowed :: "env \<Rightarrow> volumeCaptureRequest \<Rightarrow> hist \<Rightarrow> req \<Rightarrow> bool"
  for E vcr h where
  reading: "\<not> isWrite r \<Longrightarrow> vcrAllowed E vcr h r"
| anchor: "name \<in> {objectKeeperNameForVCR (m_uid (vcr_meta vcr)), retainerPVName (m_uid (vcr_meta vcr))} \<Longrightarrow>
    vcrAllowed E vcr h (Create (OKeeper (followKeeper name KindVolumeCaptureRequest (vcr_meta vcr))))"
| content: "vcr_mode vcr = ModeSnapshot \<Longrightarrow> vcr_target vcr = Some target \<Longrightarrow>
    m_name (vsc_meta v) = snapshotVSCName E (m_uid (vcr_meta vcr)) (vt_uid target) \<Longrightarrow>
    (Get KVolumeSnapshotContent ([], m_name (vsc_meta v)), RErr NotFound) \<in> set h \<Longrightarrow>
    (Get KObjectKeeper ([], objectKeeperNameForVCR (m_uid (vcr_meta vcr))), RObj (OKeeper k)) \<in> set h \<Longrightarrow>
    m_uid (ok_meta k) \<noteq> [] \<Longrightarrow>
    m_owners (vsc_meta v) = [keeperOwner (objectKeeperNameForVCR (m_uid (vcr_meta vcr))) (m_uid (ok_meta k))] \<Longrightarrow>
    m_labels (vsc_meta v) = StampDeleteProtected E [] \<Longrightarrow>
    vcrAllowed E vcr h (Create (OVsc v))"
| annotate: "vcr_mode vcr = ModeDetach \<Longrightarrow> readAs h (OVcr cur) \<Longrightarrow>
    vcrAllowed E vcr h (Patch False (OVcr cur)
      (OVcr (cur\<lparr>vcr_meta := (vcr_meta cur)\<lparr>m_annotations := as\<rparr>\<rparr>)))"
| dropClaim: "vcr_mode vcr = ModeDetach \<Longrightarrow> readAs h (OPvc pvc) \<Longrightarrow>
    readAs h (OPv pv) \<Longrightarrow> pv_claimRef pv \<noteq> None \<Longrightarrow>
    vcrAllowed E vcr h (Delete KPersistentVolumeClaim (keyOf (pvc_meta pvc)))"
| detach: "vcr_mode vcr = ModeDetach \<Longrightarrow> readAs h (OPv base) \<Longrightarrow>
    (Get KObjectKeeper ([], retainerPVName (m_uid (vcr_meta vcr))), RObj (OKeeper k)) \<in> set h \<Longrightarrow>
    m_uid (ok_meta k) \<noteq> [] \<Longrightarrow>
    vcrAllowed E vcr h (Patch False (OPv base)
      (OPv (detachedPV (retainerPVName (m_uid (vcr_meta vcr))) (m_uid (ok_meta k)) base)))"
| report: "readAs h (OVcr cur) \<Longrightarrow> goodStatus E h st \<Longrightarrow>
    vcrAllowed E vcr h (StatusPatch (OVcr cur) (OVcr (cur\<lparr>vcr_status := st\<rparr>)))"

inductive_cases vcrAllowed_createVscE: "vcrAllowed E vcr h (Create (OVsc v))"
inductive_cases vcrAllowed_patchPvE: "vcrAllowed E vcr h (Patch lock (OPv b) (OPv c))"
inductive_cases vcrAllowed_statusE: "vcrAllowed E vcr h (StatusPatch (OVcr b) (OVcr c))"
inductive_cases vcrAllowed_deleteE: "vcrAllowed E vcr h (Delete k n)"

lemma vcrAllowed_Get [simp]: "vcrAllowed E vcr h (Get k n)"
  by (rule reading) simp

lemma finalizedStatus_terminal:
  assumes "env_ok E" "status = ConditionTrue \<or> status = ConditionFalse \<and> reason \<noteq> ReasonTargetsPending"
  shows "isVolumeCaptureTerminal E (vcs_conditions (finalizedStatus E st status reason msg t))"
    and "vcs_completionTimestamp (finalizedStatus E st status reason msg t) \<noteq> None"
    and "isConditionTrue E (vcs_conditions (finalizedStatus E st status reason msg t)) ConditionTypeReady
           \<longleftrightarrow> status = ConditionTrue"
    and "vcs_data (finalizedStatus E st status reason msg t) = vcs_data st"
  using assms
  by (auto simp: finalizedStatus_def Let_def isVolumeCaptureTerminal_setSingle isConditionTrue_setSingle)

lemma pendingStatus_good: "env_ok E \<Longrightarrow> goodStatus E h (pendingStatus E st msg t)"
  by (simp add: goodStatus_def pendingStatus_def isVolumeCaptureTerminal_setSingle isConditionTrue_setSingle)

lemma finalizeVCR_kept:
  assumes "env_ok E" "keeps (vcrAllowed E vcr) g h"
    and "status = ConditionTrue \<and> (\<exists>a. dataArtifactRef (vcr_status v) = Some a \<and> captured h a) \<or>
         status = ConditionFalse \<and> reason \<noteq> ReasonTargetsPending"
  shows "wp (finalizeVCR E v status reason msg) (\<lambda>_ h'. keeps (vcrAllowed E vcr) g h') h"
proof -
  have good: "goodStatus E h' (finalizedStatus E (vcr_status v) status reason msg t)"
    if "later h h'" for h' t
    using assms(3) finalizedStatus_terminal [OF assms(1), of status reason] captured_mono [OF _ that]
    by (fastforce simp: goodStatus_def dataArtifactRef_def)
  show ?thesis
    unfolding finalizeVCR_def
    by (auto simp: wp_rules Let_def good assms(2)
        intro!: wp_RetryOnConflict [OF assms(1), where I = "\<lambda>h'. keeps (vcrAllowed E vcr) g h' \<and> later h h'"]
          wp_getObj wp_exec report
        split: sum.splits)
qed

lemma markFailed_kept:
  assumes "env_ok E" "keeps (vcrAllowed E vcr) g h" "reason \<noteq> ReasonTargetsPending"
  shows "wp (markFailed E v reason msg) (\<lambda>_ h'. keeps (vcrAllowed E vcr) g h') h"
  unfolding markFailed_def
  by (auto simp: wp_rules assms intro!: wp_mono [OF finalizeVCR_kept [OF assms(1,2)]] split: sum.splits)

lemma patchVCRSnapshotPending_kept:
  assumes "env_ok E" "keeps (vcrAllowed E vcr) g h"
  shows "wp (patchVCRSnapshotPending E v msg) (\<lambda>_ h'. keeps (vcrAllowed E vcr) g h') h"
  unfolding patchVCRSnapshotPending_def
  by (auto simp: wp_rules Let_def assms pendingStatus_good
      intro!: wp_RetryOnConflict [OF assms(1), where I = "keeps (vcrAllowed E vcr) g"] wp_getObj wp_exec report
      split: sum.splits)

text \<open>A keeper that is handed out was read under its name and has a UID.\<close>

lemma ensureObjectKeeper_kept:
  assumes "keeps (vcrAllowed E vcr) g h"
    and "name \<in> {objectKeeperNameForVCR (m_uid (vcr_meta vcr)), retainerPVName (m_uid (vcr_meta vcr))}"
  shows "wp (ensureObjectKeeper E name vcr)
    (\<lambda>r h'. keeps (vcrAllowed E vcr) g h' \<and>
       (\<forall>k res. r = Inr (k, res) \<longrightarrow>
          (if RequeueAfter res > 0 then k = None
           else \<exists>kp. k = Some kp \<and> m_uid (ok_meta kp) \<noteq> [] \<and>
             (Get KObjectKeeper ([], name), RObj (OKeeper kp)) \<in> set h'))) h"
  unfolding ensureObjectKeeper_def using assms
  by (auto simp: wp_rules Second_def intro!: wp_getObj wp_exec anchor split: sum.splits option.splits)

lemma requeueIfObjectKeeperUIDEmpty_kept:
  assumes "keeps (vcrAllowed E vcr) g h"
  shows "wp (requeueIfObjectKeeperUIDEmpty E name)
    (\<lambda>r h'. keeps (vcrAllowed E vcr) g h' \<and> later h h' \<and>
       (\<forall>kp res. r = Inr (Some kp, res) \<longrightarrow> m_uid (ok_meta kp) \<noteq> [] \<and>
          (Get KObjectKeeper ([], name), RObj (OKeeper kp)) \<in> set h')) h"
  unfolding requeueIfObjectKeeperUIDEmpty_def using assms
  by (auto simp: wp_rules intro!: wp_getObj split: sum.splits)

text \<open>
  The result of one target: a failure never carries the pending reason, and a ready target
  is captured.
\<close>

definition goodResult :: "hist \<Rightarrow> (snapshotTargetResult \<times> ctrlResult) res \<Rightarrow> bool" where
  "goodResult h r \<longleftrightarrow>
     (\<forall>tr res. r = Inr (tr, res) \<longrightarrow>
        (\<forall>te. str_terminal tr = Some te \<longrightarrow> ste_reason te \<noteq> ReasonTargetsPending) \<and>
        (\<forall>b. str_binding tr = Some b \<longrightarrow> captured h (vdb_artifactRef b)))"

lemma goodResult_simps [simp]:
  "goodResult h (Inl e)"
  "goodResult h (Inr (targetPending m, res))"
  "goodResult h (Inr (targetTerminal t reason m, res)) \<longleftrightarrow> reason \<noteq> ReasonTargetsPending"
  by (simp_all add: goodResult_def targetPending_def targetTerminal_def)

lemma captureVSC_sel [simp]:
  "m_name (vsc_meta (captureVSC E name rn uid cls handle)) = name"
  "m_owners (vsc_meta (captureVSC E name rn uid cls handle)) = [keeperOwner rn uid]"
  "m_labels (vsc_meta (captureVSC E name rn uid cls handle)) = StampDeleteProtected E []"
  by (simp_all add: captureVSC_def)

lemma captureVSC_allowed:
  assumes "vcr_mode vcr = ModeSnapshot" "vcr_target vcr = Some target"
    and "name = snapshotVSCName E (m_uid (vcr_meta vcr)) (vt_uid target)"
    and "(Get KVolumeSnapshotContent ([], name), RErr NotFound) \<in> set h"
    and "(Get KObjectKeeper ([], rn), RObj (OKeeper k)) \<in> set h" "m_uid (ok_meta k) \<noteq> []"
    and "rn = objectKeeperNameForVCR (m_uid (vcr_meta vcr))"
  shows "vcrAllowed E vcr h (Create (OVsc (captureVSC E name rn (m_uid (ok_meta k)) cls handle)))"
  by (rule content [where target = target and k = k]) (use assms in simp_all)

lemma createTargetVSC_kept:
  assumes "vcr_mode vcr = ModeSnapshot" "vcr_target vcr = Some target"
    and "name = snapshotVSCName E (m_uid (vcr_meta vcr)) (vt_uid target)"
    and "keeps (vcrAllowed E vcr) g h" "(Get KVolumeSnapshotContent ([], name), RErr NotFound) \<in> set h"
  shows "wp (createTargetVSC E name (objectKeeperNameForVCR (m_uid (vcr_meta vcr))) cls handle)
    (\<lambda>r h'. keeps (vcrAllowed E vcr) g h' \<and> goodResult h' r) h"
  unfolding createTargetVSC_def
  by (auto simp: wp_rules intro!: wp_mono [OF requeueIfObjectKeeperUIDEmpty_kept [OF assms(4)]] wp_exec
        captureVSC_allowed [OF assms(1-3) later_mem [OF _ assms(5)]] split: sum.splits option.splits)

lemma observeTargetVSC_good:
  "(Get KVolumeSnapshotContent ([], name), RObj (OVsc v)) \<in> set h \<Longrightarrow>
     goodResult h (Inr (observeTargetVSC E name pvc v))"
  by (auto simp: observeTargetVSC_def goodResult_def targetPending_def targetReady_def captured_def
      volumeSnapshotBinding_def Let_def split: option.splits if_splits)

lemma captureWithClass_kept:
  assumes "vcr_mode vcr = ModeSnapshot" "vcr_target vcr = Some target0"
    and "vt_uid target = vt_uid target0" "keeps (vcrAllowed E vcr) g h"
  shows "wp (captureWithClass E vcr (objectKeeperNameForVCR (m_uid (vcr_meta vcr))) target pvc csi sc cn)
    (\<lambda>r h'. keeps (vcrAllowed E vcr) g h' \<and> goodResult h' r) h"
  unfolding captureWithClass_def
  by (auto simp: wp_rules assms(3,4) Let_def observeTargetVSC_good failTarget_def
      intro!: wp_getObj createTargetVSC_kept [OF assms(1,2)] split: sum.splits)

lemma captureBoundClaim_kept:
  assumes "vcr_mode vcr = ModeSnapshot" "vcr_target vcr = Some target0"
    and "vt_uid target = vt_uid target0" "keeps (vcrAllowed E vcr) g h"
  shows "wp (captureBoundClaim E vcr (objectKeeperNameForVCR (m_uid (vcr_meta vcr))) target pvc csi)
    (\<lambda>r h'. keeps (vcrAllowed E vcr) g h' \<and> goodResult h' r) h"
  unfolding captureBoundClaim_def
  by (auto simp: wp_rules assms(4) Let_def failTarget_def
      intro!: wp_getObj captureWithClass_kept [OF assms(1-3)] split: sum.splits option.splits)

lemma processSnapshotTarget_kept:
  assumes "vcr_mode vcr = ModeSnapshot" "vcr_target vcr = Some target0"
    and "vt_uid target = vt_uid target0" "keeps (vcrAllowed E vcr) g h"
  shows "wp (processSnapshotTarget E vcr (objectKeeperNameForVCR (m_uid (vcr_meta vcr))) target)
    (\<lambda>r h'. keeps (vcrAllowed E vcr) g h' \<and> goodResult h' r) h"
  unfolding processSnapshotTarget_def
  by (auto simp: wp_rules assms(4) Let_def failTarget_def
      intro!: wp_getObj captureBoundClaim_kept [OF assms(1-3)] split: sum.splits option.splits)

lemma processSnapshotMode_kept:
  assumes "env_ok E" "vcr_mode vcr = ModeSnapshot" "keeps (vcrAllowed E vcr) g h"
  shows "wp (processSnapshotMode E vcr) (\<lambda>_ h'. keeps (vcrAllowed E vcr) g h') h"
proof (cases "vcr_target vcr")
  case None
  then show ?thesis
    using assms by (auto simp: processSnapshotMode_def requireCaptureTarget_def intro!: markFailed_kept)
next
  case (Some target0)
  show ?thesis
    unfolding processSnapshotMode_def
    by (auto simp: wp_rules requireCaptureTarget_def Some Let_def goodResult_def dataArtifactRef_def
        intro!: wp_mono [OF ensureObjectKeeper_kept [OF assms(3)]]
          wp_mono [OF processSnapshotTarget_kept [OF assms(2) Some, where g = g]]
          markFailed_kept [OF assms(1)] wp_mono [OF finalizeVCR_kept [OF assms(1)]]
          wp_mono [OF patchVCRSnapshotPending_kept [OF assms(1)]]
        split: sum.splits option.splits)
qed


lemma detachedPV_sel [simp]:
  "pv_claimRef (detachedPV rn uid pv) = None"
  "m_name (pv_meta (detachedPV rn uid pv)) = m_name (pv_meta pv)"
  "m_uid (pv_meta (detachedPV rn uid pv)) = m_uid (pv_meta pv)"
  by (simp_all add: detachedPV_def Let_def)

lemma detachedPV_owners:
  "hasKeeperOwner rn uid (m_owners (pv_meta (detachedPV rn uid pv)))"
  "\<exists>os. m_owners (pv_meta (detachedPV rn uid pv)) = m_owners (pv_meta pv) @ os \<and> set os \<subseteq> {keeperOwner rn uid}"
  by (auto simp: detachedPV_def Let_def hasKeeperOwner_def keeperOwner_def)

lemma dataArtifactRef_setPV [simp]:
  "dataArtifactRef (vcr_status (setPersistentVolumeDataRef vcr n u)) =
     Some \<lparr>ar_apiVersion = ''v1'', ar_kind = ''PersistentVolume'', ar_name = n, ar_uid = u\<rparr>"
  by (simp add: dataArtifactRef_def setPersistentVolumeDataRef_def)

lemma captured_detached:
  assumes "readAs h (OPv base)" "accepted h (Patch False (OPv base) (OPv (detachedPV rn uid base)))"
    and "ar_kind a = ''PersistentVolume''" "ar_name a = m_name (pv_meta base)" "ar_uid a = m_uid (pv_meta base)"
  shows "captured h a"
proof -
  let ?pv = "detachedPV rn uid base"
  have "ar_name a = m_name (pv_meta ?pv) \<and> ar_uid a = m_uid (pv_meta ?pv) \<and> pv_claimRef ?pv = None"
    using assms by simp
  with assms show ?thesis unfolding captured_def by blast
qed

lemma detachRecordPV_kept:
  assumes "vcr_mode vcr = ModeDetach" "keeps (vcrAllowed E vcr) g h"
  shows "wp (detachRecordPV E vcr pv) (\<lambda>_ h'. keeps (vcrAllowed E vcr) g h' \<and> later h h') h"
  unfolding detachRecordPV_def
  by (auto simp: wp_rules assms intro!: wp_getObj wp_exec annotate split: sum.splits)

lemma detachLoadPV_kept:
  assumes "env_ok E" "vcr_mode vcr = ModeDetach" "keeps (vcrAllowed E vcr) g h"
  shows "wp (detachLoadPV E vcr target)
    (\<lambda>r h'. keeps (vcrAllowed E vcr) g h' \<and>
       (\<forall>c pv. r = Continue (c, pv) \<longrightarrow> readAs h' (OPv pv))) h"
  unfolding detachLoadPV_def using assms(3)
  by (auto simp: wp_rules Let_def
      intro!: wp_getObj wp_mono [OF markFailed_kept [OF assms(1), where g = g and vcr = vcr]]
        wp_mono [OF detachRecordPV_kept [OF assms(2), where g = g]]
      split: sum.splits option.splits) (rule readAsI, assumption)+

lemma detachDeletePVC_kept:
  assumes "vcr_mode vcr = ModeDetach" "keeps (vcrAllowed E vcr) g h"
    "readAs h (OPv pv)" "pv_claimRef pv \<noteq> None"
  shows "wp (detachDeletePVC E claim) (\<lambda>_ h'. keeps (vcrAllowed E vcr) g h' \<and> later h h') h"
  unfolding detachDeletePVC_def using assms
  by (auto simp: wp_rules intro!: wp_getObj wp_exec dropClaim [where pv = pv]
      split: sum.splits option.splits)

lemma detachPatchPV_kept:
  assumes "env_ok E" "vcr_mode vcr = ModeDetach" "keeps (vcrAllowed E vcr) g h"
  shows "wp (detachPatchPV E vcr pv) (\<lambda>_ h'. keeps (vcrAllowed E vcr) g h') h"
  unfolding detachPatchPV_def
  by (auto simp: wp_rules Let_def assms(2)
      intro!: wp_mono [OF ensureObjectKeeper_kept [OF assms(3)]] wp_getObj wp_exec
        detach captured_detached wp_mono [OF finalizeVCR_kept [OF assms(1), where g = g]]
      split: sum.splits option.splits)

lemma processDetachMode_kept:
  assumes "env_ok E" "vcr_mode vcr = ModeDetach" "keeps (vcrAllowed E vcr) g h"
  shows "wp (processDetachMode E vcr) (\<lambda>_ h'. keeps (vcrAllowed E vcr) g h') h"
  unfolding processDetachMode_def
  by (auto simp: wp_rules Let_def captured_def assms(3)
      intro!: markFailed_kept [OF assms(1)] wp_mono [OF detachLoadPV_kept [OF assms]]
        wp_mono [OF finalizeVCR_kept [OF assms(1), where g = g]]
        wp_mono [OF detachDeletePVC_kept [OF assms(2), where g = g]]
        detachPatchPV_kept [OF assms(1,2)]
      intro: readAs_mono split: sum.splits step.splits)

lemma vcrReconcile_from:
  assumes "api E [] (Get KVolumeCaptureRequest n) = RObj (OVcr vcr)"
  shows "run_state (vcrReconcile E n) [] =
    run_state
      (if isVolumeCaptureTerminal E (vcs_conditions (vcr_status vcr)) then ret (Inr emptyResult)
       else if \<not> timePtr_IsZero (m_deletion (vcr_meta vcr)) then ret (Inr emptyResult)
       else if vcr_mode vcr = ModeSnapshot then processSnapshotMode E vcr
       else if vcr_mode vcr = ModeDetach then processDetachMode E vcr
       else thenE (finalizeVCR E vcr ConditionFalse ReasonInvalidMode (''Unknown mode: '' @ vcr_mode vcr))
              (\<lambda>_. ret (Inr emptyResult)))
      [(Get KVolumeCaptureRequest n, RObj (OVcr vcr))]"
  using assms
  by (simp add: vcrReconcile_def getObj_def call_def Let_def logged_def)

lemma vcrReconcile_kept:
  assumes "env_ok E" "api E [] (Get KVolumeCaptureRequest n) = RObj (OVcr vcr)"
  shows "obeys (vcrAllowed E vcr) (snd (run_state (vcrReconcile E n) []))"
proof -
  let ?h = "[(Get KVolumeCaptureRequest n, RObj (OVcr vcr))]"
  have h: "keeps (vcrAllowed E vcr) ?h ?h" by (simp add: obeys_def)
  have "wp (if isVolumeCaptureTerminal E (vcs_conditions (vcr_status vcr)) then ret (Inr emptyResult)
       else if \<not> timePtr_IsZero (m_deletion (vcr_meta vcr)) then ret (Inr emptyResult)
       else if vcr_mode vcr = ModeSnapshot then processSnapshotMode E vcr
       else if vcr_mode vcr = ModeDetach then processDetachMode E vcr
       else thenE (finalizeVCR E vcr ConditionFalse ReasonInvalidMode (''Unknown mode: '' @ vcr_mode vcr))
              (\<lambda>_. ret (Inr emptyResult))) (\<lambda>_ h'. keeps (vcrAllowed E vcr) ?h h') ?h"
    using h
    by (auto simp: wp_rules simp del: keeps_refl
        intro!: processSnapshotMode_kept processDetachMode_kept assms(1)
          wp_mono [OF finalizeVCR_kept [OF assms(1) h]] split: sum.splits)
  then show ?thesis
    by (simp add: wp_run vcrReconcile_from [OF assms(2)] keeps_obeys)
qed

text \<open>The garbage collection hook deletes only the artifact of the request, and only ownerless.\<close>

inductive orphanAllowed :: "volumeCaptureRequest \<Rightarrow> hist \<Rightarrow> req \<Rightarrow> bool" for vcr h where
  orphan_read: "\<not> isWrite r \<Longrightarrow> orphanAllowed vcr h r"
| orphan_vsc: "vcs_data (vcr_status vcr) = Some d \<Longrightarrow>
    (Get KVolumeSnapshotContent ([], ar_name (vdb_artifactRef d)), RObj (OVsc v)) \<in> set h \<Longrightarrow>
    m_owners (vsc_meta v) = [] \<Longrightarrow>
    orphanAllowed vcr h (Delete KVolumeSnapshotContent (keyOf (vsc_meta v)))"
| orphan_pv: "vcs_data (vcr_status vcr) = Some d \<Longrightarrow>
    (Get KPersistentVolume ([], ar_name (vdb_artifactRef d)), RObj (OPv pv)) \<in> set h \<Longrightarrow>
    m_owners (pv_meta pv) = [] \<Longrightarrow>
    orphanAllowed vcr h (Delete KPersistentVolume (keyOf (pv_meta pv)))"

lemma orphanAllowed_Get [simp]: "orphanAllowed vcr h (Get k n)"
  by (rule orphan_read) simp

inductive_cases orphanAllowed_deleteE: "orphanAllowed vcr h (Delete k n)"

lemma cleanupVCRArtifacts_kept:
  assumes "keeps R g h" "\<And>h' r. orphanAllowed vcr h' r \<Longrightarrow> R h' r"
  shows "wp (cleanupVCRArtifacts E vcr) (\<lambda>_ h'. keeps R g h') h"
proof (cases "vcs_data (vcr_status vcr)")
  case (Some d)
  with assms(1) show ?thesis
    unfolding cleanupVCRArtifacts_def deleteOwnerless_def
    by (auto simp: wp_rules Let_def intro!: wp_getObj wp_exec assms(2) orphan_vsc [OF Some] orphan_pv [OF Some]
        split: sum.splits)
qed (simp add: cleanupVCRArtifacts_def wp_rules assms(1))

end
