(* ===== verification/Vrr.thy ===== *)
theory Vrr
  imports Vcr
begin

text \<open>
  The VolumeRestoreRequest controller, \<open>volumerestorerequest_controller.go\<close>. A VRR names a
  VolumeSnapshotContent or a PersistentVolume to restore from; the claim is created by the
  external provisioner, and the controller anchors the request with an ObjectKeeper, watches
  the claim and reports. The module ends with the properties of the controller.
\<close>

section \<open>Status writes\<close>

definition finalizedVrrStatus :: "env \<Rightarrow> vrrStatus \<Rightarrow> cstatus \<Rightarrow> string \<Rightarrow> string \<Rightarrow> time \<Rightarrow> vrrStatus" where
  "finalizedVrrStatus E st status reason msg t =
     (let st1 = (if vrs_completionTimestamp st = None
                 then st\<lparr>vrs_completionTimestamp := Some t\<rparr> else st) in
      st1\<lparr>vrs_conditions := setSingleCondition E (vrs_conditions st1) (readyCondition status reason msg t)\<rparr>)"

definition finalizeVRR ::
  "env \<Rightarrow> volumeRestoreRequest \<Rightarrow> cstatus \<Rightarrow> string \<Rightarrow> string \<Rightarrow> string res io" where
  "finalizeVRR E vrr status reason msg = do {
     t \<leftarrow> now E;
     let st = finalizedVrrStatus E (vrr_status vrr) status reason msg t;
     r \<leftarrow> RetryOnConflict E
            (thenE (getVrr E (keyOf (vrr_meta vrr)))
               (\<lambda>current. exec E (StatusPatch (OVrr current) (OVrr (current\<lparr>vrr_status := st\<rparr>)))));
     ret (case r of
            Inl e \<Rightarrow> (if IsNotFound e then Inr [] else Inl (Errorf ''failed to update VRR status'' [e]))
          | Inr _ \<Rightarrow> Inr []) }"

definition vrrMarkFailed :: "env \<Rightarrow> volumeRestoreRequest \<Rightarrow> string \<Rightarrow> string \<Rightarrow> ctrlResult res io" where
  "vrrMarkFailed E vrr reason msg =
     thenE (finalizeVRR E vrr ConditionFalse reason msg) (\<lambda>_. ret (Inr emptyResult))"

section \<open>The ownership anchor\<close>

definition objectKeeperNameForVRR :: "string \<Rightarrow> string" where
  "objectKeeperNameForVRR uid = ''retainer-pvc-'' @ uid"

definition vrrEnsureObjectKeeper :: "env \<Rightarrow> volumeRestoreRequest \<Rightarrow> ctrlResult res io" where
  "vrrEnsureObjectKeeper E vrr = do {
     let retainerName = objectKeeperNameForVRR (m_uid (vrr_meta vrr));
     r \<leftarrow> getKeeper E retainerName;
     (case r of
        Inl e \<Rightarrow>
          if IsNotFound e
          then thenE (wrapE ''failed to create ObjectKeeper''
                 (exec E (Create (OKeeper (followKeeper retainerName KindVolumeRestoreRequest (vrr_meta vrr))))))
               (\<lambda>_. thenE (wrapE ''failed to re-read ObjectKeeper after Create'' (getKeeper E retainerName))
               (\<lambda>k. if m_uid (ok_meta k) = [] then ret (Inr \<lparr>RequeueAfter = Second\<rparr>)
                    else ret (Inr emptyResult)))
          else ret (Inl (Errorf ''failed to get ObjectKeeper'' [e]))
      | Inr k \<Rightarrow>
          (case ok_followObjectRef k of
             None \<Rightarrow> ret (Inl (Errorf ''ObjectKeeper has no FollowObjectRef'' []))
           | Some f \<Rightarrow>
               if ref_uid f \<noteq> m_uid (vrr_meta vrr)
                 then ret (Inl (Errorf ''ObjectKeeper belongs to another VRR'' []))
               else if ok_mode k \<noteq> ''FollowObject''
                 then ret (Inl (Errorf ''ObjectKeeper has invalid mode'' []))
               else if m_uid (ok_meta k) = []
                 then ret (Inr \<lparr>RequeueAfter = Second\<rparr>)
               else if ref_kind f \<noteq> KindVolumeRestoreRequest
                 then ret (Inl (Errorf ''ObjectKeeper FollowObjectRef.Kind mismatch'' []))
               else if ref_namespace f \<noteq> m_namespace (vrr_meta vrr)
                 then ret (Inl (Errorf ''ObjectKeeper FollowObjectRef.Namespace mismatch'' []))
               else if ref_name f \<noteq> m_name (vrr_meta vrr)
                 then ret (Inl (Errorf ''ObjectKeeper FollowObjectRef.Name mismatch'' []))
               else ret (Inr emptyResult))) }"

section \<open>Restoring\<close>

definition restorePollInterval :: duration where
  "restorePollInterval = 5 * Second"

text \<open>
  Steps 2 to 5, which both sources share: the keeper, the claim, its binding, the report.
\<close>

definition observeRestore :: "env \<Rightarrow> volumeRestoreRequest \<Rightarrow> string \<Rightarrow> ctrlResult res io" where
  "observeRestore E vrr suffix =
     thenE (vrrEnsureObjectKeeper E vrr) (\<lambda>result.
       if RequeueAfter result > 0 then ret (Inr result)
       else do {
         let key = (m_namespace (vrr_meta vrr), tmpl_name (vrr_pvcTemplate vrr));
         r \<leftarrow> getPvc E key;
         (case r of
            Inl e \<Rightarrow>
              if IsNotFound e then ret (Inr \<lparr>RequeueAfter = restorePollInterval\<rparr>)
              else ret (Inl (Errorf ''failed to check target PVC'' [e]))
          | Inr targetPVC \<Rightarrow>
              if pvc_phase targetPVC \<noteq> ''Bound'' then ret (Inr \<lparr>RequeueAfter = restorePollInterval\<rparr>)
              else thenE (finalizeVRR E
                     (vrr\<lparr>vrr_status := (vrr_status vrr)\<lparr>vrs_pvcRef :=
                        Some \<lparr>ref_apiVersion = [], ref_kind = ''PersistentVolumeClaim'',
                              ref_name = tmpl_name (vrr_pvcTemplate vrr),
                              ref_namespace = m_namespace (vrr_meta vrr),
                              ref_uid = m_uid (pvc_meta targetPVC), ref_resourceVersion = []\<rparr>\<rparr>\<rparr>)
                     ConditionTrue ReasonCompleted
                     (''PVC '' @ m_namespace (vrr_meta vrr) @ ''/'' @ tmpl_name (vrr_pvcTemplate vrr) @
                      '' restored successfully'' @ suffix))
                   (\<lambda>_. ret (Inr emptyResult))) })"

definition processVolumeSnapshotContentRestore :: "env \<Rightarrow> volumeRestoreRequest \<Rightarrow> ctrlResult res io" where
  "processVolumeSnapshotContentRestore E vrr = do {
     r \<leftarrow> getVsc E (ref_name (vrr_sourceRef vrr));
     (case r of
        Inl e \<Rightarrow>
          if IsNotFound e then vrrMarkFailed E vrr ReasonNotFound
            (''CSI VolumeSnapshotContent '' @ ref_name (vrr_sourceRef vrr) @ '' not found'')
          else ret (Inl (Errorf ''failed to get CSI VolumeSnapshotContent'' [e]))
      | Inr vsc \<Rightarrow>
          if \<not> vscReadyToUse vsc then
            (case Option.bind (vsc_status vsc) (\<lambda>st. Option.bind (vscs_error st) ve_message) of
               Some errorMsg \<Rightarrow> vrrMarkFailed E vrr ReasonInternalError
                 (''CSI VolumeSnapshotContent has error: '' @ errorMsg)
             | None \<Rightarrow> ret (Inr \<lparr>RequeueAfter = restorePollInterval\<rparr>))
          else observeRestore E vrr []) }"

definition processPersistentVolumeRestore :: "env \<Rightarrow> volumeRestoreRequest \<Rightarrow> ctrlResult res io" where
  "processPersistentVolumeRestore E vrr = do {
     r \<leftarrow> getPv E (ref_name (vrr_sourceRef vrr));
     (case r of
        Inl e \<Rightarrow>
          if IsNotFound e then vrrMarkFailed E vrr ReasonNotFound
            (''PersistentVolume '' @ ref_name (vrr_sourceRef vrr) @ '' not found'')
          else ret (Inl (Errorf ''failed to get PersistentVolume'' [e]))
      | Inr pv \<Rightarrow> observeRestore E vrr '' from PV'') }"

definition vrrReconcile :: "env \<Rightarrow> nsname \<Rightarrow> ctrlResult res io" where
  "vrrReconcile E n = do {
     r \<leftarrow> getVrr E n;
     (case r of
        Inl e \<Rightarrow> ret (if IsNotFound e then Inr emptyResult else Inl e)
      | Inr vrr \<Rightarrow>
          if isTerminal E (vrs_conditions (vrr_status vrr)) ConditionTypeReady then ret (Inr emptyResult)
          else if \<not> timePtr_IsZero (m_deletion (vrr_meta vrr)) then ret (Inr emptyResult)
          else if ref_kind (vrr_sourceRef vrr) = ''VolumeSnapshotContent''
            then processVolumeSnapshotContentRestore E vrr
          else if ref_kind (vrr_sourceRef vrr) = ''PersistentVolume''
            then processPersistentVolumeRestore E vrr
          else vrrMarkFailed E vrr ReasonInvalidSource
                 (''Unsupported source kind: '' @ ref_kind (vrr_sourceRef vrr))) }"

section \<open>What a reconciliation may ask for\<close>

text \<open>
  The evidence for a restored volume: the source was read and is usable, the request's
  keeper was read with a UID, and the claim was read as bound.
\<close>

definition sourceUsable :: "hist \<Rightarrow> volumeRestoreRequest \<Rightarrow> bool" where
  "sourceUsable h vrr \<longleftrightarrow>
     (ref_kind (vrr_sourceRef vrr) = ''VolumeSnapshotContent'' \<and>
        (\<exists>v. (Get KVolumeSnapshotContent ([], ref_name (vrr_sourceRef vrr)), RObj (OVsc v)) \<in> set h \<and>
           vscReadyToUse v)) \<or>
     (ref_kind (vrr_sourceRef vrr) = ''PersistentVolume'' \<and>
        (\<exists>v. (Get KPersistentVolume ([], ref_name (vrr_sourceRef vrr)), RObj (OPv v)) \<in> set h))"

definition anchored :: "hist \<Rightarrow> volumeRestoreRequest \<Rightarrow> bool" where
  "anchored h vrr \<longleftrightarrow>
     (\<exists>k. (Get KObjectKeeper ([], objectKeeperNameForVRR (m_uid (vrr_meta vrr))), RObj (OKeeper k)) \<in> set h \<and>
        m_uid (ok_meta k) \<noteq> [])"

definition restoredClaim :: "hist \<Rightarrow> volumeRestoreRequest \<Rightarrow> objref \<Rightarrow> bool" where
  "restoredClaim h vrr ref \<longleftrightarrow>
     (\<exists>pvc. (Get KPersistentVolumeClaim (m_namespace (vrr_meta vrr), tmpl_name (vrr_pvcTemplate vrr)),
             RObj (OPvc pvc)) \<in> set h \<and>
        pvc_phase pvc = ''Bound'' \<and> ref_uid ref = m_uid (pvc_meta pvc) \<and>
        ref_name ref = tmpl_name (vrr_pvcTemplate vrr) \<and> ref_namespace ref = m_namespace (vrr_meta vrr))"

lemma restore_evidence_mono:
  "sourceUsable h vrr \<Longrightarrow> later h h' \<Longrightarrow> sourceUsable h' vrr"
  "anchored h vrr \<Longrightarrow> later h h' \<Longrightarrow> anchored h' vrr"
  "restoredClaim h vrr ref \<Longrightarrow> later h h' \<Longrightarrow> restoredClaim h' vrr ref"
  unfolding sourceUsable_def anchored_def restoredClaim_def by (meson later_mem)+

lemma sourceUsable_vscI:
  "ref_kind (vrr_sourceRef vrr) = ''VolumeSnapshotContent'' \<Longrightarrow> vscReadyToUse v \<Longrightarrow>
     sourceUsable (logged h (Get KVolumeSnapshotContent ([], ref_name (vrr_sourceRef vrr))) (RObj (OVsc v))) vrr"
  unfolding sourceUsable_def by auto

lemma sourceUsable_pvI:
  "ref_kind (vrr_sourceRef vrr) = ''PersistentVolume'' \<Longrightarrow>
     sourceUsable (logged h (Get KPersistentVolume ([], ref_name (vrr_sourceRef vrr))) (RObj (OPv v))) vrr"
  unfolding sourceUsable_def by auto

lemma restoredClaimI:
  "pvc_phase pvc = ''Bound'' \<Longrightarrow>
     restoredClaim (logged h (Get KPersistentVolumeClaim (m_namespace (vrr_meta vrr), tmpl_name (vrr_pvcTemplate vrr)))
       (RObj (OPvc pvc))) vrr \<lparr>ref_apiVersion = ap, ref_kind = kd, ref_name = tmpl_name (vrr_pvcTemplate vrr),
         ref_namespace = m_namespace (vrr_meta vrr), ref_uid = m_uid (pvc_meta pvc), ref_resourceVersion = []\<rparr>"
  unfolding restoredClaim_def by auto

lemma anchored_logged [simp]: "anchored h vrr \<Longrightarrow> anchored (logged h r a) vrr"
  unfolding anchored_def by auto

lemma anchoredI [simp]:
  "m_uid (ok_meta k) \<noteq> [] \<Longrightarrow>
     anchored (logged h (Get KObjectKeeper ([], objectKeeperNameForVRR (m_uid (vrr_meta vrr)))) (RObj (OKeeper k))) vrr"
  unfolding anchored_def by auto

definition restored :: "hist \<Rightarrow> volumeRestoreRequest \<Rightarrow> vrrStatus \<Rightarrow> bool" where
  "restored h vrr st \<longleftrightarrow>
     (\<exists>ref. vrs_pvcRef st = Some ref \<and> sourceUsable h vrr \<and> anchored h vrr \<and> restoredClaim h vrr ref)"

definition goodVrrStatus :: "env \<Rightarrow> volumeRestoreRequest \<Rightarrow> hist \<Rightarrow> vrrStatus \<Rightarrow> bool" where
  "goodVrrStatus E vrr h st \<longleftrightarrow>
     isTerminal E (vrs_conditions st) ConditionTypeReady \<and> vrs_completionTimestamp st \<noteq> None \<and>
     (isConditionTrue E (vrs_conditions st) ConditionTypeReady \<longrightarrow> restored h vrr st)"

inductive vrrAllowed :: "env \<Rightarrow> volumeRestoreRequest \<Rightarrow> hist \<Rightarrow> req \<Rightarrow> bool"
  for E vrr h where
  vrr_reading: "\<not> isWrite r \<Longrightarrow> vrrAllowed E vrr h r"
| vrr_anchor: "name = objectKeeperNameForVRR (m_uid (vrr_meta vrr)) \<Longrightarrow>
    vrrAllowed E vrr h (Create (OKeeper (followKeeper name KindVolumeRestoreRequest (vrr_meta vrr))))"
| vrr_report: "readAs h (OVrr cur) \<Longrightarrow> goodVrrStatus E vrr h st \<Longrightarrow>
    vrrAllowed E vrr h (StatusPatch (OVrr cur) (OVrr (cur\<lparr>vrr_status := st\<rparr>)))"

inductive_cases vrrAllowed_statusE: "vrrAllowed E vrr h (StatusPatch b c)"
inductive_cases vrrAllowed_createE: "vrrAllowed E vrr h (Create x)"
inductive_simps vrrAllowed_simps:
  "vrrAllowed E vrr h (Create x)" "vrrAllowed E vrr h (Update x)" "vrrAllowed E vrr h (StatusUpdate x)"
  "vrrAllowed E vrr h (Patch l x y)" "vrrAllowed E vrr h (Delete k n)"

lemma vrrAllowed_Get [simp]: "vrrAllowed E vrr h (Get k n)"
  by (rule vrr_reading) simp

lemma finalizedVrr_sel:
  assumes "env_ok E" "status \<noteq> ConditionUnknown"
  shows "isTerminal E (vrs_conditions (finalizedVrrStatus E st status reason msg t)) ConditionTypeReady"
    and "vrs_completionTimestamp (finalizedVrrStatus E st status reason msg t) \<noteq> None"
    and "isConditionTrue E (vrs_conditions (finalizedVrrStatus E st status reason msg t)) ConditionTypeReady
           \<longleftrightarrow> status = ConditionTrue"
    and "vrs_pvcRef (finalizedVrrStatus E st status reason msg t) = vrs_pvcRef st"
  using assms
  by (auto simp: finalizedVrrStatus_def Let_def isTerminal_setSingle isConditionTrue_setSingle)

lemma finalizeVRR_kept:
  assumes "env_ok E" "keeps (vrrAllowed E vrr) g h"
    and "status = ConditionTrue \<and> restored h vrr (vrr_status v) \<or> status = ConditionFalse"
  shows "wp (finalizeVRR E v status reason msg) (\<lambda>_ h'. keeps (vrrAllowed E vrr) g h') h"
proof -
  have good: "goodVrrStatus E vrr h' (finalizedVrrStatus E (vrr_status v) status reason msg t)"
    if "later h h'" for h' t
    using assms(3) finalizedVrr_sel [OF assms(1), of status] restore_evidence_mono [OF _ that]
    by (auto simp: goodVrrStatus_def restored_def)
  show ?thesis
    unfolding finalizeVRR_def
    by (auto simp: wp_rules Let_def good assms(2)
        intro!: wp_RetryOnConflict [OF assms(1), where I = "\<lambda>h'. keeps (vrrAllowed E vrr) g h' \<and> later h h'"]
          wp_getObj wp_exec vrr_report
        split: sum.splits)
qed

lemma vrrMarkFailed_kept:
  assumes "env_ok E" "keeps (vrrAllowed E vrr) g h"
  shows "wp (vrrMarkFailed E v reason msg) (\<lambda>_ h'. keeps (vrrAllowed E vrr) g h') h"
  unfolding vrrMarkFailed_def
  by (auto simp: wp_rules assms intro!: wp_mono [OF finalizeVRR_kept [OF assms(1,2)]] split: sum.splits)

lemma vrrEnsureObjectKeeper_kept:
  assumes "keeps (vrrAllowed E vrr) g h"
  shows "wp (vrrEnsureObjectKeeper E vrr)
    (\<lambda>r h'. keeps (vrrAllowed E vrr) g h' \<and> later h h' \<and>
       (\<forall>res. r = Inr res \<longrightarrow> RequeueAfter res > 0 \<or> anchored h' vrr)) h"
  unfolding vrrEnsureObjectKeeper_def using assms
  by (auto simp: wp_rules Second_def Let_def intro!: wp_getObj wp_exec vrr_anchor
      split: sum.splits option.splits)

lemma observeRestore_kept:
  assumes "env_ok E" "keeps (vrrAllowed E vrr) g h" "sourceUsable h vrr"
  shows "wp (observeRestore E vrr suffix) (\<lambda>_ h'. keeps (vrrAllowed E vrr) g h') h"
proof -
  have src: "sourceUsable h' vrr" if "later h h'" for h'
    using restore_evidence_mono(1) [OF assms(3) that] .
  show ?thesis
    unfolding observeRestore_def
    by (auto simp: wp_rules Let_def restored_def restoredClaimI src
        intro!: wp_mono [OF vrrEnsureObjectKeeper_kept [OF assms(2)]] wp_getObj
          wp_mono [OF finalizeVRR_kept [OF assms(1), where g = g and vrr = vrr]]
        split: sum.splits)
qed

lemma vrrReconcile_from:
  assumes "api E [] (Get KVolumeRestoreRequest n) = RObj (OVrr vrr)"
  shows "run_state (vrrReconcile E n) [] =
    run_state
      (if isTerminal E (vrs_conditions (vrr_status vrr)) ConditionTypeReady then ret (Inr emptyResult)
       else if \<not> timePtr_IsZero (m_deletion (vrr_meta vrr)) then ret (Inr emptyResult)
       else if ref_kind (vrr_sourceRef vrr) = ''VolumeSnapshotContent''
         then processVolumeSnapshotContentRestore E vrr
       else if ref_kind (vrr_sourceRef vrr) = ''PersistentVolume''
         then processPersistentVolumeRestore E vrr
       else vrrMarkFailed E vrr ReasonInvalidSource
              (''Unsupported source kind: '' @ ref_kind (vrr_sourceRef vrr)))
      [(Get KVolumeRestoreRequest n, RObj (OVrr vrr))]"
  using assms
  by (simp add: vrrReconcile_def getObj_def call_def Let_def logged_def)

lemma processVolumeSnapshotContentRestore_kept:
  assumes "env_ok E" "ref_kind (vrr_sourceRef vrr) = ''VolumeSnapshotContent''"
    and "keeps (vrrAllowed E vrr) g h"
  shows "wp (processVolumeSnapshotContentRestore E vrr) (\<lambda>_ h'. keeps (vrrAllowed E vrr) g h') h"
  unfolding processVolumeSnapshotContentRestore_def using assms(3)
  by (auto simp: wp_rules sourceUsable_vscI sourceUsable_pvI assms(2)
      intro!: wp_getObj vrrMarkFailed_kept [OF assms(1)] observeRestore_kept [OF assms(1)]
      split: option.splits sum.splits)

lemma processPersistentVolumeRestore_kept:
  assumes "env_ok E" "ref_kind (vrr_sourceRef vrr) = ''PersistentVolume''"
    and "keeps (vrrAllowed E vrr) g h"
  shows "wp (processPersistentVolumeRestore E vrr) (\<lambda>_ h'. keeps (vrrAllowed E vrr) g h') h"
  unfolding processPersistentVolumeRestore_def using assms(3)
  by (auto simp: wp_rules sourceUsable_vscI sourceUsable_pvI assms(2)
      intro!: wp_getObj vrrMarkFailed_kept [OF assms(1)] observeRestore_kept [OF assms(1)]
      split: sum.splits)

lemma vrrReconcile_kept:
  assumes "env_ok E" "api E [] (Get KVolumeRestoreRequest n) = RObj (OVrr vrr)"
  shows "obeys (vrrAllowed E vrr) (snd (run_state (vrrReconcile E n) []))"
proof -
  let ?h = "[(Get KVolumeRestoreRequest n, RObj (OVrr vrr))]"
  have h: "keeps (vrrAllowed E vrr) ?h ?h" by (simp add: obeys_def)
  have "wp (if isTerminal E (vrs_conditions (vrr_status vrr)) ConditionTypeReady then ret (Inr emptyResult)
       else if \<not> timePtr_IsZero (m_deletion (vrr_meta vrr)) then ret (Inr emptyResult)
       else if ref_kind (vrr_sourceRef vrr) = ''VolumeSnapshotContent''
         then processVolumeSnapshotContentRestore E vrr
       else if ref_kind (vrr_sourceRef vrr) = ''PersistentVolume''
         then processPersistentVolumeRestore E vrr
       else vrrMarkFailed E vrr ReasonInvalidSource
              (''Unsupported source kind: '' @ ref_kind (vrr_sourceRef vrr)))
      (\<lambda>_ h'. keeps (vrrAllowed E vrr) ?h h') ?h"
    using h
    by (auto simp: wp_rules simp del: keeps_refl
        intro!: processVolumeSnapshotContentRestore_kept processPersistentVolumeRestore_kept
          vrrMarkFailed_kept assms(1))
  then show ?thesis
    by (simp add: wp_run vrrReconcile_from [OF assms(2)] keeps_obeys)
qed


section \<open>Properties\<close>

definition exVrr :: volumeRestoreRequest where
  "exVrr = \<lparr>vrr_meta = emptyMeta\<lparr>m_name := ''r'', m_namespace := ''ns'', m_uid := ''u2''\<rparr>,
     vrr_sourceRef = \<lparr>ref_apiVersion = [], ref_kind = ''PersistentVolume'', ref_name = ''pv1'',
       ref_namespace = [], ref_uid = [], ref_resourceVersion = []\<rparr>,
     vrr_pvcTemplate = \<lparr>tmpl_name = ''restored'', tmpl_annotations = [], tmpl_labels = [],
       tmpl_accessModes = [], tmpl_requests = [], tmpl_storageClassName = None, tmpl_volumeMode = None\<rparr>,
     vrr_fsType = [],
     vrr_status = \<lparr>vrs_completionTimestamp = None, vrs_conditions = [], vrs_pvcRef = None\<rparr>\<rparr>"

text \<open>A cluster in which the keeper still has to be created and the claim is bound.\<close>

fun vrrSrv :: "hist \<Rightarrow> req \<Rightarrow> resp" where
  "vrrSrv h (Get k n) =
     (case k of
        KVolumeRestoreRequest \<Rightarrow> RObj (OVrr exVrr)
      | KObjectKeeper \<Rightarrow>
          (if length h < 3 then RErr NotFound
           else RObj (OKeeper ((followKeeper (snd n) KindVolumeRestoreRequest (vrr_meta exVrr))
                  \<lparr>ok_meta := emptyMeta\<lparr>m_name := snd n, m_uid := ''k2''\<rparr>\<rparr>)))
      | KPersistentVolume \<Rightarrow>
          RObj (OPv \<lparr>pv_meta = emptyMeta\<lparr>m_name := ''pv1''\<rparr>, pv_claimRef = None, pv_csi = None, pv_reclaimPolicy = []\<rparr>)
      | KPersistentVolumeClaim \<Rightarrow>
          RObj (OPvc \<lparr>pvc_meta = emptyMeta\<lparr>m_name := snd n, m_namespace := fst n, m_uid := ''c2''\<rparr>,
            pvc_volumeName = ''pv2'', pvc_storageClassName = None, pvc_volumeMode = None, pvc_accessModes = [],
            pvc_requests = [], pvc_dataSourceRef = None, pvc_phase = ''Bound''\<rparr>)
      | _ \<Rightarrow> RErr NotFound)"
| "vrrSrv h r = ROk"

abbreviation vrrEnv :: env where
  "vrrEnv \<equiv> ref_env vrrSrv (\<lambda>h. 7)"

abbreviation vrrRun :: hist where
  "vrrRun \<equiv> snd (run_state (vrrReconcile vrrEnv (''ns'', ''r'')) [])"

definition exRestored :: volumeRestoreRequest where
  "exRestored = exVrr\<lparr>vrr_status := \<lparr>vrs_completionTimestamp = Some 7,
     vrs_conditions = [readyCondition ConditionTrue ReasonCompleted ''PVC ns/restored restored successfully from PV'' 7],
     vrs_pvcRef = Some \<lparr>ref_apiVersion = [], ref_kind = ''PersistentVolumeClaim'', ref_name = ''restored'',
       ref_namespace = ''ns'', ref_uid = ''c2'', ref_resourceVersion = []\<rparr>\<rparr>\<rparr>"

text \<open>
  C23. Whatever the API server answers, every status a reconciliation of a
  VolumeRestoreRequest writes is terminal and has a completion time, and it reports success
  only after the source was read (a VolumeSnapshotContent also as ready), the request's
  keeper was read with a UID, and the claim it names was read as bound.
\<close>

theorem vrr_completed_needs_evidence:
  assumes "env_ok E" "api E [] (Get KVolumeRestoreRequest n) = RObj (OVrr vrr)"
    and "snd (run_state (vrrReconcile E n) []) = p @ (StatusPatch (OVrr b) (OVrr c), a) # s"
  shows "readAs p (OVrr b) \<and> c = b\<lparr>vrr_status := vrr_status c\<rparr> \<and>
    isTerminal E (vrs_conditions (vrr_status c)) ConditionTypeReady \<and>
    vrs_completionTimestamp (vrr_status c) \<noteq> None \<and>
    (isConditionTrue E (vrs_conditions (vrr_status c)) ConditionTypeReady \<longrightarrow>
       (\<exists>ref. vrs_pvcRef (vrr_status c) = Some ref \<and>
          sourceUsable p vrr \<and> anchored p vrr \<and> restoredClaim p vrr ref))"
proof -
  have "vrrAllowed E vrr p (StatusPatch (OVrr b) (OVrr c))"
    using vrrReconcile_kept [OF assms(1,2)] unfolding assms(3) by (rule obeys_split)
  then show ?thesis
    by (auto elim!: vrrAllowed_statusE simp: goodVrrStatus_def restored_def)
qed

theorem vrr_completed_needs_evidence_witness:
  "\<exists>p s. vrrRun = p @ (StatusPatch (OVrr exVrr) (OVrr exRestored), ROk) # s \<and>
     sourceUsable p exVrr \<and> anchored p exVrr"
proof -
  have "7 < length vrrRun" "vrrRun ! 7 = (StatusPatch (OVrr exVrr) (OVrr exRestored), ROk)" by code_simp+
  then have h: "vrrRun = take 7 vrrRun @ (StatusPatch (OVrr exVrr) (OVrr exRestored), ROk) # drop (Suc 7) vrrRun"
    by (metis id_take_nth_drop)
  have subject: "api vrrEnv [] (Get KVolumeRestoreRequest (''ns'', ''r'')) = RObj (OVrr exVrr)" by simp
  have "isConditionTrue vrrEnv (vrs_conditions (vrr_status exRestored)) ConditionTypeReady" by code_simp
  then show ?thesis
    using vrr_completed_needs_evidence [OF ref_env_ok subject h] h by blast
qed

text \<open>
  The restore controller only observes: whatever the API server answers, the only object
  it ever creates is the request's ObjectKeeper, and it updates, patches and deletes nothing;
  in particular it never creates the claim it waits for.
\<close>

theorem vrr_only_observes:
  assumes "env_ok E" "api E [] (Get KVolumeRestoreRequest n) = RObj (OVrr vrr)"
    and "(r, a) \<in> set (snd (run_state (vrrReconcile E n) []))" "isWrite r"
  shows "r = Create (OKeeper (followKeeper (objectKeeperNameForVRR (m_uid (vrr_meta vrr)))
              KindVolumeRestoreRequest (vrr_meta vrr))) \<or>
    (\<exists>b st. r = StatusPatch (OVrr b) (OVrr (b\<lparr>vrr_status := st\<rparr>)))"
proof -
  obtain p where "vrrAllowed E vrr p r"
    using obeys_mem [OF vrrReconcile_kept [OF assms(1,2)] assms(3)] by blast
  then show ?thesis using assms(4) by cases auto
qed

theorem vrr_only_observes_witness:
  "\<exists>r a. (r, a) \<in> set vrrRun \<and> isWrite r \<and>
     (r = Create (OKeeper (followKeeper ''retainer-pvc-u2'' KindVolumeRestoreRequest (vrr_meta exVrr))) \<or>
      (\<exists>b st. r = StatusPatch (OVrr b) (OVrr (b\<lparr>vrr_status := st\<rparr>))))"
proof -
  have "7 < length vrrRun" "vrrRun ! 7 = (StatusPatch (OVrr exVrr) (OVrr exRestored), ROk)" by code_simp+
  then have m: "(StatusPatch (OVrr exVrr) (OVrr exRestored), ROk) \<in> set vrrRun" by (metis nth_mem)
  have subject: "api vrrEnv [] (Get KVolumeRestoreRequest (''ns'', ''r'')) = RObj (OVrr exVrr)" by simp
  show ?thesis
    using vrr_only_observes [OF ref_env_ok subject m] m by fastforce
qed

end
