(* ===== verification/Vcr_Props.thy ===== *)
theory Vcr_Props
  imports Vcr
begin

text \<open>
  The properties of the VolumeCaptureRequest controller, each with a run of the controller
  against a small cluster that satisfies its hypotheses.
\<close>

section \<open>A cluster with one request\<close>

definition exVcr :: volumeCaptureRequest where
  "exVcr = \<lparr>vcr_meta = emptyMeta\<lparr>m_name := ''r'', m_namespace := ''ns'', m_uid := ''u1''\<rparr>,
     vcr_mode = ModeSnapshot,
     vcr_target = Some \<lparr>vt_uid = ''t1'', vt_apiVersion = ''v1'', vt_kind = ''PersistentVolumeClaim'',
       vt_name = ''data'', vt_namespace = []\<rparr>,
     vcr_status = \<lparr>vcs_completionTimestamp = None, vcs_conditions = [], vcs_data = None\<rparr>\<rparr>"

definition exKeeper :: "string \<Rightarrow> objectKeeper" where
  "exKeeper name = (followKeeper name KindVolumeCaptureRequest (vcr_meta exVcr))
     \<lparr>ok_meta := emptyMeta\<lparr>m_name := name, m_uid := ''k1''\<rparr>\<rparr>"

definition exPvc :: persistentVolumeClaim where
  "exPvc = \<lparr>pvc_meta = emptyMeta\<lparr>m_name := ''data'', m_namespace := ''ns'', m_uid := ''t1''\<rparr>,
     pvc_volumeName = ''pv1'', pvc_storageClassName = Some ''fast'', pvc_volumeMode = None,
     pvc_accessModes = [], pvc_requests = [], pvc_dataSourceRef = None, pvc_phase = ''Bound''\<rparr>"

definition exPv :: persistentVolume where
  "exPv = \<lparr>pv_meta = emptyMeta\<lparr>m_name := ''pv1'', m_uid := ''v1''\<rparr>,
     pv_claimRef = Some \<lparr>ref_apiVersion = ''v1'', ref_kind = ''PersistentVolumeClaim'', ref_name = ''data'',
       ref_namespace = ''ns'', ref_uid = ''t1'', ref_resourceVersion = []\<rparr>,
     pv_csi = Some \<lparr>csi_driver = ''drv'', csi_volumeHandle = ''vol-1'', csi_fsType = ''ext4''\<rparr>,
     pv_reclaimPolicy = ''Retain''\<rparr>"

definition exSc :: storageClass where
  "exSc = \<lparr>sc_meta = emptyMeta\<lparr>m_name := ''fast'',
       m_annotations := [(''storage.deckhouse.io/volumesnapshotclass'', ''snap'')]\<rparr>,
     sc_provisioner = ''drv'', sc_volumeBindingMode = None\<rparr>"

definition exClass :: volumeSnapshotClass where
  "exClass = \<lparr>vsclass_meta = emptyMeta\<lparr>m_name := ''snap''\<rparr>, vsclass_driver = ''drv'',
     vsclass_deletionPolicy = ''Delete''\<rparr>"

definition exVsc :: volumeSnapshotContent where
  "exVsc = \<lparr>vsc_meta = emptyMeta\<lparr>m_name := ''snapshot-u1'', m_uid := ''s1''\<rparr>, vsc_driver = ''drv'',
     vsc_className = Some ''snap'', vsc_deletionPolicy = ''Delete'', vsc_volumeHandle = Some ''vol-1'',
     vsc_status = Some \<lparr>vscs_readyToUse = Some True, vscs_error = None\<rparr>\<rparr>"

text \<open>The server: the request \<open>vcr\<close>, its claim and volume, and the content in state \<open>content\<close>.\<close>

fun exSrv :: "volumeCaptureRequest \<Rightarrow> resp \<Rightarrow> hist \<Rightarrow> req \<Rightarrow> resp" where
  "exSrv vcr content h (Get k n) =
     (case k of
        KVolumeCaptureRequest \<Rightarrow> RObj (OVcr vcr)
      | KObjectKeeper \<Rightarrow> RObj (OKeeper (exKeeper (snd n)))
      | KPersistentVolumeClaim \<Rightarrow> RObj (OPvc exPvc)
      | KPersistentVolume \<Rightarrow> RObj (OPv exPv)
      | KStorageClass \<Rightarrow> RObj (OStorageClass exSc)
      | KVolumeSnapshotClass \<Rightarrow> RObj (OVsClass exClass)
      | KVolumeSnapshotContent \<Rightarrow> content
      | _ \<Rightarrow> RErr NotFound)"
| "exSrv vcr content h r = ROk"

abbreviation exEnv :: "volumeCaptureRequest \<Rightarrow> resp \<Rightarrow> env" where
  "exEnv vcr content \<equiv> ref_env (exSrv vcr content) (\<lambda>h. 7)"

lemmas ex_defs = exVcr_def exKeeper_def exPvc_def exPv_def exSc_def exClass_def exVsc_def
  ModeSnapshot_def ModeDetach_def

lemmas run_defs = getObj_def call_def exec_def now_def logged_def Let_def thenE_def wrapE_def
  respErr_def decodeErr_def thenS_def

definition exDone :: volumeCaptureRequest where
  "exDone = exVcr\<lparr>vcr_status := \<lparr>vcs_completionTimestamp = Some 7,
     vcs_conditions = [readyCondition ConditionTrue ReasonCompleted ''target ready'' 7],
     vcs_data = Some (volumeSnapshotBinding ''snapshot-u1-000000000000'' ''s1'')\<rparr>\<rparr>"

abbreviation vcrRun :: "volumeCaptureRequest \<Rightarrow> resp \<Rightarrow> hist" where
  "vcrRun vcr content \<equiv> snd (run_state (vcrReconcile (exEnv vcr content) (''ns'', ''r'')) [])"

lemma exSrv_subject: "api (exEnv vcr content) [] (Get KVolumeCaptureRequest n) = RObj (OVcr vcr)"
  by simp

section \<open>Properties\<close>

text \<open>
  C19. Whatever the API server answers, every status a reconciliation of a
  VolumeCaptureRequest writes is a change of the status alone of an object it has read; it
  has a completion time exactly when it is terminal; and it reports success only when the
  artifact it names was captured: a VolumeSnapshotContent read as ready and without a CSI
  error, or a PersistentVolume read without a claim or detached by an accepted patch.
\<close>

theorem vcr_completed_needs_evidence:
  assumes "env_ok E" "api E [] (Get KVolumeCaptureRequest n) = RObj (OVcr vcr)"
    and "snd (run_state (vcrReconcile E n) []) = p @ (StatusPatch (OVcr b) (OVcr c), a) # s"
  shows "readAs p (OVcr b) \<and> c = b\<lparr>vcr_status := vcr_status c\<rparr> \<and>
    (isVolumeCaptureTerminal E (vcs_conditions (vcr_status c)) \<longleftrightarrow>
       vcs_completionTimestamp (vcr_status c) \<noteq> None) \<and>
    (isConditionTrue E (vcs_conditions (vcr_status c)) ConditionTypeReady \<longrightarrow>
       (\<exists>art. dataArtifactRef (vcr_status c) = Some art \<and> captured p art))"
proof -
  have "vcrAllowed E vcr p (StatusPatch (OVcr b) (OVcr c))"
    using vcrReconcile_kept [OF assms(1,2)] unfolding assms(3) by (rule obeys_split)
  then show ?thesis
    by (auto elim!: vcrAllowed_statusE simp: goodStatus_def)
qed


theorem vcr_completed_needs_evidence_witness:
  "\<exists>p s. vcrRun exVcr (RObj (OVsc exVsc)) = p @ (StatusPatch (OVcr exVcr) (OVcr exDone), ROk) # s \<and>
     vcs_completionTimestamp (vcr_status exDone) \<noteq> None \<and>
     (\<exists>art. dataArtifactRef (vcr_status exDone) = Some art \<and> captured p art)"
proof -
  let ?h = "vcrRun exVcr (RObj (OVsc exVsc))"
  have "8 < length ?h" "?h ! 8 = (StatusPatch (OVcr exVcr) (OVcr exDone), ROk)" by code_simp+
  then have h: "?h = take 8 ?h @ (StatusPatch (OVcr exVcr) (OVcr exDone), ROk) # drop (Suc 8) ?h"
    by (metis id_take_nth_drop)
  have "isConditionTrue (exEnv exVcr (RObj (OVsc exVsc))) (vcs_conditions (vcr_status exDone)) ConditionTypeReady"
    by code_simp
  then show ?thesis
    using vcr_completed_needs_evidence [OF ref_env_ok exSrv_subject h] h
    by (auto simp: exDone_def)
qed

text \<open>
  C20. Whatever the API server answers, a reconciliation creates a VolumeSnapshotContent only
  in Snapshot mode, under the name derived from the request and its target, after reading
  that no such content exists, and after reading the request's ObjectKeeper with a UID; that
  keeper is the only owner of the content, as its controller, and the content is stamped as
  protected from the first byte.
\<close>

theorem vcr_content_is_anchored:
  assumes "env_ok E" "api E [] (Get KVolumeCaptureRequest n) = RObj (OVcr vcr)"
    and "snd (run_state (vcrReconcile E n) []) = p @ (Create (OVsc v), a) # s"
  shows "vcr_mode vcr = ModeSnapshot \<and>
    (\<exists>t. vcr_target vcr = Some t \<and>
       m_name (vsc_meta v) = snapshotVSCName E (m_uid (vcr_meta vcr)) (vt_uid t)) \<and>
    (Get KVolumeSnapshotContent ([], m_name (vsc_meta v)), RErr NotFound) \<in> set p \<and>
    (\<exists>k. (Get KObjectKeeper ([], objectKeeperNameForVCR (m_uid (vcr_meta vcr))), RObj (OKeeper k)) \<in> set p \<and>
       m_uid (ok_meta k) \<noteq> [] \<and>
       m_owners (vsc_meta v) =
         [keeperOwner (objectKeeperNameForVCR (m_uid (vcr_meta vcr))) (m_uid (ok_meta k))]) \<and>
    m_labels (vsc_meta v) = StampDeleteProtected E []"
proof -
  have "vcrAllowed E vcr p (Create (OVsc v))"
    using vcrReconcile_kept [OF assms(1,2)] unfolding assms(3) by (rule obeys_split)
  then show ?thesis
    by (auto elim!: vcrAllowed_createVscE)
qed

definition exCreated :: volumeSnapshotContent where
  "exCreated = captureVSC (exEnv exVcr (RErr NotFound)) ''snapshot-u1-000000000000'' ''retainer-vcr-u1'' ''k1''
     exClass ''vol-1''"

theorem vcr_content_is_anchored_witness:
  "\<exists>p s. vcrRun exVcr (RErr NotFound) = p @ (Create (OVsc exCreated), ROk) # s \<and>
     m_owners (vsc_meta exCreated) = [keeperOwner ''retainer-vcr-u1'' ''k1''] \<and>
     (Get KVolumeSnapshotContent ([], m_name (vsc_meta exCreated)), RErr NotFound) \<in> set p"
proof -
  let ?h = "vcrRun exVcr (RErr NotFound)"
  have "8 < length ?h" "?h ! 8 = (Create (OVsc exCreated), ROk)" by code_simp+
  then have h: "?h = take 8 ?h @ (Create (OVsc exCreated), ROk) # drop (Suc 8) ?h"
    by (metis id_take_nth_drop)
  show ?thesis
    using vcr_content_is_anchored [OF ref_env_ok exSrv_subject h] h
    by (auto simp: exCreated_def)
qed

text \<open>
  C21. Whatever the API server answers, a reconciliation patches a PersistentVolume only in
  Detach mode, from a state it has read and after reading the request's keeper with a UID;
  the patch removes the claim reference, marks the volume as detached, keeps every owner the
  volume had and makes the keeper one of them.
\<close>

theorem vcr_detach_keeps_owners:
  assumes "env_ok E" "api E [] (Get KVolumeCaptureRequest n) = RObj (OVcr vcr)"
    and "snd (run_state (vcrReconcile E n) []) = p @ (Patch lock (OPv b) (OPv c), a) # s"
  shows "vcr_mode vcr = ModeDetach \<and> readAs p (OPv b) \<and> pv_claimRef c = None \<and>
    index_str (m_annotations (pv_meta c)) detachedKey = ''true'' \<and>
    set (m_owners (pv_meta b)) \<subseteq> set (m_owners (pv_meta c)) \<and>
    (\<exists>k. (Get KObjectKeeper ([], retainerPVName (m_uid (vcr_meta vcr))), RObj (OKeeper k)) \<in> set p \<and>
       m_uid (ok_meta k) \<noteq> [] \<and>
       hasKeeperOwner (retainerPVName (m_uid (vcr_meta vcr))) (m_uid (ok_meta k)) (m_owners (pv_meta c)))"
proof -
  have "vcrAllowed E vcr p (Patch lock (OPv b) (OPv c))"
    using vcrReconcile_kept [OF assms(1,2)] unfolding assms(3) by (rule obeys_split)
  then obtain k where *: "vcr_mode vcr = ModeDetach" "readAs p (OPv b)"
      "(Get KObjectKeeper ([], retainerPVName (m_uid (vcr_meta vcr))), RObj (OKeeper k)) \<in> set p"
      "m_uid (ok_meta k) \<noteq> []"
      "c = detachedPV (retainerPVName (m_uid (vcr_meta vcr))) (m_uid (ok_meta k)) b"
    by (auto elim!: vcrAllowed_patchPvE)
  have "index_str (m_annotations (pv_meta c)) detachedKey = ''true''"
    unfolding *(5) by (simp add: detachedPV_def Let_def)
  moreover have "set (m_owners (pv_meta b)) \<subseteq> set (m_owners (pv_meta c))"
    unfolding *(5) using detachedPV_owners(2) by (metis set_append Un_upper1)
  ultimately show ?thesis
    using * detachedPV_owners(1) by auto
qed

definition exDetach :: volumeCaptureRequest where
  "exDetach = exVcr\<lparr>vcr_mode := ModeDetach,
     vcr_meta := (vcr_meta exVcr)\<lparr>m_annotations := [(detachPvNameKey, ''pv1'')]\<rparr>\<rparr>"

text \<open>A server on which the claim is already gone.\<close>

definition exGone :: "volumeCaptureRequest \<Rightarrow> hist \<Rightarrow> req \<Rightarrow> resp" where
  "exGone vcr h r = (case r of Get KPersistentVolumeClaim n \<Rightarrow> RErr NotFound | _ \<Rightarrow> exSrv vcr ROk h r)"

abbreviation exGoneEnv :: env where
  "exGoneEnv \<equiv> ref_env (exGone exDetach) (\<lambda>h. 7)"

theorem vcr_detach_keeps_owners_witness:
  "\<exists>p s c. snd (run_state (vcrReconcile exGoneEnv (''ns'', ''r'')) []) = p @ (Patch False (OPv exPv) (OPv c), ROk) # s \<and>
     pv_claimRef c = None \<and> hasKeeperOwner ''retainer-pv-u1'' ''k1'' (m_owners (pv_meta c))"
proof -
  let ?h = "snd (run_state (vcrReconcile exGoneEnv (''ns'', ''r'')) [])"
  let ?c = "detachedPV ''retainer-pv-u1'' ''k1'' exPv"
  have "5 < length ?h" "?h ! 5 = (Patch False (OPv exPv) (OPv ?c), ROk)" by code_simp+
  then have h: "?h = take 5 ?h @ (Patch False (OPv exPv) (OPv ?c), ROk) # drop (Suc 5) ?h"
    by (metis id_take_nth_drop)
  have subject: "api exGoneEnv [] (Get KVolumeCaptureRequest (''ns'', ''r'')) = RObj (OVcr exDetach)"
    by (simp add: exGone_def)
  have "pv_claimRef ?c = None"
    using vcr_detach_keeps_owners [OF ref_env_ok subject h] by blast
  then show ?thesis using h by (metis detachedPV_owners(1))
qed


text \<open>
  A request that is already finished, or that is being deleted, is left alone: the
  reconciliation reads it, asks for nothing else, and does not come back.
\<close>

theorem vcr_finished_is_inert:
  assumes "api E [] (Get KVolumeCaptureRequest n) = RObj (OVcr vcr)"
    and "isVolumeCaptureTerminal E (vcs_conditions (vcr_status vcr)) \<or>
         \<not> timePtr_IsZero (m_deletion (vcr_meta vcr))"
  shows "run_state (vcrReconcile E n) [] =
    (Inr emptyResult, [(Get KVolumeCaptureRequest n, RObj (OVcr vcr))])"
  using assms(2) by (auto simp: vcrReconcile_from [OF assms(1)])

theorem vcr_finished_is_inert_witness:
  "run_state (vcrReconcile (exEnv exDone ROk) (''ns'', ''r'')) [] =
     (Inr emptyResult, [(Get KVolumeCaptureRequest (''ns'', ''r''), RObj (OVcr exDone))])"
  by (rule vcr_finished_is_inert) (simp_all add: exDone_def isVolumeCaptureTerminal_def)

section \<open>The outcome of a capture\<close>

text \<open>
  A cluster in which the target of a request resolves: the request is unfinished, its keeper
  has a UID and follows it, the claim is bound to a CSI volume, and its storage class names a
  snapshot class of the same driver.
\<close>

definition resolves ::
  "env \<Rightarrow> nsname \<Rightarrow> volumeCaptureRequest \<Rightarrow> string \<Rightarrow> persistentVolumeClaim \<Rightarrow> bool" where
  "resolves E n vcr vscName pvc \<longleftrightarrow>
     answers E (Get KVolumeCaptureRequest n) (RObj (OVcr vcr)) \<and>
     answers E (Get KVolumeCaptureRequest (keyOf (vcr_meta vcr))) (RObj (OVcr vcr)) \<and>
     \<not> isVolumeCaptureTerminal E (vcs_conditions (vcr_status vcr)) \<and>
     timePtr_IsZero (m_deletion (vcr_meta vcr)) \<and> vcr_mode vcr = ModeSnapshot \<and>
     (\<exists>t. vcr_target vcr = Some t \<and> vscName = snapshotVSCName E (m_uid (vcr_meta vcr)) (vt_uid t) \<and>
        answers E (Get KPersistentVolumeClaim (m_namespace (vcr_meta vcr), vt_name t)) (RObj (OPvc pvc))) \<and>
     (\<exists>k. keeperFollows KindVolumeCaptureRequest (vcr_meta vcr) k \<and> m_uid (ok_meta k) \<noteq> [] \<and>
        answers E (Get KObjectKeeper ([], objectKeeperNameForVCR (m_uid (vcr_meta vcr)))) (RObj (OKeeper k))) \<and>
     (\<exists>pv csi sc scn cls. pvc_volumeName pvc \<noteq> [] \<and> pvc_storageClassName pvc = Some scn \<and> scn \<noteq> [] \<and>
        answers E (Get KPersistentVolume ([], pvc_volumeName pvc)) (RObj (OPv pv)) \<and>
        pv_csi pv = Some csi \<and> csi_volumeHandle csi \<noteq> [] \<and>
        answers E (Get KStorageClass ([], scn)) (RObj (OStorageClass sc)) \<and>
        index_str (m_annotations (sc_meta sc)) ''storage.deckhouse.io/volumesnapshotclass'' \<noteq> [] \<and>
        answers E (Get KVolumeSnapshotClass ([], index_str (m_annotations (sc_meta sc))
          ''storage.deckhouse.io/volumesnapshotclass'')) (RObj (OVsClass cls)) \<and>
        vsclass_driver cls = csi_driver csi)"

lemma wp_retry_once:
  assumes "env_ok E" "wp f (\<lambda>r h'. Q r h' \<and> (\<forall>e. r \<noteq> Inl e)) h"
  shows "wp (RetryOnConflict E f) Q h"
  by (rule wp_RetryOnConflict [OF assms(1), where I = "\<lambda>h'. h' = h"])
    (use assms(2) in \<open>auto elim!: wp_mono split: sum.splits\<close>)

lemma finalizeVCR_accepted:
  assumes "env_ok E" "answers E (Get KVolumeCaptureRequest (keyOf (vcr_meta v))) (RObj (OVcr cur))"
    and "\<And>b c. answers E (StatusPatch b c) ROk"
    and "\<And>h' t. (StatusPatch (OVcr cur) (OVcr (cur\<lparr>vcr_status :=
            finalizedStatus E (vcr_status v) status reason msg t\<rparr>)), ROk) \<in> set h' \<Longrightarrow> Q (Inr []) h'"
  shows "wp (finalizeVCR E v status reason msg) Q h"
  unfolding finalizeVCR_def
  by (auto simp: wp_rules Let_def wp_getObj_answers [OF assms(2)] wp_exec_answers [OF assms(3)]
      intro!: wp_retry_once [OF assms(1)] assms(4))

lemma patchVCRSnapshotPending_accepted:
  assumes "env_ok E" "answers E (Get KVolumeCaptureRequest (keyOf (vcr_meta v))) (RObj (OVcr cur))"
    and "\<And>b c. answers E (StatusPatch b c) ROk"
    and "\<And>h' t m. (StatusPatch (OVcr cur) (OVcr (cur\<lparr>vcr_status :=
            pendingStatus E (vcr_status cur) m t\<rparr>)), ROk) \<in> set h' \<Longrightarrow> Q (Inr []) h'"
  shows "wp (patchVCRSnapshotPending E v msg) Q h"
  unfolding patchVCRSnapshotPending_def
  by (auto simp: wp_rules Let_def wp_getObj_answers [OF assms(2)] wp_exec_answers [OF assms(3)]
      intro!: wp_retry_once [OF assms(1)] assms(4))

lemma ensureObjectKeeper_found:
  assumes "answers E (Get KObjectKeeper ([], name)) (RObj (OKeeper k))"
    and "keeperFollows KindVolumeCaptureRequest (vcr_meta vcr) k" "m_uid (ok_meta k) \<noteq> []"
  shows "wp (ensureObjectKeeper E name vcr) Q h =
    Q (Inr (Some k, emptyResult)) (logged h (Get KObjectKeeper ([], name)) (RObj (OKeeper k)))"
  using assms(2,3)
  by (auto simp: ensureObjectKeeper_def wp_rules wp_getObj_answers [OF assms(1)] keeperFollows_def)

lemma processSnapshotTarget_resolved:
  assumes "resolves E n vcr vscName pvc" "vcr_target vcr = Some t"
    and "answers E (Get KVolumeSnapshotContent ([], vscName)) (RObj (OVsc v))"
    and "\<And>h'. Q (Inr (observeTargetVSC E vscName pvc v)) h'"
  shows "wp (processSnapshotTarget E vcr rn (t\<lparr>vt_namespace := m_namespace (vcr_meta vcr)\<rparr>)) Q h"
  using assms unfolding resolves_def
  by (auto simp: processSnapshotTarget_def captureBoundClaim_def captureWithClass_def wp_rules Let_def
      wp_getObj_answers)

lemma vcrReconcile_resolved:
  assumes "resolves E n vcr vscName pvc" "\<And>g. wp (processSnapshotMode E vcr) Q g"
  shows "wp (vcrReconcile E n) Q h"
  using assms by (auto simp: vcrReconcile_def wp_rules wp_getObj_answers resolves_def)

text \<open>
  C22. In a cluster where the target resolves and the status is accepted, one reconciliation
  in Snapshot mode decides by the VolumeSnapshotContent alone: if it is ready and reports no
  CSI error the request completes with the content as its artifact; otherwise, also when the
  CSI driver has reported an error, the request stays pending and comes back in five seconds.
\<close>

theorem vcr_snapshot_outcome:
  assumes "env_ok E" "resolves E n vcr vscName pvc"
    and "answers E (Get KVolumeSnapshotContent ([], vscName)) (RObj (OVsc v))"
    and "\<And>b c. answers E (StatusPatch b c) ROk"
    and "run_state (vcrReconcile E n) [] = (r, h)"
  shows "if vscErrorMessage v = None \<and> vscReadyToUse v
    then r = Inr emptyResult \<and>
      (\<exists>t. (StatusPatch (OVcr vcr) (OVcr (vcr\<lparr>vcr_status := finalizedStatus E
         ((vcr_status vcr)\<lparr>vcs_data := Some (volumeSnapshotBinding vscName (m_uid (vsc_meta v)))\<rparr>)
         ConditionTrue ReasonCompleted ''target ready'' t\<rparr>)), ROk) \<in> set h)
    else r = Inr \<lparr>RequeueAfter = 5 * Second\<rparr> \<and>
      (\<exists>t m. (StatusPatch (OVcr vcr) (OVcr (vcr\<lparr>vcr_status :=
         pendingStatus E (vcr_status vcr) m t\<rparr>)), ROk) \<in> set h)"
proof -
  let ?Q = "\<lambda>r h. if vscErrorMessage v = None \<and> vscReadyToUse v
    then r = Inr emptyResult \<and>
      (\<exists>t. (StatusPatch (OVcr vcr) (OVcr (vcr\<lparr>vcr_status := finalizedStatus E
         ((vcr_status vcr)\<lparr>vcs_data := Some (volumeSnapshotBinding vscName (m_uid (vsc_meta v)))\<rparr>)
         ConditionTrue ReasonCompleted ''target ready'' t\<rparr>)), ROk) \<in> set h)
    else r = Inr \<lparr>RequeueAfter = 5 * Second\<rparr> \<and>
      (\<exists>t m. (StatusPatch (OVcr vcr) (OVcr (vcr\<lparr>vcr_status :=
         pendingStatus E (vcr_status vcr) m t\<rparr>)), ROk) \<in> set h)"
  have subj: "answers E (Get KVolumeCaptureRequest (keyOf (vcr_meta vcr))) (RObj (OVcr vcr))"
    using assms(2) by (simp add: resolves_def)
  obtain t k where t: "vcr_target vcr = Some t"
    and k: "answers E (Get KObjectKeeper ([], objectKeeperNameForVCR (m_uid (vcr_meta vcr)))) (RObj (OKeeper k))"
      "keeperFollows KindVolumeCaptureRequest (vcr_meta vcr) k" "m_uid (ok_meta k) \<noteq> []"
    using assms(2) by (auto simp: resolves_def)
  have outcome: "wp (processSnapshotMode E vcr) ?Q g" for g
  proof -
    note target = processSnapshotTarget_resolved [OF assms(2) t assms(3)]
    note sets = finalizeVCR_accepted [OF assms(1) _ assms(4), where cur = vcr]
      patchVCRSnapshotPending_accepted [OF assms(1) _ assms(4), where cur = vcr]
    show ?thesis
      unfolding processSnapshotMode_def requireCaptureTarget_def t
      by (auto simp: wp_rules Let_def ensureObjectKeeper_found [OF k] subj observeTargetVSC_def
            targetPending_def targetReady_def Second_def
          intro!: target sets split: option.splits)
        (intro exI, assumption)+
  qed
  show ?thesis
    using vcrReconcile_resolved [OF assms(2) outcome, of "[]"] by (simp add: wp_def assms(5))
qed

definition exErr :: volumeSnapshotContent where
  "exErr = exVsc\<lparr>vsc_status := Some \<lparr>vscs_readyToUse = Some False,
     vscs_error = Some \<lparr>ve_message = Some ''quota'', ve_time = None\<rparr>\<rparr>\<rparr>"

lemma exHash: "take snapshotTargetHashHexLen (hexEncode (replicate 31 0 @ [Suc (Suc 0)])) = ''000000000000''"
  by code_simp

lemma exName: "snapshotVSCName (exEnv vcr content) ''u1'' ''t1'' = ''snapshot-u1-000000000000''"
  by (simp add: snapshotVSCName_def targetUIDHash_def exHash)

lemma exEnv_resolves: "resolves (exEnv exVcr content) (''ns'', ''r'') exVcr ''snapshot-u1-000000000000'' exPvc"
  unfolding resolves_def answers_def
  by (simp add: ex_defs isVolumeCaptureTerminal_def keeperFollows_def followKeeper_def exName index_str_def)

theorem vcr_snapshot_outcome_witness:
  "fst (run_state (vcrReconcile (exEnv exVcr (RObj (OVsc exVsc))) (''ns'', ''r'')) []) = Inr emptyResult \<and>
   fst (run_state (vcrReconcile (exEnv exVcr (RObj (OVsc exErr))) (''ns'', ''r'')) []) =
     Inr \<lparr>RequeueAfter = 5 * Second\<rparr>"
proof
  have accepts: "answers (exEnv exVcr (RObj (OVsc v))) (StatusPatch b c) ROk"
    and content: "answers (exEnv exVcr (RObj (OVsc v))) (Get KVolumeSnapshotContent n) (RObj (OVsc v))"
    for v b c n by (simp_all add: answers_def)
  note outcome = vcr_snapshot_outcome [OF ref_env_ok exEnv_resolves content accepts surjective_pairing]
  show "fst (run_state (vcrReconcile (exEnv exVcr (RObj (OVsc exVsc))) (''ns'', ''r'')) []) = Inr emptyResult"
    using outcome [of exVsc] by (simp add: vscErrorMessage_def vscReadyToUse_def exVsc_def)
  show "fst (run_state (vcrReconcile (exEnv exVcr (RObj (OVsc exErr))) (''ns'', ''r'')) []) =
     Inr \<lparr>RequeueAfter = 5 * Second\<rparr>"
    using outcome [of exErr] by (simp add: vscErrorMessage_def vscReadyToUse_def exErr_def exVsc_def)
qed

end
