(* ===== verification/Request_Gc.thy ===== *)
theory Request_Gc
  imports Gc Vrr Vcr_Props
begin

text \<open>
  Garbage collection of VolumeCaptureRequests and VolumeRestoreRequests:
  \<open>src/images/controller/internal/controllers/gc.go\<close>. Both managers are interpretations of
  the manager contract of the generic collector.
\<close>

section \<open>Managers\<close>

definition defaultGCTTL :: duration where
  "defaultGCTTL = 24 * Hour"

definition defaultGcSettings :: baseGcSettings where
  "defaultGcSettings = \<lparr>gs_ttl = defaultGCTTL, gs_schedule = ''0 * * * *''\<rparr>"

definition agedOut :: "time option \<Rightarrow> duration \<Rightarrow> time \<Rightarrow> bool" where
  "agedOut completion ttl t =
     (case completion of
        None \<Rightarrow> False
      | Some c \<Rightarrow> if c = 0 then False else time_Sub t c > ttl)"

definition vcrShouldBeDeleted :: "env \<Rightarrow> duration \<Rightarrow> time \<Rightarrow> volumeCaptureRequest \<Rightarrow> bool" where
  "vcrShouldBeDeleted E ttl t vcr =
     (timePtr_IsZero (m_deletion (vcr_meta vcr)) \<and>
      isVolumeCaptureTerminal E (vcs_conditions (vcr_status vcr)) \<and>
      agedOut (vcs_completionTimestamp (vcr_status vcr)) ttl t)"

definition vcrSelect :: "env \<Rightarrow> duration \<Rightarrow> time \<Rightarrow> volumeCaptureRequest list \<Rightarrow> volumeCaptureRequest list" where
  "vcrSelect E ttl t objs =
     DefaultFilter sort_key vcr_meta objs (\<lambda>vcr. isVolumeCaptureTerminal E (vcs_conditions (vcr_status vcr)))
       ttl (\<lambda>vcr. case vcs_completionTimestamp (vcr_status vcr) of None \<Rightarrow> 0 | Some c \<Rightarrow> c) None 0 t"

definition vcrListForDelete :: "env \<Rightarrow> duration \<Rightarrow> time \<Rightarrow> volumeCaptureRequest list res io" where
  "vcrListForDelete E ttl t =
     thenE (listObj E KVolumeCaptureRequest decVcr) (\<lambda>objs. ret (Inr (vcrSelect E ttl t objs)))"

text \<open>Best effort: the error of the artifact cleanup is logged and dropped.\<close>

definition vcrPreDelete :: "env \<Rightarrow> volumeCaptureRequest \<Rightarrow> string res io" where
  "vcrPreDelete E vcr = do { _ \<leftarrow> cleanupVCRArtifacts E vcr; ret (Inr []) }"

definition vcrGCManager :: "env \<Rightarrow> duration \<Rightarrow> volumeCaptureRequest gcManager" where
  "vcrGCManager E ttl =
     \<lparr>gm_kind = KVolumeCaptureRequest, gm_dec = decVcr, gm_meta = vcr_meta,
      gm_shouldBeDeleted = vcrShouldBeDeleted E ttl, gm_preDelete = Some (vcrPreDelete E)\<rparr>"

definition vrrShouldBeDeleted :: "env \<Rightarrow> duration \<Rightarrow> time \<Rightarrow> volumeRestoreRequest \<Rightarrow> bool" where
  "vrrShouldBeDeleted E ttl t vrr =
     (timePtr_IsZero (m_deletion (vrr_meta vrr)) \<and>
      isTerminal E (vrs_conditions (vrr_status vrr)) ConditionTypeReady \<and>
      agedOut (vrs_completionTimestamp (vrr_status vrr)) ttl t)"

definition vrrSelect :: "env \<Rightarrow> duration \<Rightarrow> time \<Rightarrow> volumeRestoreRequest list \<Rightarrow> volumeRestoreRequest list" where
  "vrrSelect E ttl t objs =
     DefaultFilter sort_key vrr_meta objs (\<lambda>vrr. isTerminal E (vrs_conditions (vrr_status vrr)) ConditionTypeReady)
       ttl (\<lambda>vrr. case vrs_completionTimestamp (vrr_status vrr) of None \<Rightarrow> 0 | Some c \<Rightarrow> c) None 0 t"

definition vrrListForDelete :: "env \<Rightarrow> duration \<Rightarrow> time \<Rightarrow> volumeRestoreRequest list res io" where
  "vrrListForDelete E ttl t =
     thenE (listObj E KVolumeRestoreRequest decVrr) (\<lambda>objs. ret (Inr (vrrSelect E ttl t objs)))"

definition vrrGCManager :: "env \<Rightarrow> duration \<Rightarrow> volumeRestoreRequest gcManager" where
  "vrrGCManager E ttl =
     \<lparr>gm_kind = KVolumeRestoreRequest, gm_dec = decVrr, gm_meta = vrr_meta,
      gm_shouldBeDeleted = vrrShouldBeDeleted E ttl, gm_preDelete = None\<rparr>"

lemma gcManager_sel [simp]:
  "gm_kind (vcrGCManager E ttl) = KVolumeCaptureRequest" "gm_dec (vcrGCManager E ttl) = decVcr"
  "gm_meta (vcrGCManager E ttl) = vcr_meta" "gm_shouldBeDeleted (vcrGCManager E ttl) = vcrShouldBeDeleted E ttl"
  "gm_preDelete (vcrGCManager E ttl) = Some (vcrPreDelete E)"
  "gm_kind (vrrGCManager E ttl) = KVolumeRestoreRequest" "gm_dec (vrrGCManager E ttl) = decVrr"
  "gm_meta (vrrGCManager E ttl) = vrr_meta" "gm_shouldBeDeleted (vrrGCManager E ttl) = vrrShouldBeDeleted E ttl"
  "gm_preDelete (vrrGCManager E ttl) = None"
  by (simp_all add: vcrGCManager_def vrrGCManager_def)

lemma agedOut_iff: "agedOut c ttl t \<longleftrightarrow> (\<exists>u. c = Some u \<and> u \<noteq> 0 \<and> ttl < time_Sub t u)"
  by (auto simp: agedOut_def split: option.splits)

interpretation vcr_gc: gc_manager "vcrGCManager E ttl" ttl
  "\<lambda>vcr. isVolumeCaptureTerminal E (vcs_conditions (vcr_status vcr))"
  "\<lambda>vcr. vcs_completionTimestamp (vcr_status vcr)" "vcrSelect E ttl" for E ttl
proof unfold_locales
  fix t obj
  show "gm_shouldBeDeleted (vcrGCManager E ttl) t obj \<longleftrightarrow>
      timePtr_IsZero (m_deletion (gm_meta (vcrGCManager E ttl) obj)) \<and>
      isVolumeCaptureTerminal E (vcs_conditions (vcr_status obj)) \<and>
      (\<exists>c. vcs_completionTimestamp (vcr_status obj) = Some c \<and> c \<noteq> 0 \<and> ttl < time_Sub t c)"
    by (simp add: vcrShouldBeDeleted_def agedOut_iff)
next
  fix t obj objs
  assume "0 \<le> ttl" "obj \<in> set (vcrSelect E ttl t objs)"
  then show "obj \<in> set objs \<and> gm_shouldBeDeleted (vcrGCManager E ttl) t obj"
    using swept_due [where fin = "\<lambda>vcr. vcs_completionTimestamp (vcr_status vcr)"]
    by (auto simp: vcrSelect_def DefaultFilter_uncapped vcrShouldBeDeleted_def isTerminating_def agedOut_iff)
qed

interpretation vrr_gc: gc_manager "vrrGCManager E ttl" ttl
  "\<lambda>vrr. isTerminal E (vrs_conditions (vrr_status vrr)) ConditionTypeReady"
  "\<lambda>vrr. vrs_completionTimestamp (vrr_status vrr)" "vrrSelect E ttl" for E ttl
proof unfold_locales
  fix t obj
  show "gm_shouldBeDeleted (vrrGCManager E ttl) t obj \<longleftrightarrow>
      timePtr_IsZero (m_deletion (gm_meta (vrrGCManager E ttl) obj)) \<and>
      isTerminal E (vrs_conditions (vrr_status obj)) ConditionTypeReady \<and>
      (\<exists>c. vrs_completionTimestamp (vrr_status obj) = Some c \<and> c \<noteq> 0 \<and> ttl < time_Sub t c)"
    by (simp add: vrrShouldBeDeleted_def agedOut_iff)
next
  fix t obj objs
  assume "0 \<le> ttl" "obj \<in> set (vrrSelect E ttl t objs)"
  then show "obj \<in> set objs \<and> gm_shouldBeDeleted (vrrGCManager E ttl) t obj"
    using swept_due [where fin = "\<lambda>vrr. vrs_completionTimestamp (vrr_status vrr)"]
    by (auto simp: vrrSelect_def DefaultFilter_uncapped vrrShouldBeDeleted_def isTerminating_def agedOut_iff)
qed

text \<open>The hook of the VCR manager never reports an error.\<close>

lemma wp_vcrPreDelete:
  assumes "\<And>h'. Q (Inr []) h'"
  shows "wp (vcrPreDelete E vcr) Q h"
  unfolding vcrPreDelete_def by (simp add: wp_def assms split: prod.split)

section \<open>Properties\<close>

text \<open>
  C26. Whatever the API server answers, a garbage collection of a VolumeCaptureRequest writes
  only if the request it has read is terminal, not being deleted and past its retention by
  the clock; it then deletes that request, and besides at most the artifact the request names,
  after reading that the artifact has no owner.
\<close>

theorem vcr_gc_deletes_only_finished:
  assumes "api E [] (Get KVolumeCaptureRequest n) = RObj (OVcr vcr)"
    and "snd (run_state (gcReconcile E (vcrGCManager E ttl) n) []) = p @ (r, a) # s" "isWrite r"
  shows "isVolumeCaptureTerminal E (vcs_conditions (vcr_status vcr)) \<and>
    timePtr_IsZero (m_deletion (vcr_meta vcr)) \<and>
    (\<exists>c. vcs_completionTimestamp (vcr_status vcr) = Some c \<and>
       ttl < time_Sub (clock E [(Get KVolumeCaptureRequest n, RObj (OVcr vcr))]) c) \<and>
    (r = Delete KVolumeCaptureRequest (keyOf (vcr_meta vcr)) \<or> orphanAllowed vcr p r)"
proof -
  let ?t = "clock E [(Get KVolumeCaptureRequest n, RObj (OVcr vcr))]"
  let ?P = "\<lambda>g r. isWrite r \<longrightarrow> vcrShouldBeDeleted E ttl ?t vcr \<and>
    (r = Delete KVolumeCaptureRequest (keyOf (vcr_meta vcr)) \<or> orphanAllowed vcr g r)"
  have "obeys ?P (snd (run_state (gcReconcile E (vcrGCManager E ttl) n) []))"
    using assms(1)
    by (intro vcr_gc.reconcile_obeys [where obj = vcr])
      (auto simp: keyOf_def vcrPreDelete_def wp_rules
        intro!: wp_mono [OF cleanupVCRArtifacts_kept [where R = ?P and g = "[]"]] elim: keeps_obeys
        simp: keeps_def later_def)
  then have "?P p r" unfolding assms(2) by (rule obeys_split)
  then show ?thesis
    using assms(3) by (auto simp: vcrShouldBeDeleted_def agedOut_iff)
qed


text \<open>A finished request whose artifact lost its owner, 100 seconds after its completion.\<close>

fun gcSrv :: "hist \<Rightarrow> req \<Rightarrow> resp" where
  "gcSrv h (Get k n) =
     (case k of
        KVolumeCaptureRequest \<Rightarrow> RObj (OVcr exDone)
      | KVolumeSnapshotContent \<Rightarrow> RObj (OVsc exVsc)
      | _ \<Rightarrow> RErr NotFound)"
| "gcSrv h (Delete k n) = (if k = KVolumeCaptureRequest then ROk else RErr Forbidden)"
| "gcSrv h r = ROk"

abbreviation gcEnv :: env where
  "gcEnv \<equiv> ref_env gcSrv (\<lambda>h. 100 * Second)"

abbreviation gcRun :: hist where
  "gcRun \<equiv> snd (run_state (gcReconcile gcEnv (vcrGCManager gcEnv (60 * Second)) (''ns'', ''r'')) [])"

lemma gcSubject: "api gcEnv [] (Get KVolumeCaptureRequest n) = RObj (OVcr exDone)"
  by simp

theorem vcr_gc_deletes_only_finished_witness:
  "\<exists>p s. gcRun = p @ (Delete KVolumeSnapshotContent ([], ''snapshot-u1''), RErr Forbidden) # s \<and>
     orphanAllowed exDone p (Delete KVolumeSnapshotContent ([], ''snapshot-u1''))"
proof -
  have "2 < length gcRun"
    "gcRun ! 2 = (Delete KVolumeSnapshotContent ([], ''snapshot-u1''), RErr Forbidden)" by code_simp+
  then have h: "gcRun = take 2 gcRun @ (Delete KVolumeSnapshotContent ([], ''snapshot-u1''), RErr Forbidden) #
      drop (Suc 2) gcRun"
    by (metis id_take_nth_drop)
  show ?thesis
    using vcr_gc_deletes_only_finished [OF gcSubject h] h by auto
qed

text \<open>
  A VolumeCaptureRequest past its retention is collected: the reconciliation of the
  collector always ends by asking for its deletion, also when the cleanup of the artifact
  fails, and ends without an error if the server accepts or the request is already gone.
\<close>

theorem vcr_gc_collects:
  assumes "api E [] (Get KVolumeCaptureRequest n) = RObj (OVcr vcr)"
    and "vcrShouldBeDeleted E ttl (clock E [(Get KVolumeCaptureRequest n, RObj (OVcr vcr))]) vcr"
    and "run_state (gcReconcile E (vcrGCManager E ttl) n) [] = (res, h)"
  shows "\<exists>p a. h = p @ [(Delete KVolumeCaptureRequest (keyOf (vcr_meta vcr)), a)] \<and>
    (a = ROk \<or> a = RErr NotFound \<longrightarrow> res = Inr emptyResult)"
proof -
  have live: "timePtr_IsZero (m_deletion (vcr_meta vcr))"
    using assms(2) by (simp add: vcrShouldBeDeleted_def)
  have "wp (gcReconcile E (vcrGCManager E ttl) n)
    (\<lambda>res h. \<exists>p a. h = p @ [(Delete KVolumeCaptureRequest (keyOf (vcr_meta vcr)), a)] \<and>
       (a = ROk \<or> a = RErr NotFound \<longrightarrow> res = Inr emptyResult)) []"
    unfolding gcReconcile_def getObj_def
    using assms(1,2) live
    by (auto simp: wp_rules wp_call logged_def keyOf_def respErr_def IgnoreNotFound_def
        intro!: wp_vcrPreDelete wp_exec split: resp.splits)
  then show ?thesis by (simp add: wp_def assms(3))
qed

theorem vcr_gc_collects_witness:
  "\<exists>p. gcRun = p @ [(Delete KVolumeCaptureRequest (''ns'', ''r''), ROk)]"
proof -
  have due: "vcrShouldBeDeleted gcEnv (60 * Second)
      (clock gcEnv [(Get KVolumeCaptureRequest (''ns'', ''r''), RObj (OVcr exDone))]) exDone"
    by code_simp
  obtain p a where h: "gcRun = p @ [(Delete KVolumeCaptureRequest (keyOf (vcr_meta exDone)), a)]"
    using vcr_gc_collects [OF gcSubject due surjective_pairing] by blast
  have "last gcRun = (Delete KVolumeCaptureRequest (''ns'', ''r''), ROk)" by code_simp
  with h show ?thesis by auto
qed

text \<open>
  The cron sweep and the reconciler of the collector agree: a request that the sweep
  selects, with ages truncated to seconds, is one of those listed and is still accepted for
  deletion by the reconciler, which compares exact ages, at any later instant.
\<close>

theorem vcr_gc_sweep_agrees:
  assumes "0 \<le> ttl" "vcr \<in> set (vcrSelect E ttl t objs)" "t \<le> u"
  shows "vcr \<in> set objs \<and> vcrShouldBeDeleted E ttl u vcr"
  using vcr_gc.selects_should [OF assms(1,2)] vcr_gc.should_mono [OF _ assms(3), of E ttl vcr]
  by simp

theorem vcr_gc_sweep_agrees_witness:
  "vcrShouldBeDeleted gcEnv (60 * Second) (200 * Second) exDone"
proof -
  have "exDone \<in> set (vcrSelect gcEnv (60 * Second) (100 * Second) [exVcr, exDone])" by code_simp
  then show ?thesis
    using vcr_gc_sweep_agrees [of "60 * Second" exDone gcEnv "100 * Second" _ "200 * Second"]
    by (simp add: Second_def)
qed

text \<open>
  Garbage collection of VolumeRestoreRequests: the collector writes nothing but the
  deletion of the request it has read, and that only when the request is terminal, not being
  deleted, and past its retention.
\<close>

theorem vrr_gc_deletes_only_finished:
  assumes "api E [] (Get KVolumeRestoreRequest n) = RObj (OVrr vrr)"
    and "(r, a) \<in> set (snd (run_state (gcReconcile E (vrrGCManager E ttl) n) []))" "isWrite r"
  shows "r = Delete KVolumeRestoreRequest (keyOf (vrr_meta vrr)) \<and>
    isTerminal E (vrs_conditions (vrr_status vrr)) ConditionTypeReady \<and>
    timePtr_IsZero (m_deletion (vrr_meta vrr)) \<and>
    (\<exists>c. vrs_completionTimestamp (vrr_status vrr) = Some c \<and>
       ttl < time_Sub (clock E [(Get KVolumeRestoreRequest n, RObj (OVrr vrr))]) c)"
proof -
  let ?t = "clock E [(Get KVolumeRestoreRequest n, RObj (OVrr vrr))]"
  let ?P = "\<lambda>g r. isWrite r \<longrightarrow> vrrShouldBeDeleted E ttl ?t vrr \<and>
    r = Delete KVolumeRestoreRequest (keyOf (vrr_meta vrr))"
  have "obeys ?P (snd (run_state (gcReconcile E (vrrGCManager E ttl) n) []))"
    using assms(1) by (intro vrr_gc.reconcile_obeys [where obj = vrr]) (auto simp: keyOf_def)
  then obtain p where "?P p r" using obeys_mem [OF _ assms(2)] by blast
  then show ?thesis
    using assms(3) by (auto simp: vrrShouldBeDeleted_def agedOut_iff)
qed

definition vrrGcEnv :: env where
  "vrrGcEnv = ref_env (\<lambda>h r. case r of Get k n \<Rightarrow> RObj (OVrr exRestored) | _ \<Rightarrow> ROk) (\<lambda>h. 100 * Second)"

theorem vrr_gc_deletes_only_finished_witness:
  "(Delete KVolumeRestoreRequest (''ns'', ''r''), ROk) \<in>
     set (snd (run_state (gcReconcile vrrGcEnv (vrrGCManager vrrGcEnv (60 * Second)) (''ns'', ''r'')) [])) \<and>
   isTerminal vrrGcEnv (vrs_conditions (vrr_status exRestored)) ConditionTypeReady"
proof -
  have m: "(Delete KVolumeRestoreRequest (''ns'', ''r''), ROk) \<in>
     set (snd (run_state (gcReconcile vrrGcEnv (vrrGCManager vrrGcEnv (60 * Second)) (''ns'', ''r'')) []))"
    by code_simp
  have "api vrrGcEnv [] (Get KVolumeRestoreRequest (''ns'', ''r'')) = RObj (OVrr exRestored)"
    by (simp add: vrrGcEnv_def)
  from vrr_gc_deletes_only_finished [OF this m] m show ?thesis by simp
qed

end
