(* ===== verification/Publish.thy ===== *)
theory Publish
  imports Common
begin

text \<open>
  The workloads and the public endpoint that the data manager keeps for an import or an
  export: Jobs (\<open>src/common/job.go\<close>), Deployments (\<open>deployment.go\<close>), the server container
  (\<open>server_container.go\<close>), and the headless Service, the TLS secret copy and the Ingress of
  \<open>src/common/publish\<close>. The process environment and the number of polls that fit into the
  two minutes of \<open>wait.PollUntilContextTimeout\<close> are arguments. Options of a delete request
  (the propagation policy) are not part of a request.
\<close>

section \<open>Go values\<close>

text \<open>
  \<open>reflect.DeepEqual\<close> on two string maps is equality of the lookups. A nil dereference is
  the error \<open>panicErr\<close>: it ends the function the way the runtime does.
\<close>

definition strmapEq :: "strmap \<Rightarrow> strmap \<Rightarrow> bool" where
  "strmapEq m m' = list_all (\<lambda>k. map_of m k = map_of m' k) (map fst m @ map fst m')"

definition panicErr :: gerr where
  "panicErr = Sentinel (ErrOther ''panic'')"

definition TrimPrefix :: "string \<Rightarrow> string \<Rightarrow> string" where
  "TrimPrefix s p = (if take (length p) s = p then drop (length p) s else s)"

lemma strmapEq_iff: "strmapEq m m' \<longleftrightarrow> map_of m = map_of m'"
proof
  assume *: "strmapEq m m'"
  show "map_of m = map_of m'"
  proof
    fix k
    show "map_of m k = map_of m' k"
    proof (cases "k \<in> fst ` set m \<or> k \<in> fst ` set m'")
      case True
      with * show ?thesis by (auto simp: strmapEq_def list_all_iff)
    next
      case False
      then show ?thesis by (metis map_of_eq_None_iff)
    qed
  qed
qed (simp add: strmapEq_def list_all_iff)

lemma strmapEq_refl [simp]: "strmapEq m m"
  by (simp add: strmapEq_iff)

section \<open>Constants\<close>

abbreviation LabelApplicationKey :: string where "LabelApplicationKey \<equiv> ''app''"
definition AnnotationStorageManagerNamespaceKey :: string where
  "AnnotationStorageManagerNamespaceKey = ''storage-foundation.deckhouse.io/storage-manager-namespace''"
definition AnnotationStorageManagerNameKey :: string where
  "AnnotationStorageManagerNameKey = ''storage-foundation.deckhouse.io/storage-manager-name''"
definition LabelStorageManagerDeploymentNameKey :: string where
  "LabelStorageManagerDeploymentNameKey = ''storage-foundation.deckhouse.io/storage-manager-deployment-name''"
definition FileServerPort :: int where "FileServerPort = 8085"
definition BlockMountPath :: string where
  "BlockMountPath = ''/mnt/block-storage''"
definition FilesystemMountPath :: string where
  "FilesystemMountPath = ''/mnt/filesystem-storage''"

lemma manager_keys_differ [simp]:
  "AnnotationStorageManagerNameKey \<noteq> AnnotationStorageManagerNamespaceKey"
  "AnnotationStorageManagerNamespaceKey \<noteq> AnnotationStorageManagerNameKey"
  by (simp_all add: AnnotationStorageManagerNamespaceKey_def AnnotationStorageManagerNameKey_def)

section \<open>Typed reads\<close>

abbreviation getJobObj :: "env \<Rightarrow> nsname \<Rightarrow> job res io" where
  "getJobObj E \<equiv> getObj E KJob decJob"
abbreviation getDeploymentObj :: "env \<Rightarrow> nsname \<Rightarrow> deployment res io" where
  "getDeploymentObj E \<equiv> getObj E KDeployment decDeployment"
abbreviation getServiceObj :: "env \<Rightarrow> nsname \<Rightarrow> service res io" where
  "getServiceObj E \<equiv> getObj E KService decService"
abbreviation getIngressObj :: "env \<Rightarrow> nsname \<Rightarrow> ingress res io" where
  "getIngressObj E \<equiv> getObj E KIngress decIngress"
abbreviation getSecretObj :: "env \<Rightarrow> nsname \<Rightarrow> secret res io" where
  "getSecretObj E \<equiv> getObj E KSecret decSecret"

text \<open>
  Two shapes that the helpers repeat: a read that turns NotFound into a nil object, and a
  delete that reports whether the object was there.
\<close>

definition optional :: "'a res io \<Rightarrow> 'a option res io" where
  "optional m = do {
     r \<leftarrow> m;
     ret (case r of
            Inl e \<Rightarrow> if IsNotFound e then Inr None else Inl e
          | Inr x \<Rightarrow> Inr (Some x)) }"

definition deleteReport :: "env \<Rightarrow> kind \<Rightarrow> nsname \<Rightarrow> bool res io" where
  "deleteReport E k n = do {
     r \<leftarrow> exec E (Delete k n);
     ret (case r of
            Inl e \<Rightarrow> if IsNotFound e then Inr False else Inl e
          | Inr _ \<Rightarrow> Inr True) }"

definition create_or :: "env \<Rightarrow> kobj \<Rightarrow> unit res io" where
  "create_or E x = do {
     r \<leftarrow> exec E (Create x);
     ret (case r of Inl e \<Rightarrow> Inl e | Inr _ \<Rightarrow> Inr ()) }"

definition update_or :: "env \<Rightarrow> kobj \<Rightarrow> unit res io" where
  "update_or E x = do {
     r \<leftarrow> exec E (Update x);
     ret (case r of Inl e \<Rightarrow> Inl e | Inr _ \<Rightarrow> Inr ()) }"

section \<open>Jobs\<close>

definition JobTTLSecondsAfterFinished :: int where "JobTTLSecondsAfterFinished = 30"

record jobCfg =
  jc_podSpec :: podSpec
  jc_jobName :: nsname
  jc_resourceName :: nsname
  jc_labelApplicationValue :: string

definition managerAnnotations :: "nsname \<Rightarrow> strmap" where
  "managerAnnotations n =
     [(AnnotationStorageManagerNamespaceKey, fst n), (AnnotationStorageManagerNameKey, snd n)]"

definition makeJob :: "jobCfg \<Rightarrow> job" where
  "makeJob cfg =
     \<lparr>job_meta = emptyMeta\<lparr>m_name := snd (jc_jobName cfg), m_namespace := fst (jc_jobName cfg),
        m_labels := [(LabelApplicationKey, jc_labelApplicationValue cfg)],
        m_annotations := managerAnnotations (jc_resourceName cfg)\<rparr>,
      job_ttlSecondsAfterFinished = JobTTLSecondsAfterFinished,
      job_template = \<lparr>pt_labels = [(LabelApplicationKey, jc_labelApplicationValue cfg)],
        pt_annotations = managerAnnotations (jc_resourceName cfg), pt_spec = jc_podSpec cfg\<rparr>,
      job_conditions = []\<rparr>"

definition GetJob :: "env \<Rightarrow> nsname \<Rightarrow> job option res io" where
  "GetJob E n = optional (getJobObj E n)"

definition EnsureJob :: "env \<Rightarrow> jobCfg \<Rightarrow> unit res io" where
  "EnsureJob E cfg = thenE (GetJob E (jc_jobName cfg)) (\<lambda>old.
     case old of
       None \<Rightarrow> create_or E (OJob (makeJob cfg))
     | Some _ \<Rightarrow> ret (Inr ()))"

definition DeleteJob :: "env \<Rightarrow> nsname \<Rightarrow> bool res io" where
  "DeleteJob E n = deleteReport E KJob n"

definition IsJobCompleted :: "job option \<Rightarrow> bool" where
  "IsJobCompleted j =
     (case j of
        None \<Rightarrow> False
      | Some x \<Rightarrow> list_ex (\<lambda>(t, st). t = ''Complete'' \<and> st = ConditionTrue) (job_conditions x))"

section \<open>Deployments\<close>

record deploymentCfg =
  dc_podSpec :: podSpec
  dc_deploymentName :: nsname
  dc_resourceName :: nsname
  dc_labelApplicationValue :: string

definition makeDeployment :: "deploymentCfg \<Rightarrow> deployment" where
  "makeDeployment cfg =
     (let name = snd (dc_deploymentName cfg);
          labels = [(LabelApplicationKey, dc_labelApplicationValue cfg),
                    (LabelStorageManagerDeploymentNameKey, name)];
          annotations = managerAnnotations (dc_resourceName cfg) in
      \<lparr>dep_meta = emptyMeta\<lparr>m_name := name, m_namespace := fst (dc_deploymentName cfg),
         m_labels := [(LabelApplicationKey, dc_labelApplicationValue cfg)],
         m_annotations := annotations\<rparr>,
       dep_spec = \<lparr>dsp_replicas = Some 1, dsp_matchLabels = labels,
         dsp_template = \<lparr>pt_labels = labels, pt_annotations = annotations,
           pt_spec = dc_podSpec cfg\<rparr>\<rparr>,
       dep_readyReplicas = 0, dep_availableReplicas = 0, dep_conditions = []\<rparr>)"

text \<open>The comparison of the single containers; it is only reached when both pods have one.\<close>

definition containersEqual :: "container list \<Rightarrow> container list \<Rightarrow> bool" where
  "containersEqual cs cs' =
     (case (cs, cs') of
        ([c], [c']) \<Rightarrow>
          ct_image c = ct_image c' \<and> ct_args c = ct_args c' \<and>
          (case (ct_ports c, ct_ports c') of
             ([p], [p']) \<Rightarrow> snd p = snd p'
           | _ \<Rightarrow> False)
      | _ \<Rightarrow> False)"

definition needDeploymentUpdate :: "deployment \<Rightarrow> deployment \<Rightarrow> bool" where
  "needDeploymentUpdate oldDeploy newDeploy =
     (let oldSpec = dep_spec oldDeploy; newSpec = dep_spec newDeploy;
          oldPod = pt_spec (dsp_template oldSpec); newPod = pt_spec (dsp_template newSpec);
          specEqual =
            (case (dsp_replicas oldSpec, dsp_replicas newSpec) of
               (Some a, Some b) \<Rightarrow> a = b
             | _ \<Rightarrow> False) \<and>
            strmapEq (pt_labels (dsp_template oldSpec)) (pt_labels (dsp_template newSpec)) \<and>
            strmapEq (dsp_matchLabels oldSpec) (dsp_matchLabels newSpec) \<and>
            ps_serviceAccountName oldPod = ps_serviceAccountName newPod \<and>
            ps_imagePullSecrets oldPod = ps_imagePullSecrets newPod \<and>
            containersEqual (ps_containers oldPod) (ps_containers newPod) \<and>
            ps_volumes oldPod = ps_volumes newPod
      in \<not> specEqual)"

definition handleExistingDeployment :: "env \<Rightarrow> deployment \<Rightarrow> deployment \<Rightarrow> unit res io" where
  "handleExistingDeployment E oldDeploy newDeploy =
     (if needDeploymentUpdate oldDeploy newDeploy
      then update_or E (ODeployment (oldDeploy\<lparr>dep_spec := dep_spec newDeploy\<rparr>))
      else ret (Inr ()))"

definition EnsureDeployment :: "env \<Rightarrow> deploymentCfg \<Rightarrow> unit res io" where
  "EnsureDeployment E cfg = thenE (optional (getDeploymentObj E (dc_deploymentName cfg))) (\<lambda>old.
     case old of
       None \<Rightarrow> create_or E (ODeployment (makeDeployment cfg))
     | Some oldDeploy \<Rightarrow> handleExistingDeployment E oldDeploy (makeDeployment cfg))"

definition DeleteDeployment :: "env \<Rightarrow> nsname \<Rightarrow> bool res io" where
  "DeleteDeployment E n = deleteReport E KDeployment n"

definition IsDeploymentReady :: "env \<Rightarrow> nsname \<Rightarrow> bool res io" where
  "IsDeploymentReady E n = thenE (optional (getDeploymentObj E n)) (\<lambda>d.
     case d of
       None \<Rightarrow> ret (Inr False)
     | Some x \<Rightarrow>
         (case dsp_replicas (dep_spec x) of
            None \<Rightarrow> ret (Inl panicErr)
          | Some k \<Rightarrow> ret (Inr (dep_readyReplicas x = k))))"

section \<open>The server container\<close>

definition GetImage :: "env \<Rightarrow> nsname \<Rightarrow> string res io" where
  "GetImage E n = thenE (getObj E KConfigMap decConfigMap n) (\<lambda>cm.
     case map_of (cm_data cm) ''image'' of
       None \<Rightarrow> ret (Inl (Errorf (''ConfigMap '' @ fst n @ ''/'' @ snd n @ '' does not have 'image' key'') []))
     | Some img \<Rightarrow> ret (Inr img))"

definition MakeVolumes :: "string \<Rightarrow> string \<Rightarrow> bool \<Rightarrow> podVolume list" where
  "MakeVolumes volumeName pvcName readOnly =
     [\<lparr>vol_name = volumeName, vol_claim = Some (pvcName, readOnly)\<rparr>]"

record serverContainerCfg =
  scc_configMapName :: nsname
  scc_resourceName :: nsname
  scc_volumeName :: string
  scc_volumeMode :: string
  scc_ttl :: string
  scc_serverMode :: string
  scc_names :: names
  scc_controllerNamespace :: string

definition MakeServerContainer :: "env \<Rightarrow> serverContainerCfg \<Rightarrow> container res io" where
  "MakeServerContainer E cfg = thenE (GetImage E (scc_configMapName cfg)) (\<lambda>img.
     let vm = scc_volumeMode cfg; nm = scc_names cfg;
         isBlock = (vm = ''Block''); isFs = (vm = ''Filesystem'');
         mode = (if isBlock then ''block'' else if isFs then ''filesystem'' else []);
         path = (if isBlock then BlockMountPath else if isFs then FilesystemMountPath else []) in
     ret (Inr
       \<lparr>ct_name = ''server'', ct_image = img,
        ct_args = [''--mode='' @ mode, ''--path='' @ path, ''--port=8085'', ''--ttl='' @ scc_ttl cfg,
          ''--data-export-namespace='' @ fst (scc_resourceName cfg),
          ''--data-export-name='' @ snd (scc_resourceName cfg),
          ''--export-target-kind-short='' @ TargetKindShort nm,
          ''--export-target-name='' @ TargetName nm,
          ''--data-export-ca-secret-name='' @ CASecretName nm,
          ''--data-export-service-name='' @ HeadlessServiceName nm,
          ''--controller-namespace='' @ scc_controllerNamespace cfg,
          ''--operation='' @ scc_serverMode cfg],
        ct_env = [(''POD_IP'', ''status.podIP'')],
        ct_volumeMounts = (if isFs then [(scc_volumeName cfg, path)] else []),
        ct_volumeDevices = (if isBlock then [(scc_volumeName cfg, path)] else []),
        ct_ports = [(''http'', FileServerPort)],
        ct_runAsUser = (if isBlock \<or> isFs then Some 0 else None)\<rparr>))"

section \<open>The headless Service\<close>

record headlessServiceCfg =
  hs_serviceName :: nsname
  hs_deploymentName :: string
  hs_labelApplicationValue :: string

definition makeHeadlessService :: "headlessServiceCfg \<Rightarrow> service" where
  "makeHeadlessService cfg =
     \<lparr>svc_meta = emptyMeta\<lparr>m_name := snd (hs_serviceName cfg), m_namespace := fst (hs_serviceName cfg),
        m_labels := [(LabelApplicationKey, hs_labelApplicationValue cfg)]\<rparr>,
      svc_spec = \<lparr>ssp_clusterIP = ''None'', ssp_clusterIPs = [''None''],
        ssp_selector = [(LabelApplicationKey, hs_labelApplicationValue cfg),
          (LabelStorageManagerDeploymentNameKey, hs_deploymentName cfg)],
        ssp_ports = [\<lparr>sport_name = ''http'', sport_port = FileServerPort, sport_protocol = ''TCP'',
          sport_targetPort = 0\<rparr>]\<rparr>\<rparr>"

definition needHeadlessServiceUpdate :: "service \<Rightarrow> service \<Rightarrow> bool" where
  "needHeadlessServiceUpdate oldSvc newSvc =
     (let labelsEqual = strmapEq (m_labels (svc_meta oldSvc)) (m_labels (svc_meta newSvc));
          selectorEqual = strmapEq (ssp_selector (svc_spec oldSvc)) (ssp_selector (svc_spec newSvc));
          portsEqual = (ssp_ports (svc_spec oldSvc) = ssp_ports (svc_spec newSvc))
      in \<not> (labelsEqual \<and> selectorEqual \<and> portsEqual))"

definition handleExistingHeadlessService :: "env \<Rightarrow> service \<Rightarrow> service \<Rightarrow> unit res io" where
  "handleExistingHeadlessService E oldSvc newSvc =
     (if needHeadlessServiceUpdate oldSvc newSvc
      then update_or E (OService (oldSvc\<lparr>svc_spec := svc_spec newSvc,
             svc_meta := (svc_meta oldSvc)\<lparr>m_labels := m_labels (svc_meta newSvc)\<rparr>\<rparr>))
      else ret (Inr ()))"

definition GetHeadlessService :: "env \<Rightarrow> nsname \<Rightarrow> service option res io" where
  "GetHeadlessService E n = optional (getServiceObj E n)"

definition EnsureHeadlessService :: "env \<Rightarrow> headlessServiceCfg \<Rightarrow> unit res io" where
  "EnsureHeadlessService E cfg = thenE (GetHeadlessService E (hs_serviceName cfg)) (\<lambda>old.
     case old of
       None \<Rightarrow> create_or E (OService (makeHeadlessService cfg))
     | Some oldSvc \<Rightarrow> handleExistingHeadlessService E oldSvc (makeHeadlessService cfg))"

definition DeleteHeadlessService :: "env \<Rightarrow> nsname \<Rightarrow> bool res io" where
  "DeleteHeadlessService E n = deleteReport E KService n"

section \<open>The Ingress\<close>

definition AnnotationBackendProtocol :: string where
  "AnnotationBackendProtocol = ''nginx.ingress.kubernetes.io/backend-protocol''"
definition AnnotationEnableCORS :: string where
  "AnnotationEnableCORS = ''nginx.ingress.kubernetes.io/enable-cors''"
definition AnnotationCORSAllowMethods :: string where
  "AnnotationCORSAllowMethods = ''nginx.ingress.kubernetes.io/cors-allow-methods''"
definition AnnotationCORSAllowOrigin :: string where
  "AnnotationCORSAllowOrigin = ''nginx.ingress.kubernetes.io/cors-allow-origin''"
definition AnnotationCORSAllowHeaders :: string where
  "AnnotationCORSAllowHeaders = ''nginx.ingress.kubernetes.io/cors-allow-headers''"
definition AnnotationCORSExposeHeaders :: string where
  "AnnotationCORSExposeHeaders = ''nginx.ingress.kubernetes.io/cors-expose-headers''"
definition AnnotationProxyBodySize :: string where
  "AnnotationProxyBodySize = ''nginx.ingress.kubernetes.io/proxy-body-size''"

lemmas ingressAnnotation_defs = AnnotationBackendProtocol_def AnnotationEnableCORS_def
  AnnotationCORSAllowMethods_def AnnotationCORSAllowOrigin_def AnnotationCORSAllowHeaders_def
  AnnotationCORSExposeHeaders_def AnnotationProxyBodySize_def

definition CORSStandardAllowHeaders :: string where
  "CORSStandardAllowHeaders =
  ''DNT,Keep-Alive,User-Agent,X-Requested-With,If-Modified-Since,Cache-Control,Content-Type,Range,Authorization''"

record ingressCfg =
  ic_ingressName :: nsname
  ic_serviceName :: nsname
  ic_originIngress :: nsname
  ic_targetSecretName :: string
  ic_path :: string
  ic_corsAllowMethods :: string
  ic_corsAllowHeaders :: string
  ic_corsExposeHeaders :: string
  ic_proxyBodySize :: string

definition putIf :: "bool \<Rightarrow> string \<Rightarrow> string \<Rightarrow> strmap \<Rightarrow> strmap" where
  "putIf b k v m = (if b then AList.update k v m else m)"

definition makeIngress :: "ingressCfg \<Rightarrow> string \<Rightarrow> string \<Rightarrow> string \<Rightarrow> string \<Rightarrow> string \<Rightarrow> ingress" where
  "makeIngress cfg host path pathType className publicDomain =
     (let cors = (ic_corsAllowMethods cfg \<noteq> []);
          a0 = [(AnnotationBackendProtocol, ''HTTPS'')];
          a1 = putIf cors AnnotationEnableCORS ''true'' a0;
          a2 = putIf cors AnnotationCORSAllowMethods (ic_corsAllowMethods cfg) a1;
          a3 = putIf cors AnnotationCORSAllowOrigin (''https://console.'' @ publicDomain) a2;
          a4 = putIf (cors \<and> ic_corsAllowHeaders cfg \<noteq> []) AnnotationCORSAllowHeaders
                 (ic_corsAllowHeaders cfg) a3;
          a5 = putIf (cors \<and> ic_corsExposeHeaders cfg \<noteq> []) AnnotationCORSExposeHeaders
                 (ic_corsExposeHeaders cfg) a4;
          annotations = putIf (ic_proxyBodySize cfg \<noteq> []) AnnotationProxyBodySize
                 (ic_proxyBodySize cfg) a5 in
      \<lparr>ing_meta = emptyMeta\<lparr>m_name := snd (ic_ingressName cfg), m_namespace := fst (ic_ingressName cfg),
         m_annotations := annotations\<rparr>,
       ing_spec = \<lparr>isp_rules = [\<lparr>ir_host = host, ir_paths = [\<lparr>ip_path = path, ip_pathType = Some pathType,
           ip_serviceName = snd (ic_serviceName cfg), ip_servicePort = FileServerPort\<rparr>]\<rparr>],
         isp_tls = [([host], ic_targetSecretName cfg)],
         isp_className = Some className\<rparr>,
       ing_loadBalancer = []\<rparr>)"

definition needIngressUpdate :: "ingress \<Rightarrow> ingress \<Rightarrow> bool" where
  "needIngressUpdate oldIng newIng =
     (let annoEqual = strmapEq (m_annotations (ing_meta oldIng)) (m_annotations (ing_meta newIng));
          rulesEqual = (isp_rules (ing_spec oldIng) = isp_rules (ing_spec newIng));
          tlsEqual = (isp_tls (ing_spec oldIng) = isp_tls (ing_spec newIng));
          classEqual = (isp_className (ing_spec oldIng) = isp_className (ing_spec newIng))
      in \<not> (annoEqual \<and> rulesEqual \<and> tlsEqual \<and> classEqual))"

definition handleExistingIngress :: "env \<Rightarrow> ingress \<Rightarrow> ingress \<Rightarrow> unit res io" where
  "handleExistingIngress E oldIng newIng =
     (if needIngressUpdate oldIng newIng
      then update_or E (OIngress (oldIng\<lparr>ing_spec := ing_spec newIng,
             ing_meta := (ing_meta oldIng)\<lparr>m_annotations := m_annotations (ing_meta newIng)\<rparr>\<rparr>))
      else ret (Inr ()))"

definition GetIngress :: "env \<Rightarrow> nsname \<Rightarrow> ingress option res io" where
  "GetIngress E n = optional (getIngressObj E n)"

definition DeleteIngressResource :: "env \<Rightarrow> nsname \<Rightarrow> bool res io" where
  "DeleteIngressResource E n = deleteReport E KIngress n"

text \<open>The nested loops over the TLS entries and their hosts: the first entry with the host wins.\<close>

fun tlsSecretFor :: "(string list \<times> string) list \<Rightarrow> string \<Rightarrow> string option" where
  "tlsSecretFor [] host = None"
| "tlsSecretFor ((hosts, secretName) # tls) host =
     (if host \<in> set hosts then Some secretName else tlsSecretFor tls host)"

definition getIngressSecretNameFromIngress :: "env \<Rightarrow> nsname \<Rightarrow> string \<Rightarrow> string res io" where
  "getIngressSecretNameFromIngress E origin host =
     thenE (wrapE ''failed to get Ingress resource'' (getIngressObj E origin)) (\<lambda>ing.
     if isp_tls (ing_spec ing) = [] then ret (Inl (Errorf ''ingress resource does not have TLS configured'' []))
     else case tlsSecretFor (isp_tls (ing_spec ing)) host of
            None \<Rightarrow> ret (Inl (Errorf (''no TLS configuration found for host '' @ host) []))
          | Some secretName \<Rightarrow>
              if secretName = [] then ret (Inl (Errorf (''empty SecretName for host '' @ host) []))
              else ret (Inr secretName))"

definition ensureIngressSecret ::
  "env \<Rightarrow> string \<Rightarrow> string \<Rightarrow> string \<Rightarrow> string \<Rightarrow> unit res io" where
  "ensureIngressSecret E originNs originName targetNs targetName =
     thenE (getSecretObj E (originNs, originName)) (\<lambda>origin.
     thenE (optional (getSecretObj E (targetNs, targetName))) (\<lambda>old.
     case old of
       None \<Rightarrow> create_or E (OSecret \<lparr>sec_meta = emptyMeta\<lparr>m_name := targetName, m_namespace := targetNs,
                 m_labels := [(''app'', ''data-exporter'')]\<rparr>, sec_type = [], sec_data = sec_data origin\<rparr>)
     | Some s \<Rightarrow>
         if \<not> strmapEq (sec_data s) (sec_data origin)
         then update_or E (OSecret (s\<lparr>sec_data := sec_data origin\<rparr>))
         else ret (Inr ())))"

text \<open>
  The poll for a load balancer address. \<open>GetIngress\<close> answers a missing Ingress with a nil
  pointer and no error, so the closure's own NotFound test is never true and a missing
  Ingress is a nil dereference.
\<close>

fun pollIngress :: "env \<Rightarrow> nsname \<Rightarrow> nat \<Rightarrow> unit res io" where
  "pollIngress E n 0 = ret (Inl (Errorf ''context deadline exceeded'' []))"
| "pollIngress E n (Suc k) = do {
     r \<leftarrow> GetIngress E n;
     (case r of
        Inl e \<Rightarrow> if IsNotFound e then pollIngress E n k
                 else ret (Inl (Errorf ''failed to get Ingress resource'' [e]))
      | Inr None \<Rightarrow> ret (Inl panicErr)
      | Inr (Some ing) \<Rightarrow>
          if ing_loadBalancer ing \<noteq> [] then ret (Inr ()) else pollIngress E n k) }"

definition waitForIngress :: "env \<Rightarrow> nsname \<Rightarrow> nat \<Rightarrow> unit res io" where
  "waitForIngress E n attempts = do {
     r \<leftarrow> pollIngress E n attempts;
     ret (case r of
            Inl e \<Rightarrow> Inl (if e = panicErr then e
                          else Errorf ''failed to wait for Ingress resource to be ready'' [e])
          | Inr x \<Rightarrow> Inr x) }"

definition EnsureIngressResource ::
  "env \<Rightarrow> (string \<Rightarrow> string option) \<Rightarrow> nat \<Rightarrow> ingressCfg \<Rightarrow> string res io" where
  "EnsureIngressResource E lookupEnv attempts cfg =
     (case lookupEnv ''ingressPublicDomain'' of
        None \<Rightarrow> ret (Inl (Errorf ''environment variable ingressPublicDomain not defined'' []))
      | Some domain0 \<Rightarrow>
     (case lookupEnv ''ingressClassName'' of
        None \<Rightarrow> ret (Inl (Errorf ''environment variable ingressClassName not defined'' []))
      | Some className \<Rightarrow>
     (let publicDomain = TrimPrefix domain0 ''%s.'';
          host = ''api.'' @ publicDomain;
          publicURL = ''https://'' @ host @ ic_path cfg @ ''/'';
          newIngress = makeIngress cfg host (ic_path cfg) ''ImplementationSpecific'' className publicDomain in
     thenE (wrapE ''failed to get ingress secret name from origin ingress''
              (getIngressSecretNameFromIngress E (ic_originIngress cfg) host)) (\<lambda>originSecretName.
     thenE (wrapE ''failed to create or update ingress secret''
              (ensureIngressSecret E (fst (ic_originIngress cfg)) originSecretName
                 (fst (ic_ingressName cfg)) (ic_targetSecretName cfg))) (\<lambda>_.
     thenE (GetIngress E (ic_ingressName cfg)) (\<lambda>oldIngress.
     thenE (case oldIngress of
              None \<Rightarrow> create_or E (OIngress newIngress)
            | Some oldIng \<Rightarrow> handleExistingIngress E oldIng newIngress) (\<lambda>_.
     thenE (waitForIngress E (ic_ingressName cfg) attempts) (\<lambda>_.
     ret (Inr publicURL)))))))))"

section \<open>Publishing\<close>

definition EnsurePublicURL ::
  "env \<Rightarrow> (string \<Rightarrow> string option) \<Rightarrow> nat \<Rightarrow> headlessServiceCfg \<Rightarrow> ingressCfg \<Rightarrow> string res io" where
  "EnsurePublicURL E lookupEnv attempts scfg icfg =
     thenE (EnsureHeadlessService E scfg) (\<lambda>_. EnsureIngressResource E lookupEnv attempts icfg)"

definition DeletePublicResources :: "env \<Rightarrow> nsname \<Rightarrow> nsname \<Rightarrow> bool res io" where
  "DeletePublicResources E serviceName ingressName =
     thenE (DeleteHeadlessService E serviceName) (\<lambda>svcExists.
     thenE (DeleteIngressResource E ingressName) (\<lambda>ingressExists.
     ret (Inr (svcExists \<or> ingressExists))))"

definition IsPublishReady :: "env \<Rightarrow> nsname \<Rightarrow> bool res io" where
  "IsPublishReady E n = thenE (optional (getIngressObj E n)) (\<lambda>ing.
     case ing of
       None \<Rightarrow> ret (Inr False)
     | Some x \<Rightarrow> ret (Inr (ing_loadBalancer x \<noteq> [])))"

section \<open>What the helpers ask of the server\<close>

lemma wp_optional [wp_rules]:
  "wp (optional m) Q s =
     wp m (\<lambda>r s'. case r of Inl e \<Rightarrow> if IsNotFound e then Q (Inr None) s' else Q (Inl e) s'
                          | Inr x \<Rightarrow> Q (Inr (Some x)) s') s"
  by (simp add: optional_def wp_bind wp_return wp_def split: sum.splits prod.splits)

lemma wp_deleteReport:
  assumes "\<And>a. Q (case respErr a of Inl e \<Rightarrow> if IsNotFound e then Inr False else Inl e | Inr _ \<Rightarrow> Inr True)
     (logged h (Delete k n) a)"
  shows "wp (deleteReport E k n) Q h"
  unfolding deleteReport_def using assms by (auto simp: wp_rules intro!: wp_exec)

lemma wp_create_or:
  assumes "\<And>a. Q (case respErr a of Inl e \<Rightarrow> Inl e | Inr _ \<Rightarrow> Inr ()) (logged h (Create x) a)"
  shows "wp (create_or E x) Q h"
  unfolding create_or_def using assms by (auto simp: wp_rules intro!: wp_exec)

lemma wp_update_or:
  assumes "\<And>a. Q (case respErr a of Inl e \<Rightarrow> Inl e | Inr _ \<Rightarrow> Inr ()) (logged h (Update x) a)"
  shows "wp (update_or E x) Q h"
  unfolding update_or_def using assms by (auto simp: wp_rules intro!: wp_exec)

section \<open>Updates settle\<close>

text \<open>The object a write request carries to the server.\<close>

fun writtenObj :: "req \<Rightarrow> kobj option" where
  "writtenObj (Create x) = Some x"
| "writtenObj (Update x) = Some x"
| "writtenObj _ = None"

text \<open>A pod the deployment comparison can recognise again: one container with one port.\<close>

definition singlePort :: "podSpec \<Rightarrow> bool" where
  "singlePort ps = (case ps_containers ps of [c] \<Rightarrow> length (ct_ports c) = 1 | _ \<Rightarrow> False)"

lemma containersEqual_refl: "singlePort ps \<Longrightarrow> containersEqual (ps_containers ps) (ps_containers ps)"
  by (auto simp: singlePort_def containersEqual_def length_Suc_conv split: list.splits)

lemma deployment_stored:
  "singlePort (dc_podSpec cfg) \<Longrightarrow>
     \<not> needDeploymentUpdate (d\<lparr>dep_spec := dep_spec (makeDeployment cfg)\<rparr>) (makeDeployment cfg)"
  by (simp add: needDeploymentUpdate_def Let_def makeDeployment_def containersEqual_refl)

lemma EnsureDeployment_writes:
  "wp (EnsureDeployment E cfg) (\<lambda>_ h'. \<forall>r a d. (r, a) \<in> set h' \<and> writtenObj r = Some (ODeployment d) \<longrightarrow>
     dep_spec d = dep_spec (makeDeployment cfg)) []"
  unfolding EnsureDeployment_def handleExistingDeployment_def
  by (auto simp: wp_rules logged_def intro!: wp_getObj wp_create_or wp_update_or split: sum.splits option.splits)

lemma EnsureDeployment_settled:
  assumes "singlePort (dc_podSpec cfg)" "dep_spec d = dep_spec (makeDeployment cfg)"
    and ans: "answers E (Get KDeployment (dc_deploymentName cfg)) (RObj (ODeployment d))"
  shows "run_state (EnsureDeployment E cfg) h =
    (Inr (), logged h (Get KDeployment (dc_deploymentName cfg)) (RObj (ODeployment d)))"
proof -
  have "\<not> needDeploymentUpdate d (makeDeployment cfg)"
    using deployment_stored [OF assms(1), of d] assms(2)
    by (metis deployment.surjective deployment.update_convs(2))
  then have "wp (EnsureDeployment E cfg) (\<lambda>r h'. r = Inr () \<and>
      h' = logged h (Get KDeployment (dc_deploymentName cfg)) (RObj (ODeployment d))) h"
    unfolding EnsureDeployment_def handleExistingDeployment_def
    by (simp add: wp_rules wp_getObj_answers [OF ans])
  then show ?thesis by (simp add: wp_run prod_eq_iff)
qed

text \<open>
  A Deployment settles: once the server stores what \<open>EnsureDeployment\<close> wrote, created or
  updated, a later \<open>EnsureDeployment\<close> with the same configuration reads it and writes nothing,
  for every pod with one container and one port, as the server pod has.
\<close>

theorem deployment_settles:
  assumes "(r, a) \<in> set (snd (run_state (EnsureDeployment E cfg) []))"
    and "writtenObj r = Some (ODeployment d)" and "singlePort (dc_podSpec cfg)"
    and "dep_spec stored = dep_spec d"
    and "answers E' (Get KDeployment (dc_deploymentName cfg)) (RObj (ODeployment stored))"
  shows "run_state (EnsureDeployment E' cfg) h =
    (Inr (), logged h (Get KDeployment (dc_deploymentName cfg)) (RObj (ODeployment stored)))"
  using EnsureDeployment_writes [of E cfg] assms
  by (intro EnsureDeployment_settled) (auto simp: wp_run)

text \<open>A server that has no Deployment yet, and the pod of a server container.\<close>

definition exDeployCfg :: deploymentCfg where
  "exDeployCfg = \<lparr>dc_podSpec = \<lparr>ps_serviceAccountName = ''data-exporter'', ps_imagePullSecrets = [],
     ps_containers = [\<lparr>ct_name = ''server'', ct_image = ''i'', ct_args = [''--mode=block''], ct_env = [],
       ct_volumeMounts = [], ct_volumeDevices = [], ct_ports = [(''http'', 8085)], ct_runAsUser = None\<rparr>],
     ps_volumes = [], ps_restartPolicy = []\<rparr>,
     dc_deploymentName = (''d8'', ''deploy''), dc_resourceName = (''ns'', ''x''),
     dc_labelApplicationValue = ''data-export''\<rparr>"

fun emptySrv :: "hist \<Rightarrow> req \<Rightarrow> resp" where
  "emptySrv h (Get k n) = RErr NotFound"
| "emptySrv h r = ROk"

abbreviation storedSrv :: "kobj \<Rightarrow> hist \<Rightarrow> req \<Rightarrow> resp" where
  "storedSrv x \<equiv> (\<lambda>h r. RObj x)"

theorem deployment_settles_witness:
  "run_state (EnsureDeployment (ref_env (storedSrv (ODeployment (makeDeployment exDeployCfg))) (\<lambda>h. 0))
      exDeployCfg) [] =
   (Inr (), [(Get KDeployment (''d8'', ''deploy''), RObj (ODeployment (makeDeployment exDeployCfg)))])"
proof -
  let ?E = "ref_env emptySrv (\<lambda>h. 0)" and ?d = "makeDeployment exDeployCfg"
  have w: "(Create (ODeployment ?d), ROk) \<in> set (snd (run_state (EnsureDeployment ?E exDeployCfg) []))"
    by code_simp
  have one: "singlePort (dc_podSpec exDeployCfg)" by code_simp
  have n: "dc_deploymentName exDeployCfg = (''d8'', ''deploy'')" by code_simp
  show ?thesis
    using deployment_settles [OF w _ one, of ?d ?d "ref_env (storedSrv (ODeployment ?d)) (\<lambda>h. 0)" "[]"]
    by (simp add: answers_def n logged_def)
qed

text \<open>The same for the Ingress: what was written is not written again.\<close>

lemma ingress_stored:
  "\<not> needIngressUpdate (i\<lparr>ing_spec := ing_spec n, ing_meta := m\<lparr>m_annotations := m_annotations (ing_meta n)\<rparr>\<rparr>) n"
  by (simp add: needIngressUpdate_def Let_def)

definition ingressWanted :: "(string \<Rightarrow> string option) \<Rightarrow> ingressCfg \<Rightarrow> ingress" where
  "ingressWanted lookupEnv cfg =
     (let publicDomain = TrimPrefix (the (lookupEnv ''ingressPublicDomain'')) ''%s.'' in
      makeIngress cfg (''api.'' @ publicDomain) (ic_path cfg) ''ImplementationSpecific''
        (the (lookupEnv ''ingressClassName'')) publicDomain)"

text \<open>Every Ingress written along a history satisfies \<open>P\<close>.\<close>

definition ingressWrites :: "(ingress \<Rightarrow> bool) \<Rightarrow> hist \<Rightarrow> bool" where
  "ingressWrites P h \<longleftrightarrow> (\<forall>r a i. (r, a) \<in> set h \<and> writtenObj r = Some (OIngress i) \<longrightarrow> P i)"

lemma ingressWrites_logged [simp]:
  "ingressWrites P (logged h r a) \<longleftrightarrow>
     ingressWrites P h \<and> (\<forall>i. writtenObj r = Some (OIngress i) \<longrightarrow> P i)"
  by (auto simp: ingressWrites_def)

lemma ingressWrites_Nil [simp]: "ingressWrites P []"
  by (simp add: ingressWrites_def)

lemma originSecret_writes:
  "ingressWrites P h \<Longrightarrow> wp (getIngressSecretNameFromIngress E n host) (\<lambda>_. ingressWrites P) h"
  unfolding getIngressSecretNameFromIngress_def
  by (auto simp: wp_rules intro!: wp_getObj split: sum.splits option.splits)

lemma ensureIngressSecret_writes:
  "ingressWrites P h \<Longrightarrow> wp (ensureIngressSecret E a b c d) (\<lambda>_. ingressWrites P) h"
  unfolding ensureIngressSecret_def
  by (auto simp: wp_rules intro!: wp_getObj wp_create_or wp_update_or split: sum.splits option.splits)

lemma waitForIngress_writes:
  "ingressWrites P h \<Longrightarrow> wp (waitForIngress E n k) (\<lambda>_. ingressWrites P) h"
proof -
  have "ingressWrites P h \<Longrightarrow> wp (pollIngress E n k) (\<lambda>_. ingressWrites P) h" for h
    by (induction k arbitrary: h)
      (auto simp: wp_rules GetIngress_def intro!: wp_getObj split: sum.splits option.splits)
  then show "ingressWrites P h \<Longrightarrow> ?thesis"
    unfolding waitForIngress_def wp_bind by (rule wp_mono) (simp_all add: wp_rules)
qed

lemmas ingress_parts = wp_mono [OF originSecret_writes] wp_mono [OF ensureIngressSecret_writes]
  wp_mono [OF waitForIngress_writes]

lemma EnsureIngress_writes:
  "wp (EnsureIngressResource E lookupEnv k cfg)
     (\<lambda>_. ingressWrites (\<lambda>i. \<not> needIngressUpdate i (ingressWanted lookupEnv cfg))) []"
proof -
  have self: "\<not> needIngressUpdate n n" for n by (simp add: needIngressUpdate_def Let_def)
  show ?thesis
    unfolding EnsureIngressResource_def Let_def handleExistingIngress_def
    by (auto simp: wp_rules GetIngress_def ingressWanted_def Let_def self ingress_stored
      intro!: ingress_parts wp_getObj wp_create_or wp_update_or
      split: option.splits sum.splits)
qed

lemma EnsureIngress_settled:
  assumes "\<not> needIngressUpdate i (ingressWanted lookupEnv cfg)"
    and ans: "answers E (Get KIngress (ic_ingressName cfg)) (RObj (OIngress i))"
  shows "wp (EnsureIngressResource E lookupEnv k cfg) (\<lambda>_. ingressWrites (\<lambda>_. False)) []"
  using assms(1)
  unfolding EnsureIngressResource_def Let_def handleExistingIngress_def
  by (auto simp: wp_rules GetIngress_def ingressWanted_def Let_def wp_getObj_answers [OF ans]
      intro!: ingress_parts wp_create_or wp_update_or
      split: option.splits sum.splits)

text \<open>
  The Ingress settles: when the server stores the rules, TLS entries, class and
  annotations that \<open>EnsureIngressResource\<close> wrote, a later pass with the same configuration and
  process environment writes no Ingress, whatever else changed.
\<close>

theorem ingress_settles:
  assumes "(r, a) \<in> set (snd (run_state (EnsureIngressResource E lookupEnv k cfg) []))"
    and "writtenObj r = Some (OIngress i)"
    and "ing_spec stored = ing_spec i" "m_annotations (ing_meta stored) = m_annotations (ing_meta i)"
    and "answers E' (Get KIngress (ic_ingressName cfg)) (RObj (OIngress stored))"
    and "(r', a') \<in> set (snd (run_state (EnsureIngressResource E' lookupEnv k' cfg) []))"
  shows "writtenObj r' \<noteq> Some (OIngress i')"
proof -
  have "\<not> needIngressUpdate i (ingressWanted lookupEnv cfg)"
    using EnsureIngress_writes [of E lookupEnv k cfg] assms(1,2)
    by (auto simp: wp_run ingressWrites_def)
  then have "\<not> needIngressUpdate stored (ingressWanted lookupEnv cfg)"
    using assms(3,4) by (simp add: needIngressUpdate_def)
  from EnsureIngress_settled [OF this assms(5), of k'] assms(6) show ?thesis
    by (auto simp: wp_run ingressWrites_def)
qed

text \<open>An origin Ingress with TLS, its secret, and an Ingress with an address.\<close>

definition exIngressCfg :: ingressCfg where
  "exIngressCfg = \<lparr>ic_ingressName = (''d8'', ''ing''), ic_serviceName = (''d8'', ''svc''),
     ic_originIngress = (''auth'', ''kubernetes-api''), ic_targetSecretName = ''tls'', ic_path = ''/ns/pvc/x'',
     ic_corsAllowMethods = ''PUT'', ic_corsAllowHeaders = [], ic_corsExposeHeaders = [],
     ic_proxyBodySize = ''64m''\<rparr>"

definition exOrigin :: ingress where
  "exOrigin = \<lparr>ing_meta = emptyMeta, ing_spec = \<lparr>isp_rules = [], isp_tls = [([''api.ex.org''], ''cert'')],
     isp_className = None\<rparr>, ing_loadBalancer = []\<rparr>"

definition exLookup :: "string \<Rightarrow> string option" where
  "exLookup v = map_of [(''ingressPublicDomain'', ''%s.ex.org''), (''ingressClassName'', ''nginx'')] v"

definition exIngress :: ingress where
  "exIngress = ingressWanted exLookup exIngressCfg"

fun ingressSrv :: "resp \<Rightarrow> hist \<Rightarrow> req \<Rightarrow> resp" where
  "ingressSrv own h (Get k n) =
     (case k of
        KIngress \<Rightarrow> if fst n = ''auth'' then RObj (OIngress exOrigin) else own
      | KSecret \<Rightarrow> RObj (OSecret \<lparr>sec_meta = emptyMeta, sec_type = [], sec_data = []\<rparr>)
      | _ \<Rightarrow> RErr NotFound)"
| "ingressSrv own h r = ROk"

theorem ingress_settles_witness:
  "\<forall>i. (Update (OIngress i), ROk) \<notin> set (snd (run_state (EnsureIngressResource
     (ref_env (ingressSrv (RObj (OIngress (exIngress\<lparr>ing_loadBalancer := [''10.0.0.1'']\<rparr>)))) (\<lambda>h. 0))
       exLookup 24 exIngressCfg) []))"
proof
  fix i
  let ?E = "ref_env (ingressSrv (RErr NotFound)) (\<lambda>h. 0)"
  let ?s = "exIngress\<lparr>ing_loadBalancer := [''10.0.0.1'']\<rparr>"
  have w: "(Create (OIngress exIngress), ROk) \<in>
      set (snd (run_state (EnsureIngressResource ?E exLookup 24 exIngressCfg) []))" by code_simp
  have n: "ic_ingressName exIngressCfg = (''d8'', ''ing'')" by code_simp
  have ans: "answers (ref_env (ingressSrv (RObj (OIngress ?s))) (\<lambda>h. 0))
      (Get KIngress (ic_ingressName exIngressCfg)) (RObj (OIngress ?s))"
    by (simp add: answers_def n)
  show "(Update (OIngress i), ROk) \<notin> set (snd (run_state (EnsureIngressResource
     (ref_env (ingressSrv (RObj (OIngress ?s))) (\<lambda>h. 0)) exLookup 24 exIngressCfg) []))"
    using ingress_settles [OF w _ _ _ ans, of exIngress "Update (OIngress i)"] by auto
qed

section \<open>What does not settle\<close>

text \<open>
  The Service never does. The API server fills an unset target port with the port; the
  comparison then finds the stored ports different from the wanted ones, so every pass writes
  the Service again.
\<close>

lemma service_never_settles:
  assumes "answers E (Get KService (hs_serviceName cfg)) (RObj (OService s))"
    and "\<forall>p \<in> set (ssp_ports (svc_spec s)). sport_targetPort p = sport_port p \<and> sport_port p \<noteq> 0"
  shows "\<exists>x a. (Update (OService x), a) \<in> set (snd (run_state (EnsureHeadlessService E cfg) h))"
proof -
  have "needHeadlessServiceUpdate s (makeHeadlessService cfg)"
    using assms(2) by (auto simp: needHeadlessServiceUpdate_def makeHeadlessService_def Let_def)
  then have "wp (EnsureHeadlessService E cfg) (\<lambda>_ h'. \<exists>x a. (Update (OService x), a) \<in> set h') h"
    unfolding EnsureHeadlessService_def GetHeadlessService_def handleExistingHeadlessService_def
    by (auto simp: wp_rules wp_getObj_answers [OF assms(1)] intro!: wp_update_or split: sum.splits) blast
  then show ?thesis by (simp add: wp_run)
qed

text \<open>
  A published endpoint whose Ingress is not visible yet, as right after its creation through
  a cached client, is a nil dereference: the poll ends in a panic at its first read.
\<close>

lemma missing_ingress_panics:
  "answers E (Get KIngress n) (RErr NotFound) \<Longrightarrow>
     fst (run_state (waitForIngress E n (Suc k)) h) = Inl panicErr"
  by (simp add: waitForIngress_def GetIngress_def optional_def getObj_def call_def answers_def Let_def
    State_Monad.bind_def State_Monad.return_def)

end
