(* ===== verification/Data_Import.thy ===== *)
theory Data_Import
  imports Publish Controllers
begin

text \<open>
  The DataImport controller of \<open>src/images/data-manager-controller\<close>: the claim the imported
  bytes land in (\<open>pvc.go\<close>), the capture request (\<open>volume_capture.go\<close>), the keeper and the
  retention of the produced artifact (\<open>object_keeper.go\<close>, \<open>artifact.go\<close>), the consumer job
  (\<open>dummy_container.go\<close>) and the reconciler (\<open>data_import_resource.go\<close>).

  The reconciler changes its in-memory DataImport throughout and persists it once, in a
  deferred function that also runs when the body fails. The operations that change it
  therefore take the object and return it together with their result, on every path.
\<close>

section \<open>Configuration\<close>

text \<open>
  The namespaces of \<open>config.Options\<close>, the process environment, the number of polls of the
  Ingress, and \<open>resource.ParseQuantity\<close>, which returns a quantity in its canonical form.
\<close>

record dmConfig =
  dm_controllerNamespace :: string
  dm_originIngressNamespace :: string
  dm_lookupEnv :: "string \<Rightarrow> string option"
  dm_pollAttempts :: nat
  dm_parseQuantity :: "string \<Rightarrow> string res"

definition dataImportRequeueInterval :: duration where
  "dataImportRequeueInterval = 5 * Second"

abbreviation requeueSoon :: ctrlResult where
  "requeueSoon \<equiv> \<lparr>RequeueAfter = dataImportRequeueInterval\<rparr>"

abbreviation dataImportKind :: string where "dataImportKind \<equiv> ''DataImport''"
abbreviation objectKeeperModeFollowObject :: string where
  "objectKeeperModeFollowObject \<equiv> ''FollowObject''"
abbreviation vcrModeSnapshot :: string where "vcrModeSnapshot \<equiv> ''Snapshot''"
abbreviation artifactKindVolumeSnapshotContent :: string where
  "artifactKindVolumeSnapshotContent \<equiv> ''VolumeSnapshotContent''"
abbreviation artifactKindPersistentVolume :: string where
  "artifactKindPersistentVolume \<equiv> ''PersistentVolume''"
definition storageClassVSCAnnotation :: string where
  "storageClassVSCAnnotation = ''storage.deckhouse.io/volumesnapshotclass''"
definition LabelDataImportValue :: string where
  "LabelDataImportValue = ''data-importer''"
definition dmAPIGroup :: string where
  "dmAPIGroup = ''storage-foundation.deckhouse.io''"

abbreviation ReasonPending :: string where "ReasonPending \<equiv> ''Pending''"
abbreviation ReasonPVCCreated :: string where "ReasonPVCCreated \<equiv> ''PVCCreated''"
abbreviation ReasonServerReady :: string where "ReasonServerReady \<equiv> ''ServerReady''"
abbreviation ReasonInProgress :: string where "ReasonInProgress \<equiv> ''InProgress''"
abbreviation ReasonExpired :: string where "ReasonExpired \<equiv> ''Expired''"
abbreviation ReasonDeleted :: string where "ReasonDeleted \<equiv> ''Deleted''"
abbreviation ReasonUploadFinished :: string where "ReasonUploadFinished \<equiv> ''UploadFinished''"
abbreviation ReasonFailed :: string where "ReasonFailed \<equiv> ''Failed''"
abbreviation ReasonTargetFailed :: string where "ReasonTargetFailed \<equiv> ''TargetFailed''"
abbreviation ReasonCleanupFailed :: string where "ReasonCleanupFailed \<equiv> ''CleanupFailed''"

text \<open>\<open>fmt.Errorf("%w: %w", sentinel, err)\<close>.\<close>

definition markErr :: "sentinel \<Rightarrow> gerr \<Rightarrow> gerr" where
  "markErr s e = Errorf '': '' [Sentinel s, e]"

definition markE :: "sentinel \<Rightarrow> 'a res io \<Rightarrow> 'a res io" where
  "markE s m = do { r \<leftarrow> m; ret (case r of Inl e \<Rightarrow> Inl (markErr s e) | Inr x \<Rightarrow> Inr x) }"

text \<open>Terminal target failures: \<open>fmt.Errorf("%w: %w: ...", ErrTerminal, ErrTargetFailed, ...)\<close>.\<close>

definition terminalErr :: "string \<Rightarrow> gerr list \<Rightarrow> gerr" where
  "terminalErr msg es = Errorf msg (Sentinel ErrTerminal # Sentinel ErrTargetFailed # es)"

section \<open>The claim\<close>

definition makePVC :: "pvcTemplateSpec \<Rightarrow> objref option \<Rightarrow> nsname \<Rightarrow> persistentVolumeClaim" where
  "makePVC tmpl src resourceName =
     \<lparr>pvc_meta = emptyMeta\<lparr>m_name := tmpl_name tmpl, m_namespace := fst resourceName,
        m_labels := AList.update LabelApplicationKey LabelDataImportValue (tmpl_labels tmpl),
        m_annotations := AList.update AnnotationStorageManagerNameKey (snd resourceName)
          (AList.update AnnotationStorageManagerNamespaceKey (fst resourceName) (tmpl_annotations tmpl)),
        m_finalizers := [StorageManagerFinalizerName]\<rparr>,
      pvc_volumeName = [], pvc_storageClassName = tmpl_storageClassName tmpl,
      pvc_volumeMode = tmpl_volumeMode tmpl, pvc_accessModes = tmpl_accessModes tmpl,
      pvc_requests = tmpl_requests tmpl, pvc_dataSourceRef = src, pvc_phase = []\<rparr>"

definition ptrEqual :: "'a option \<Rightarrow> 'a option \<Rightarrow> bool" where
  "ptrEqual a b =
     (if a = None \<and> b = None then True
      else if a = None \<or> b = None then False
      else the a = the b)"

definition needsPVCSpecUpdate :: "persistentVolumeClaim \<Rightarrow> persistentVolumeClaim \<Rightarrow> bool" where
  "needsPVCSpecUpdate existingPVC newPVC =
     (pvc_accessModes existingPVC \<noteq> pvc_accessModes newPVC \<or>
      \<not> strmapEq (pvc_requests existingPVC) (pvc_requests newPVC) \<or>
      \<not> ptrEqual (pvc_storageClassName existingPVC) (pvc_storageClassName newPVC) \<or>
      \<not> ptrEqual (pvc_volumeMode existingPVC) (pvc_volumeMode newPVC))"

text \<open>The assignment \<open>existingPVC.Spec = newPVC.Spec\<close> replaces every field of the spec.\<close>

definition setPVCSpec :: "persistentVolumeClaim \<Rightarrow> persistentVolumeClaim \<Rightarrow> persistentVolumeClaim" where
  "setPVCSpec existingPVC newPVC = newPVC\<lparr>pvc_meta := pvc_meta existingPVC, pvc_phase := pvc_phase existingPVC\<rparr>"

definition handleExistingPVC :: "env \<Rightarrow> persistentVolumeClaim \<Rightarrow> persistentVolumeClaim \<Rightarrow> unit res io" where
  "handleExistingPVC E existingPVC newPVC =
     (if needsPVCSpecUpdate existingPVC newPVC
      then update_or E (OPvc (setPVCSpec existingPVC newPVC))
      else ret (Inr ()))"

definition EnsurePVC :: "env \<Rightarrow> nsname \<Rightarrow> pvcTemplateSpec \<Rightarrow> objref option \<Rightarrow> unit res io" where
  "EnsurePVC E resourceName tmpl src =
     (let newPVC = makePVC tmpl src resourceName in
      thenE (optional (getPvc E (fst resourceName, tmpl_name tmpl))) (\<lambda>old.
      case old of
        None \<Rightarrow> create_or E (OPvc newPVC)
      | Some oldPVC \<Rightarrow> handleExistingPVC E oldPVC newPVC))"

datatype targetStatus =
    TargetStatusUnknown | TargetStatusPending | TargetStatusNeedConsumer | TargetStatusReady
  | TargetStatusFailed

definition getStorageClassName :: "persistentVolumeClaim \<Rightarrow> string res" where
  "getStorageClassName pvc =
     (case pvc_storageClassName pvc of
        None \<Rightarrow> Inl (Errorf ''PVC does not have a storage class specified'' [])
      | Some sc \<Rightarrow> Inr sc)"

definition isWaitForFirstConsumer :: "env \<Rightarrow> persistentVolumeClaim \<Rightarrow> bool res io" where
  "isWaitForFirstConsumer E pvc = thenE (ret (getStorageClassName pvc)) (\<lambda>name.
     thenE (getStorageClass E name) (\<lambda>sc.
     ret (Inr (sc_volumeBindingMode sc = Some ''WaitForFirstConsumer''))))"

definition CheckPVCStatus :: "env \<Rightarrow> persistentVolumeClaim \<Rightarrow> bool \<Rightarrow> targetStatus res io" where
  "CheckPVCStatus E pvc waitForFirstConsumer =
     (if pvc_phase pvc = ''Bound'' then ret (Inr TargetStatusReady)
      else if pvc_phase pvc = ''Pending'' then
        thenE (isWaitForFirstConsumer E pvc) (\<lambda>scWffc.
        ret (Inr (if scWffc \<and> \<not> waitForFirstConsumer then TargetStatusNeedConsumer
                  else TargetStatusPending)))
      else ret (Inr TargetStatusFailed))"

definition GetPVCVolumeMode :: "persistentVolumeClaim \<Rightarrow> string res" where
  "GetPVCVolumeMode pvc =
     (case pvc_volumeMode pvc of
        None \<Rightarrow> Inl (Errorf ''PVC does not have a volume mode specified'' [])
      | Some m \<Rightarrow> Inr m)"

definition scratchVolumeFSType :: "env \<Rightarrow> persistentVolumeClaim \<Rightarrow> string io" where
  "scratchVolumeFSType E pvc =
     (if pvc_volumeMode pvc = Some ''Block'' then ret []
      else if pvc_volumeName pvc = [] then ret []
      else do {
        r \<leftarrow> getPv E (pvc_volumeName pvc);
        ret (case r of
               Inl e \<Rightarrow> []
             | Inr pv \<Rightarrow> (case pv_csi pv of None \<Rightarrow> [] | Some src \<Rightarrow> csi_fsType src)) })"

text \<open>An error other than NotFound ends the function.\<close>

definition ignoreNotFound :: "string res io \<Rightarrow> unit res io" where
  "ignoreNotFound m = do {
     r \<leftarrow> m;
     ret (case r of Inl e \<Rightarrow> if IsNotFound e then Inr () else Inl e | Inr _ \<Rightarrow> Inr ()) }"

definition DeleteScratchPVC :: "env \<Rightarrow> persistentVolumeClaim \<Rightarrow> unit res io" where
  "DeleteScratchPVC E base =
     (let has = ContainsString (m_finalizers (pvc_meta base)) StorageManagerFinalizerName;
          pvc = base\<lparr>pvc_meta := fst (RemoveFinalizer (pvc_meta base) StorageManagerFinalizerName)\<rparr> in
      thenE (if has then ignoreNotFound (exec E (Patch False (OPvc base) (OPvc pvc))) else ret (Inr ())) (\<lambda>_.
      ignoreNotFound (exec E (Delete KPersistentVolumeClaim (keyOf (pvc_meta pvc))))))"

definition RemovePVCFinalizer :: "env \<Rightarrow> nsname \<Rightarrow> string \<Rightarrow> unit res io" where
  "RemovePVCFinalizer E n f = thenE (optional (getPvc E n)) (\<lambda>found.
     case found of
       None \<Rightarrow> ret (Inr ())
     | Some pvc \<Rightarrow>
         (case RemoveFinalizer (pvc_meta pvc) f of
            (m, needUpdate) \<Rightarrow>
              if needUpdate then update_or E (OPvc (pvc\<lparr>pvc_meta := m\<rparr>)) else ret (Inr ())))"

definition GetScratchPVC :: "env \<Rightarrow> string \<Rightarrow> string \<Rightarrow> persistentVolumeClaim res io" where
  "GetScratchPVC E ns name = getPvc E (ns, name)"

section \<open>The capture request\<close>

definition resolveSnapshotCaptureMode :: "env \<Rightarrow> dataImport \<Rightarrow> (string \<times> string) res io" where
  "resolveSnapshotCaptureMode E di =
     (case di_storageParams di of
        None \<Rightarrow> ret (Inl (Errorf ''spec.storageParams.storageClassName is required'' [Sentinel ErrTerminal]))
      | Some tmpl \<Rightarrow>
     (if sp_storageClassName tmpl = []
      then ret (Inl (Errorf ''spec.storageParams.storageClassName is required'' [Sentinel ErrTerminal]))
      else
      thenE (wrapE ''get StorageClass'' (getStorageClass E (sp_storageClassName tmpl))) (\<lambda>sc.
      let vscName = index_str (m_annotations (sc_meta sc)) storageClassVSCAnnotation in
      if vscName = [] then ret (Inl (Errorf ''StorageClass is not snapshot-capable'' [Sentinel ErrTerminal]))
      else
      thenE (wrapE ''get VolumeSnapshotClass'' (getVsClass E vscName)) (\<lambda>vsc.
      if vsclass_driver vsc \<noteq> sc_provisioner sc
      then ret (Inl (Errorf ''VolumeSnapshotClass driver does not match'' [Sentinel ErrTerminal]))
      else ret (Inr (vcrModeSnapshot, artifactKindVolumeSnapshotContent))))))"

definition volumeCaptureRequestName :: "string \<Rightarrow> string" where
  "volumeCaptureRequestName uid = ''data-import-vcr-'' @ uid"

definition buildVolumeCaptureRequest ::
  "string \<Rightarrow> dataImport \<Rightarrow> persistentVolumeClaim \<Rightarrow> string \<Rightarrow> volumeCaptureRequest" where
  "buildVolumeCaptureRequest name di scratchPVC mode =
     \<lparr>vcr_meta = emptyMeta\<lparr>m_name := name, m_namespace := m_namespace (di_meta di),
        m_owners := [\<lparr>or_apiVersion = APIGroupStorageDeckhouse, or_kind = dataImportKind,
          or_name = m_name (di_meta di), or_uid = m_uid (di_meta di), or_controller = Some True,
          or_blockOwnerDeletion = Some True\<rparr>]\<rparr>,
      vcr_mode = mode,
      vcr_target = Some \<lparr>vt_uid = m_uid (pvc_meta scratchPVC), vt_apiVersion = ''v1'',
        vt_kind = ''PersistentVolumeClaim'', vt_name = m_name (pvc_meta scratchPVC), vt_namespace = []\<rparr>,
      vcr_status = \<lparr>vcs_completionTimestamp = None, vcs_conditions = [], vcs_data = None\<rparr>\<rparr>"

definition ensureVolumeCaptureRequest ::
  "env \<Rightarrow> dataImport \<Rightarrow> persistentVolumeClaim \<Rightarrow> string \<Rightarrow> volumeCaptureRequest res io" where
  "ensureVolumeCaptureRequest E di scratchPVC mode =
     (let name = volumeCaptureRequestName (m_uid (di_meta di));
          key = (m_namespace (di_meta di), name) in
      do {
        got \<leftarrow> getVcr E key;
        (case got of
           Inr vcr \<Rightarrow> ret (Inr vcr)
         | Inl err \<Rightarrow>
             if \<not> IsNotFound err then ret (Inl (Errorf ''get VolumeCaptureRequest'' [err]))
             else do {
               created \<leftarrow> sendObj E (Create (OVcr (buildVolumeCaptureRequest name di scratchPVC mode))) decVcr;
               (case created of
                  Inr vcr \<Rightarrow> ret (Inr vcr)
                | Inl err2 \<Rightarrow>
                    if IsAlreadyExists err2 then getVcr E key
                    else ret (Inl (Errorf ''create VolumeCaptureRequest'' [err2]))) }) })"

text \<open>The conditions of an unstructured request are searched for the first of type Ready.\<close>

definition vcrReadyCondition :: "volumeCaptureRequest \<Rightarrow> (cstatus \<times> string) option" where
  "vcrReadyCondition vcr =
     (case GetCondition (vcs_conditions (vcr_status vcr)) ConditionTypeReady of
        None \<Rightarrow> None
      | Some c \<Rightarrow> Some (c_status c, c_reason c))"

definition volumeCaptureRequestReady :: "volumeCaptureRequest \<Rightarrow> bool" where
  "volumeCaptureRequestReady vcr =
     (case vcrReadyCondition vcr of
        None \<Rightarrow> False
      | Some (status, reason) \<Rightarrow> status = ConditionTrue \<and> reason = ReasonCompleted)"

definition volumeCaptureRequestFailed :: "volumeCaptureRequest \<Rightarrow> bool \<times> string" where
  "volumeCaptureRequestFailed vcr =
     (case vcrReadyCondition vcr of
        None \<Rightarrow> (False, [])
      | Some (status, reason) \<Rightarrow>
          if status = ConditionFalse \<and> reason \<noteq> ReasonTargetsPending then (True, reason) else (False, []))"

definition volumeCaptureArtifact :: "volumeCaptureRequest \<Rightarrow> string \<Rightarrow> artifactRef res" where
  "volumeCaptureArtifact vcr expectedKind =
     (case vcs_data (vcr_status vcr) of
        None \<Rightarrow> Inl (Errorf ''VolumeCaptureRequest has no status.data'' [])
      | Some dataRef \<Rightarrow>
          (let artifact = vdb_artifactRef dataRef in
           if ar_kind artifact \<noteq> expectedKind
           then Inl (Errorf (''VolumeCaptureRequest produced artifact kind '' @ ar_kind artifact) [])
           else if ar_name artifact = [] then Inl (Errorf ''VolumeCaptureRequest artifact has empty name'' [])
           else Inr artifact))"

section \<open>The keeper and the artifact\<close>

definition objectKeeperName :: "string \<Rightarrow> string" where
  "objectKeeperName uid = ''data-import-'' @ uid"

definition buildObjectKeeper :: "string \<Rightarrow> dataImport \<Rightarrow> objectKeeper" where
  "buildObjectKeeper name di =
     \<lparr>ok_meta = emptyMeta\<lparr>m_name := name\<rparr>, ok_mode = objectKeeperModeFollowObject,
      ok_followObjectRef = Some \<lparr>ref_apiVersion = APIGroupStorageDeckhouse, ref_kind = dataImportKind,
        ref_name = m_name (di_meta di), ref_namespace = m_namespace (di_meta di),
        ref_uid = m_uid (di_meta di), ref_resourceVersion = []\<rparr>\<rparr>"

definition validateObjectKeeperOwnership :: "objectKeeper \<Rightarrow> dataImport \<Rightarrow> gerr option" where
  "validateObjectKeeperOwnership keeper di =
     (if ok_mode keeper \<noteq> objectKeeperModeFollowObject
      then Some (Errorf ''ObjectKeeper has unexpected mode'' [])
      else (case ok_followObjectRef keeper of
              None \<Rightarrow> Some (Errorf ''ObjectKeeper has no followObjectRef'' [])
            | Some f \<Rightarrow>
                if ref_kind f \<noteq> dataImportKind \<or> ref_namespace f \<noteq> m_namespace (di_meta di) \<or>
                   ref_name f \<noteq> m_name (di_meta di) \<or> ref_uid f \<noteq> m_uid (di_meta di)
                then Some (Errorf ''ObjectKeeper belongs to another object'' [])
                else None))"

text \<open>\<open>None\<close> stands for a nil keeper, always together with the requeue interval.\<close>

definition ensureObjectKeeper :: "env \<Rightarrow> dataImport \<Rightarrow> objectKeeper option res io" where
  "ensureObjectKeeper E di =
     (if m_uid (di_meta di) = [] then ret (Inr None)
      else
      (let name = objectKeeperName (m_uid (di_meta di)) in
      thenE (do {
        got \<leftarrow> getKeeper E name;
        (case got of
           Inl err \<Rightarrow>
             if IsNotFound err then do {
               created \<leftarrow> sendObj E (Create (OKeeper (buildObjectKeeper name di))) decKeeper;
               (case created of
                  Inr keeper \<Rightarrow> ret (Inr (Some keeper))
                | Inl createErr \<Rightarrow>
                    if \<not> IsAlreadyExists createErr then ret (Inl (Errorf ''create ObjectKeeper'' [createErr]))
                    else do {
                      again \<leftarrow> getKeeper E name;
                      (case again of Inl _ \<Rightarrow> ret (Inr None) | Inr keeper \<Rightarrow> ret (Inr (Some keeper))) }) }
             else ret (Inl (Errorf ''get ObjectKeeper'' [err]))
         | Inr keeper \<Rightarrow>
             (case validateObjectKeeperOwnership keeper di of
                Some validateErr \<Rightarrow> ret (Inl validateErr)
              | None \<Rightarrow> ret (Inr (Some keeper)))) })
      (\<lambda>found. case found of
         None \<Rightarrow> ret (Inr None)
       | Some keeper \<Rightarrow>
           ret (Inr (if m_uid (ok_meta keeper) = [] then None else Some keeper)))))"

definition keeperOwnerReference :: "objectKeeper \<Rightarrow> ownerref" where
  "keeperOwnerReference keeper =
     \<lparr>or_apiVersion = APIGroupDeckhouse, or_kind = KindObjectKeeper, or_name = m_name (ok_meta keeper),
      or_uid = m_uid (ok_meta keeper), or_controller = None, or_blockOwnerDeletion = None\<rparr>"

text \<open>The two artifact kinds behind one \<open>client.Object\<close>.\<close>

fun decArtifact :: "kind \<Rightarrow> kobj \<Rightarrow> kobj option" where
  "decArtifact KVolumeSnapshotContent (OVsc v) = Some (OVsc v)"
| "decArtifact KPersistentVolume (OPv p) = Some (OPv p)"
| "decArtifact k x = None"

fun artifactMeta :: "kobj \<Rightarrow> objmeta" where
  "artifactMeta (OVsc v) = vsc_meta v"
| "artifactMeta (OPv p) = pv_meta p"
| "artifactMeta x = emptyMeta"

fun setArtifactOwners :: "ownerref list \<Rightarrow> kobj \<Rightarrow> kobj" where
  "setArtifactOwners os (OVsc v) = OVsc (v\<lparr>vsc_meta := (vsc_meta v)\<lparr>m_owners := os\<rparr>\<rparr>)"
| "setArtifactOwners os (OPv p) = OPv (p\<lparr>pv_meta := (pv_meta p)\<lparr>m_owners := os\<rparr>\<rparr>)"
| "setArtifactOwners os x = x"

definition appendOwnerRef :: "env \<Rightarrow> string \<Rightarrow> ownerref \<Rightarrow> kind \<Rightarrow> string res io" where
  "appendOwnerRef E name desired k = RetryOnConflict E (
     thenE (wrapE ''get artifact'' (getObj E k (decArtifact k) ([], name))) (\<lambda>obj.
     if list_ex (\<lambda>r. or_uid desired \<noteq> [] \<and> or_uid r = or_uid desired) (m_owners (artifactMeta obj))
     then ret (Inr [])
     else exec E (Patch True obj (setArtifactOwners (m_owners (artifactMeta obj) @ [desired]) obj))))"

definition ensureArtifactKeptByKeeper :: "env \<Rightarrow> artifactRef \<Rightarrow> objectKeeper \<Rightarrow> string res io" where
  "ensureArtifactKeptByKeeper E artifact keeper =
     (let desired = keeperOwnerReference keeper in
      if ar_kind artifact = artifactKindVolumeSnapshotContent
      then appendOwnerRef E (ar_name artifact) desired KVolumeSnapshotContent
      else if ar_kind artifact = artifactKindPersistentVolume
      then appendOwnerRef E (ar_name artifact) desired KPersistentVolume
      else ret (Inl (Errorf (''cannot keep unsupported artifact kind '' @ ar_kind artifact) [])))"

definition pinArtifactRetain :: "env \<Rightarrow> artifactRef \<Rightarrow> string res io" where
  "pinArtifactRetain E artifact =
     (if ar_kind artifact = artifactKindVolumeSnapshotContent then
        thenE (wrapE ''get VolumeSnapshotContent'' (getVsc E (ar_name artifact))) (\<lambda>vsc.
        if vsc_deletionPolicy vsc = ''Retain'' then ret (Inr [])
        else wrapE ''pin VolumeSnapshotContent deletionPolicy=Retain''
               (exec E (Patch False (OVsc vsc) (OVsc (vsc\<lparr>vsc_deletionPolicy := ''Retain''\<rparr>)))))
      else if ar_kind artifact = artifactKindPersistentVolume then
        thenE (wrapE ''get PersistentVolume'' (getPv E (ar_name artifact))) (\<lambda>pv.
        if pv_reclaimPolicy pv = ''Retain'' then ret (Inr [])
        else wrapE ''pin PersistentVolume reclaimPolicy=Retain''
               (exec E (Patch False (OPv pv) (OPv (pv\<lparr>pv_reclaimPolicy := ''Retain''\<rparr>)))))
      else ret (Inl (Errorf (''cannot pin Retain on unsupported artifact kind '' @ ar_kind artifact) [])))"

end
