(* ===== verification/Data_Import_Reconcile.thy ===== *)
theory Data_Import_Reconcile
  imports Data_Import
begin

text \<open>
  The reconciler of \<open>src/images/data-manager-controller/internal/controllers/data-import\<close>
  (\<open>data_import_resource.go\<close>, \<open>dummy_container.go\<close>): the two import pipelines, teardown and
  cleanup, the published endpoint, readiness, phase and completion time, and the deferred
  status write.
\<close>

section \<open>Operations on the in-memory object\<close>

text \<open>
  \<open>thenD\<close> runs the rest with the object as it is after the first operation; an error keeps
  the changes made so far. \<open>keepD\<close> lifts an operation that does not change the object.
\<close>

type_synonym 'a dres = "dataImport \<times> 'a res"

definition thenD :: "('o \<times> 'a res) io \<Rightarrow> ('o \<Rightarrow> 'a \<Rightarrow> ('o \<times> 'b res) io) \<Rightarrow> ('o \<times> 'b res) io" where
  "thenD m k = do {
     x \<leftarrow> m;
     (case snd x of Inl e \<Rightarrow> ret (fst x, Inl e) | Inr a \<Rightarrow> k (fst x) a) }"

definition keepD :: "'o \<Rightarrow> 'a res io \<Rightarrow> ('o \<times> 'a res) io" where
  "keepD di m = do { r \<leftarrow> m; ret (di, r) }"

lemma wp_thenD [wp_rules]:
  "wp (thenD m k) Q s =
     wp m (\<lambda>x s'. case snd x of Inl e \<Rightarrow> Q (fst x, Inl e) s' | Inr a \<Rightarrow> wp (k (fst x) a) Q s') s"
  by (simp add: thenD_def wp_bind wp_return wp_def split: sum.splits prod.splits)

lemma wp_keepD [wp_rules]: "wp (keepD di m) Q s = wp m (\<lambda>r. Q (di, r)) s"
  by (simp add: keepD_def wp_bind wp_return wp_def split: prod.splits)

definition updStatus :: "(dataExportImportStatus \<Rightarrow> dataExportImportStatus) \<Rightarrow> dataImport \<Rightarrow> dataImport" where
  "updStatus f di = di\<lparr>di_status := f (di_status di)\<rparr>"

definition setImportCondition ::
  "env \<Rightarrow> string \<Rightarrow> cstatus \<Rightarrow> string \<Rightarrow> string \<Rightarrow> dataImport \<Rightarrow> dataImport" where
  "setImportCondition E t st reason msg di =
     updStatus (\<lambda>s. s\<lparr>ds_conditions := SetStatusCondition E (ds_conditions s)
       \<lparr>c_type = t, c_status = st, c_reason = reason, c_message = msg,
        c_observedGeneration = m_generation (di_meta di), c_lastTransitionTime = 0\<rparr>\<rparr>) di"

abbreviation importConditions :: "dataImport \<Rightarrow> condition list" where
  "importConditions di \<equiv> ds_conditions (di_status di)"

section \<open>The consumer job\<close>

definition MakeDummyContainer :: "env \<Rightarrow> nsname \<Rightarrow> nsname \<Rightarrow> string \<Rightarrow> container res io" where
  "MakeDummyContainer E configMapName pvcName volumeName =
     thenE (GetImage E configMapName) (\<lambda>img.
     thenE (getPvc E pvcName) (\<lambda>pvc.
     case pvc_volumeMode pvc of
       None \<Rightarrow> ret (Inl panicErr)
     | Some vm \<Rightarrow>
         ret (Inr \<lparr>ct_name = ''dummy-consumer'', ct_image = img, ct_args = [''dummy''], ct_env = [],
           ct_volumeMounts = (if vm = ''Filesystem'' then [(volumeName, FilesystemMountPath)] else []),
           ct_volumeDevices = (if vm = ''Block'' then [(volumeName, BlockMountPath)] else []),
           ct_ports = [], ct_runAsUser = (if vm = ''Block'' then Some 0 else None)\<rparr>)))"

definition ensureDummyJob :: "env \<Rightarrow> dmConfig \<Rightarrow> names \<Rightarrow> dataImport \<Rightarrow> objmeta \<Rightarrow> unit res io" where
  "ensureDummyJob E C nm di target =
     thenE (MakeDummyContainer E (dm_controllerNamespace C, ''data-exporter-image'')
              (m_namespace target, m_name target) ''pvc'') (\<lambda>ctr.
     EnsureJob E
       \<lparr>jc_podSpec = \<lparr>ps_serviceAccountName = ''default'',
          ps_imagePullSecrets = [''storage-foundation-module-registry''], ps_containers = [ctr],
          ps_volumes = MakeVolumes ''pvc'' (m_name target) False, ps_restartPolicy = ''Never''\<rparr>,
        jc_jobName = (m_namespace target, DummyJobName nm),
        jc_resourceName = (m_namespace (di_meta di), m_name (di_meta di)),
        jc_labelApplicationValue = LabelDataImportValue\<rparr>)"

section \<open>PopulateData\<close>

record scratchVolumeParams =
  svp_storageClassName :: string
  svp_volumeMode :: string
  svp_size :: string

definition scratchVolumeParamsFromSpec :: "dmConfig \<Rightarrow> dataImport \<Rightarrow> scratchVolumeParams res" where
  "scratchVolumeParamsFromSpec C di =
     (case di_storageParams di of
        None \<Rightarrow> Inl (Errorf ''spec.storageParams is required for PopulateData'' [])
      | Some tmpl \<Rightarrow>
          if sp_storageClassName tmpl = [] then Inl (Errorf ''spec.storageParams.storageClassName is required'' [])
          else if sp_size tmpl = [] then Inl (Errorf ''spec.storageParams.size is required'' [])
          else (case dm_parseQuantity C (sp_size tmpl) of
                  Inl err \<Rightarrow> Inl (Errorf ''parse spec.storageParams.size'' [err])
                | Inr q \<Rightarrow> Inr \<lparr>svp_storageClassName = sp_storageClassName tmpl,
                    svp_volumeMode = sp_volumeMode tmpl, svp_size = q\<rparr>))"

definition scratchPVCTemplate :: "string \<Rightarrow> scratchVolumeParams \<Rightarrow> pvcTemplateSpec" where
  "scratchPVCTemplate name params =
     \<lparr>tmpl_name = name, tmpl_annotations = [], tmpl_labels = [], tmpl_accessModes = [''ReadWriteOnce''],
      tmpl_requests = [(''storage'', svp_size params)],
      tmpl_storageClassName = Some (svp_storageClassName params),
      tmpl_volumeMode = Some (if svp_volumeMode params \<noteq> [] then svp_volumeMode params else ''Filesystem'')\<rparr>"

definition ensureImportPVC :: "env \<Rightarrow> dataImport \<Rightarrow> pvcTemplateSpec \<Rightarrow> unit res io" where
  "ensureImportPVC E di tmpl =
     EnsurePVC E (m_namespace (di_meta di), m_name (di_meta di)) tmpl
       (Some \<lparr>ref_apiVersion = dmAPIGroup, ref_kind = dataImportKind, ref_name = m_name (di_meta di),
              ref_namespace = [], ref_uid = [], ref_resourceVersion = []\<rparr>)"

definition ensureScratchPVC :: "env \<Rightarrow> dataImport \<Rightarrow> scratchVolumeParams \<Rightarrow> unit res io" where
  "ensureScratchPVC E di params = ensureImportPVC E di (scratchPVCTemplate (m_name (di_meta di)) params)"

definition uploadFinished :: "dataImport \<Rightarrow> bool" where
  "uploadFinished di =
     (case GetCondition (importConditions di) ConditionUploadFinished of
        None \<Rightarrow> False
      | Some c \<Rightarrow> c_status c = ConditionTrue)"

definition completedMessage :: "artifactRef \<Rightarrow> string" where
  "completedMessage a = ''Data import completed: produced '' @ ar_kind a @ '' '' @ ar_name a"

text \<open>The end of \<open>ensureDataArtifact\<close>: the captured artifact is secured and recorded.\<close>

definition recordArtifact ::
  "env \<Rightarrow> dataImport \<Rightarrow> persistentVolumeClaim \<Rightarrow> objectKeeper \<Rightarrow> artifactRef \<Rightarrow> ctrlResult dres io" where
  "recordArtifact E di pvc keeper artifact =
     thenD (keepD di (pinArtifactRetain E artifact)) (\<lambda>di _.
     thenD (keepD di (ensureArtifactKeptByKeeper E artifact keeper)) (\<lambda>di _.
     do {
       fsType \<leftarrow> scratchVolumeFSType E pvc;
       thenD (keepD di (wrapE ''delete scratch PVC'' (DeleteScratchPVC E pvc))) (\<lambda>di _.
       ret (setImportCondition E ConditionCompleted ConditionTrue ReasonCompleted (completedMessage artifact)
              (updStatus (\<lambda>s. s\<lparr>ds_data := Some \<lparr>da_artifactRef = Some artifact, da_fsType = fsType\<rparr>\<rparr>) di),
            Inr emptyResult)) }))"

definition ensureDataArtifact ::
  "env \<Rightarrow> dataImport \<Rightarrow> persistentVolumeClaim \<Rightarrow> ctrlResult dres io" where
  "ensureDataArtifact E di pvc =
     thenD (keepD di (markE ErrTargetFailed (resolveSnapshotCaptureMode E di))) (\<lambda>di m.
     thenD (keepD di (ensureObjectKeeper E di)) (\<lambda>di found.
     case found of
       None \<Rightarrow> ret (di, Inr requeueSoon)
     | Some keeper \<Rightarrow>
     thenD (keepD di (ensureVolumeCaptureRequest E di pvc (fst m))) (\<lambda>di vcr.
     if fst (volumeCaptureRequestFailed vcr)
     then ret (di, Inl (terminalErr (''VolumeCaptureRequest failed: '' @ snd (volumeCaptureRequestFailed vcr)) []))
     else if \<not> volumeCaptureRequestReady vcr
     then ret (setImportCondition E ConditionReady ConditionFalse ReasonPending
                 ''Capturing imported volume into data artifact'' di, Inr requeueSoon)
     else case volumeCaptureArtifact vcr (snd m) of
       Inl err \<Rightarrow> ret (di, Inl (terminalErr [] [err]))
     | Inr artifact \<Rightarrow> recordArtifact E di pvc keeper artifact)))"

definition handleTargetStatus ::
  "env \<Rightarrow> dmConfig \<Rightarrow> names \<Rightarrow> dataImport \<Rightarrow> persistentVolumeClaim \<Rightarrow> ctrlResult dres io" where
  "handleTargetStatus E C nm di pvc =
     thenD (keepD di (CheckPVCStatus E pvc False)) (\<lambda>di status.
     thenD (keepD di (ret (GetPVCVolumeMode pvc))) (\<lambda>di volumeMode.
     let di = updStatus (\<lambda>s. s\<lparr>ds_volumeMode := volumeMode\<rparr>) di in
     case status of
       TargetStatusReady \<Rightarrow>
         if \<not> uploadFinished di
         then ret (setImportCondition E ConditionReady ConditionFalse ReasonPending
                     ''Scratch PVC bound, awaiting data upload'' di, Inr requeueSoon)
         else ensureDataArtifact E di pvc
     | TargetStatusPending \<Rightarrow>
         ret (setImportCondition E ConditionReady ConditionFalse ReasonPVCCreated
                ''Scratch PVC is created'' di, Inr requeueSoon)
     | TargetStatusNeedConsumer \<Rightarrow>
         thenD (keepD di (ensureDummyJob E C nm di (pvc_meta pvc))) (\<lambda>di _.
         ret (setImportCondition E ConditionReady ConditionFalse ReasonPVCCreated
                ''Scratch PVC is created, dummy Job created to bind PVC'' di, Inr requeueSoon))
     | TargetStatusFailed \<Rightarrow>
         ret (di, Inl (Errorf ''scratch PVC is in Failed state'' [Sentinel ErrTargetFailed]))
     | TargetStatusUnknown \<Rightarrow> ret (di, Inr emptyResult)))"

definition ensureSnapshotImportTarget ::
  "env \<Rightarrow> dmConfig \<Rightarrow> names \<Rightarrow> dataImport \<Rightarrow> ctrlResult dres io" where
  "ensureSnapshotImportTarget E C nm di =
     (case (case ds_data (di_status di) of None \<Rightarrow> None | Some d \<Rightarrow> da_artifactRef d) of
        Some artifact \<Rightarrow>
          ret (setImportCondition E ConditionCompleted ConditionTrue ReasonCompleted
                 (completedMessage artifact) di, Inr emptyResult)
      | None \<Rightarrow>
     (case scratchVolumeParamsFromSpec C di of
        Inl err \<Rightarrow> ret (di, Inl (terminalErr [] [err]))
      | Inr params \<Rightarrow>
     thenD (keepD di (markE ErrTargetFailed (resolveSnapshotCaptureMode E di))) (\<lambda>di _.
     thenD (keepD di (ensureScratchPVC E di params)) (\<lambda>di _.
     thenD (keepD di (GetScratchPVC E (m_namespace (di_meta di)) (m_name (di_meta di)))) (\<lambda>di pvc.
     handleTargetStatus E C nm di pvc)))))"

section \<open>CreatePVC\<close>

definition handlePVCImportStatus ::
  "env \<Rightarrow> dmConfig \<Rightarrow> names \<Rightarrow> dataImport \<Rightarrow> persistentVolumeClaim \<Rightarrow> ctrlResult dres io" where
  "handlePVCImportStatus E C nm di pvc =
     thenD (keepD di (CheckPVCStatus E pvc (di_waitForFirstConsumer di))) (\<lambda>di status.
     let di = (case GetPVCVolumeMode pvc of
                 Inl _ \<Rightarrow> di
               | Inr volumeMode \<Rightarrow> updStatus (\<lambda>s. s\<lparr>ds_volumeMode := volumeMode\<rparr>) di) in
     case status of
       TargetStatusReady \<Rightarrow>
         if \<not> uploadFinished di
         then ret (setImportCondition E ConditionReady ConditionFalse ReasonPending
                     ''Target PVC bound, awaiting data upload'' di, Inr requeueSoon)
         else ret (setImportCondition E ConditionCompleted ConditionTrue ReasonCompleted
                     (''Data import completed into PVC '' @ m_name (pvc_meta pvc)) di, Inr emptyResult)
     | TargetStatusPending \<Rightarrow>
         ret (setImportCondition E ConditionReady ConditionFalse ReasonPVCCreated
                ''Target PVC is created'' di, Inr requeueSoon)
     | TargetStatusNeedConsumer \<Rightarrow>
         thenD (keepD di (ensureDummyJob E C nm di (pvc_meta pvc))) (\<lambda>di _.
         ret (setImportCondition E ConditionReady ConditionFalse ReasonPVCCreated
                ''Target PVC is created, dummy Job created to bind PVC'' di, Inr requeueSoon))
     | TargetStatusFailed \<Rightarrow>
         ret (di, Inl (Errorf ''target PVC is in Failed state'' [Sentinel ErrTargetFailed]))
     | TargetStatusUnknown \<Rightarrow> ret (di, Inr emptyResult))"

definition ensurePVCImportTarget ::
  "env \<Rightarrow> dmConfig \<Rightarrow> names \<Rightarrow> dataImport \<Rightarrow> ctrlResult dres io" where
  "ensurePVCImportTarget E C nm di =
     (if isConditionTrue E (importConditions di) ConditionCompleted then ret (di, Inr emptyResult)
      else
     (case di_pvcTemplate di of
        None \<Rightarrow> ret (di, Inl (terminalErr ''pvcTemplate with metadata.name is required for CreatePVC'' []))
      | Some tmpl \<Rightarrow>
     (if tmpl_name tmpl = []
      then ret (di, Inl (terminalErr ''pvcTemplate with metadata.name is required for CreatePVC'' []))
      else
      thenD (keepD di (ensureImportPVC E di tmpl)) (\<lambda>di _.
      thenD (keepD di (GetScratchPVC E (m_namespace (di_meta di)) (tmpl_name tmpl))) (\<lambda>di pvc.
      handlePVCImportStatus E C nm di pvc)))))"

definition EffectiveMode :: "dataImport \<Rightarrow> string" where
  "EffectiveMode di = (if di_mode di = [] then ''CreatePVC'' else di_mode di)"

definition isCreatePVCMode :: "dataImport \<Rightarrow> bool" where
  "isCreatePVCMode di = (EffectiveMode di = ''CreatePVC'')"

definition ensureTarget :: "env \<Rightarrow> dmConfig \<Rightarrow> names \<Rightarrow> dataImport \<Rightarrow> ctrlResult dres io" where
  "ensureTarget E C nm di =
     (if isCreatePVCMode di then ensurePVCImportTarget E C nm di
      else ensureSnapshotImportTarget E C nm di)"

section \<open>The published endpoint\<close>

definition importProtocolAllowHeaders :: string where
  "importProtocolAllowHeaders =
  ''X-Offset,X-Content-Length,X-Attribute-Permissions,X-Attribute-Uid,X-Attribute-Gid,X-Attribute-ModTime,X-LinkTarget''"

definition importCORSAllowHeaders :: string where
  "importCORSAllowHeaders = CORSStandardAllowHeaders @ '','' @ importProtocolAllowHeaders"
definition importCORSExposeHeaders :: string where
  "importCORSExposeHeaders = ''X-Next-Offset,X-Expected-Offset,X-Device-Size''"

definition makeIngressCfg :: "dmConfig \<Rightarrow> names \<Rightarrow> dataImport \<Rightarrow> ingressCfg" where
  "makeIngressCfg C nm di =
     \<lparr>ic_ingressName = (dm_controllerNamespace C, IngressResourceName nm),
      ic_serviceName = (dm_controllerNamespace C, HeadlessServiceName nm),
      ic_originIngress = (dm_originIngressNamespace C, ''kubernetes-api''),
      ic_targetSecretName = ''data-exporter-ingress-secret'',
      ic_path = ''/'' @ m_namespace (di_meta di) @ ''/'' @ TargetKindShort nm @ ''/'' @ TargetName nm,
      ic_corsAllowMethods = ''PUT, POST, HEAD, OPTIONS'',
      ic_corsAllowHeaders = importCORSAllowHeaders,
      ic_corsExposeHeaders = importCORSExposeHeaders,
      ic_proxyBodySize = ''64m''\<rparr>"

definition ensurePublish :: "env \<Rightarrow> dmConfig \<Rightarrow> names \<Rightarrow> dataImport \<Rightarrow> unit dres io" where
  "ensurePublish E C nm di =
     thenD (keepD di (EnsurePublicURL E (dm_lookupEnv C) (dm_pollAttempts C)
       \<lparr>hs_serviceName = (dm_controllerNamespace C, HeadlessServiceName nm),
        hs_deploymentName = DeployName nm, hs_labelApplicationValue = LabelDataImportValue\<rparr>
       (makeIngressCfg C nm di))) (\<lambda>di publicURL.
     ret (updStatus (\<lambda>s. s\<lparr>ds_publicURL := publicURL\<rparr>) di, Inr ()))"

definition deletePublish :: "env \<Rightarrow> dmConfig \<Rightarrow> names \<Rightarrow> dataImport \<Rightarrow> bool dres io" where
  "deletePublish E C nm di =
     thenD (keepD di (DeletePublicResources E (dm_controllerNamespace C, HeadlessServiceName nm)
       (dm_controllerNamespace C, IngressResourceName nm))) (\<lambda>di deleted.
     ret (updStatus (\<lambda>s. s\<lparr>ds_publicURL := []\<rparr>) di, Inr deleted))"

definition updateReadiness :: "env \<Rightarrow> dmConfig \<Rightarrow> names \<Rightarrow> dataImport \<Rightarrow> unit dres io" where
  "updateReadiness E C nm di =
     (if uploadFinished di then ret (di, Inr ())
      else if ds_serverState (di_status di) \<noteq> ServerStateReady then ret (di, Inr ())
      else
      thenD (keepD di (if di_publish di
                       then IsPublishReady E (dm_controllerNamespace C, IngressResourceName nm)
                       else ret (Inr True))) (\<lambda>di isReady.
      if \<not> isReady then ret (di, Inr ())
      else ret (setImportCondition E ConditionReady ConditionTrue ReasonServerReady ''Server is ready'' di,
                Inr ())))"

section \<open>Teardown and cleanup\<close>

definition teardownImportInfra :: "env \<Rightarrow> dmConfig \<Rightarrow> names \<Rightarrow> dataImport \<Rightarrow> bool dres io" where
  "teardownImportInfra E C nm di =
     thenD (keepD di (DeleteJob E (m_namespace (di_meta di), DummyJobName nm))) (\<lambda>di isJobExists.
     thenD (keepD di (optional (getDeploymentObj E (dm_controllerNamespace C, DeployName nm)))) (\<lambda>di deploy.
     thenD (deletePublish E C nm di) (\<lambda>di isPublishExists.
     ret (di, Inr (\<not> (isJobExists \<or> deploy \<noteq> None \<or> isPublishExists))))))"

definition importPVCName :: "dataImport \<Rightarrow> string" where
  "importPVCName di =
     (if isCreatePVCMode di
      then (case di_pvcTemplate di of
              None \<Rightarrow> m_name (di_meta di)
            | Some tmpl \<Rightarrow> if tmpl_name tmpl \<noteq> [] then tmpl_name tmpl else m_name (di_meta di))
      else m_name (di_meta di))"

definition cleanupDataImport :: "env \<Rightarrow> dmConfig \<Rightarrow> names \<Rightarrow> dataImport \<Rightarrow> unit dres io" where
  "cleanupDataImport E C nm di =
     thenD (teardownImportInfra E C nm di) (\<lambda>di allGone.
     if \<not> allGone then ret (di, Inr ())
     else
     thenD (keepD di (RemovePVCFinalizer E (m_namespace (di_meta di), importPVCName di)
       StorageManagerFinalizerName)) (\<lambda>di _.
     ret (di\<lparr>di_meta := fst (RemoveFinalizer (di_meta di) StorageManagerFinalizerName)\<rparr>, Inr ())))"

section \<open>Phase and status\<close>

definition isDataImportExpired :: "env \<Rightarrow> dataImport \<Rightarrow> bool" where
  "isDataImportExpired E di =
     (if ds_serverState (di_status di) = ServerStateIdleExpired then True
      else (case FindStatusCondition E (importConditions di) ConditionReady of
              None \<Rightarrow> False
            | Some ready \<Rightarrow> c_status ready = ConditionFalse \<and> c_reason ready = ReasonExpired))"

definition isTerminalErr :: "gerr option \<Rightarrow> bool" where
  "isTerminalErr err = (case err of None \<Rightarrow> False | Some e \<Rightarrow> errorsIs e ErrTerminal)"

definition computeDataImportPhase :: "env \<Rightarrow> dataImport \<Rightarrow> gerr option \<Rightarrow> string" where
  "computeDataImportPhase E di err =
     (if m_deletion (di_meta di) \<noteq> None then PhaseTerminating
      else if IsTerminal (ds_phase (di_status di)) then ds_phase (di_status di)
      else if isConditionTrue E (importConditions di) ConditionCompleted then PhaseCompleted
      else if isDataImportExpired E di then PhaseExpired
      else if isTerminalErr err then PhaseFailed
      else if isConditionTrue E (importConditions di) ConditionReady \<or>
              isConditionTrue E (importConditions di) ConditionUploadFinished then PhaseReady
      else PhasePending)"

text \<open>The text of an error is \<open>errText\<close>: the messages of its parts, not their exact layout.\<close>

fun errText :: "gerr \<Rightarrow> string" where
  "errText (ApiErr r) = ''api error''"
| "errText (Sentinel s) = ''sentinel''"
| "errText (Errorf m es) = concat (map errText es) @ m"

definition mutateReadyByErr :: "env \<Rightarrow> dataImport \<Rightarrow> gerr option \<Rightarrow> dataImport" where
  "mutateReadyByErr E di err =
     (case err of
        None \<Rightarrow> di
      | Some e \<Rightarrow>
          if errorsIs e ErrCleanupFailed \<and>
             (case FindStatusCondition E (importConditions di) ConditionReady of
                None \<Rightarrow> False
              | Some c \<Rightarrow> c_reason c = ReasonExpired \<or> c_reason c = ReasonDeleted)
          then di
          else if errorsIs e ErrCleanupFailed
          then setImportCondition E ConditionReady ConditionFalse ReasonCleanupFailed (errText e) di
          else if errorsIs e ErrTargetFailed
          then setImportCondition E ConditionReady ConditionFalse ReasonTargetFailed (errText e) di
          else di)"

definition terminalConditions :: "env \<Rightarrow> string \<Rightarrow> dataImport \<Rightarrow> dataImport" where
  "terminalConditions E phase di =
     (if phase = PhaseCompleted
      then setImportCondition E ConditionReady ConditionFalse ReasonCompleted ''Data import completed'' di
      else if phase = PhaseExpired
      then setImportCondition E ConditionCompleted ConditionFalse ReasonExpired
             ''DataImport idle timeout expired before completion''
             (setImportCondition E ConditionReady ConditionFalse ReasonExpired
               ''DataImport idle timeout expired'' di)
      else if phase = PhaseFailed
      then setImportCondition E ConditionCompleted ConditionFalse ReasonFailed
             (case FindStatusCondition E (importConditions di) ConditionReady of
                None \<Rightarrow> ''DataImport failed''
              | Some ready \<Rightarrow> c_message ready) di
      else di)"

definition finalizeDataImportStatus :: "env \<Rightarrow> dataImport \<Rightarrow> gerr option \<Rightarrow> time \<Rightarrow> dataImport" where
  "finalizeDataImportStatus E di err t =
     (let phase = computeDataImportPhase E di err;
          di' = updStatus (\<lambda>s. s\<lparr>ds_phase := phase\<rparr>) (terminalConditions E phase di) in
      updStatus (\<lambda>s. fst (SetCompletionTimestampOnce s phase t)) di')"

text \<open>
  The status write: the controller's own fields go onto the object read last, whose fields
  of the pod are kept. An accepted metadata update is decoded into the same object.
\<close>

definition podOwned :: "dataExportImportStatus \<Rightarrow> dataExportImportStatus \<Rightarrow> dataExportImportStatus" where
  "podOwned fresh merged = merged\<lparr>ds_url := ds_url fresh, ds_ca := ds_ca fresh,
     ds_accessTimestamp := ds_accessTimestamp fresh, ds_serverState := ds_serverState fresh\<rparr>"

abbreviation getImport :: "env \<Rightarrow> nsname \<Rightarrow> dataImport res io" where
  "getImport E \<equiv> getObj E KDataImport decDataImport"

definition updateOnce :: "env \<Rightarrow> dataImport \<Rightarrow> bool \<Rightarrow> bool \<Rightarrow> bool \<Rightarrow> string res io" where
  "updateOnce E new wantFinalizer needMeta needStatus =
     thenE (getImport E (keyOf (di_meta new))) (\<lambda>fresh.
     thenE (if needMeta
            then wrapE ''update DataImport failed'' (sendObj E (Update (ODataImport
                   (fresh\<lparr>di_meta := (di_meta fresh)\<lparr>m_finalizers := ReconcileFinalizer
                     (m_finalizers (di_meta fresh)) StorageManagerFinalizerName wantFinalizer\<rparr>\<rparr>))) decDataImport)
            else ret (Inr fresh)) (\<lambda>fresh.
     if needStatus
     then wrapE ''update DataImport status failed'' (exec E (StatusUpdate (ODataImport
            (fresh\<lparr>di_status := podOwned (di_status fresh) (di_status new)\<rparr>))))
     else ret (Inr [])))"

definition updateDataImport :: "env \<Rightarrow> dataImport \<Rightarrow> dataImport \<Rightarrow> unit res io" where
  "updateDataImport E old new =
     (let wantFinalizer = ContainsString (m_finalizers (di_meta new)) StorageManagerFinalizerName;
          needMeta = (wantFinalizer \<noteq> ContainsString (m_finalizers (di_meta old)) StorageManagerFinalizerName);
          needStatus = (di_status old \<noteq> di_status new) in
      if \<not> needMeta \<and> \<not> needStatus then ret (Inr ())
      else ignoreNotFound (RetryOnConflict E (updateOnce E new wantFinalizer needMeta needStatus)))"

section \<open>Reconcile\<close>

text \<open>Rewriting the reason of the condition that \<open>FindStatusCondition\<close> points to.\<close>

fun rewriteReason :: "condition list \<Rightarrow> string \<Rightarrow> string \<Rightarrow> condition list" where
  "rewriteReason [] t reason = []"
| "rewriteReason (c # cs) t reason =
     (if c_type c = t then c\<lparr>c_reason := reason\<rparr> # cs else c # rewriteReason cs t reason)"

definition seedConditions :: "env \<Rightarrow> dataImport \<Rightarrow> dataImport" where
  "seedConditions E di0 =
     (let di1 = updStatus (\<lambda>s. fst (StripConditionsNotIn s
                  [ConditionReady, ConditionUploadFinished, ConditionCompleted])) di0;
          di2 = (case FindStatusCondition E (importConditions di1) ConditionReady of
                   None \<Rightarrow> di1
                 | Some ready \<Rightarrow>
                     if c_status ready = ConditionTrue \<and> c_reason ready \<noteq> ReasonServerReady
                     then updStatus (\<lambda>s. s\<lparr>ds_conditions :=
                            rewriteReason (ds_conditions s) ConditionReady ReasonServerReady\<rparr>) di1
                     else di1);
          di3 = (if FindStatusCondition E (importConditions di2) ConditionReady = None
                 then setImportCondition E ConditionReady ConditionFalse ReasonPending ''Started'' di2 else di2)
      in if FindStatusCondition E (importConditions di3) ConditionCompleted = None
         then setImportCondition E ConditionCompleted ConditionFalse ReasonInProgress
                ''Data import in progress'' di3
         else di3)"

definition activeImport :: "env \<Rightarrow> dmConfig \<Rightarrow> names \<Rightarrow> dataImport \<Rightarrow> ctrlResult dres io" where
  "activeImport E C nm di0 =
     (let di1 = di0\<lparr>di_meta := fst (EnsureFinalizer (di_meta di0) StorageManagerFinalizerName)\<rparr>;
          di2 = (if ds_serverState (di_status di1) = ServerStateFinished
                 then setImportCondition E ConditionUploadFinished ConditionTrue ReasonUploadFinished
                        ''Client upload finished; producing artifact'' di1
                 else di1) in
      thenD (ensureTarget E C nm di2) (\<lambda>di result.
      thenD (if di_publish di then ensurePublish E C nm di
             else thenD (deletePublish E C nm di) (\<lambda>di _. ret (di, Inr ()))) (\<lambda>di _.
      thenD (updateReadiness E C nm di) (\<lambda>di _.
      ret (di, Inr result)))))"

definition reconcileBody :: "env \<Rightarrow> dmConfig \<Rightarrow> dataImport \<Rightarrow> ctrlResult dres io" where
  "reconcileBody E C original =
     (let nm = NewNames E KindPVC (m_name (di_meta original)) (m_namespace (di_meta original))
                 (m_name (di_meta original));
          di = seedConditions E original in
      if m_deletion (di_meta di) \<noteq> None then
        (let di = setImportCondition E ConditionReady ConditionFalse ReasonDeleted
                    ''DataImport is going to be deleted'' di in
         do {
           x \<leftarrow> cleanupDataImport E C nm di;
           ret (fst x, (case snd x of Inl e \<Rightarrow> Inl (markErr ErrCleanupFailed e) | Inr _ \<Rightarrow> Inr emptyResult)) })
      else if isDataImportExpired E di then
        (let di = setImportCondition E ConditionReady ConditionFalse ReasonExpired
                    ''DataImport idle timeout expired'' di in
         do {
           x \<leftarrow> teardownImportInfra E C nm di;
           ret (fst x, (case snd x of Inl e \<Rightarrow> Inl (markErr ErrCleanupFailed e) | Inr _ \<Rightarrow> Inr emptyResult)) })
      else if IsTerminal (ds_phase (di_status di)) \<and> ds_phase (di_status di) \<noteq> PhaseExpired
      then ret (di, Inr emptyResult)
      else activeImport E C nm di)"

text \<open>
  The deferred function. A panic in the body unwinds through it with the named error still
  nil, and goes on after it.
\<close>

definition deferredErr :: "'a res \<Rightarrow> gerr option" where
  "deferredErr r = (case r of Inl e \<Rightarrow> if e = panicErr then None else Some e | Inr _ \<Rightarrow> None)"

definition combineResult :: "ctrlResult res \<Rightarrow> unit res \<Rightarrow> ctrlResult res" where
  "combineResult r u =
     (case r of
        Inl e \<Rightarrow>
          if e = panicErr then Inl e
          else if errorsIs e ErrTerminal
          then (case u of Inl ue \<Rightarrow> Inl ue | Inr _ \<Rightarrow> Inr emptyResult)
          else Inl (Errorf [] (e # (case u of Inl ue \<Rightarrow> [ue] | Inr _ \<Rightarrow> [])))
      | Inr result \<Rightarrow>
          (case u of
             Inl ue \<Rightarrow> if IsConflict ue then Inr requeueSoon else Inl ue
           | Inr _ \<Rightarrow> Inr result))"

definition diReconcile :: "env \<Rightarrow> dmConfig \<Rightarrow> nsname \<Rightarrow> ctrlResult res io" where
  "diReconcile E C req = do {
     got \<leftarrow> getImport E req;
     (case got of
        Inl err \<Rightarrow> ret (if IsNotFound err then Inr emptyResult else Inl err)
      | Inr original \<Rightarrow> do {
          x \<leftarrow> reconcileBody E C original;
          t \<leftarrow> now E;
          (let err = deferredErr (snd x);
               di = finalizeDataImportStatus E (mutateReadyByErr E (fst x) err) err t in
           do {
             u \<leftarrow> updateDataImport E original di;
             ret (combineResult (snd x) u) }) }) }"

lemma rewriteReason_mem:
  "c \<in> set (rewriteReason cs t r) \<Longrightarrow> \<exists>d \<in> set cs. c_type c = c_type d \<and> c_status c = c_status d"
  by (induction cs) (auto split: if_splits)

lemma ReconcileFinalizer_want [simp]:
  "f \<in> set (ReconcileFinalizer live f want) \<longleftrightarrow> want"
  by (auto simp: ReconcileFinalizer_def Let_def)

end
