(* ===== verification/Publish_Rules.thy ===== *)
theory Publish_Rules
  imports Publish
begin

text \<open>
  What the controllers that publish an endpoint rely on. A controller is verified against a
  rule that says which requests it may send; the locale \<open>publish_client\<close> asks of the rule that
  it lets the publishing helpers read anything and write Services, Ingresses and Secrets, and
  shows once that the helpers then keep the rule, that their errors can be retried, and what a
  deletion that finds nothing was answered. Both data controllers interpret it on their rules.
\<close>

section \<open>Errors that cannot end an object\<close>

definition retryable :: "gerr \<Rightarrow> bool" where
  "retryable e \<longleftrightarrow> \<not> errorsIs e ErrTerminal"

definition calm :: "'a res \<Rightarrow> bool" where
  "calm r \<longleftrightarrow> (case r of Inl e \<Rightarrow> retryable e | Inr _ \<Rightarrow> True)"

lemma retryable_base [simp]:
  "retryable (ApiErr rs)" "retryable (Errorf m [])" "retryable panicErr"
  "retryable (Errorf m [e]) = retryable e" "\<not> retryable (Sentinel ErrTerminal)"
  by (simp_all add: retryable_def panicErr_def)

lemma calm_simps [simp]: "calm (Inr x)" "calm (Inl e) = retryable e" "calm (respErr a)"
  by (auto simp: calm_def respErr_def split: resp.splits)

lemma respErr_cases:
  obtains e where "a = RErr e" "respErr a = Inl (ApiErr e)" | "respErr a = Inr []"
  by (cases a) (auto simp: respErr_def)

lemma respErr_Inl: "respErr a = Inl e \<longleftrightarrow> (\<exists>rs. a = RErr rs \<and> e = ApiErr rs)"
  by (auto simp: respErr_def split: resp.splits)

section \<open>Quiet parts\<close>

text \<open>
  A part of a controller is quiet for a rule when it keeps the rule, forgets nothing and ends
  with a property of its result. The rules below compose quiet parts along the code.
\<close>

definition quiet :: "(hist \<Rightarrow> req \<Rightarrow> bool) \<Rightarrow> 'a io \<Rightarrow> ('a \<Rightarrow> hist \<Rightarrow> bool) \<Rightarrow> hist \<Rightarrow> bool" where
  "quiet R m P h \<longleftrightarrow> (obeys R h \<longrightarrow> wp m (\<lambda>r h'. obeys R h' \<and> later h h' \<and> P r h') h)"

lemma quietI:
  "(obeys R h \<Longrightarrow> wp m (\<lambda>r h'. obeys R h' \<and> later h h' \<and> P r h') h) \<Longrightarrow> quiet R m P h"
  by (simp add: quiet_def)

lemma quietD: "quiet R m P h \<Longrightarrow> obeys R h \<Longrightarrow> wp m (\<lambda>r h'. obeys R h' \<and> later h h' \<and> P r h') h"
  by (simp add: quiet_def)

lemma quiet_keeps:
  assumes "\<And>g. keeps R g h \<Longrightarrow> wp m (\<lambda>r h'. keeps R g h' \<and> P r h') h"
  shows "quiet R m P h"
proof (rule quietI)
  assume "obeys R h"
  then have "wp m (\<lambda>r h'. keeps R h h' \<and> P r h') h" by (intro assms) simp
  then show "wp m (\<lambda>r h'. obeys R h' \<and> later h h' \<and> P r h') h"
    by (rule wp_mono) (simp add: keeps_def)
qed

lemma quiet_ret: "P x h \<Longrightarrow> quiet R (ret x) P h"
  by (simp add: quiet_def wp_return)

lemma quiet_mono:
  "quiet R m P h \<Longrightarrow> (\<And>r h'. later h h' \<Longrightarrow> P r h' \<Longrightarrow> Q r h') \<Longrightarrow> quiet R m Q h"
  unfolding quiet_def by (auto intro: wp_mono)

lemma quiet_bind:
  assumes "quiet R m P h" "\<And>r h'. later h h' \<Longrightarrow> P r h' \<Longrightarrow> quiet R (k r) Q h'"
  shows "quiet R (State_Monad.bind m k) Q h"
proof (rule quietI)
  assume "obeys R h"
  from quietD [OF assms(1) this] show "wp (State_Monad.bind m k) (\<lambda>r h'. obeys R h' \<and> later h h' \<and> Q r h') h"
    unfolding wp_bind
    by (rule wp_mono) (auto intro!: wp_mono [OF quietD [OF assms(2)]] intro: later_trans)
qed

lemma quiet_thenE:
  assumes "quiet R m P h"
    and "\<And>e h'. later h h' \<Longrightarrow> P (Inl e) h' \<Longrightarrow> Q (Inl e) h'"
    and "\<And>a h'. later h h' \<Longrightarrow> P (Inr a) h' \<Longrightarrow> quiet R (k a) Q h'"
  shows "quiet R (thenE m k) Q h"
  unfolding thenE_def
  by (rule quiet_bind [OF assms(1)]) (auto split: sum.splits intro!: quiet_ret assms(2,3))

lemma quiet_wrapE:
  "quiet R m P h \<Longrightarrow> (\<And>e h'. P (Inl e) h' \<Longrightarrow> Q (Inl (Errorf msg [e])) h') \<Longrightarrow>
     (\<And>x h'. P (Inr x) h' \<Longrightarrow> Q (Inr x) h') \<Longrightarrow> quiet R (wrapE msg m) Q h"
  unfolding wrapE_def by (erule quiet_bind) (auto split: sum.splits intro!: quiet_ret)

section \<open>Marks of the owner\<close>

text \<open>
  The label and the annotations by which the objects made for a DataExport or a DataImport
  lead back to it.
\<close>

definition ownedBy :: "string \<Rightarrow> nsname \<Rightarrow> objmeta \<Rightarrow> bool" where
  "ownedBy app n m \<longleftrightarrow>
     index_str (m_labels m) LabelApplicationKey = app \<and>
     index_str (m_annotations m) AnnotationStorageManagerNamespaceKey = fst n \<and>
     index_str (m_annotations m) AnnotationStorageManagerNameKey = snd n"

lemma makeJob_owned [simp]:
  "ownedBy app n (job_meta (makeJob cfg)) \<longleftrightarrow>
     jc_labelApplicationValue cfg = app \<and> jc_resourceName cfg = n"
  by (auto simp: ownedBy_def makeJob_def managerAnnotations_def index_str_def prod_eq_iff)

lemma makeDeployment_owned [simp]:
  "ownedBy app n (dep_meta (makeDeployment cfg)) \<longleftrightarrow>
     dc_labelApplicationValue cfg = app \<and> dc_resourceName cfg = n"
  by (auto simp: ownedBy_def makeDeployment_def managerAnnotations_def index_str_def prod_eq_iff Let_def)

section \<open>The contract\<close>

locale publish_client =
  fixes R :: "hist \<Rightarrow> req \<Rightarrow> bool"
  assumes may_read [simp, intro]: "R h (Get k n)"
    and may_create [simp, intro]:
      "R h (Create (OService sv))" "R h (Create (OIngress ig))" "R h (Create (OSecret se))"
    and may_update [simp, intro]:
      "R h (Update (OService sv))" "R h (Update (OIngress ig))" "R h (Update (OSecret se))"
    and may_delete [simp, intro]: "R h (Delete KService n)" "R h (Delete KIngress n)"
begin

lemma EnsureHeadlessService_quiet:
  "keeps R g h \<Longrightarrow> wp (EnsureHeadlessService F cfg) (\<lambda>r h'. keeps R g h' \<and> calm r) h"
  unfolding EnsureHeadlessService_def GetHeadlessService_def handleExistingHeadlessService_def
  by (auto simp: wp_rules respErr_def intro!: wp_getObj wp_create_or wp_update_or
      split: sum.splits option.splits resp.splits)

lemma getIngressSecret_quiet:
  "keeps R g h \<Longrightarrow> wp (getIngressSecretNameFromIngress F n host) (\<lambda>r h'. keeps R g h' \<and> calm r) h"
  unfolding getIngressSecretNameFromIngress_def
  by (auto simp: wp_rules intro!: wp_getObj split: sum.splits option.splits)

lemma ensureIngressSecret_quiet:
  "keeps R g h \<Longrightarrow> wp (ensureIngressSecret F a b c d) (\<lambda>r h'. keeps R g h' \<and> calm r) h"
  unfolding ensureIngressSecret_def
  by (auto simp: wp_rules respErr_def intro!: wp_getObj wp_create_or wp_update_or
      split: sum.splits option.splits resp.splits)

lemma waitForIngress_quiet:
  "keeps R g h \<Longrightarrow> wp (waitForIngress F n k) (\<lambda>r h'. keeps R g h' \<and> calm r) h"
proof -
  have "keeps R g h \<Longrightarrow> wp (pollIngress F n k) (\<lambda>r h'. keeps R g h' \<and> calm r) h" for h
    by (induction k arbitrary: h)
      (auto simp: wp_rules GetIngress_def intro!: wp_getObj split: sum.splits option.splits)
  then show "keeps R g h \<Longrightarrow> ?thesis"
    unfolding waitForIngress_def wp_bind
    by (rule wp_mono) (auto simp: wp_rules split: sum.splits)
qed

lemma EnsureIngressResource_quiet:
  "keeps R g h \<Longrightarrow> wp (EnsureIngressResource F lookupEnv k cfg) (\<lambda>r h'. keeps R g h' \<and> calm r) h"
  unfolding EnsureIngressResource_def Let_def handleExistingIngress_def
  by (auto simp: wp_rules GetIngress_def respErr_def
      intro!: wp_mono [OF getIngressSecret_quiet] wp_mono [OF ensureIngressSecret_quiet]
        wp_mono [OF waitForIngress_quiet] wp_getObj wp_create_or wp_update_or
      split: option.splits sum.splits resp.splits)

lemma EnsurePublicURL_quiet:
  "keeps R g h \<Longrightarrow> wp (EnsurePublicURL F lookupEnv k a b) (\<lambda>r h'. keeps R g h' \<and> calm r) h"
  unfolding EnsurePublicURL_def
  by (auto simp: wp_rules intro!: wp_mono [OF EnsureHeadlessService_quiet]
      EnsureIngressResource_quiet split: sum.splits)

text \<open>A delete that finds nothing was answered so.\<close>

lemma deleteReport_quiet:
  "keeps R g h \<Longrightarrow> (\<And>h. R h (Delete k n)) \<Longrightarrow>
     wp (deleteReport F k n) (\<lambda>r h'. keeps R g h' \<and> later h h' \<and> calm r \<and>
       (r = Inr False \<longrightarrow> (Delete k n, RErr NotFound) \<in> set h')) h"
  by (auto simp: respErr_def intro!: wp_deleteReport split: resp.splits if_splits)

lemma DeletePublicResources_quiet:
  "keeps R g h \<Longrightarrow>
     wp (DeletePublicResources F sn i) (\<lambda>r h'. keeps R g h' \<and> later h h' \<and> calm r \<and>
       (r = Inr False \<longrightarrow> (Delete KService sn, RErr NotFound) \<in> set h' \<and>
          (Delete KIngress i, RErr NotFound) \<in> set h')) h"
  unfolding DeletePublicResources_def DeleteHeadlessService_def DeleteIngressResource_def
  by (auto simp: wp_rules intro!: wp_mono [OF deleteReport_quiet] intro: later_trans dest: later_mem
      split: sum.splits)

lemma IsPublishReady_quiet:
  "keeps R g h \<Longrightarrow> wp (IsPublishReady F n) (\<lambda>r h'. keeps R g h' \<and> calm r) h"
  unfolding IsPublishReady_def
  by (auto simp: wp_rules intro!: wp_getObj split: sum.splits option.splits)

end

end
