(* ===== verification/Data_Import_Rules.thy ===== *)
theory Data_Import_Rules
  imports Data_Import_Reconcile Publish_Rules
begin

text \<open>
  What the DataImport controller never does, for every server and every interleaving with
  other writers. One rule, \<open>importAllowed\<close>, says when each request that matters may be sent:
  the deletion of the scratch claim, the write of the status, and the write of the
  finalizers. Every operation keeps it, and the reconciliation as a whole does.
\<close>

section \<open>Evidence in a history\<close>

text \<open>The object was returned by some request.\<close>

definition obtained :: "hist \<Rightarrow> kobj \<Rightarrow> bool" where
  "obtained h x \<longleftrightarrow> (\<exists>r. (r, RObj x) \<in> set h)"

abbreviation vscRead :: "hist \<Rightarrow> string \<Rightarrow> volumeSnapshotContent \<Rightarrow> bool" where
  "vscRead h name v \<equiv> (Get KVolumeSnapshotContent ([], name), RObj (OVsc v)) \<in> set h"

text \<open>The content survives its handles, and has the keeper as an owner.\<close>

definition retained :: "hist \<Rightarrow> artifactRef \<Rightarrow> bool" where
  "retained h a \<longleftrightarrow> (\<exists>v. vscRead h (ar_name a) v \<and>
     (vsc_deletionPolicy v = ''Retain'' \<or>
      accepted h (Patch False (OVsc v) (OVsc (v\<lparr>vsc_deletionPolicy := ''Retain''\<rparr>)))))"

definition keptBy :: "hist \<Rightarrow> artifactRef \<Rightarrow> objectKeeper \<Rightarrow> bool" where
  "keptBy h a k \<longleftrightarrow> (\<exists>v. vscRead h (ar_name a) v \<and>
     ((\<exists>r \<in> set (m_owners (vsc_meta v)). or_uid r = m_uid (ok_meta k)) \<or>
      accepted h (Patch True (OVsc v)
        (setArtifactOwners (m_owners (vsc_meta v) @ [keeperOwnerReference k]) (OVsc v)))))"

definition artifactSafe :: "hist \<Rightarrow> bool" where
  "artifactSafe h \<longleftrightarrow> (\<exists>vcr a k.
     obtained h (OVcr vcr) \<and> volumeCaptureRequestReady vcr \<and>
     volumeCaptureArtifact vcr artifactKindVolumeSnapshotContent = Inr a \<and>
     obtained h (OKeeper k) \<and> m_uid (ok_meta k) \<noteq> [] \<and> retained h a \<and> keptBy h a k)"

text \<open>The client finished its upload, as the object that was read shows.\<close>

definition hasTrue :: "dataImport \<Rightarrow> string \<Rightarrow> bool" where
  "hasTrue di t \<longleftrightarrow> (\<exists>c \<in> set (importConditions di). c_type c = t \<and> c_status c = ConditionTrue)"

definition uploadEvidence :: "dataImport \<Rightarrow> bool" where
  "uploadEvidence d0 \<longleftrightarrow>
     ds_serverState (di_status d0) = ServerStateFinished \<or> hasTrue d0 ConditionUploadFinished"

definition scratchGone :: "hist \<Rightarrow> bool" where
  "scratchGone h \<longleftrightarrow> (\<exists>n a. (Delete KPersistentVolumeClaim n, a) \<in> set h \<and>
     (a = RErr NotFound \<or> (\<exists>x. respErr a = Inr x)))"

definition artifactOf :: "dataImport \<Rightarrow> artifactRef option" where
  "artifactOf di = (case ds_data (di_status di) of None \<Rightarrow> None | Some d \<Rightarrow> da_artifactRef d)"

definition completedBy :: "dataImport \<Rightarrow> hist \<Rightarrow> bool" where
  "completedBy d0 h \<longleftrightarrow>
     hasTrue d0 ConditionCompleted \<or>
     uploadEvidence d0 \<and> isCreatePVCMode d0 \<and>
       (\<exists>pvc. obtained h (OPvc pvc) \<and> pvc_phase pvc = ''Bound'') \<or>
     \<not> isCreatePVCMode d0 \<and> artifactOf d0 \<noteq> None \<or>
     uploadEvidence d0 \<and> \<not> isCreatePVCMode d0 \<and> artifactSafe h \<and> scratchGone h"

text \<open>The only causes of a failed import: a bad spec, a bad class, a failed or malformed capture.\<close>

definition badSpec :: "dmConfig \<Rightarrow> dataImport \<Rightarrow> bool" where
  "badSpec C d0 \<longleftrightarrow>
     isCreatePVCMode d0 \<and> (\<forall>t. di_pvcTemplate d0 = Some t \<longrightarrow> tmpl_name t = []) \<or>
     \<not> isCreatePVCMode d0 \<and> (\<exists>e. scratchVolumeParamsFromSpec C d0 = Inl e)"

definition badClass :: "hist \<Rightarrow> bool" where
  "badClass h \<longleftrightarrow> (\<exists>sc. obtained h (OStorageClass sc) \<and>
     (index_str (m_annotations (sc_meta sc)) storageClassVSCAnnotation = [] \<or>
      (\<exists>vsc. obtained h (OVsClass vsc) \<and> vsclass_driver vsc \<noteq> sc_provisioner sc)))"

definition badCapture :: "hist \<Rightarrow> bool" where
  "badCapture h \<longleftrightarrow> (\<exists>vcr. obtained h (OVcr vcr) \<and>
     (fst (volumeCaptureRequestFailed vcr) \<or>
      volumeCaptureRequestReady vcr \<and>
        (\<exists>e. volumeCaptureArtifact vcr artifactKindVolumeSnapshotContent = Inl e)))"

definition failedBy :: "dmConfig \<Rightarrow> dataImport \<Rightarrow> hist \<Rightarrow> bool" where
  "failedBy C d0 h \<longleftrightarrow> badSpec C d0 \<or> badClass h \<or> badCapture h"

text \<open>Nothing of the server side is left, as the server reported.\<close>

definition importNames :: "env \<Rightarrow> dataImport \<Rightarrow> names" where
  "importNames E d0 = NewNames E KindPVC (m_name (di_meta d0)) (m_namespace (di_meta d0)) (m_name (di_meta d0))"

definition infraGone :: "env \<Rightarrow> dmConfig \<Rightarrow> dataImport \<Rightarrow> hist \<Rightarrow> bool" where
  "infraGone E C d0 h \<longleftrightarrow>
     (Delete KJob (m_namespace (di_meta d0), DummyJobName (importNames E d0)), RErr NotFound) \<in> set h \<and>
     (Get KDeployment (dm_controllerNamespace C, DeployName (importNames E d0)), RErr NotFound) \<in> set h \<and>
     (Delete KService (dm_controllerNamespace C, HeadlessServiceName (importNames E d0)), RErr NotFound) \<in> set h \<and>
     (Delete KIngress (dm_controllerNamespace C, IngressResourceName (importNames E d0)), RErr NotFound) \<in> set h"

section \<open>The rule\<close>

text \<open>What a written status says, given the object read at the start and the history.\<close>

definition statusOk :: "dmConfig \<Rightarrow> dataImport \<Rightarrow> hist \<Rightarrow> dataExportImportStatus \<Rightarrow> bool" where
  "statusOk C d0 h s \<longleftrightarrow>
     (m_deletion (di_meta d0) \<noteq> None \<longrightarrow> ds_phase s = PhaseTerminating) \<and>
     (m_deletion (di_meta d0) = None \<and> IsTerminal (ds_phase (di_status d0)) \<longrightarrow>
        ds_phase s = ds_phase (di_status d0)) \<and>
     (ds_completionTimestamp (di_status d0) \<noteq> None \<longrightarrow>
        ds_completionTimestamp s = ds_completionTimestamp (di_status d0)) \<and>
     (IsTerminal (ds_phase s) \<longrightarrow> ds_completionTimestamp s \<noteq> None) \<and>
     (\<not> IsTerminal (ds_phase (di_status d0)) \<longrightarrow>
        (ds_phase s = PhaseCompleted \<longrightarrow> completedBy d0 h) \<and>
        (ds_phase s = PhaseFailed \<longrightarrow> failedBy C d0 h))"

text \<open>The object as the request just before returned it.\<close>

definition justRead :: "hist \<Rightarrow> dataImport \<Rightarrow> bool" where
  "justRead h x \<longleftrightarrow> (\<exists>p r. h = logged p r (RObj (ODataImport x)))"

definition importAllowed :: "env \<Rightarrow> dmConfig \<Rightarrow> dataImport \<Rightarrow> hist \<Rightarrow> req \<Rightarrow> bool" where
  "importAllowed E C d0 h r =
     (case r of
        Delete k n \<Rightarrow>
          k = KPersistentVolumeClaim \<longrightarrow>
            \<not> isCreatePVCMode d0 \<and> uploadEvidence d0 \<and> artifactSafe h \<and>
            (\<exists>pvc. (Get KPersistentVolumeClaim (keyOf (di_meta d0)), RObj (OPvc pvc)) \<in> set h \<and>
               n = keyOf (pvc_meta pvc))
      | StatusUpdate x \<Rightarrow>
          (\<exists>fresh s. justRead h fresh \<and> statusOk C d0 h s \<and>
             x = ODataImport (fresh\<lparr>di_status := podOwned (di_status fresh) s\<rparr>))
      | Create (OPvc x) \<Rightarrow> ownedBy LabelDataImportValue (keyOf (di_meta d0)) (pvc_meta x)
      | Create (ODeployment x) \<Rightarrow> False
      | Create (OJob x) \<Rightarrow> ownedBy LabelDataImportValue (keyOf (di_meta d0)) (job_meta x)
      | Update (ODataImport x) \<Rightarrow>
          StorageManagerFinalizerName \<notin> set (m_finalizers (di_meta x)) \<longrightarrow>
            m_deletion (di_meta d0) \<noteq> None \<and> infraGone E C d0 h
      | _ \<Rightarrow> True)"

text \<open>What every operation leaves alone: identity, spec, phase, completion time, server state.\<close>

definition sameImport :: "dataImport \<Rightarrow> dataImport \<Rightarrow> bool" where
  "sameImport d0 di \<longleftrightarrow>
     keyOf (di_meta di) = keyOf (di_meta d0) \<and> m_deletion (di_meta di) = m_deletion (di_meta d0) \<and>
     di_mode di = di_mode d0 \<and> di_storageParams di = di_storageParams d0 \<and>
     di_pvcTemplate di = di_pvcTemplate d0 \<and>
     ds_phase (di_status di) = ds_phase (di_status d0) \<and>
     ds_completionTimestamp (di_status di) = ds_completionTimestamp (di_status d0) \<and>
     ds_serverState (di_status di) = ds_serverState (di_status d0)"

section \<open>Requests that are always allowed\<close>

lemma importAllowed_free [simp]:
  "importAllowed E C d0 h (Get k n)" "importAllowed E C d0 h (ListAll k)"
  "importAllowed E C d0 h (Create (OService sv))"
  "importAllowed E C d0 h (Create (OIngress ig))" "importAllowed E C d0 h (Create (OSecret se))"
  "importAllowed E C d0 h (Create (OKeeper ke))" "importAllowed E C d0 h (Create (OVcr vc))"
  "importAllowed E C d0 h (Create (OPvc q)) = ownedBy LabelDataImportValue (keyOf (di_meta d0)) (pvc_meta q)"
  "importAllowed E C d0 h (Create (OJob j)) = ownedBy LabelDataImportValue (keyOf (di_meta d0)) (job_meta j)"
  "importAllowed E C d0 h (Patch b x y)"
  "importAllowed E C d0 h (StatusPatch x y)"
  "importAllowed E C d0 h (Update (OPvc p))" "importAllowed E C d0 h (Update (OService v))"
  "importAllowed E C d0 h (Update (OIngress i))" "importAllowed E C d0 h (Update (OSecret t))"
  "k \<noteq> KPersistentVolumeClaim \<Longrightarrow> importAllowed E C d0 h (Delete k n)"
  by (simp_all add: importAllowed_def)

lemma retryable_simps [simp]:
  "retryable (markErr ErrTargetFailed e) = retryable e"
  "retryable (markErr ErrCleanupFailed e) = retryable e" "retryable (Sentinel ErrTargetFailed)"
  "\<not> retryable (terminalErr m es)"
  by (simp_all add: retryable_def markErr_def terminalErr_def)

lemma obtained_logged [simp]:
  "obtained (logged h r a) x \<longleftrightarrow> obtained h x \<or> a = RObj x"
  by (auto simp: obtained_def)

lemma wp_markE [wp_rules]:
  "wp (markE t m) Q s =
     wp m (\<lambda>r s'. case r of Inl e \<Rightarrow> Q (Inl (markErr t e)) s' | Inr x \<Rightarrow> Q (Inr x) s') s"
  by (simp add: markE_def wp_bind wp_return wp_def split: sum.splits prod.splits)

lemma wp_ignoreNotFound [wp_rules]:
  "wp (ignoreNotFound m) Q s =
     wp m (\<lambda>r s'. case r of Inl e \<Rightarrow> if IsNotFound e then Q (Inr ()) s' else Q (Inl e) s'
                          | Inr x \<Rightarrow> Q (Inr ()) s') s"
  by (simp add: ignoreNotFound_def wp_bind wp_return wp_def split: sum.splits prod.splits)

text \<open>The requests of the publishing and workload helpers never touch a claim or the import.\<close>

abbreviation importKept :: "env \<Rightarrow> dmConfig \<Rightarrow> dataImport \<Rightarrow> hist \<Rightarrow> hist \<Rightarrow> bool" where
  "importKept E C d0 \<equiv> keeps (importAllowed E C d0)"

interpretation imp: publish_client "importAllowed E C d0" for E C d0
  by unfold_locales simp_all

lemma makePVC_owned [simp]: "ownedBy LabelDataImportValue n (pvc_meta (makePVC tmpl src n))"
  by (simp add: ownedBy_def makePVC_def)

lemma ensureDummyJob_quiet:
  "sameImport d0 di \<Longrightarrow> importKept E C d0 g h \<Longrightarrow>
     wp (ensureDummyJob F C' nm di t) (\<lambda>r h'. importKept E C d0 g h' \<and> calm r) h"
  unfolding ensureDummyJob_def MakeDummyContainer_def GetImage_def EnsureJob_def GetJob_def
  by (auto simp: wp_rules respErr_def sameImport_def keyOf_def intro!: wp_getObj wp_create_or
      split: sum.splits option.splits resp.splits)

lemma EnsurePVC_quiet:
  "n = keyOf (di_meta d0) \<Longrightarrow> importKept E C d0 g h \<Longrightarrow>
     wp (EnsurePVC F n tmpl src) (\<lambda>r h'. importKept E C d0 g h' \<and> calm r) h"
  unfolding EnsurePVC_def handleExistingPVC_def Let_def
  by (auto simp: wp_rules respErr_def intro!: wp_getObj wp_create_or wp_update_or
      split: sum.splits option.splits resp.splits)

lemma CheckPVCStatus_quiet:
  "importKept E C d0 g h \<Longrightarrow> wp (CheckPVCStatus F pvc w) (\<lambda>r h'. importKept E C d0 g h' \<and> calm r \<and>
     (r = Inr TargetStatusReady \<longrightarrow> pvc_phase pvc = ''Bound'')) h"
  unfolding CheckPVCStatus_def isWaitForFirstConsumer_def getStorageClassName_def
  by (auto simp: wp_rules intro!: wp_getObj split: sum.splits option.splits)

lemma resolve_quiet:
  "importKept E C d0 g h \<Longrightarrow> wp (resolveSnapshotCaptureMode F di) (\<lambda>r h'. importKept E C d0 g h' \<and>
     (\<forall>m. r = Inr m \<longrightarrow> m = (vcrModeSnapshot, artifactKindVolumeSnapshotContent)) \<and>
     (calm r \<or> badClass h' \<or> (\<forall>t. di_storageParams di = Some t \<longrightarrow> sp_storageClassName t = []))) h"
  unfolding resolveSnapshotCaptureMode_def Let_def
  by (auto simp: wp_rules badClass_def intro!: wp_getObj split: sum.splits option.splits) blast

lemma ensureObjectKeeper_quiet:
  "importKept E C d0 g h \<Longrightarrow> wp (ensureObjectKeeper F di) (\<lambda>r h'. importKept E C d0 g h' \<and> later h h' \<and> calm r \<and>
     (\<forall>k. r = Inr (Some k) \<longrightarrow> obtained h' (OKeeper k) \<and> m_uid (ok_meta k) \<noteq> [])) h"
  unfolding ensureObjectKeeper_def Let_def validateObjectKeeperOwnership_def
  by (auto simp: wp_rules intro!: wp_getObj wp_sendObj split: sum.splits option.splits)

lemma ensureVCR_quiet:
  "importKept E C d0 g h \<Longrightarrow> wp (ensureVolumeCaptureRequest F di pvc m) (\<lambda>r h'. importKept E C d0 g h' \<and> later h h' \<and>
     calm r \<and> (\<forall>v. r = Inr v \<longrightarrow> obtained h' (OVcr v))) h"
  unfolding ensureVolumeCaptureRequest_def Let_def
  by (auto simp: wp_rules intro!: wp_getObj wp_sendObj split: sum.splits option.splits)

lemma pin_quiet:
  "importKept E C d0 g h \<Longrightarrow> ar_kind a = artifactKindVolumeSnapshotContent \<Longrightarrow>
   wp (pinArtifactRetain F a) (\<lambda>r h'. importKept E C d0 g h' \<and> later h h' \<and> calm r \<and>
     (\<forall>x. r = Inr x \<longrightarrow> retained h' a)) h"
  unfolding pinArtifactRetain_def
  by (auto simp: wp_rules retained_def respErr_def
    intro!: wp_getObj wp_exec split: sum.splits option.splits resp.splits)

section \<open>The artifact\<close>

lemma decArtifact_VSC [simp]:
  "decArtifact KVolumeSnapshotContent x = Some y \<longleftrightarrow> (\<exists>v. x = OVsc v \<and> y = OVsc v)"
  by (cases x) auto

lemma keeperOwner_uid [simp]: "or_uid (keeperOwnerReference k) = m_uid (ok_meta k)"
  by (simp add: keeperOwnerReference_def)

lemma keptBy_present:
  "r \<in> set (m_owners (vsc_meta v)) \<Longrightarrow> or_uid r = m_uid (ok_meta k) \<Longrightarrow>
     keptBy (logged h (Get KVolumeSnapshotContent ([], ar_name a)) (RObj (OVsc v))) a k"
  unfolding keptBy_def by (intro exI [of _ v]) auto

lemma keptBy_patched:
  "respErr b = Inr x \<Longrightarrow>
     keptBy (logged (logged h (Get KVolumeSnapshotContent ([], ar_name a)) (RObj (OVsc v)))
       (Patch True (OVsc v) (setArtifactOwners (m_owners (vsc_meta v) @ [keeperOwnerReference k]) (OVsc v))) b) a k"
  unfolding keptBy_def by (intro exI [of _ v]) auto

lemma appendOwner_once:
  "importKept E C d0 g h \<Longrightarrow>
   wp (thenE (wrapE ''get artifact'' (getObj F KVolumeSnapshotContent (decArtifact KVolumeSnapshotContent)
        ([], ar_name a))) (\<lambda>obj.
     if list_ex (\<lambda>r. or_uid (keeperOwnerReference k) \<noteq> [] \<and> or_uid r = or_uid (keeperOwnerReference k))
          (m_owners (artifactMeta obj))
     then ret (Inr [])
     else exec F (Patch True obj (setArtifactOwners (m_owners (artifactMeta obj) @ [keeperOwnerReference k]) obj))))
   (\<lambda>r h'. importKept E C d0 g h' \<and> later h h' \<and> calm r \<and> (\<forall>x. r = Inr x \<longrightarrow> keptBy h' a k)) h"
  by (auto simp: wp_rules list_ex_iff simp del: setArtifactOwners.simps
    intro!: wp_getObj wp_exec split: sum.splits)
    (rule keptBy_present keptBy_patched; assumption)+

lemma keep_quiet:
  assumes "env_ok F" "importKept E C d0 g h" "ar_kind a = artifactKindVolumeSnapshotContent"
  shows "wp (ensureArtifactKeptByKeeper F a k) (\<lambda>r h'. importKept E C d0 g h' \<and> later h h' \<and> calm r \<and>
     (\<forall>x. r = Inr x \<longrightarrow> keptBy h' a k)) h"
  unfolding ensureArtifactKeptByKeeper_def appendOwnerRef_def Let_def if_P [OF assms(3)]
  by (rule wp_RetryOnConflict [OF assms(1), where I = "\<lambda>h'. importKept E C d0 g h' \<and> later h h'"])
    (auto simp: assms(2) simp del: keeperOwner_uid
      intro!: wp_mono [OF appendOwner_once] intro: later_trans split: sum.splits)

lemma evidence_mono:
  assumes "later h h'"
  shows "obtained h x \<Longrightarrow> obtained h' x" "retained h a \<Longrightarrow> retained h' a" "keptBy h a k \<Longrightarrow> keptBy h' a k"
    "scratchGone h \<Longrightarrow> scratchGone h'" "infraGone E C d0 h \<Longrightarrow> infraGone E C d0 h'"
  using assms accepted_mono [OF _ assms]
  unfolding obtained_def retained_def keptBy_def scratchGone_def infraGone_def later_def
  by blast+

lemma evidence_mono':
  assumes "later h h'"
  shows "artifactSafe h \<Longrightarrow> artifactSafe h'" "badClass h \<Longrightarrow> badClass h'" "badCapture h \<Longrightarrow> badCapture h'"
  using evidence_mono(1-3) [OF assms] unfolding artifactSafe_def badClass_def badCapture_def
  by meson+

lemma completedBy_mono: "completedBy d0 h \<Longrightarrow> later h h' \<Longrightarrow> completedBy d0 h'"
  unfolding completedBy_def using evidence_mono(1,4) evidence_mono'(1) by meson

lemma failedBy_mono: "failedBy C d0 h \<Longrightarrow> later h h' \<Longrightarrow> failedBy C d0 h'"
  unfolding failedBy_def using evidence_mono'(2,3) by meson

section \<open>The object in memory\<close>

definition importInv :: "env \<Rightarrow> dmConfig \<Rightarrow> dataImport \<Rightarrow> hist \<Rightarrow> dataImport \<Rightarrow> bool" where
  "importInv E C d0 h di \<longleftrightarrow>
     sameImport d0 di \<and>
     (hasTrue di ConditionUploadFinished \<longrightarrow> uploadEvidence d0) \<and>
     (isConditionTrue E (importConditions di) ConditionCompleted \<longrightarrow> completedBy d0 h) \<and>
     (StorageManagerFinalizerName \<in> set (m_finalizers (di_meta d0)) \<and>
      StorageManagerFinalizerName \<notin> set (m_finalizers (di_meta di)) \<longrightarrow>
        m_deletion (di_meta d0) \<noteq> None \<and> infraGone E C d0 h)"

lemma importInv_same: "importInv E C d0 h di \<Longrightarrow> sameImport d0 di"
  by (simp add: importInv_def)

lemma importInv_mono: "importInv E C d0 h di \<Longrightarrow> later h h' \<Longrightarrow> importInv E C d0 h' di"
  unfolding importInv_def using completedBy_mono evidence_mono(5) by meson

lemma conditions_differ [simp]:
  "ConditionReady \<noteq> ConditionUploadFinished" "ConditionReady \<noteq> ConditionCompleted"
  "ConditionUploadFinished \<noteq> ConditionReady" "ConditionUploadFinished \<noteq> ConditionCompleted"
  "ConditionCompleted \<noteq> ConditionReady" "ConditionCompleted \<noteq> ConditionUploadFinished"
  by (simp_all add: conditionType_defs)

lemma sameImport_setCond [simp]: "sameImport d0 (setImportCondition E t st rs m di) = sameImport d0 di"
  by (simp add: sameImport_def setImportCondition_def updStatus_def)

lemma meta_setCond [simp]:
  "di_meta (setImportCondition E t st rs m di) = di_meta di" "di_meta (updStatus f di) = di_meta di"
  by (simp_all add: setImportCondition_def updStatus_def)

lemma GetCondition_find: "env_ok E \<Longrightarrow> GetCondition cs t = FindStatusCondition E cs t"
  by (subst condition_api.find_first [OF env_ok_cond], assumption) (induction cs, auto)

lemma isTrue_setCond:
  assumes "env_ok E"
  shows "isConditionTrue E (importConditions (setImportCondition E t st rs m di)) t' =
    (if t' = t then st = ConditionTrue else isConditionTrue E (importConditions di) t')"
proof (cases "t' = t")
  case True
  let ?c = "\<lparr>c_type = t, c_status = st, c_reason = rs, c_message = m,
    c_observedGeneration = m_generation (di_meta di), c_lastTransitionTime = 0\<rparr>"
  obtain d where "FindStatusCondition E (SetStatusCondition E (importConditions di) ?c) t = Some d"
    "same_report d ?c"
    using condition_api.find_set_same [OF env_ok_cond [OF assms], of "importConditions di" ?c] by auto
  with True show ?thesis
    by (simp add: isConditionTrue_def setImportCondition_def updStatus_def same_report_def)
next
  case False
  then show ?thesis
    by (simp add: isConditionTrue_def setImportCondition_def updStatus_def
      condition_api.find_set_other [OF env_ok_cond [OF assms]])
qed

lemma hasTrue_setCond:
  assumes "env_ok E" "hasTrue (setImportCondition E t st rs m di) t'" "t' \<noteq> t"
  shows "hasTrue di t'"
  using assms(2,3) condition_api.set_types [OF env_ok_cond [OF assms(1)]]
  unfolding hasTrue_def setImportCondition_def updStatus_def by fastforce

lemma importInv_setCond:
  assumes "env_ok E" "importInv E C d0 h di"
    and "t = ConditionCompleted \<Longrightarrow> st = ConditionTrue \<Longrightarrow> completedBy d0 h"
    and "t = ConditionUploadFinished \<Longrightarrow> uploadEvidence d0"
  shows "importInv E C d0 h (setImportCondition E t st rs m di)"
proof -
  have "hasTrue (setImportCondition E t st rs m di) ConditionUploadFinished \<longrightarrow> uploadEvidence d0"
    using assms(2,4) hasTrue_setCond [OF assms(1)] unfolding importInv_def by blast
  with assms(2,3) show ?thesis
    unfolding importInv_def isTrue_setCond [OF assms(1)] by simp
qed

lemma importInv_updStatus:
  assumes "importInv E C d0 h di" "ds_conditions (f (di_status di)) = importConditions di"
    and "ds_phase (f (di_status di)) = ds_phase (di_status di)"
    and "ds_completionTimestamp (f (di_status di)) = ds_completionTimestamp (di_status di)"
    and "ds_serverState (f (di_status di)) = ds_serverState (di_status di)"
  shows "importInv E C d0 h (updStatus f di)"
  using assms by (simp add: importInv_def sameImport_def hasTrue_def updStatus_def)

end
