(* ===== verification/Data_Import_Props.thy ===== *)
theory Data_Import_Props
  imports Data_Import_Rules
begin

text \<open>
  The properties of the DataImport controller: every operation of a reconciliation keeps the
  rule of \<open>Data_Import_Rules\<close>, so the reconciliation does, and its consequences are the
  guarantees of the controller.
\<close>

section \<open>The captured artifact\<close>

lemma key_RemoveFinalizer [simp]: "keyOf (fst (RemoveFinalizer m f)) = keyOf m"
  by (simp add: RemoveFinalizer_def keyOf_def)

lemma scratchGone_logged:
  "a = RErr NotFound \<or> respErr a = Inr x \<Longrightarrow> scratchGone (logged h (Delete KPersistentVolumeClaim n) a)"
  unfolding scratchGone_def by (intro exI [of _ n] exI [of _ a]) auto

lemma DeleteScratchPVC_kept:
  assumes "importKept E C d0 g h"
    and "\<And>h'. later h h' \<Longrightarrow> importAllowed E C d0 h' (Delete KPersistentVolumeClaim (keyOf (pvc_meta pvc)))"
  shows "wp (DeleteScratchPVC F pvc) (\<lambda>r h'. importKept E C d0 g h' \<and> later h h' \<and> calm r \<and>
    (\<forall>x. r = Inr x \<longrightarrow> scratchGone h')) h"
  unfolding DeleteScratchPVC_def Let_def
  using assms
  by (auto simp: wp_rules respErr_Inl intro!: wp_exec scratchGone_logged split: sum.splits)

lemma scratchVolumeFSType_quiet:
  "importKept E C d0 g h \<Longrightarrow> wp (scratchVolumeFSType F pvc) (\<lambda>r h'. importKept E C d0 g h' \<and> later h h') h"
  unfolding scratchVolumeFSType_def
  by (auto simp: wp_rules intro!: wp_getObj split: sum.splits)

text \<open>
  The state of a running part: the rule is kept, the invariant of the object holds, and an
  error that ends the import has one of its causes.
\<close>

definition partOk :: "env \<Rightarrow> dmConfig \<Rightarrow> dataImport \<Rightarrow> hist \<Rightarrow> 'a dres \<Rightarrow> hist \<Rightarrow> bool" where
  "partOk E C d0 g x h \<longleftrightarrow>
     importKept E C d0 g h \<and> importInv E C d0 h (fst x) \<and> (calm (snd x) \<or> failedBy C d0 h)"

text \<open>Lifting a part that does not change the object.\<close>

lemma partOk_thenD:
  assumes "\<And>g. importKept E C d0 g h \<Longrightarrow> wp m (\<lambda>r h'. importKept E C d0 g h' \<and> P r h') h"
    and "importKept E C d0 g h" "importInv E C d0 h di"
    and "\<And>e h'. P (Inl e) h' \<Longrightarrow> retryable e \<or> failedBy C d0 h'"
    and "\<And>a h'. importKept E C d0 g h' \<Longrightarrow> later h h' \<Longrightarrow> importInv E C d0 h' di \<Longrightarrow> P (Inr a) h' \<Longrightarrow>
      wp (k di a) (partOk E C d0 g) h'"
  shows "wp (thenD (keepD di m) k) (partOk E C d0 g) h"
proof -
  have "importKept E C d0 h h" using assms(2) by (simp add: keeps_obeys)
  from assms(1) [OF this] assms(1) [OF assms(2)]
  have "wp m (\<lambda>r h'. (importKept E C d0 h h' \<and> P r h') \<and> (importKept E C d0 g h' \<and> P r h')) h"
    by (simp only: wp_conj)
  then show ?thesis
    unfolding wp_thenD wp_keepD
    by (rule wp_mono) (auto simp: partOk_def split: sum.splits
      intro: importInv_mono [OF assms(3)] assms(5) dest: keeps_later assms(4))
qed

text \<open>Once the artifact is safe, the scratch claim may go and the import is complete.\<close>

lemma finishCapture_kept:
  assumes "env_ok E" "importKept E C d0 g h" "importInv E C d0 h di" "\<not> isCreatePVCMode d0" "uploadEvidence d0"
    and "(Get KPersistentVolumeClaim (keyOf (di_meta d0)), RObj (OPvc pvc)) \<in> set h" "artifactSafe h"
  shows "wp (thenD (keepD di (wrapE ''delete scratch PVC'' (DeleteScratchPVC E pvc))) (\<lambda>di _.
       ret (setImportCondition E ConditionCompleted ConditionTrue ReasonCompleted msg
              (updStatus (\<lambda>s. s\<lparr>ds_data := d\<rparr>) di), Inr emptyResult))) (partOk E C d0 g) h"
proof (rule partOk_thenD [where P = "\<lambda>r h'. calm r \<and> (\<forall>x. r = Inr x \<longrightarrow> scratchGone h')", OF _ assms(2,3)],
    goal_cases)
  case (1 g)
  have "importAllowed E C d0 h' (Delete KPersistentVolumeClaim (keyOf (pvc_meta pvc)))"
    if "later h h'" for h'
    using assms(4-7) later_mem [OF that] evidence_mono'(1) [OF that] unfolding importAllowed_def by auto
  from DeleteScratchPVC_kept [OF 1 this, of E] show ?case
    unfolding wp_wrapE by (rule wp_mono) (auto split: sum.splits)
next
  case (3 _ h')
  have "completedBy d0 h'"
    using 3(4) evidence_mono'(1) [OF 3(2) assms(7)] assms(4,5) by (simp add: completedBy_def)
  with 3 show ?case
    by (auto simp: wp_return partOk_def assms(1) intro!: importInv_setCond importInv_updStatus)
qed simp

lemma recordArtifact_kept:
  assumes "env_ok E" "importKept E C d0 g h" "importInv E C d0 h di" "\<not> isCreatePVCMode d0" "uploadEvidence d0"
    and "(Get KPersistentVolumeClaim (keyOf (di_meta d0)), RObj (OPvc pvc)) \<in> set h"
    and "obtained h (OVcr vcr)" "volumeCaptureRequestReady vcr"
    and "volumeCaptureArtifact vcr artifactKindVolumeSnapshotContent = Inr a"
    and "obtained h (OKeeper k)" "m_uid (ok_meta k) \<noteq> []"
  shows "wp (recordArtifact E di pvc k a) (partOk E C d0 g) h"
proof -
  have kind: "ar_kind a = artifactKindVolumeSnapshotContent"
    using assms(9) by (auto simp: volumeCaptureArtifact_def Let_def split: option.splits if_splits)
  show ?thesis
    unfolding recordArtifact_def
  proof (rule partOk_thenD [OF pin_quiet [OF _ kind] assms(2,3)], goal_cases)
    case (3 _ h1)
    then have r1: "retained h1 a" by blast
    from 3 show ?case
    proof (intro partOk_thenD [OF keep_quiet [OF assms(1) _ kind] 3(1,3)], goal_cases)
      case (3 _ h2)
      note l2 = later_trans [OF \<open>later h h1\<close> \<open>later h1 h2\<close>]
      have "artifactSafe h2"
        unfolding artifactSafe_def
        using 3 assms(7-11) evidence_mono(1) [OF l2] evidence_mono(2) [OF \<open>later h1 h2\<close> r1] by blast
      then show ?case
        unfolding wp_bind using assms(6)
        by (auto intro!: wp_mono [OF scratchVolumeFSType_quiet [OF 3(5)]] finishCapture_kept
            assms(1,4,5) intro: importInv_mono [OF 3(7)] evidence_mono' dest: later_mem later_mem [OF l2])
    qed auto
  qed auto
qed

section \<open>The pipelines\<close>

lemma resolve_marked:
  "importKept E C d0 g h \<Longrightarrow> wp (markE ErrTargetFailed (resolveSnapshotCaptureMode F di)) (\<lambda>r h'. importKept E C d0 g h' \<and>
     (\<forall>m. r = Inr m \<longrightarrow> m = (vcrModeSnapshot, artifactKindVolumeSnapshotContent)) \<and>
     (calm r \<or> badClass h' \<or> (\<forall>t. di_storageParams di = Some t \<longrightarrow> sp_storageClassName t = []))) h"
  unfolding wp_markE by (rule wp_mono [OF resolve_quiet]) (auto split: sum.splits)

lemma failedByI:
  "badClass h \<Longrightarrow> failedBy C d0 h" "badCapture h \<Longrightarrow> failedBy C d0 h" "badSpec C d0 \<Longrightarrow> failedBy C d0 h"
  by (simp_all add: failedBy_def)

lemma badCaptureI:
  "obtained h (OVcr v) \<Longrightarrow> fst (volumeCaptureRequestFailed v) \<Longrightarrow> badCapture h"
  "obtained h (OVcr v) \<Longrightarrow> volumeCaptureRequestReady v \<Longrightarrow>
     volumeCaptureArtifact v artifactKindVolumeSnapshotContent = Inl e \<Longrightarrow> badCapture h"
  unfolding badCapture_def by blast+

lemma ensureDataArtifact_kept:
  assumes "env_ok E" "importKept E C d0 g h" "importInv E C d0 h di" "\<not> isCreatePVCMode d0" "uploadEvidence d0"
    and "(Get KPersistentVolumeClaim (keyOf (di_meta d0)), RObj (OPvc pvc)) \<in> set h"
    and "di_storageParams di = Some t" "sp_storageClassName t \<noteq> []"
  shows "wp (ensureDataArtifact E di pvc) (partOk E C d0 g) h"
  unfolding ensureDataArtifact_def
proof (rule partOk_thenD [OF resolve_marked assms(2,3)], goal_cases)
  case (3 m h1)
  then have m: "m = (vcrModeSnapshot, artifactKindVolumeSnapshotContent)" by blast
  from 3 show ?case
  proof (intro partOk_thenD [OF ensureObjectKeeper_quiet 3(1,3)], goal_cases)
    case (3 found h2)
    note l2 = later_trans [OF \<open>later h h1\<close> \<open>later h1 h2\<close>]
    show ?case
    proof (cases found)
      case None
      with 3 show ?thesis by (simp add: wp_return partOk_def)
    next
      case (Some k)
      with 3 have k: "obtained h2 (OKeeper k)" "m_uid (ok_meta k) \<noteq> []" by auto
      show ?thesis
        unfolding Some option.case
      proof (rule partOk_thenD [OF ensureVCR_quiet 3(5,7)], goal_cases)
        case (3 v h3)
        then have v: "obtained h3 (OVcr v)" by blast
        have pvc: "(Get KPersistentVolumeClaim (keyOf (di_meta d0)), RObj (OPvc pvc)) \<in> set h3"
          using assms(6) later_mem [OF l2] later_mem [OF 3(2)] by blast
        show ?case
          using 3 badCaptureI [OF v]
          by (auto simp: wp_return partOk_def m assms(1) split: sum.splits intro: failedByI
            intro!: importInv_setCond
              recordArtifact_kept [OF assms(1) 3(1,3) assms(4,5) pvc v _ _ evidence_mono(1) [OF 3(2) k(1)] k(2)])
      qed auto
    qed
  qed auto
qed (use assms(7,8) in \<open>auto intro: failedByI\<close>)

lemma GetCondition_Some: "GetCondition cs t = Some c \<Longrightarrow> c \<in> set cs \<and> c_type c = t"
  by (induction cs) (auto split: if_splits)

lemma uploadFinished_hasTrue: "uploadFinished di \<Longrightarrow> hasTrue di ConditionUploadFinished"
  by (auto simp: uploadFinished_def hasTrue_def dest: GetCondition_Some split: option.splits)

lemma uploadFinished_evidence: "importInv E C d0 h di \<Longrightarrow> uploadFinished di \<Longrightarrow> uploadEvidence d0"
  using uploadFinished_hasTrue by (auto simp: importInv_def)

lemma volumeMode_quiet:
  "importKept E C d0 g h \<Longrightarrow> wp (ret (GetPVCVolumeMode pvc)) (\<lambda>r h'. importKept E C d0 g h' \<and> calm r) h"
  by (simp add: wp_return GetPVCVolumeMode_def split: option.splits)

lemma GetScratchPVC_quiet:
  "importKept E C d0 g h \<Longrightarrow> wp (GetScratchPVC F ns n) (\<lambda>r h'. importKept E C d0 g h' \<and> calm r \<and>
     (\<forall>pvc. r = Inr pvc \<longrightarrow> (Get KPersistentVolumeClaim (ns, n), RObj (OPvc pvc)) \<in> set h')) h"
  unfolding GetScratchPVC_def by (auto intro!: wp_getObj)

lemma partOk_setReady:
  assumes "env_ok E" "importKept E C d0 g h" "importInv E C d0 h di"
  shows "partOk E C d0 g (setImportCondition E ConditionReady st rs m di, Inr x) h"
  using assms by (auto simp: partOk_def intro!: importInv_setCond)

lemma handleTargetStatus_kept:
  assumes "env_ok E" "importKept E C d0 g h" "importInv E C d0 h di" "\<not> isCreatePVCMode d0"
    and "(Get KPersistentVolumeClaim (keyOf (di_meta d0)), RObj (OPvc pvc)) \<in> set h"
    and "di_storageParams di = Some t" "sp_storageClassName t \<noteq> []"
  shows "wp (handleTargetStatus E C nm di pvc) (partOk E C d0 g) h"
  unfolding handleTargetStatus_def
proof (rule partOk_thenD [OF CheckPVCStatus_quiet assms(2,3)], goal_cases)
  case (3 status h1)
  from 3 show ?case
  proof (intro partOk_thenD [OF volumeMode_quiet 3(1,3)], goal_cases)
    case (3 vm h2)
    let ?di = "updStatus (\<lambda>s. s\<lparr>ds_volumeMode := vm\<rparr>) di"
    have inv: "importInv E C d0 h2 ?di" using 3(7) by (auto intro!: importInv_updStatus)
    have sp: "di_storageParams ?di = Some t" using assms(6) by (simp add: updStatus_def)
    have pvc: "(Get KPersistentVolumeClaim (keyOf (di_meta d0)), RObj (OPvc pvc)) \<in> set h2"
      using assms(5) later_mem [OF \<open>later h h1\<close>] later_mem [OF \<open>later h1 h2\<close>] by blast
    note job = partOk_thenD [OF ensureDummyJob_quiet [OF importInv_same [OF inv]] 3(5) inv]
    show ?case
      using partOk_setReady [OF assms(1)] 3(5) inv uploadFinished_evidence [OF inv]
      by (cases status) (auto simp: Let_def wp_return partOk_def [of _ _ _ _ "(_, Inl _)"]
        partOk_def [of _ _ _ _ "(?di, Inr emptyResult)"]
        intro!: job ensureDataArtifact_kept [OF assms(1) _ inv assms(4) _ pvc sp assms(7)])
  qed auto
qed auto

lemma sameImport_sel:
  assumes "importInv E C d0 h di"
  shows "(m_namespace (di_meta di), m_name (di_meta di)) = keyOf (di_meta d0)"
    and "isCreatePVCMode di = isCreatePVCMode d0"
    and "scratchVolumeParamsFromSpec C di = scratchVolumeParamsFromSpec C d0"
    and "di_pvcTemplate di = di_pvcTemplate d0" "ds_serverState (di_status di) = ds_serverState (di_status d0)"
    and "ds_phase (di_status di) = ds_phase (di_status d0)" "m_deletion (di_meta di) = m_deletion (di_meta d0)"
  using assms
  by (simp_all add: importInv_def sameImport_def keyOf_def isCreatePVCMode_def EffectiveMode_def
    scratchVolumeParamsFromSpec_def)

lemma scratchParams_ok:
  "scratchVolumeParamsFromSpec C di = Inr p \<Longrightarrow>
     \<exists>t. di_storageParams di = Some t \<and> sp_storageClassName t \<noteq> []"
  by (auto simp: scratchVolumeParamsFromSpec_def split: option.splits if_splits)

lemma ensureScratchPVC_quiet:
  "importInv E C d0 h di \<Longrightarrow> importKept E C d0 g h \<Longrightarrow>
     wp (ensureScratchPVC F di params) (\<lambda>r h'. importKept E C d0 g h' \<and> calm r) h"
  "importInv E C d0 h di \<Longrightarrow> importKept E C d0 g h \<Longrightarrow>
     wp (ensureImportPVC F di tmpl) (\<lambda>r h'. importKept E C d0 g h' \<and> calm r) h"
  unfolding ensureScratchPVC_def ensureImportPVC_def
  by (rule EnsurePVC_quiet [OF sameImport_sel(1)]; assumption)+

lemma ensureSnapshotImportTarget_kept:
  assumes "env_ok E" "importKept E C d0 g h" "importInv E C d0 h di" "\<not> isCreatePVCMode d0" "artifactOf di = artifactOf d0"
  shows "wp (ensureSnapshotImportTarget E C nm di) (partOk E C d0 g) h"
proof (cases "artifactOf di")
  case (Some a)
  then have "completedBy d0 h" using assms(4,5) by (simp add: completedBy_def)
  with Some assms(1-3) show ?thesis
    by (auto simp: ensureSnapshotImportTarget_def artifactOf_def wp_return partOk_def
      intro!: importInv_setCond split: option.splits)
next
  case None
  show ?thesis
  proof (cases "scratchVolumeParamsFromSpec C di")
    case (Inl e)
    then have "badSpec C d0" using assms(4) sameImport_sel(3) [OF assms(3)] by (auto simp: badSpec_def)
    with Inl None assms(2,3) show ?thesis
      by (auto simp: ensureSnapshotImportTarget_def artifactOf_def wp_return partOk_def failedByI
        split: option.splits)
  next
    case (Inr params)
    then obtain t where t: "di_storageParams di = Some t" "sp_storageClassName t \<noteq> []"
      using scratchParams_ok by blast
    have "ensureSnapshotImportTarget E C nm di =
       thenD (keepD di (markE ErrTargetFailed (resolveSnapshotCaptureMode E di))) (\<lambda>di _.
       thenD (keepD di (ensureScratchPVC E di params)) (\<lambda>di _.
       thenD (keepD di (GetScratchPVC E (m_namespace (di_meta di)) (m_name (di_meta di)))) (\<lambda>di pvc.
       handleTargetStatus E C nm di pvc)))"
      using None Inr by (auto simp: ensureSnapshotImportTarget_def artifactOf_def split: option.splits)
    then show ?thesis
      using t sameImport_sel(1)
      by (auto intro!: partOk_thenD [OF resolve_marked assms(2,3)] partOk_thenD [OF ensureScratchPVC_quiet(1)]
        partOk_thenD [OF GetScratchPVC_quiet] handleTargetStatus_kept [OF assms(1) _ _ assms(4)] intro: failedByI)
  qed
qed

lemma handlePVCImportStatus_kept:
  assumes "env_ok E" "importKept E C d0 g h" "importInv E C d0 h di" "isCreatePVCMode d0" "obtained h (OPvc pvc)"
  shows "wp (handlePVCImportStatus E C nm di pvc) (partOk E C d0 g) h"
  unfolding handlePVCImportStatus_def
proof (rule partOk_thenD [OF CheckPVCStatus_quiet assms(2,3)], goal_cases)
  case (3 status h1)
  let ?di = "(case GetPVCVolumeMode pvc of Inl _ \<Rightarrow> di
    | Inr volumeMode \<Rightarrow> updStatus (\<lambda>s. s\<lparr>ds_volumeMode := volumeMode\<rparr>) di)"
  have inv: "importInv E C d0 h1 ?di"
    using 3(3) by (auto intro!: importInv_updStatus split: sum.splits)
  have bound: "completedBy d0 h1" if "status = TargetStatusReady" "uploadFinished ?di"
    using 3 that uploadFinished_evidence [OF inv] assms(4) evidence_mono(1) [OF 3(2) assms(5)]
    by (auto simp: completedBy_def)
  note job = partOk_thenD [OF ensureDummyJob_quiet [OF importInv_same [OF inv]] 3(1) inv]
  show ?case
    unfolding Let_def
    using partOk_setReady [OF assms(1)] 3(1) inv bound
    by (cases status) (auto simp: wp_return partOk_def [of _ _ _ _ "(_, Inl _)"]
      partOk_def [of _ _ _ _ "(_, Inr emptyResult)"] assms(1) intro!: job importInv_setCond)
qed auto

lemma ensurePVCImportTarget_kept:
  assumes "env_ok E" "importKept E C d0 g h" "importInv E C d0 h di" "isCreatePVCMode d0"
  shows "wp (ensurePVCImportTarget E C nm di) (partOk E C d0 g) h"
proof -
  have spec: "failedBy C d0 h" if "\<forall>t. di_pvcTemplate di = Some t \<longrightarrow> tmpl_name t = []"
    using that assms(4) sameImport_sel(4) [OF assms(3)] by (simp add: failedBy_def badSpec_def)
  show ?thesis
    unfolding ensurePVCImportTarget_def
    using assms(2,3) spec
    by (auto simp: wp_return partOk_def [of _ _ _ _ "(_, Inl _)"] partOk_def [of _ _ _ _ "(di, Inr _)"]
        obtained_def split: option.splits
      intro!: partOk_thenD [OF ensureScratchPVC_quiet(2)] partOk_thenD [OF GetScratchPVC_quiet]
        handlePVCImportStatus_kept [OF assms(1) _ _ assms(4)])
qed

lemma ensureTarget_kept:
  assumes "env_ok E" "importKept E C d0 g h" "importInv E C d0 h di" "artifactOf di = artifactOf d0"
  shows "wp (ensureTarget E C nm di) (partOk E C d0 g) h"
  using assms sameImport_sel(2) [OF assms(3)]
  by (auto simp: ensureTarget_def intro!: ensurePVCImportTarget_kept ensureSnapshotImportTarget_kept)

section \<open>Publishing, readiness and teardown\<close>

lemma ensurePublish_kept:
  "importKept E C d0 g h \<Longrightarrow> importInv E C d0 h di \<Longrightarrow> wp (ensurePublish E C nm di) (partOk E C d0 g) h"
  unfolding ensurePublish_def
  by (auto simp: wp_return partOk_def intro!: partOk_thenD [OF imp.EnsurePublicURL_quiet] importInv_updStatus)

lemma deletePublish_kept:
  "importKept E C d0 g h \<Longrightarrow> importInv E C d0 h di \<Longrightarrow> wp (deletePublish E C nm di) (\<lambda>x h'. partOk E C d0 g x h' \<and>
     later h h' \<and> (snd x = Inr False \<longrightarrow>
       (Delete KService (dm_controllerNamespace C, HeadlessServiceName nm), RErr NotFound) \<in> set h' \<and>
       (Delete KIngress (dm_controllerNamespace C, IngressResourceName nm), RErr NotFound) \<in> set h')) h"
  unfolding deletePublish_def wp_thenD wp_keepD
  by (auto simp: wp_return partOk_def intro!: wp_mono [OF imp.DeletePublicResources_quiet] importInv_updStatus
    intro: importInv_mono split: sum.splits)

lemma ready_quiet: "importKept E C d0 g h \<Longrightarrow> wp (ret (Inr b)) (\<lambda>r h'. importKept E C d0 g h' \<and> calm (r :: bool res)) h"
  by (simp add: wp_return)

lemma updateReadiness_kept:
  assumes "env_ok E" "importKept E C d0 g h" "importInv E C d0 h di"
  shows "wp (updateReadiness E C nm di) (partOk E C d0 g) h"
  unfolding updateReadiness_def
  using assms(2,3) partOk_setReady [OF assms(1)]
  by (auto simp: wp_return partOk_def [of _ _ _ _ "(di, Inr _)"]
    intro!: partOk_thenD [OF imp.IsPublishReady_quiet] partOk_thenD [OF ready_quiet])

lemma partOk_seq:
  assumes "wp m (partOk E C d0 g) h"
    and "\<And>di a h'. importKept E C d0 g h' \<Longrightarrow> importInv E C d0 h' di \<Longrightarrow> wp (k di a) (partOk E C d0 g) h'"
  shows "wp (thenD m k) (partOk E C d0 g) h"
  unfolding wp_thenD
  by (rule wp_mono [OF assms(1)]) (use assms(2) in \<open>auto simp: partOk_def split: sum.splits\<close>)

lemma activeImport_kept:
  assumes "env_ok E" "importKept E C d0 g h" "importInv E C d0 h di" "artifactOf di = artifactOf d0"
  shows "wp (activeImport E C nm di) (partOk E C d0 g) h"
proof -
  let ?d1 = "di\<lparr>di_meta := fst (EnsureFinalizer (di_meta di) StorageManagerFinalizerName)\<rparr>"
  let ?d2 = "if ds_serverState (di_status ?d1) = ServerStateFinished
    then setImportCondition E ConditionUploadFinished ConditionTrue ReasonUploadFinished
      ''Client upload finished; producing artifact'' ?d1 else ?d1"
  have d1: "importInv E C d0 h ?d1"
    using assms(3) by (auto simp: importInv_def sameImport_def hasTrue_def EnsureFinalizer_def keyOf_def)
  then have d2: "importInv E C d0 h ?d2"
    using sameImport_sel(5) [OF d1] by (auto simp: uploadEvidence_def intro!: importInv_setCond [OF assms(1)])
  have a2: "artifactOf ?d2 = artifactOf d0"
    using assms(4) by (simp add: artifactOf_def setImportCondition_def updStatus_def)
  have unpublish: "wp (thenD (deletePublish E C nm di) (\<lambda>di _. ret (di, Inr ()))) (partOk E C d0 g) h'"
    if "importKept E C d0 g h'" "importInv E C d0 h' di" for di h'
    by (rule partOk_seq [OF wp_mono [OF deletePublish_kept [OF that]]]) (auto simp: wp_return partOk_def)
  show ?thesis
    unfolding activeImport_def Let_def
    by (rule partOk_seq [OF ensureTarget_kept [OF assms(1,2) d2 a2]])
      (auto simp: wp_return partOk_def [of _ _ _ _ "(_, Inr _)"]
        intro!: partOk_seq updateReadiness_kept [OF assms(1)] ensurePublish_kept unpublish)
qed

text \<open>When teardown reports that all is gone, the server said so for each resource.\<close>

lemma teardown_kept:
  assumes "importKept E C d0 g h" "importInv E C d0 h di"
  shows "wp (teardownImportInfra E C (importNames E d0) di) (\<lambda>x h'. partOk E C d0 g x h' \<and>
    (snd x = Inr True \<longrightarrow> infraGone E C d0 h')) h"
proof -
  have ns: "m_namespace (di_meta di) = m_namespace (di_meta d0)"
    using sameImport_sel(1) [OF assms(2)] by (simp add: keyOf_def)
  show ?thesis
    unfolding teardownImportInfra_def DeleteJob_def wp_thenD wp_keepD wp_optional
    using assms
    by (auto simp: wp_return wp_thenD partOk_def ns infraGone_def
      intro!: wp_mono [OF imp.deleteReport_quiet] wp_getObj wp_mono [OF deletePublish_kept]
      intro: importInv_mono dest: later_mem split: sum.splits)
qed

lemma RemovePVCFinalizer_quiet:
  "importKept E C d0 g h \<Longrightarrow> wp (RemovePVCFinalizer F n f) (\<lambda>r h'. importKept E C d0 g h' \<and> calm r) h"
  unfolding RemovePVCFinalizer_def
  by (auto simp: wp_rules respErr_Inl intro!: wp_getObj wp_update_or split: sum.splits option.splits prod.splits)

lemma importInv_dropFinalizer:
  "importInv E C d0 h di \<Longrightarrow> m_deletion (di_meta d0) \<noteq> None \<Longrightarrow> infraGone E C d0 h \<Longrightarrow>
     importInv E C d0 h (di\<lparr>di_meta := fst (RemoveFinalizer (di_meta di) f)\<rparr>)"
  by (auto simp: importInv_def sameImport_def hasTrue_def RemoveFinalizer_def keyOf_def)

lemma cleanup_kept:
  assumes "importKept E C d0 g h" "importInv E C d0 h di" "m_deletion (di_meta d0) \<noteq> None"
  shows "wp (cleanupDataImport E C (importNames E d0) di) (partOk E C d0 g) h"
proof -
  have gone: "wp (thenD (keepD di (RemovePVCFinalizer E n StorageManagerFinalizerName)) (\<lambda>di _.
      ret (di\<lparr>di_meta := fst (RemoveFinalizer (di_meta di) StorageManagerFinalizerName)\<rparr>, Inr ())))
      (partOk E C d0 g) h'"
    if "importKept E C d0 g h'" "importInv E C d0 h' di" "infraGone E C d0 h'" for di h' n
    using that(3) assms(3)
    by (auto simp: wp_return partOk_def intro!: partOk_thenD [OF RemovePVCFinalizer_quiet that(1,2)]
      importInv_dropFinalizer evidence_mono(5))
  show ?thesis
    unfolding cleanupDataImport_def wp_thenD
    by (rule wp_mono [OF teardown_kept [OF assms(1,2)]])
      (auto simp: wp_return partOk_def [of _ _ _ _ "(_, Inl _)"] partOk_def [of _ _ _ _ "(_, Inr _)"]
        partOk_def [of E C d0 g "_ :: bool dres"] split: sum.splits intro!: gone)
qed

section \<open>The body\<close>

lemma isConditionTrue_hasTrue:
  "env_ok E \<Longrightarrow> isConditionTrue E (importConditions di) t \<Longrightarrow> hasTrue di t"
  using condition_api.find_Some [OF env_ok_cond]
  by (fastforce simp: isConditionTrue_def hasTrue_def split: option.splits)

lemma importInv_seed:
  assumes "env_ok E" "sameImport d0 di" "m_finalizers (di_meta di) = m_finalizers (di_meta d0)"
    and "\<And>t. hasTrue di t \<Longrightarrow> hasTrue d0 t"
  shows "importInv E C d0 h di"
  using assms isConditionTrue_hasTrue [OF assms(1)]
  by (auto simp: importInv_def uploadEvidence_def completedBy_def)

lemma seedConditions_inv:
  assumes "env_ok E"
  shows "importInv E C d0 h (seedConditions E d0)" "artifactOf (seedConditions E d0) = artifactOf d0"
proof -
  let ?d1 = "updStatus (\<lambda>s. fst (StripConditionsNotIn s
    [ConditionReady, ConditionUploadFinished, ConditionCompleted])) d0"
  have c1: "hasTrue ?d1 t \<Longrightarrow> hasTrue d0 t" for t
    by (auto simp: hasTrue_def updStatus_def StripConditions_conditions)
  have d1: "importInv E C d0 h ?d1"
    by (rule importInv_seed [OF assms]) (auto simp: sameImport_def updStatus_def c1)
  have d2: "importInv E C d0 h (updStatus (\<lambda>s. s\<lparr>ds_conditions :=
      rewriteReason (ds_conditions s) ConditionReady r\<rparr>) ?d1)" for r
    by (rule importInv_seed [OF assms]) (auto simp: sameImport_def updStatus_def hasTrue_def
      StripConditions_conditions dest!: rewriteReason_mem)
  show "importInv E C d0 h (seedConditions E d0)"
    unfolding seedConditions_def Let_def
    by (auto simp: d1 d2 split: option.splits intro!: importInv_setCond [OF assms])
  show "artifactOf (seedConditions E d0) = artifactOf d0"
    by (auto simp: seedConditions_def Let_def artifactOf_def setImportCondition_def updStatus_def
      split: option.splits)
qed

lemma partOk_marked:
  assumes "wp m (partOk E C d0 g) h"
  shows "wp (State_Monad.bind m (\<lambda>x. ret (fst x, (case snd x of
    Inl e \<Rightarrow> Inl (markErr ErrCleanupFailed e) | Inr _ \<Rightarrow> Inr y)))) (partOk E C d0 g) h"
  unfolding wp_bind
  by (rule wp_mono [OF assms]) (auto simp: wp_return partOk_def split: sum.splits)

lemma reconcileBody_kept:
  assumes "env_ok E" "importKept E C d0 g h"
  shows "wp (reconcileBody E C d0) (partOk E C d0 g) h"
proof -
  let ?di = "seedConditions E d0"
  note inv = seedConditions_inv(1) [OF assms(1), of C d0 h]
  have del: "m_deletion (di_meta ?di) = m_deletion (di_meta d0)" using sameImport_sel(7) [OF inv] .
  have set_ready: "importInv E C d0 h (setImportCondition E ConditionReady ConditionFalse r m ?di)" for r m
    using inv by (auto intro!: importInv_setCond [OF assms(1)])
  have "wp (teardownImportInfra E C (importNames E d0) di) (partOk E C d0 g) h"
    if "importInv E C d0 h di" for di
    by (rule wp_mono [OF teardown_kept [OF assms(2) that]]) simp
  then show ?thesis
    unfolding reconcileBody_def importNames_def [symmetric] Let_def
    using assms inv del seedConditions_inv(2) [OF assms(1), of d0]
    by (auto simp: wp_return partOk_def [of _ _ _ _ "(?di, Inr _)"]
      intro!: partOk_marked cleanup_kept set_ready activeImport_kept)
qed

section \<open>The deferred write\<close>

lemma statusOk_mono: "statusOk C d0 h s \<Longrightarrow> later h h' \<Longrightarrow> statusOk C d0 h' s"
  unfolding statusOk_def using completedBy_mono failedBy_mono by meson

lemma mutateReadyByErr_inv:
  "env_ok E \<Longrightarrow> importInv E C d0 h di \<Longrightarrow> importInv E C d0 h (mutateReadyByErr E di err)"
  by (auto simp: mutateReadyByErr_def split: option.splits intro!: importInv_setCond)

lemma finalize_phase:
  "ds_phase (di_status (finalizeDataImportStatus E di err t)) = computeDataImportPhase E di err"
  "ds_completionTimestamp (di_status (finalizeDataImportStatus E di err t)) =
     (if IsTerminal (computeDataImportPhase E di err) \<and> ds_completionTimestamp (di_status di) = None
      then Some t else ds_completionTimestamp (di_status di))"
  "di_meta (finalizeDataImportStatus E di err t) = di_meta di"
  by (simp_all add: finalizeDataImportStatus_def Let_def updStatus_def SetCompletionTimestampOnce_def
    terminalConditions_def setImportCondition_def)

lemma finalize_ok:
  assumes "importInv E C d0 h di" "\<And>e. err = Some e \<Longrightarrow> errorsIs e ErrTerminal \<Longrightarrow> failedBy C d0 h"
  shows "statusOk C d0 h (di_status (finalizeDataImportStatus E di err t))"
proof -
  have same: "m_deletion (di_meta di) = m_deletion (di_meta d0)"
    "ds_phase (di_status di) = ds_phase (di_status d0)"
    "ds_completionTimestamp (di_status di) = ds_completionTimestamp (di_status d0)"
    using assms(1) by (auto simp: importInv_def sameImport_def)
  have phases: "PhaseCompleted \<noteq> PhaseFailed" "PhaseExpired \<noteq> PhaseFailed" "PhaseExpired \<noteq> PhaseCompleted"
    "PhaseReady \<noteq> PhaseFailed" "PhaseReady \<noteq> PhaseCompleted" "PhasePending \<noteq> PhaseFailed"
    "PhasePending \<noteq> PhaseCompleted" "PhaseTerminating \<noteq> PhaseCompleted" "PhaseTerminating \<noteq> PhaseFailed"
    by (simp_all add: phase_defs)
  have fin: "isTerminalErr err \<longrightarrow> failedBy C d0 h"
    using assms(2) by (auto simp: isTerminalErr_def split: option.splits)
  have com: "isConditionTrue E (importConditions di) ConditionCompleted \<longrightarrow> completedBy d0 h"
    using assms(1) by (simp add: importInv_def)
  show ?thesis
    using fin com phases phases [symmetric]
    unfolding statusOk_def finalize_phase computeDataImportPhase_def same by (auto simp: IsTerminal_def)
qed

lemma justRead_logged [simp]: "justRead (logged p r (RObj (ODataImport x))) x"
  unfolding justRead_def by blast

lemma statusUpdate_allowed:
  "justRead h fresh \<Longrightarrow> statusOk C d0 h s \<Longrightarrow>
     importAllowed E C d0 h (StatusUpdate (ODataImport (fresh\<lparr>di_status := podOwned (di_status fresh) s\<rparr>)))"
  unfolding importAllowed_def by auto

lemma metaUpdate_allowed:
  assumes "\<not> want \<Longrightarrow> m_deletion (di_meta d0) \<noteq> None \<and> infraGone E C d0 h"
  shows "importAllowed E C d0 h (Update (ODataImport (fresh\<lparr>di_meta := (di_meta fresh)\<lparr>m_finalizers :=
    ReconcileFinalizer live StorageManagerFinalizerName want\<rparr>\<rparr>)))"
  using assms unfolding importAllowed_def by auto

lemma updateOnce_kept:
  assumes "importKept E C d0 g h" "statusOk C d0 h (di_status new)"
    and "needMeta \<and> \<not> want \<longrightarrow> m_deletion (di_meta d0) \<noteq> None \<and> infraGone E C d0 h"
  shows "wp (updateOnce F new want needMeta needStatus) (\<lambda>_ h'. importKept E C d0 g h' \<and> later h h') h"
proof -
  have gone: "importAllowed E C d0 h' (Update (ODataImport (fresh\<lparr>di_meta := (di_meta fresh)\<lparr>m_finalizers :=
      ReconcileFinalizer live StorageManagerFinalizerName want\<rparr>\<rparr>)))" if "later h h'" needMeta for h' fresh live
    using assms(3) that evidence_mono(5) by (auto intro!: metaUpdate_allowed)
  have status: "importAllowed E C d0 h' (StatusUpdate (ODataImport
      (fresh\<lparr>di_status := podOwned (di_status fresh) (di_status new)\<rparr>)))" if "later h h'" "justRead h' fresh" for h' fresh
    by (rule statusUpdate_allowed [OF that(2) statusOk_mono [OF assms(2) that(1)]])
  show ?thesis
    unfolding updateOnce_def
    using assms(1)
    by (auto simp: wp_rules intro!: wp_getObj wp_sendObj wp_exec gone status split: sum.splits)
qed

lemma updateDataImport_kept:
  assumes "env_ok E" "importKept E C d0 g h" "statusOk C d0 h (di_status new)"
    and "StorageManagerFinalizerName \<in> set (m_finalizers (di_meta d0)) \<and>
      StorageManagerFinalizerName \<notin> set (m_finalizers (di_meta new)) \<longrightarrow>
        m_deletion (di_meta d0) \<noteq> None \<and> infraGone E C d0 h"
  shows "wp (updateDataImport E d0 new) (\<lambda>_ h'. importKept E C d0 g h') h"
proof -
  have once: "wp (updateOnce E new want needMeta b) (\<lambda>_ h''. importKept E C d0 g h'' \<and> later h' h'') h'"
    if "importKept E C d0 g h'" "later h h'"
      and "needMeta \<and> \<not> want \<longrightarrow> m_deletion (di_meta d0) \<noteq> None \<and> infraGone E C d0 h" for h' want needMeta b
    using that(3) evidence_mono(5) [OF that(2)]
    by (intro updateOnce_kept [OF that(1) statusOk_mono [OF assms(3) that(2)]]) blast
  show ?thesis
    unfolding updateDataImport_def Let_def ContainsString_iff
    using assms(4)
    by (auto simp: wp_return wp_ignoreNotFound assms(2)
      intro!: wp_RetryOnConflict [OF assms(1), where I = "\<lambda>h'. importKept E C d0 g h' \<and> later h h'"]
        wp_mono [OF once] intro: later_trans split: sum.splits)
qed

text \<open>The whole reconciliation keeps the rule.\<close>

lemma diReconcile_kept:
  assumes "env_ok E" "api E [] (Get KDataImport n) = RObj (ODataImport d0)"
  shows "wp (diReconcile E C n) (\<lambda>_ h'. obeys (importAllowed E C d0) h') []"
proof -
  let ?h = "logged [] (Get KDataImport n) (RObj (ODataImport d0))"
  have K0: "importKept E C d0 ?h ?h" by simp
  have persist: "wp (updateDataImport E d0 (finalizeDataImportStatus E (mutateReadyByErr E di
      (deferredErr r)) (deferredErr r) t)) (\<lambda>_ h'. obeys (importAllowed E C d0) h') h"
    if x: "partOk E C d0 ?h (di, r) h" for di and r :: "ctrlResult res" and h t
  proof (rule wp_mono [OF updateDataImport_kept [OF assms(1), of C d0 ?h]])
    let ?err = "deferredErr r" and ?m = "mutateReadyByErr E di (deferredErr r)"
    have inv: "importInv E C d0 h ?m"
      using x mutateReadyByErr_inv [OF assms(1)] by (simp add: partOk_def)
    show "importKept E C d0 ?h h" using x by (simp add: partOk_def)
    show "statusOk C d0 h (di_status (finalizeDataImportStatus E ?m ?err t))"
      using x by (intro finalize_ok [OF inv])
        (auto simp: partOk_def deferredErr_def calm_def retryable_def split: sum.splits if_splits)
    show "StorageManagerFinalizerName \<in> set (m_finalizers (di_meta d0)) \<and>
      StorageManagerFinalizerName \<notin> set (m_finalizers (di_meta (finalizeDataImportStatus E ?m ?err t))) \<longrightarrow>
        m_deletion (di_meta d0) \<noteq> None \<and> infraGone E C d0 h"
      using inv by (simp add: finalize_phase importInv_def)
  qed (simp add: keeps_obeys)
  have "wp (diReconcile E C n) Q [] = wp (State_Monad.bind (reconcileBody E C d0) (\<lambda>x.
      State_Monad.bind (now E) (\<lambda>t. State_Monad.bind (updateDataImport E d0 (finalizeDataImportStatus E
        (mutateReadyByErr E (fst x) (deferredErr (snd x))) (deferredErr (snd x)) t))
        (\<lambda>u. ret (combineResult (snd x) u))))) Q ?h" for Q
    by (simp add: diReconcile_def getObj_def wp_rules wp_call assms(2) Let_def)
  then show ?thesis
    by (auto simp: wp_rules intro!: wp_mono [OF reconcileBody_kept [OF assms(1) K0]] wp_mono [OF persist])
qed

section \<open>A cluster with one import\<close>

definition exStatus :: dataExportImportStatus where
  "exStatus = \<lparr>ds_url = ''https://pod'', ds_ca = ''ca'', ds_publicURL = [], ds_accessTimestamp = 3,
     ds_conditions = [], ds_volumeMode = [], ds_phase = ''Ready'', ds_completionTimestamp = None,
     ds_serverState = ServerStateFinished, ds_data = None\<rparr>"

definition exImport :: dataImport where
  "exImport = \<lparr>di_meta = emptyMeta\<lparr>m_name := ''imp'', m_namespace := ''ns'', m_uid := ''u1'',
       m_finalizers := [StorageManagerFinalizerName]\<rparr>,
     di_ttl = ''10m'', di_publish = False, di_waitForFirstConsumer = False, di_mode = ''PopulateData'',
     di_snapshotRef = None,
     di_storageParams = Some \<lparr>sp_storageClassName = ''fast'', sp_size = ''1Gi'', sp_volumeMode = ''Block''\<rparr>,
     di_pvcTemplate = None, di_status = exStatus\<rparr>"

definition exScratch :: persistentVolumeClaim where
  "exScratch = \<lparr>pvc_meta = emptyMeta\<lparr>m_name := ''imp'', m_namespace := ''ns'', m_uid := ''c1'',
       m_finalizers := [StorageManagerFinalizerName]\<rparr>,
     pvc_volumeName = ''pv1'', pvc_storageClassName = Some ''fast'', pvc_volumeMode = Some ''Block'',
     pvc_accessModes = [''ReadWriteOnce''], pvc_requests = [(''storage'', ''1Gi'')], pvc_dataSourceRef = None,
     pvc_phase = ''Bound''\<rparr>"

definition exCapture :: volumeCaptureRequest where
  "exCapture = \<lparr>vcr_meta = emptyMeta\<lparr>m_name := ''data-import-vcr-u1'', m_namespace := ''ns''\<rparr>,
     vcr_mode = vcrModeSnapshot, vcr_target = None,
     vcr_status = \<lparr>vcs_completionTimestamp = Some 5,
       vcs_conditions = [readyCondition ConditionTrue ReasonCompleted [] 5],
       vcs_data = Some \<lparr>vdb_artifactRef = \<lparr>ar_apiVersion = ''snapshot.storage.k8s.io/v1'',
         ar_kind = artifactKindVolumeSnapshotContent, ar_name = ''vsc1'', ar_uid = ''s1''\<rparr>\<rparr>\<rparr>\<rparr>"

definition exContent :: volumeSnapshotContent where
  "exContent = \<lparr>vsc_meta = emptyMeta\<lparr>m_name := ''vsc1'', m_uid := ''s1''\<rparr>, vsc_driver = ''drv'',
     vsc_className = Some ''snap'', vsc_deletionPolicy = ''Delete'', vsc_volumeHandle = None, vsc_status = None\<rparr>"

definition exConfig :: dmConfig where
  "exConfig = \<lparr>dm_controllerNamespace = ''d8'', dm_originIngressNamespace = ''auth'',
     dm_lookupEnv = exLookup, dm_pollAttempts = 24, dm_parseQuantity = Inr\<rparr>"

fun diSrv :: "dataImport \<Rightarrow> hist \<Rightarrow> req \<Rightarrow> resp" where
  "diSrv di h (Get k n) =
     (case k of
        KDataImport \<Rightarrow> RObj (ODataImport di)
      | KPersistentVolumeClaim \<Rightarrow> RObj (OPvc exScratch)
      | KStorageClass \<Rightarrow> RObj (OStorageClass \<lparr>sc_meta = emptyMeta\<lparr>m_name := ''fast'',
          m_annotations := [(storageClassVSCAnnotation, ''snap'')]\<rparr>, sc_provisioner = ''drv'',
          sc_volumeBindingMode = None\<rparr>)
      | KVolumeSnapshotClass \<Rightarrow> RObj (OVsClass \<lparr>vsclass_meta = emptyMeta, vsclass_driver = ''drv'',
          vsclass_deletionPolicy = ''Delete''\<rparr>)
      | KObjectKeeper \<Rightarrow> RObj (OKeeper ((buildObjectKeeper (snd n) exImport)
          \<lparr>ok_meta := emptyMeta\<lparr>m_name := snd n, m_uid := ''k1''\<rparr>\<rparr>))
      | KVolumeCaptureRequest \<Rightarrow> RObj (OVcr exCapture)
      | KVolumeSnapshotContent \<Rightarrow> RObj (OVsc exContent)
      | _ \<Rightarrow> RErr NotFound)"
| "diSrv di h (Delete k n) = (if k = KPersistentVolumeClaim then ROk else RErr NotFound)"
| "diSrv di h (Update x) = RObj x"
| "diSrv di h r = ROk"

abbreviation diRun :: "dataImport \<Rightarrow> hist" where
  "diRun di \<equiv> snd (run_state (diReconcile (ref_env (diSrv di) (\<lambda>h. 9)) exConfig (''ns'', ''imp'')) [])"

lemma diSrv_subject:
  "api (ref_env (diSrv di) clk) [] (Get KDataImport n) = RObj (ODataImport di)"
  by simp

text \<open>A run, with its body evaluated before the deferred write.\<close>

definition bodyRun :: "dataImport \<Rightarrow> ctrlResult dres \<times> hist" where
  "bodyRun di = run_state (reconcileBody (ref_env (diSrv di) (\<lambda>h. 9)) exConfig di)
     [(Get KDataImport (''ns'', ''imp''), RObj (ODataImport di))]"

definition finalObject :: "dataImport \<Rightarrow> ctrlResult dres \<Rightarrow> dataImport" where
  "finalObject di x = finalizeDataImportStatus (ref_env (diSrv di) (\<lambda>h. 9))
     (mutateReadyByErr (ref_env (diSrv di) (\<lambda>h. 9)) (fst x) (deferredErr (snd x))) (deferredErr (snd x)) 9"

lemma diRun_eval:
  "diRun di = snd (run_state (updateDataImport (ref_env (diSrv di) (\<lambda>h. 9)) di
     (finalObject di (fst (bodyRun di)))) (snd (bodyRun di)))"
  by (simp add: diReconcile_def getObj_def call_def now_def Let_def logged_def bodyRun_def finalObject_def
    split: prod.splits)

section \<open>Properties\<close>



lemma diReconcile_status:
  assumes "env_ok E" "api E [] (Get KDataImport n) = RObj (ODataImport d0)"
    and "snd (run_state (diReconcile E C n) []) = p @ (StatusUpdate (ODataImport x), a) # s"
  obtains fresh st where "justRead p fresh" "statusOk C d0 p st"
    "x = fresh\<lparr>di_status := podOwned (di_status fresh) st\<rparr>"
proof -
  have "importAllowed E C d0 p (StatusUpdate (ODataImport x))"
    using diReconcile_kept [OF assms(1,2), of C] unfolding wp_run assms(3) by (rule obeys_split)
  then show ?thesis using that by (auto simp: importAllowed_def)
qed

text \<open>
  C13. A status write never clobbers the importer pod. Whatever the API server answers, the
  object in every status update is the one the request just before it returned, with the
  fields the pod owns (URL, CA, access time, server state), the metadata and the spec as
  they were there.
\<close>

theorem import_status_keeps_pod_fields:
  assumes "env_ok E" "api E [] (Get KDataImport n) = RObj (ODataImport d0)"
    and "snd (run_state (diReconcile E C n) []) = p @ (StatusUpdate (ODataImport x), a) # s"
  shows "\<exists>fresh. justRead p fresh \<and> x = fresh\<lparr>di_status := di_status x\<rparr> \<and>
    ds_url (di_status x) = ds_url (di_status fresh) \<and> ds_ca (di_status x) = ds_ca (di_status fresh) \<and>
    ds_accessTimestamp (di_status x) = ds_accessTimestamp (di_status fresh) \<and>
    ds_serverState (di_status x) = ds_serverState (di_status fresh)"
  by (rule diReconcile_status [OF assms]) (auto simp: podOwned_def)

definition exWritten :: dataImport where
  "exWritten = exImport\<lparr>di_status := podOwned exStatus (di_status (finalObject exImport (fst (bodyRun exImport))))\<rparr>"

lemma exWritten_run:
  "diRun exImport = take 18 (diRun exImport) @ (StatusUpdate (ODataImport exWritten), ROk) # drop 19 (diRun exImport)"
proof -
  have "18 < length (diRun exImport)" "diRun exImport ! 18 = (StatusUpdate (ODataImport exWritten), ROk)"
    unfolding diRun_eval by code_simp+
  then show ?thesis using id_take_nth_drop [of 18 "diRun exImport"] by simp
qed

theorem import_status_keeps_pod_fields_witness:
  "\<exists>p fresh s. diRun exImport = p @ (StatusUpdate (ODataImport exWritten), ROk) # s \<and> justRead p fresh \<and>
     ds_serverState (di_status exWritten) = ds_serverState (di_status fresh)"
  using import_status_keeps_pod_fields [OF ref_env_ok diSrv_subject exWritten_run] exWritten_run by blast





text \<open>
  C15. The finalizer goes last. A reconciliation writes a DataImport without its finalizer
  only for an import that is being deleted, after the server answered that the consumer Job,
  the upload Deployment, the Service and the Ingress do not exist.
\<close>

theorem import_finalizer_goes_last:
  assumes "env_ok E" "api E [] (Get KDataImport n) = RObj (ODataImport d0)"
    and "snd (run_state (diReconcile E C n) []) = p @ (Update (ODataImport x), a) # s"
    and "StorageManagerFinalizerName \<notin> set (m_finalizers (di_meta x))"
  shows "m_deletion (di_meta d0) \<noteq> None \<and> infraGone E C d0 p"
proof -
  have "importAllowed E C d0 p (Update (ODataImport x))"
    using diReconcile_kept [OF assms(1,2), of C] unfolding wp_run assms(3) by (rule obeys_split)
  with assms(4) show ?thesis by (simp add: importAllowed_def)
qed

definition exDeleted :: dataImport where
  "exDeleted = exImport\<lparr>di_meta := (di_meta exImport)\<lparr>m_deletion := Some 1\<rparr>\<rparr>"

definition exReleased :: dataImport where
  "exReleased = exDeleted\<lparr>di_meta := (di_meta exDeleted)\<lparr>m_finalizers := []\<rparr>\<rparr>"

theorem import_finalizer_goes_last_witness:
  "\<exists>p s. diRun exDeleted = p @ (Update (ODataImport exReleased), RObj (ODataImport exReleased)) # s \<and>
     infraGone (ref_env (diSrv exDeleted) (\<lambda>h. 9)) exConfig exDeleted p"
proof -
  let ?h = "diRun exDeleted" and ?u = "(Update (ODataImport exReleased), RObj (ODataImport exReleased))"
  have "8 < length ?h" "?h ! 8 = ?u" unfolding diRun_eval by code_simp+
  then have h: "?h = take 8 ?h @ ?u # drop (Suc 8) ?h" by (metis id_take_nth_drop)
  have "StorageManagerFinalizerName \<notin> set (m_finalizers (di_meta exReleased))" by code_simp
  from import_finalizer_goes_last [OF ref_env_ok diSrv_subject h this] h show ?thesis by blast
qed

section \<open>A claim that does not settle\<close>

text \<open>
  The API server defaults an unset volume mode of a claim. A CreatePVC import whose template
  leaves the mode unset then finds its claim different in every pass, and asks for an update
  that clears the name of the bound volume.
\<close>

lemma unset_volume_mode_never_settles:
  assumes "answers E (Get KPersistentVolumeClaim (fst n, tmpl_name tmpl)) (RObj (OPvc stored))"
    and "pvc_volumeMode stored = Some vm" "tmpl_volumeMode tmpl = None"
  shows "\<exists>x a. (Update (OPvc x), a) \<in> set (snd (run_state (EnsurePVC E n tmpl src) h)) \<and>
    pvc_meta x = pvc_meta stored \<and> pvc_volumeName x = [] \<and> pvc_volumeMode x = None"
proof -
  let ?new = "makePVC tmpl src n"
  have "needsPVCSpecUpdate stored ?new"
    using assms(2,3) by (simp add: needsPVCSpecUpdate_def ptrEqual_def makePVC_def)
  then have "wp (EnsurePVC E n tmpl src)
      (\<lambda>_ h'. \<exists>a. (Update (OPvc (setPVCSpec stored ?new)), a) \<in> set h') h"
    unfolding EnsurePVC_def handleExistingPVC_def Let_def
    by (auto simp: wp_rules wp_getObj_answers [OF assms(1)] intro!: wp_update_or)
  then show ?thesis
    using assms(3) unfolding wp_run
    by (elim exE) (auto intro!: exI [of _ "setPVCSpec stored ?new"] simp: setPVCSpec_def makePVC_def)
qed

end
