(* ===== verification/Data_Gc.thy ===== *)
theory Data_Gc
  imports Gc Data_Import_Props
begin

text \<open>
  Garbage collection of DataImports and DataExports:
  \<open>src/images/data-manager-controller/internal/controllers/gc/gc.go\<close>. Both managers are
  interpretations of the manager contract of the generic collector, over the status that the
  two kinds share.
\<close>

section \<open>Managers\<close>

definition defaultDataGcSettings :: baseGcSettings where
  "defaultDataGcSettings = \<lparr>gs_ttl = 24 * Hour, gs_schedule = ''0 * * * *''\<rparr>"

definition isReapable :: "objmeta \<Rightarrow> dataExportImportStatus \<Rightarrow> duration \<Rightarrow> time \<Rightarrow> bool" where
  "isReapable m status ttl t =
     (if \<not> timePtr_IsZero (m_deletion m) then False
      else if \<not> IsTerminal (ds_phase status) then False
      else (case ds_completionTimestamp status of
              None \<Rightarrow> False
            | Some ct \<Rightarrow> if ct = 0 then False else time_Sub t ct > ttl))"

definition completionTime :: "dataExportImportStatus \<Rightarrow> time" where
  "completionTime status = (case ds_completionTimestamp status of None \<Rightarrow> 0 | Some c \<Rightarrow> c)"

definition diShouldBeDeleted :: "duration \<Rightarrow> time \<Rightarrow> dataImport \<Rightarrow> bool" where
  "diShouldBeDeleted ttl t di = isReapable (di_meta di) (di_status di) ttl t"

definition diSelect :: "duration \<Rightarrow> time \<Rightarrow> dataImport list \<Rightarrow> dataImport list" where
  "diSelect ttl t objs =
     DefaultFilter sort_key di_meta objs (\<lambda>di. IsTerminal (ds_phase (di_status di))) ttl
       (\<lambda>di. completionTime (di_status di)) None 0 t"

definition diListForDelete :: "env \<Rightarrow> duration \<Rightarrow> time \<Rightarrow> dataImport list res io" where
  "diListForDelete E ttl t =
     thenE (listObj E KDataImport decDataImport) (\<lambda>objs. ret (Inr (diSelect ttl t objs)))"

definition dataImportGCManager :: "duration \<Rightarrow> dataImport gcManager" where
  "dataImportGCManager ttl =
     \<lparr>gm_kind = KDataImport, gm_dec = decDataImport, gm_meta = di_meta,
      gm_shouldBeDeleted = diShouldBeDeleted ttl, gm_preDelete = None\<rparr>"

definition deShouldBeDeleted :: "duration \<Rightarrow> time \<Rightarrow> dataExport \<Rightarrow> bool" where
  "deShouldBeDeleted ttl t de = isReapable (de_meta de) (de_status de) ttl t"

definition deSelect :: "duration \<Rightarrow> time \<Rightarrow> dataExport list \<Rightarrow> dataExport list" where
  "deSelect ttl t objs =
     DefaultFilter sort_key de_meta objs (\<lambda>de. IsTerminal (ds_phase (de_status de))) ttl
       (\<lambda>de. completionTime (de_status de)) None 0 t"

definition deListForDelete :: "env \<Rightarrow> duration \<Rightarrow> time \<Rightarrow> dataExport list res io" where
  "deListForDelete E ttl t =
     thenE (listObj E KDataExport decDataExport) (\<lambda>objs. ret (Inr (deSelect ttl t objs)))"

definition dataExportGCManager :: "duration \<Rightarrow> dataExport gcManager" where
  "dataExportGCManager ttl =
     \<lparr>gm_kind = KDataExport, gm_dec = decDataExport, gm_meta = de_meta,
      gm_shouldBeDeleted = deShouldBeDeleted ttl, gm_preDelete = None\<rparr>"

lemma isReapable_iff:
  "isReapable m status ttl t \<longleftrightarrow>
     timePtr_IsZero (m_deletion m) \<and> IsTerminal (ds_phase status) \<and>
     (\<exists>c. ds_completionTimestamp status = Some c \<and> c \<noteq> 0 \<and> ttl < time_Sub t c)"
  by (auto simp: isReapable_def split: option.splits)

interpretation di_gc: gc_manager "dataImportGCManager ttl" ttl
  "\<lambda>di. IsTerminal (ds_phase (di_status di))" "\<lambda>di. ds_completionTimestamp (di_status di)" "diSelect ttl" for ttl
proof unfold_locales
  fix t obj objs
  assume "0 \<le> ttl" "obj \<in> set (diSelect ttl t objs)"
  then show "obj \<in> set objs \<and> gm_shouldBeDeleted (dataImportGCManager ttl) t obj"
    using swept_due [where fin = "\<lambda>di. ds_completionTimestamp (di_status di)"]
    by (auto simp: diSelect_def completionTime_def DefaultFilter_uncapped dataImportGCManager_def
      diShouldBeDeleted_def isReapable_iff isTerminating_def)
qed (simp add: dataImportGCManager_def diShouldBeDeleted_def isReapable_iff)

interpretation de_gc: gc_manager "dataExportGCManager ttl" ttl
  "\<lambda>de. IsTerminal (ds_phase (de_status de))" "\<lambda>de. ds_completionTimestamp (de_status de)" "deSelect ttl" for ttl
proof unfold_locales
  fix t obj objs
  assume "0 \<le> ttl" "obj \<in> set (deSelect ttl t objs)"
  then show "obj \<in> set objs \<and> gm_shouldBeDeleted (dataExportGCManager ttl) t obj"
    using swept_due [where fin = "\<lambda>de. ds_completionTimestamp (de_status de)"]
    by (auto simp: deSelect_def completionTime_def DefaultFilter_uncapped dataExportGCManager_def
      deShouldBeDeleted_def isReapable_iff isTerminating_def)
qed (simp add: dataExportGCManager_def deShouldBeDeleted_def isReapable_iff)

section \<open>Imports do not leak\<close>

text \<open>
  C18. A finished import is always collectable. Every status in a terminal phase that the
  DataImport controller writes carries a completion time, and from the moment the retention
  after it has passed, at any later instant, the collector accepts the object for deletion
  (unless it is already being deleted, or the completion time is the zero instant).
\<close>

theorem finished_import_is_collectable:
  assumes "env_ok E" "api E [] (Get KDataImport n) = RObj (ODataImport d0)"
    and "snd (run_state (diReconcile E C n) []) = p @ (StatusUpdate (ODataImport x), a) # s"
    and "IsTerminal (ds_phase (di_status x))" "m_deletion (di_meta x) = None"
  shows "\<exists>c. ds_completionTimestamp (di_status x) = Some c \<and>
    (\<forall>t u. c \<noteq> 0 \<and> ttl < time_Sub t c \<and> t \<le> u \<longrightarrow> diShouldBeDeleted ttl u x)"
proof -
  have "ds_completionTimestamp (di_status x) \<noteq> None"
    by (rule diReconcile_status [OF assms(1-3)]) (use assms(4) in \<open>auto simp: podOwned_def statusOk_def\<close>)
  then obtain c where c: "ds_completionTimestamp (di_status x) = Some c" by blast
  have "diShouldBeDeleted ttl u x" if "c \<noteq> 0" "ttl < time_Sub t c" "t \<le> u" for t u
  proof -
    have "diShouldBeDeleted ttl t x"
      using that assms(4,5) c by (simp add: diShouldBeDeleted_def isReapable_iff)
    then show ?thesis
      using di_gc.should_mono [OF _ that(3), of ttl x] by (simp add: dataImportGCManager_def)
  qed
  with c show ?thesis by blast
qed

theorem finished_import_is_collectable_witness:
  "\<exists>c. ds_completionTimestamp (di_status exWritten) = Some c \<and>
     (\<forall>t u. c \<noteq> 0 \<and> Hour < time_Sub t c \<and> t \<le> u \<longrightarrow> diShouldBeDeleted Hour u exWritten)"
proof -
  have "IsTerminal (ds_phase (di_status exWritten))" by code_simp
  moreover have "m_deletion (di_meta exWritten) = None" by code_simp
  ultimately show ?thesis
    using finished_import_is_collectable [OF ref_env_ok diSrv_subject exWritten_run] by blast
qed

end
