(* ===== verification/Http.thy ===== *)
theory Http
  imports Common "HOL-Library.Word"
begin

text \<open>
  Requests and response writers of \<open>net/http\<close> as far as the data server uses them, the
  header helpers of \<open>src/images/data-exporter/internal/httpiohelpers\<close>, and the middlewares
  of \<open>src/images/data-exporter/internal/middleware\<close> and \<open>internal/authorization\<close>.
\<close>

section \<open>Requests and writers\<close>

type_synonym byte = "8 word"

text \<open>
  A request with its headers under their canonical names, the declared length of the body
  (\<open>-1\<close> when it is unknown), the bytes the body delivers and whether reading it then fails,
  and the verified peer certificate (common name and organizations).
\<close>

record httpRequest =
  rq_method :: string
  rq_path :: string
  rq_headers :: strmap
  rq_contentLength :: int
  rq_body :: "byte list"
  rq_bodyErr :: bool
  rq_peerCert :: "(string \<times> string list) option"

definition Header_Get :: "httpRequest \<Rightarrow> string \<Rightarrow> string" where
  "Header_Get r k = index_str (rq_headers r) k"

text \<open>
  A response: the status once it is written, the headers as they will be sent, the chunks of
  the body. The first status wins; a header set after it is not sent; a body without a status
  is a 200.
\<close>

record httpWriter =
  w_code :: "int option"
  w_headers :: strmap
  w_body :: "string list"

definition newWriter :: httpWriter where
  "newWriter = \<lparr>w_code = None, w_headers = [], w_body = []\<rparr>"

definition WriteHeader :: "int \<Rightarrow> httpWriter \<Rightarrow> httpWriter" where
  "WriteHeader c w = (if w_code w = None then w\<lparr>w_code := Some c\<rparr> else w)"

definition Header_Set :: "string \<Rightarrow> string \<Rightarrow> httpWriter \<Rightarrow> httpWriter" where
  "Header_Set k v w = (if w_code w = None then w\<lparr>w_headers := AList.update k v (w_headers w)\<rparr> else w)"

definition Write :: "string \<Rightarrow> httpWriter \<Rightarrow> httpWriter" where
  "Write b w = (let w' = WriteHeader 200 w in w'\<lparr>w_body := w_body w' @ [b]\<rparr>)"

definition httpError :: "string \<Rightarrow> int \<Rightarrow> httpWriter \<Rightarrow> httpWriter" where
  "httpError msg code w =
     Write (msg @ [CHR 0x0A]) (WriteHeader code (Header_Set ''Content-Type'' ''text/plain; charset=utf-8'' w))"

lemma w_code_simps [simp]:
  "w_code newWriter = None"
  "w_code (WriteHeader c w) = (case w_code w of None \<Rightarrow> Some c | Some d \<Rightarrow> Some d)"
  "w_code (Header_Set k v w) = w_code w"
  "w_code (Write b w) = (case w_code w of None \<Rightarrow> Some 200 | Some d \<Rightarrow> Some d)"
  "w_code (httpError msg c w) = (case w_code w of None \<Rightarrow> Some c | Some d \<Rightarrow> Some d)"
  by (auto simp: newWriter_def WriteHeader_def Header_Set_def Write_def httpError_def Let_def split: option.splits)

abbreviation StatusOK :: int where "StatusOK \<equiv> 200"
abbreviation StatusCreated :: int where "StatusCreated \<equiv> 201"
abbreviation StatusNoContent :: int where "StatusNoContent \<equiv> 204"
abbreviation StatusBadRequest :: int where "StatusBadRequest \<equiv> 400"
abbreviation StatusUnauthorized :: int where "StatusUnauthorized \<equiv> 401"
abbreviation StatusForbidden :: int where "StatusForbidden \<equiv> 403"
abbreviation StatusNotFound :: int where "StatusNotFound \<equiv> 404"
abbreviation StatusMethodNotAllowed :: int where "StatusMethodNotAllowed \<equiv> 405"
abbreviation StatusConflict :: int where "StatusConflict \<equiv> 409"
abbreviation StatusRangeNotSatisfiable :: int where "StatusRangeNotSatisfiable \<equiv> 416"
abbreviation StatusUnprocessable :: int where "StatusUnprocessable \<equiv> 422"
abbreviation StatusInternalError :: int where "StatusInternalError \<equiv> 500"

section \<open>Numbers in headers\<close>

text \<open>
  \<open>strconv.ParseInt(s, base, bits)\<close> and \<open>ParseUint\<close> for the bases the code uses: an optional
  sign (for the signed variant), at least one digit, digits only, and the value within the
  range of the width. Underscores are not accepted for an explicit base.
\<close>

definition digitOf :: "char \<Rightarrow> nat option" where
  "digitOf c = (let n = of_char c :: nat in if 48 \<le> n \<and> n \<le> 57 then Some (n - 48) else None)"

fun digitsValue :: "nat \<Rightarrow> string \<Rightarrow> nat \<Rightarrow> nat option" where
  "digitsValue base [] acc = Some acc"
| "digitsValue base (c # cs) acc =
     (case digitOf c of
        None \<Rightarrow> None
      | Some d \<Rightarrow> if d < base then digitsValue base cs (acc * base + d) else None)"

definition ParseUint :: "string \<Rightarrow> nat \<Rightarrow> nat \<Rightarrow> int option" where
  "ParseUint s base bits =
     (if s = [] then None
      else (case digitsValue base s 0 of
              None \<Rightarrow> None
            | Some n \<Rightarrow> if int n < 2 ^ bits then Some (int n) else None))"

definition ParseInt :: "string \<Rightarrow> nat \<Rightarrow> nat \<Rightarrow> int option" where
  "ParseInt s base bits =
     (case s of
        [] \<Rightarrow> None
      | c # cs \<Rightarrow>
          (let neg = (c = CHR ''-''); ds = (if c = CHR ''-'' \<or> c = CHR ''+'' then cs else s) in
           if ds = [] then None
           else (case digitsValue base ds 0 of
                   None \<Rightarrow> None
                 | Some n \<Rightarrow>
                     if neg then (if int n \<le> 2 ^ (bits - 1) then Some (- int n) else None)
                     else (if int n < 2 ^ (bits - 1) then Some (int n) else None))))"

text \<open>\<open>strconv.FormatInt(n, 10)\<close>\<close>

fun natDigits :: "nat \<Rightarrow> string" where
  "natDigits n =
     (if n < 10 then [char_of (48 + n)] else natDigits (n div 10) @ [char_of (48 + n mod 10)])"

declare natDigits.simps [simp del]

definition FormatInt :: "int \<Rightarrow> string" where
  "FormatInt i = (if i < 0 then CHR ''-'' # natDigits (nat (- i)) else natDigits (nat i))"

definition errInvalidOffset :: gerr where
  "errInvalidOffset = Errorf ''invalid X-Offset header: must be a non-negative integer'' []"
definition errInvalidContentLength :: gerr where
  "errInvalidContentLength = Errorf ''invalid X-Content-Length header: must be a non-negative integer'' []"
definition errInvalidUID :: gerr where
  "errInvalidUID = Errorf ''invalid X-Attribute-Uid header: must be a valid integer'' []"
definition errInvalidGid :: gerr where
  "errInvalidGid = Errorf ''invalid X-Attribute-Gid header: must be a valid integer'' []"
definition errInvalidPermissionsOctalNumber :: gerr where
  "errInvalidPermissionsOctalNumber =
     Errorf ''invalid X-Attribute-Permissions header: must be a valid octal number'' []"
definition errInvalidPermissionsValue :: gerr where
  "errInvalidPermissionsValue =
     Errorf ''invalid X-Attribute-Permissions header: value must be between 0 and 0777'' []"
definition errInvalidModTime :: gerr where
  "errInvalidModTime = Errorf ''invalid X-Attribute-ModTime header'' []"

definition ParseUploadHeaders :: "httpRequest \<Rightarrow> (int \<times> int) res" where
  "ParseUploadHeaders r =
     (let offStr = Header_Get r ''X-Offset'';
          off = (if offStr = [] then Some 0
                 else (case ParseInt offStr 10 64 of
                         None \<Rightarrow> None
                       | Some v \<Rightarrow> if v < 0 then None else Some v)) in
      case off of
        None \<Rightarrow> Inl errInvalidOffset
      | Some offset \<Rightarrow>
          (let totalStr = Header_Get r ''X-Content-Length'';
               tot = (if totalStr = [] then Some (- 1)
                        else (case ParseInt totalStr 10 64 of
                                None \<Rightarrow> None
                              | Some v \<Rightarrow> if v < 0 then None else Some v)) in
           case tot of
             None \<Rightarrow> Inl errInvalidContentLength
           | Some expectedTotal \<Rightarrow> Inr (offset, expectedTotal)))"

definition ParseFileAttributes :: "httpRequest \<Rightarrow> (int option \<times> int \<times> int) res" where
  "ParseFileAttributes r =
     (let modeStr = Header_Get r ''X-Attribute-Permissions'';
          perm = (if modeStr = [] then Inr None
                  else (case ParseUint modeStr 8 32 of
                          None \<Rightarrow> Inl errInvalidPermissionsOctalNumber
                        | Some mode \<Rightarrow> if mode > 511 then Inl errInvalidPermissionsValue else Inr (Some mode))) in
      case perm of
        Inl e \<Rightarrow> Inl e
      | Inr p \<Rightarrow>
          (let uidStr = Header_Get r ''X-Attribute-Uid'';
               uid = (if uidStr = [] then Some (- 1)
                      else (case ParseInt uidStr 10 32 of
                              None \<Rightarrow> None | Some v \<Rightarrow> if v < 0 then None else Some v)) in
           case uid of
             None \<Rightarrow> Inl errInvalidUID
           | Some u \<Rightarrow>
               (let gidStr = Header_Get r ''X-Attribute-Gid'';
                    gid = (if gidStr = [] then Some (- 1)
                           else (case ParseInt gidStr 10 32 of
                                   None \<Rightarrow> None | Some v \<Rightarrow> if v < 0 then None else Some v)) in
                case gid of
                  None \<Rightarrow> Inl errInvalidGid
                | Some g \<Rightarrow> Inr (p, u, g))))"

text \<open>The parser of RFC 3339 instants is a parameter.\<close>

definition ParseExtraAttributes ::
  "(string \<Rightarrow> time option) \<Rightarrow> httpRequest \<Rightarrow> (time \<times> string) res" where
  "ParseExtraAttributes parseRFC3339 r =
     (let modTimeStr = Header_Get r ''X-Attribute-ModTime'';
          modTime = (if modTimeStr = [] then Some 0 else parseRFC3339 modTimeStr) in
      case modTime of
        None \<Rightarrow> Inl errInvalidModTime
      | Some t \<Rightarrow> Inr (t, Header_Get r ''X-LinkTarget''))"

lemma ParseUploadHeaders_ok:
  assumes "ParseUploadHeaders r = Inr (offset, expectedTotal)"
  shows "0 \<le> offset \<and> - 1 \<le> expectedTotal"
  using assms
  by (auto simp: ParseUploadHeaders_def Let_def split: if_splits option.splits)

lemma digitsValue_append:
  "digitsValue b (xs @ ys) acc = (case digitsValue b xs acc of None \<Rightarrow> None | Some v \<Rightarrow> digitsValue b ys v)"
  by (induction b xs acc rule: digitsValue.induct) (auto split: option.splits)

lemma digitOf_char: "n < 10 \<Longrightarrow> digitOf (char_of (48 + n)) = Some n"
  by (simp add: digitOf_def Let_def)

lemma digitsValue_natDigits: "digitsValue 10 (natDigits n) 0 = Some n"
proof (induction n rule: natDigits.induct)
  case (1 n)
  then show ?case
    by (subst natDigits.simps) (auto simp: digitsValue_append digitOf_char split: option.splits)
qed

lemma natDigits_first: "\<exists>c cs. natDigits n = c # cs \<and> c \<noteq> CHR ''-'' \<and> c \<noteq> CHR ''+''"
proof (induction n rule: natDigits.induct)
  case (1 n)
  show ?case
  proof (cases "n < 10")
    case True
    have "digitOf CHR ''-'' = None" "digitOf CHR ''+'' = None" by (simp_all add: digitOf_def)
    then have "char_of (48 + n) \<noteq> CHR ''-'' \<and> char_of (48 + n) \<noteq> CHR ''+''"
      using digitOf_char [OF True] by (metis option.distinct(1))
    with True show ?thesis by (subst natDigits.simps) simp
  next
    case False
    with 1 show ?thesis by (subst natDigits.simps) auto
  qed
qed

lemma ParseInt_FormatInt:
  assumes "- (2 ^ (bits - 1)) \<le> i" "i < 2 ^ (bits - 1)"
  shows "ParseInt (FormatInt i) 10 bits = Some i"
proof (cases "i < 0")
  case True
  obtain c cs where "natDigits (nat (- i)) = c # cs" using natDigits_first by blast
  with True assms digitsValue_natDigits [of "nat (- i)"] show ?thesis
    by (simp add: ParseInt_def FormatInt_def Let_def)
next
  case False
  obtain c cs where "natDigits (nat i) = c # cs" "c \<noteq> CHR ''-''" "c \<noteq> CHR ''+''"
    using natDigits_first by blast
  with False assms digitsValue_natDigits [of "nat i"] show ?thesis
    by (simp add: ParseInt_def FormatInt_def Let_def)
qed

lemma FormatInt_nonempty [simp]: "FormatInt i \<noteq> []"
  using natDigits_first [of "nat i"] by (auto simp: FormatInt_def)

end
