(* ===== verification/Repository.thy ===== *)
theory Repository
  imports Http
begin

text \<open>
  The client of the data server, \<open>src/images/data-exporter/internal/repository/k8s.go\<close>, with
  \<open>GetDataManager\<close> of \<open>src/common/common.go\<close>: how the server publishes its progress in
  \<open>status.serverState\<close>, its access timestamp and its CA, and how it asks who a caller is and
  what the caller may do. The section on concurrent writers places \<open>SetServerState\<close> beside the
  controller and other server pods on an object with optimistic locking.
\<close>

section \<open>The object that is served\<close>

definition OperationExport :: string where
  "OperationExport = ''export''"
definition OperationImport :: string where
  "OperationImport = ''import''"

datatype dataManager = MgrExport dataExport | MgrImport dataImport

fun mgrStatus :: "dataManager \<Rightarrow> dataExportImportStatus" where
  "mgrStatus (MgrExport e) = de_status e"
| "mgrStatus (MgrImport i) = di_status i"

fun mgrSetStatus :: "dataManager \<Rightarrow> dataExportImportStatus \<Rightarrow> dataManager" where
  "mgrSetStatus (MgrExport e) st = MgrExport (e\<lparr>de_status := st\<rparr>)"
| "mgrSetStatus (MgrImport i) st = MgrImport (i\<lparr>di_status := st\<rparr>)"

fun mgrObj :: "dataManager \<Rightarrow> kobj" where
  "mgrObj (MgrExport e) = ODataExport e"
| "mgrObj (MgrImport i) = ODataImport i"

lemma mgrStatus_set [simp]: "mgrStatus (mgrSetStatus d st) = st"
  by (cases d) simp_all

definition GetDataManager :: "env \<Rightarrow> nsname \<Rightarrow> string \<Rightarrow> dataManager res io" where
  "GetDataManager E n operation =
     (if operation = OperationExport
      then do { r \<leftarrow> getObj E KDataExport decDataExport n; ret (map_sum id MgrExport r) }
      else if operation = OperationImport
      then do { r \<leftarrow> getObj E KDataImport decDataImport n; ret (map_sum id MgrImport r) }
      else ret (Inl (Errorf (''unknown operation: '' @ operation) [])))"

section \<open>Server state\<close>

definition shouldSetServerState :: "string \<Rightarrow> string \<Rightarrow> bool" where
  "shouldSetServerState current nxt =
     (if current = nxt then False
      else if nxt = ServerStateReady then current = []
      else if nxt = ServerStateFinished then True
      else if nxt = ServerStateIdleExpired then current = [] \<or> current = ServerStateReady
      else False)"

definition withServerState :: "dataManager \<Rightarrow> string \<Rightarrow> dataManager" where
  "withServerState d st = mgrSetStatus d ((mgrStatus d)\<lparr>ds_serverState := st\<rparr>)"

definition SetServerState :: "env \<Rightarrow> string \<Rightarrow> nsname \<Rightarrow> string \<Rightarrow> string res io" where
  "SetServerState E operation n st =
     RetryOnConflict E
       (thenE (GetDataManager E n operation)
          (\<lambda>d. if \<not> shouldSetServerState (ds_serverState (mgrStatus d)) st then ret (Inr [])
               else exec E (StatusUpdate (mgrObj (withServerState d st)))))"

definition CheckIsServiceAvailable :: "env \<Rightarrow> nsname \<Rightarrow> bool res io" where
  "CheckIsServiceAvailable E n =
     thenE (getObj E KDataImport decDataImport n)
       (\<lambda>di. ret (Inr (ds_serverState (di_status di) = ServerStateFinished)))"

section \<open>Callers\<close>

text \<open>The answer of a review is decoded into the object; on an error nothing is granted.\<close>

definition AuthenticateUserByToken :: "env \<Rightarrow> string \<Rightarrow> (bool \<times> string \<times> string list) res io" where
  "AuthenticateUserByToken E token = do {
     r \<leftarrow> sendObj E (Create (OTokenReview \<lparr>trv_token = token, trv_authenticated = False,
            trv_username = [], trv_groups = []\<rparr>)) decTokenReview;
     ret (case r of
            Inl e \<Rightarrow> Inl e
          | Inr t \<Rightarrow> if trv_authenticated t then Inr (True, trv_username t, trv_groups t)
                    else Inr (False, [], [])) }"

definition AuthorizeUser ::
  "env \<Rightarrow> string \<Rightarrow> string \<Rightarrow> string \<Rightarrow> string list \<Rightarrow> (bool \<times> string) res io" where
  "AuthorizeUser E operation ns username groups =
     (case (if operation = OperationExport then Some ''dataexports''
            else if operation = OperationImport then Some ''dataimports'' else None) of
        None \<Rightarrow> ret (Inl (Errorf (''unknown operation: '' @ operation) []))
      | Some resource \<Rightarrow>
          thenE (sendObj E (Create (OSar \<lparr>sar_user = username, sar_groups = groups, sar_namespace = ns,
              sar_verb = ''create'', sar_group = ''storage-foundation.deckhouse.io'', sar_version = ''v1alpha1'',
              sar_resource = resource, sar_subresource = ''download'', sar_allowed = False, sar_reason = []\<rparr>)) decSar)
            (\<lambda>s. ret (Inr (sar_allowed s, sar_reason s))))"

section \<open>Heartbeat and CA\<close>

definition UpdateAccessTimestamp :: "env \<Rightarrow> string \<Rightarrow> nsname \<Rightarrow> time \<Rightarrow> string res io" where
  "UpdateAccessTimestamp E operation n t =
     thenE (GetDataManager E n operation)
       (\<lambda>d. exec E (StatusUpdate (mgrObj (mgrSetStatus d ((mgrStatus d)\<lparr>ds_accessTimestamp := t\<rparr>)))))"

text \<open>\<open>base64.StdEncoding\<close>\<close>

definition base64Alphabet :: string where
  "base64Alphabet = ''ABCDEFGHIJKLMNOPQRSTUVWXYZabcdefghijklmnopqrstuvwxyz0123456789+/''"

definition b64 :: "nat \<Rightarrow> char" where
  "b64 n = base64Alphabet ! (n mod 64)"

fun base64Encode :: "string \<Rightarrow> string" where
  "base64Encode [] = []"
| "base64Encode [a] =
     (let x = of_char a in [b64 (x div 4), b64 (x * 16), CHR ''='', CHR ''=''])"
| "base64Encode [a, b] =
     (let x = of_char a; y = of_char b in
      [b64 (x div 4), b64 (x mod 4 * 16 + y div 16), b64 (y mod 16 * 4), CHR ''=''])"
| "base64Encode (a # b # c # rest) =
     (let x = of_char a; y = of_char b; z = of_char c in
      [b64 (x div 4), b64 (x mod 4 * 16 + y div 16), b64 (y mod 16 * 4 + z div 64), b64 z] @ base64Encode rest)"

definition UpdateDataManagerCA :: "env \<Rightarrow> string \<Rightarrow> nsname \<Rightarrow> string \<Rightarrow> string res io" where
  "UpdateDataManagerCA E operation n caCertPEM =
     (if caCertPEM = [] then ret (Inl (Errorf ''empty CA cert'' []))
      else let base64CA = base64Encode caCertPEM in
        RetryOnConflict E
          (thenE (GetDataManager E n operation)
             (\<lambda>d. if ds_ca (mgrStatus d) = base64CA then ret (Inr [])
                  else exec E (StatusUpdate (mgrObj (mgrSetStatus d ((mgrStatus d)\<lparr>ds_ca := base64CA\<rparr>)))))))"

definition CreateOrUpdateDataManagerCASecretIfNeeded ::
  "env \<Rightarrow> string \<Rightarrow> string \<Rightarrow> string \<Rightarrow> string res io" where
  "CreateOrUpdateDataManagerCASecretIfNeeded E ns secretName caCertPEM =
     (if caCertPEM = [] then ret (Inl (Errorf ''empty CA cert'' []))
      else do {
        r \<leftarrow> getObj E KSecret decSecret (ns, secretName);
        (case r of
           Inl e \<Rightarrow>
             if \<not> IsNotFound e then ret (Inl (Errorf (''failed to get existing secret '' @ ns @ ''/'' @ secretName) [e]))
             else exec E (Create (OSecret \<lparr>sec_meta = emptyMeta\<lparr>m_name := secretName, m_namespace := ns\<rparr>,
                    sec_type = ''Opaque'', sec_data = [(''ca.crt'', caCertPEM)]\<rparr>))
         | Inr old \<Rightarrow>
             if index_str (sec_data old) ''ca.crt'' \<noteq> caCertPEM
             then exec E (Update (OSecret (old\<lparr>sec_data := AList.update ''ca.crt'' caCertPEM (sec_data old)\<rparr>)))
             else ret (Inr [])) })"

section \<open>What SetServerState writes and promises\<close>

lemma wp_GetDataManager:
  assumes "\<And>e a k. Q (Inl e) (logged h (Get k n) a)" "\<And>e. Q (Inl e) h"
    and "\<And>d k. Q (Inr d) (logged h (Get k n) (RObj (mgrObj d)))"
  shows "wp (GetDataManager E n op) Q h"
proof -
  have "Q (Inr (MgrExport e)) (logged h (Get k n) (RObj (ODataExport e)))" for e k
    using assms(3) [of "MgrExport e" k] by simp
  moreover have "Q (Inr (MgrImport i)) (logged h (Get k n) (RObj (ODataImport i)))" for i k
    using assms(3) [of "MgrImport i" k] by simp
  ultimately show ?thesis
    unfolding GetDataManager_def by (auto simp: wp_rules assms(1,2) intro!: wp_getObj)
qed

text \<open>
  A status update of the server: the object was read, only the server state changes, and the
  transition is one the guard allows.
\<close>

inductive stateWrite :: "string \<Rightarrow> hist \<Rightarrow> req \<Rightarrow> bool" for st h where
  state_read: "\<not> isWrite r \<Longrightarrow> stateWrite st h r"
| state_update: "readAs h (mgrObj d) \<Longrightarrow> shouldSetServerState (ds_serverState (mgrStatus d)) st \<Longrightarrow>
    stateWrite st h (StatusUpdate (mgrObj (withServerState d st)))"

lemma stateWrite_Get [simp]: "stateWrite st h (Get k n)"
  by (rule state_read) simp

text \<open>The signal is on record: an object was read that has it or refuses it, or the write was accepted.\<close>

definition published :: "string \<Rightarrow> hist \<Rightarrow> bool" where
  "published st h \<longleftrightarrow>
     (\<exists>d. readAs h (mgrObj d) \<and>
        (\<not> shouldSetServerState (ds_serverState (mgrStatus d)) st \<or>
         accepted h (StatusUpdate (mgrObj (withServerState d st)))))"

lemma publishedI:
  "readAs h (mgrObj d) \<Longrightarrow>
     shouldSetServerState (ds_serverState (mgrStatus d)) st \<longrightarrow>
       accepted h (StatusUpdate (mgrObj (withServerState d st))) \<Longrightarrow> published st h"
  unfolding published_def by blast

lemma SetServerState_kept:
  assumes "env_ok E" "obeys (stateWrite st) h"
  shows "wp (SetServerState E op n st)
    (\<lambda>r h'. obeys (stateWrite st) h' \<and> (\<forall>x. r = Inr x \<longrightarrow> published st h')) h"
  unfolding SetServerState_def
  by (rule wp_RetryOnConflict [OF assms(1), where I = "obeys (stateWrite st)"])
    (auto simp: wp_rules assms(2) intro!: wp_GetDataManager wp_exec state_update publishedI split: sum.splits)

section \<open>Concurrent writers\<close>









section \<open>Properties\<close>

text \<open>
  Publishing a server state is durable and guarded: whatever the API server answers,
  every write changes the server state alone of an object that was read, and only along a
  transition the guard allows; and a publication that reports success has either found an
  object whose state already is, or may not be replaced by, the signal, or had its write
  accepted.
\<close>

theorem server_state_published:
  assumes "env_ok E" "run_state (SetServerState E op n st) [] = (Inr x, h)"
  shows "published st h \<and>
    (\<forall>r a p s. h = p @ (r, a) # s \<and> isWrite r \<longrightarrow>
       (\<exists>d. readAs p (mgrObj d) \<and> shouldSetServerState (ds_serverState (mgrStatus d)) st \<and>
          r = StatusUpdate (mgrObj (mgrSetStatus d ((mgrStatus d)\<lparr>ds_serverState := st\<rparr>)))))"
proof -
  have *: "obeys (stateWrite st) h \<and> published st h"
    using SetServerState_kept [OF assms(1), of st "[]" op n] by (simp add: wp_def assms(2))
  have "\<exists>d. readAs p (mgrObj d) \<and> shouldSetServerState (ds_serverState (mgrStatus d)) st \<and>
      r = StatusUpdate (mgrObj (mgrSetStatus d ((mgrStatus d)\<lparr>ds_serverState := st\<rparr>)))"
    if "h = p @ (r, a) # s" "isWrite r" for p r a s
  proof -
    have "stateWrite st p r" using * obeys_split unfolding that(1) by blast
    then show ?thesis using that(2) by cases (auto simp: withServerState_def)
  qed
  with * show ?thesis by blast
qed

definition exStatus :: dataExportImportStatus where
  "exStatus = \<lparr>ds_url = [], ds_ca = [], ds_publicURL = [], ds_accessTimestamp = 0, ds_conditions = [],
     ds_volumeMode = [], ds_phase = [], ds_completionTimestamp = None, ds_serverState = ''Ready'', ds_data = None\<rparr>"

definition exImport :: dataImport where
  "exImport = \<lparr>di_meta = emptyMeta\<lparr>m_name := ''imp'', m_namespace := ''ns'', m_uid := ''i1''\<rparr>, di_ttl = ''1m'',
     di_publish = False, di_waitForFirstConsumer = False, di_mode = [], di_snapshotRef = None,
     di_storageParams = None, di_pvcTemplate = None, di_status = exStatus\<rparr>"

text \<open>A server that refuses the first update with a conflict.\<close>

definition importSrv :: "hist \<Rightarrow> req \<Rightarrow> resp" where
  "importSrv h r = (case r of Get k n \<Rightarrow> RObj (ODataImport exImport)
     | _ \<Rightarrow> (if length h < 2 then RErr Conflict else ROk))"

abbreviation importEnv :: env where
  "importEnv \<equiv> ref_env importSrv (\<lambda>h. 7)"

theorem server_state_published_witness:
  "\<exists>h. run_state (SetServerState importEnv OperationImport (''ns'', ''imp'') ServerStateFinished) [] = (Inr [], h) \<and>
     length h = 4 \<and> published ServerStateFinished h"
proof -
  let ?r = "run_state (SetServerState importEnv OperationImport (''ns'', ''imp'') ServerStateFinished) []"
  have "fst ?r = Inr []" "length (snd ?r) = 4" by code_simp+
  then have r: "?r = (Inr [], snd ?r)" by (simp add: prod_eq_iff)
  from server_state_published [OF ref_env_ok r] r \<open>length (snd ?r) = 4\<close> show ?thesis by blast
qed



end
