(* ===== verification/Data_Export.thy ===== *)
theory Data_Export
  imports Data_Import_Reconcile
begin

text \<open>
  The DataExport controller of \<open>src/images/data-manager-controller\<close>: the classification of a
  target and the path from a snapshot to its stored artifact (\<open>snapshot_resolver.go\<close>), and the
  take-over of a live volume, its return to the user, the export workload and the cleanup of
  orphans (\<open>data_export_resource.go\<close>). The reconciler itself is in \<open>Data_Export_Reconcile\<close>.
\<close>

section \<open>Configuration and constants\<close>

text \<open>
  What \<open>meta.RESTMapper\<close> answers for a group and a kind: no such kind, another error, or the
  resource and whether it is namespaced. The answer may change as kinds are installed, so it
  depends on the history. The remaining fields count the polls that follow the immediate one
  until a timeout: of a user claim, of the Deployment, of a VirtualDisk, of a restored claim.
\<close>

datatype restMapping = NoMatch | MappingError api_reason | Mapped string bool

record exportConfig = dmConfig +
  x_RESTMapping :: "hist \<Rightarrow> string \<Rightarrow> string \<Rightarrow> restMapping"
  x_claimPolls :: nat
  x_launchPolls :: nat
  x_diskPolls :: nat
  x_restorePolls :: nat

definition dataExportRequeueInterval :: duration where
  "dataExportRequeueInterval = 10 * Second"

definition LabelDataExportValue :: string where
  "LabelDataExportValue = ''data-exporter''"
definition GroupVirtualization :: string where
  "GroupVirtualization = ''virtualization.deckhouse.io''"
definition GroupSnapshotStorage :: string where
  "GroupSnapshotStorage = ''snapshot.storage.k8s.io''"
definition VirtualDiskCRDName :: string where
  "VirtualDiskCRDName = ''virtualdisks.virtualization.deckhouse.io''"
definition DataExportInProgressKey :: string where
  "DataExportInProgressKey = ''storage-foundation.deckhouse.io/data-export-in-progress''"
definition dataExportRequestAnnotationKeys :: "string list" where
  "dataExportRequestAnnotationKeys =
     [''storage-foundation.deckhouse.io/data-export-request'', ''storage.deckhouse.io/data-export-request'']"
definition AnnotationUserPVCNamespaceKey :: string where
  "AnnotationUserPVCNamespaceKey = ''storage-foundation.deckhouse.io/original-pvc-namespace''"
definition AnnotationUserPVCNameKey :: string where
  "AnnotationUserPVCNameKey = ''storage-foundation.deckhouse.io/original-pvc-name''"
definition AnnotationPVTargetKindShortKey :: string where
  "AnnotationPVTargetKindShortKey = ''storage-foundation.deckhouse.io/target-ref''"
definition AnnotationPVHashSuffixKey :: string where
  "AnnotationPVHashSuffixKey = ''storage-foundation.deckhouse.io/generated-name-suffix''"
definition AnnotationOriginalReclaimPolicyKey :: string where
  "AnnotationOriginalReclaimPolicyKey = ''storage-foundation.deckhouse.io/original-reclaim-policy''"
definition LabelPVDataExporter :: string where
  "LabelPVDataExporter = ''storage-foundation.deckhouse.io/data-exporter''"
definition LabelPVDataExporterInconsistent :: string where
  "LabelPVDataExporterInconsistent = ''storage-foundation.deckhouse.io/data-exporter-inconsistent''"

lemmas volumeKey_defs = AnnotationUserPVCNamespaceKey_def AnnotationUserPVCNameKey_def
  AnnotationPVTargetKindShortKey_def AnnotationPVHashSuffixKey_def AnnotationOriginalReclaimPolicyKey_def
  AnnotationStorageManagerNamespaceKey_def AnnotationStorageManagerNameKey_def

abbreviation ErrTargetNotFound :: sentinel where "ErrTargetNotFound \<equiv> ErrOther ''target not found''"
abbreviation ErrTargetNotReady :: sentinel where "ErrTargetNotReady \<equiv> ErrOther ''target not ready''"
abbreviation ErrPVConflict :: sentinel where "ErrPVConflict \<equiv> ErrOther ''pv conflict''"
abbreviation ErrDeploymentFailed :: sentinel where "ErrDeploymentFailed \<equiv> ErrOther ''deployment failed''"
abbreviation ErrPVCValidationFailed :: sentinel where
  "ErrPVCValidationFailed \<equiv> ErrOther ''PVC validation failed''"
abbreviation ErrInvalidOriginalReclaimPolicy :: sentinel where
  "ErrInvalidOriginalReclaimPolicy \<equiv> ErrOther ''invalid original reclaim policy''"

abbreviation getExport :: "env \<Rightarrow> nsname \<Rightarrow> dataExport res io" where
  "getExport E \<equiv> getObj E KDataExport decDataExport"
abbreviation getDisk :: "env \<Rightarrow> nsname \<Rightarrow> virtualDisk res io" where
  "getDisk E \<equiv> getObj E KVirtualDisk decVirtualDisk"

section \<open>Polls\<close>

text \<open>
  \<open>wait.PollUntilContextTimeout\<close> with \<open>immediate\<close>: the condition is tried at once and then
  \<open>k\<close> more times. \<open>None\<close> goes on, a value or an error ends the poll. \<open>discard\<close> forgets the value
  of an accepted write; \<open>wrapP\<close> is \<open>fmt.Errorf\<close> around an operation that may panic.
\<close>

fun poll :: "nat \<Rightarrow> 'a option res io \<Rightarrow> 'a res io" where
  "poll 0 m = ret (Inl (Errorf ''context deadline exceeded'' []))"
| "poll (Suc k) m = thenE m (\<lambda>r. case r of None \<Rightarrow> poll k m | Some x \<Rightarrow> ret (Inr x))"

definition PollUntilContextTimeout :: "nat \<Rightarrow> 'a option res io \<Rightarrow> 'a res io" where
  "PollUntilContextTimeout k m = poll (Suc k) m"

definition discard :: "'a res io \<Rightarrow> unit res io" where
  "discard m = thenE m (\<lambda>_. ret (Inr ()))"

definition wrapP :: "string \<Rightarrow> 'a res io \<Rightarrow> 'a res io" where
  "wrapP msg m = do {
     r \<leftarrow> m;
     ret (case r of Inl e \<Rightarrow> Inl (if e = panicErr then e else Errorf msg [e]) | Inr x \<Rightarrow> Inr x) }"

text \<open>A read that turns NotFound into a sentinel error and wraps any other error.\<close>

definition missingAs :: "sentinel \<Rightarrow> string \<Rightarrow> 'a res io \<Rightarrow> 'a res io" where
  "missingAs s msg m = do {
     r \<leftarrow> m;
     ret (case r of
            Inl e \<Rightarrow> Inl (Errorf msg [if IsNotFound e then Sentinel s else e])
          | Inr x \<Rightarrow> Inr x) }"

section \<open>Targets\<close>

datatype targetCategory = categoryLivePVC | categoryLiveVirtualDisk | categorySnapshot

definition classifyTargetRef :: "string \<Rightarrow> string \<Rightarrow> (targetCategory \<times> string) res" where
  "classifyTargetRef grp k =
     (if k = [] then Inl (Errorf ''spec.targetRef.kind is empty'' [])
      else if grp = [] \<and> k = KindPVC then Inr (categoryLivePVC, KindPVCShort)
      else if grp = GroupVirtualization \<and> k = ''VirtualDisk''
      then Inr (categoryLiveVirtualDisk, KindVirtualDiskShort)
      else if grp = GroupSnapshotStorage \<and> k = artifactKindVolumeSnapshotContent
      then Inl (Errorf ''spec.targetRef must not reference a bare cluster-scoped VolumeSnapshotContent'' [])
      else Inr (categorySnapshot, KindSnapshotShort))"

record snapshotDataArtifact =
  sda_artifactKind :: string
  sda_artifactName :: string
  sda_volumeMode :: string
  sda_storageClassName :: string
  sda_fsType :: string

definition contentAnchor :: "snapshotContent \<Rightarrow> string" where
  "contentAnchor content =
     (if snc_snapshotRefNamespace content \<noteq> [] then snc_snapshotRefNamespace content
      else (case snc_data content of Inr (Some d) \<Rightarrow> sd_sourceNamespace d | _ \<Rightarrow> []))"

definition verifySnapshotContentNamespace :: "snapshotContent \<Rightarrow> string \<Rightarrow> string \<Rightarrow> unit res" where
  "verifySnapshotContentNamespace content contentName wantNamespace =
     (let anchorNS = contentAnchor content in
      if anchorNS \<noteq> [] \<and> anchorNS \<noteq> wantNamespace
      then Inl (Errorf (''SnapshotContent '' @ contentName @ '' belongs to namespace '' @ anchorNS)
                 [Sentinel ErrTargetNotFound])
      else Inr ())"

definition artifactOfData :: "string \<Rightarrow> string + snapshotData option \<Rightarrow> snapshotDataArtifact res" where
  "artifactOfData contentName r =
     (case r of
        Inl err \<Rightarrow> Inl (Errorf (''read status.data on SnapshotContent '' @ contentName) [Errorf err []])
      | Inr None \<Rightarrow> Inl (Errorf (contentName @ '' has no status.data yet'') [Sentinel ErrTargetNotReady])
      | Inr (Some d) \<Rightarrow>
          if sd_artifactName d = []
          then Inl (Errorf (contentName @ '' data has no artifact name yet'') [Sentinel ErrTargetNotReady])
          else if sd_artifactKind d \<noteq> artifactKindVolumeSnapshotContent \<and>
                  sd_artifactKind d \<noteq> artifactKindPersistentVolume
          then Inl (Errorf (contentName @ '' data artifact kind is not exportable'') [Sentinel ErrTargetNotFound])
          else if sd_volumeMode d = []
          then Inl (Errorf (contentName @ '' data has no volumeMode yet'') [Sentinel ErrTargetNotReady])
          else Inr \<lparr>sda_artifactKind = sd_artifactKind d, sda_artifactName = sd_artifactName d,
            sda_volumeMode = sd_volumeMode d, sda_storageClassName = sd_storageClassName d,
            sda_fsType = sd_fsType d\<rparr>)"

definition RESTMapping :: "exportConfig \<Rightarrow> string \<Rightarrow> string \<Rightarrow> restMapping io" where
  "RESTMapping X grp k = State (\<lambda>h. (x_RESTMapping X h grp k, h))"

definition resolveSnapshotDataArtifact ::
  "env \<Rightarrow> exportConfig \<Rightarrow> dataExport \<Rightarrow> snapshotDataArtifact res io" where
  "resolveSnapshotDataArtifact E X de = do {
     mapping \<leftarrow> RESTMapping X (de_targetGroup de) (de_targetKind de);
     (case mapping of
        NoMatch \<Rightarrow> ret (Inl (Errorf ''target has no API mapping'' [Sentinel ErrTargetNotFound]))
      | MappingError rs \<Rightarrow> ret (Inl (Errorf ''resolve target'' [ApiErr rs]))
      | Mapped gvr namespaced \<Rightarrow>
          if \<not> namespaced
          then ret (Inl (Errorf (gvr @ '' is a cluster-scoped resource'') [Sentinel ErrTargetNotFound]))
          else
          thenE (missingAs ErrTargetNotFound ''get snapshot leaf''
            (getObj E (KResource gvr) decSnapshotLeaf (m_namespace (de_meta de), de_targetName de))) (\<lambda>leaf.
          case leaf_boundSnapshotContentName leaf of
            Inl err \<Rightarrow> ret (Inl (Errorf ''read status.boundSnapshotContentName'' [Errorf err []]))
          | Inr contentName \<Rightarrow>
              if contentName = []
              then ret (Inl (Errorf ''snapshot leaf is not bound yet'' [Sentinel ErrTargetNotReady]))
              else
              thenE (missingAs ErrTargetNotReady ''get SnapshotContent''
                (getObj E KSnapshotContent decSnapshotContent ([], contentName))) (\<lambda>content.
              thenE (ret (verifySnapshotContentNamespace content contentName (m_namespace (de_meta de)))) (\<lambda>_.
              ret (artifactOfData contentName (snc_data content)))))) }"

section \<open>The restore request of a snapshot\<close>

definition volumeRestoreRequestName :: "names \<Rightarrow> string" where
  "volumeRestoreRequestName nm = ''data-export-vrr-'' @ TargetKindShort nm @ ''-'' @ HashSuffix nm"

definition exportRestoreRequest ::
  "exportConfig \<Rightarrow> dataExport \<Rightarrow> names \<Rightarrow> snapshotDataArtifact \<Rightarrow> volumeRestoreRequest" where
  "exportRestoreRequest X de nm art =
     \<lparr>vrr_meta = emptyMeta\<lparr>m_name := volumeRestoreRequestName nm,
        m_namespace := dm_controllerNamespace X,
        m_labels := [(LabelApplicationKey, LabelDataExportValue)],
        m_annotations := managerAnnotations (m_namespace (de_meta de), m_name (de_meta de))\<rparr>,
      vrr_sourceRef = \<lparr>ref_apiVersion = [], ref_kind = sda_artifactKind art, ref_name = sda_artifactName art,
        ref_namespace = [], ref_uid = [], ref_resourceVersion = []\<rparr>,
      vrr_pvcTemplate = \<lparr>tmpl_name = ExportPVCName nm, tmpl_annotations = [], tmpl_labels = [],
        tmpl_accessModes = [], tmpl_requests = [],
        tmpl_storageClassName = (if sda_storageClassName art \<noteq> [] then Some (sda_storageClassName art) else None),
        tmpl_volumeMode = Some (sda_volumeMode art)\<rparr>,
      vrr_fsType = sda_fsType art,
      vrr_status = \<lparr>vrs_completionTimestamp = None, vrs_conditions = [], vrs_pvcRef = None\<rparr>\<rparr>"

definition ensureVolumeRestoreRequest ::
  "env \<Rightarrow> exportConfig \<Rightarrow> dataExport \<Rightarrow> names \<Rightarrow> snapshotDataArtifact \<Rightarrow> unit res io" where
  "ensureVolumeRestoreRequest E X de nm art = do {
     got \<leftarrow> getObj E KVolumeRestoreRequest decVrr (dm_controllerNamespace X, volumeRestoreRequestName nm);
     (case got of
        Inr _ \<Rightarrow> ret (Inr ())
      | Inl err \<Rightarrow>
          if \<not> IsNotFound err then ret (Inl (Errorf ''get VolumeRestoreRequest'' [err]))
          else do {
            r \<leftarrow> exec E (Create (OVrr (exportRestoreRequest X de nm art)));
            ret (case r of
                   Inl e \<Rightarrow> if IsAlreadyExists e then Inr () else Inl (Errorf ''create VolumeRestoreRequest'' [e])
                 | Inr _ \<Rightarrow> Inr ()) }) }"

definition deleteVolumeRestoreRequest :: "env \<Rightarrow> exportConfig \<Rightarrow> names \<Rightarrow> unit res io" where
  "deleteVolumeRestoreRequest E X nm =
     wrapE ''delete VolumeRestoreRequest''
       (ignoreNotFound (exec E (Delete KVolumeRestoreRequest (dm_controllerNamespace X, volumeRestoreRequestName nm))))"

definition exportPVCShaped :: "env \<Rightarrow> nsname \<Rightarrow> persistentVolumeClaim option res io" where
  "exportPVCShaped E key = do {
     got \<leftarrow> getPvc E key;
     ret (case got of
            Inl e \<Rightarrow> if IsNotFound e then Inr None else Inl e
          | Inr p \<Rightarrow>
              Inr (if pvc_volumeMode p \<noteq> None \<and> pvc_phase p = ''Bound'' then Some p else None)) }"

definition waitForExportPVC :: "env \<Rightarrow> exportConfig \<Rightarrow> string \<Rightarrow> persistentVolumeClaim res io" where
  "waitForExportPVC E X exportPVCName =
     (let key = (dm_controllerNamespace X, exportPVCName) in
      do {
        polled \<leftarrow> PollUntilContextTimeout (x_restorePolls X) (exportPVCShaped E key);
        (case polled of
           Inr p \<Rightarrow> ret (Inr p)
         | Inl _ \<Rightarrow> do {
             got \<leftarrow> getPvc E key;
             ret (case got of
                    Inr p \<Rightarrow>
                      if pvc_volumeMode p \<noteq> None then Inr p
                      else Inl (Errorf ''export PVC not provisioned yet'' [Sentinel ErrTargetNotReady])
                  | Inl _ \<Rightarrow> Inl (Errorf ''export PVC not provisioned yet'' [Sentinel ErrTargetNotReady])) }) })"

definition getExportPVCFromSnapshot ::
  "env \<Rightarrow> exportConfig \<Rightarrow> dataExport \<Rightarrow> names \<Rightarrow> persistentVolumeClaim res io" where
  "getExportPVCFromSnapshot E X de nm =
     thenE (resolveSnapshotDataArtifact E X de) (\<lambda>art.
     thenE (ensureVolumeRestoreRequest E X de nm art) (\<lambda>_.
     waitForExportPVC E X (ExportPVCName nm)))"

section \<open>The marks on a PersistentVolume\<close>

definition validatePVNotOwnedByAnotherDataExport :: "persistentVolume \<Rightarrow> string \<Rightarrow> string \<Rightarrow> unit res" where
  "validatePVNotOwnedByAnotherDataExport pv expectedNamespace expectedName =
     (let annotations = m_annotations (pv_meta pv) in
      if annotations = [] then Inr ()
      else
      (let hasName = has_key annotations AnnotationStorageManagerNameKey;
           hasNS = has_key annotations AnnotationStorageManagerNamespaceKey in
       if \<not> hasNS \<and> \<not> hasName then Inr ()
       else if \<not> hasNS \<or> \<not> hasName
       then Inl (Errorf ''PV has inconsistent storage manager annotations'' [Sentinel ErrPVConflict])
       else if index_str annotations AnnotationStorageManagerNameKey \<noteq> expectedName \<or>
               index_str annotations AnnotationStorageManagerNamespaceKey \<noteq> expectedNamespace
       then Inl (Errorf ''PV is already owned by another DataExport'' [Sentinel ErrPVConflict])
       else Inr ()))"

definition claimReference :: "persistentVolumeClaim \<Rightarrow> objref" where
  "claimReference pvc =
     \<lparr>ref_apiVersion = [], ref_kind = [], ref_name = m_name (pvc_meta pvc),
      ref_namespace = m_namespace (pvc_meta pvc), ref_uid = m_uid (pvc_meta pvc),
      ref_resourceVersion = m_resourceVersion (pvc_meta pvc)\<rparr>"

definition exportAnnotations :: "persistentVolume \<Rightarrow> dataExport \<Rightarrow> names \<Rightarrow> string \<Rightarrow> strmap" where
  "exportAnnotations pv de nm userPVCName =
     [(AnnotationUserPVCNamespaceKey, m_namespace (de_meta de)),
      (AnnotationUserPVCNameKey, userPVCName),
      (AnnotationStorageManagerNamespaceKey, m_namespace (de_meta de)),
      (AnnotationStorageManagerNameKey, m_name (de_meta de)),
      (AnnotationPVTargetKindShortKey, TargetKindShort nm),
      (AnnotationPVHashSuffixKey, HashSuffix nm),
      (AnnotationOriginalReclaimPolicyKey, pv_reclaimPolicy pv)]"

fun putAll :: "strmap \<Rightarrow> strmap \<Rightarrow> strmap" where
  "putAll [] m = m"
| "putAll ((k, v) # kvs) m = putAll kvs (AList.update k v m)"

definition takenPV ::
  "persistentVolume \<Rightarrow> persistentVolumeClaim \<Rightarrow> dataExport \<Rightarrow> names \<Rightarrow> string \<Rightarrow> persistentVolume" where
  "takenPV pv exportPVC de nm userPVCName =
     pv\<lparr>pv_claimRef := Some (claimReference exportPVC),
        pv_reclaimPolicy := ''Retain'',
        pv_meta := (pv_meta pv)
          \<lparr>m_annotations := putAll (exportAnnotations pv de nm userPVCName) (m_annotations (pv_meta pv)),
           m_labels := AList.update LabelPVDataExporter ''true'' (m_labels (pv_meta pv))\<rparr>\<rparr>"

definition patchPVLabelAnnotationsClaimRef ::
  "env \<Rightarrow> persistentVolume \<Rightarrow> persistentVolumeClaim \<Rightarrow> dataExport \<Rightarrow> names \<Rightarrow> string \<Rightarrow> unit res io" where
  "patchPVLabelAnnotationsClaimRef E pv exportPVC de nm userPVCName =
     wrapE ''failed to patch user PV''
       (discard (exec E (Patch True (OPv pv) (OPv (takenPV pv exportPVC de nm userPVCName)))))"

definition validPolicy :: "string \<Rightarrow> bool" where
  "validPolicy p = (p \<in> set [''Retain'', ''Delete'', ''Recycle''])"

record pvRecoveryInfo =
  ri_userPVCNamespace :: string
  ri_userPVCName :: string
  ri_dataExportNamespace :: string
  ri_dataExportName :: string
  ri_targetKindShort :: string
  ri_hashSuffix :: string
  ri_originalReclaimPolicy :: string

definition parsePVRecoveryInfo :: "env \<Rightarrow> persistentVolume \<Rightarrow> string \<Rightarrow> string \<Rightarrow> pvRecoveryInfo res" where
  "parsePVRecoveryInfo E pv deNS deName =
     (let ann = index_str (m_annotations (pv_meta pv)) in
      if \<not> validPolicy (ann AnnotationOriginalReclaimPolicyKey)
      then Inl (Errorf ''invalid PV reclaim policy'' [Sentinel ErrInvalidOriginalReclaimPolicy])
      else if index_str (m_labels (pv_meta pv)) LabelPVDataExporter \<noteq> ''true''
      then Inl (Errorf (''invalid label '' @ LabelPVDataExporter) [])
      else if ann AnnotationStorageManagerNameKey \<noteq> deName
      then Inl (Errorf (''invalid annotation '' @ AnnotationStorageManagerNameKey) [])
      else if ann AnnotationStorageManagerNamespaceKey \<noteq> deNS
      then Inl (Errorf (''invalid annotation '' @ AnnotationStorageManagerNamespaceKey) [])
      else if ann AnnotationUserPVCNamespaceKey \<noteq> deNS
      then Inl (Errorf (''invalid annotation '' @ AnnotationUserPVCNamespaceKey) [])
      else (case ValidateHashAndTarget E (ann AnnotationPVTargetKindShortKey)
                   (ann AnnotationPVHashSuffixKey) deNS deName of
              Inl err \<Rightarrow> Inl err
            | Inr _ \<Rightarrow> Inr
                \<lparr>ri_userPVCNamespace = ann AnnotationUserPVCNamespaceKey,
                 ri_userPVCName = ann AnnotationUserPVCNameKey,
                 ri_dataExportNamespace = ann AnnotationStorageManagerNamespaceKey,
                 ri_dataExportName = ann AnnotationStorageManagerNameKey,
                 ri_targetKindShort = ann AnnotationPVTargetKindShortKey,
                 ri_hashSuffix = ann AnnotationPVHashSuffixKey,
                 ri_originalReclaimPolicy = ann AnnotationOriginalReclaimPolicyKey\<rparr>))"

definition inconsistentPV :: "exportConfig \<Rightarrow> persistentVolume \<Rightarrow> persistentVolume" where
  "inconsistentPV X pv =
     (let severity = (case pv_claimRef pv of
                        None \<Rightarrow> ''warning''
                      | Some r \<Rightarrow> if ref_namespace r = dm_controllerNamespace X then ''error'' else ''warning'')
      in pv\<lparr>pv_meta := (pv_meta pv)
           \<lparr>m_labels := AList.update LabelPVDataExporterInconsistent severity (m_labels (pv_meta pv))\<rparr>\<rparr>)"

definition handleInconsistentPV :: "env \<Rightarrow> exportConfig \<Rightarrow> persistentVolume \<Rightarrow> unit res io" where
  "handleInconsistentPV E X pv =
     wrapE ''failed to label PV as inconsistent''
       (discard (exec E (Patch True (OPv pv) (OPv (inconsistentPV X pv)))))"

definition restorePVReclaimPolicy :: "persistentVolume \<Rightarrow> (persistentVolume \<times> bool) res" where
  "restorePVReclaimPolicy pv =
     (let originalPolicy = index_str (m_annotations (pv_meta pv)) AnnotationOriginalReclaimPolicyKey in
      if originalPolicy = []
      then Inl (Errorf ''PV does not have the annotation with original reclaim policy'' [])
      else if \<not> validPolicy originalPolicy
      then Inl (Errorf (''invalid original reclaimPolicy '' @ originalPolicy) [])
      else if pv_reclaimPolicy pv = originalPolicy then Inr (pv, False)
      else Inr (pv\<lparr>pv_reclaimPolicy := originalPolicy\<rparr>, True))"

text \<open>The loop over the keys to remove, with the flag that something was removed.\<close>

fun removeKeys :: "string list \<Rightarrow> strmap \<Rightarrow> strmap \<times> bool" where
  "removeKeys [] m = (m, False)"
| "removeKeys (k # ks) m =
     (case removeKeys ks (AList.delete k m) of (m', changed) \<Rightarrow> (m', has_key m k \<or> changed))"

definition exportPVKeys :: "string list" where
  "exportPVKeys =
     [AnnotationUserPVCNamespaceKey, AnnotationUserPVCNameKey, AnnotationStorageManagerNamespaceKey,
      AnnotationStorageManagerNameKey, AnnotationPVTargetKindShortKey, AnnotationPVHashSuffixKey,
      AnnotationOriginalReclaimPolicyKey]"

definition removePVExportMetadata :: "persistentVolume \<Rightarrow> persistentVolume \<times> bool" where
  "removePVExportMetadata pv =
     (case removeKeys exportPVKeys (m_annotations (pv_meta pv)) of (ann, c1) \<Rightarrow>
      (case removeKeys [LabelPVDataExporter] (m_labels (pv_meta pv)) of (lab, c2) \<Rightarrow>
        (pv\<lparr>pv_meta := (pv_meta pv)\<lparr>m_annotations := ann, m_labels := lab\<rparr>\<rparr>, c1 \<or> c2)))"

definition restoredPV :: "persistentVolume \<Rightarrow> (persistentVolume \<times> bool) res" where
  "restoredPV pv =
     (case restorePVReclaimPolicy pv of
        Inl err \<Rightarrow> Inl err
      | Inr (pv1, needUpdate) \<Rightarrow>
          (case removePVExportMetadata pv1 of (pv2, changed) \<Rightarrow> Inr (pv2, needUpdate \<or> changed)))"

definition restoreOriginalPVState :: "env \<Rightarrow> persistentVolume \<Rightarrow> unit res io" where
  "restoreOriginalPVState E pv =
     thenE (ret (restoredPV pv)) (\<lambda>(updatedPV, needUpdate).
     if \<not> needUpdate then ret (Inr ())
     else wrapE ''failed to restore PV'' (discard (exec E (Patch True (OPv pv) (OPv updatedPV)))))"

section \<open>The marks on the user's claim\<close>

text \<open>An assignment to a nil map panics: a claim without annotations has a nil map.\<close>

definition markedClaim :: "persistentVolumeClaim \<Rightarrow> persistentVolumeClaim" where
  "markedClaim u =
     u\<lparr>pvc_meta := (pvc_meta u)
       \<lparr>m_annotations := AList.update DataExportInProgressKey ''true'' (m_annotations (pvc_meta u)),
        m_finalizers := (if ContainsString (m_finalizers (pvc_meta u)) StorageManagerFinalizerName
          then m_finalizers (pvc_meta u) else m_finalizers (pvc_meta u) @ [StorageManagerFinalizerName])\<rparr>\<rparr>"

definition markClaimOnce :: "env \<Rightarrow> nsname \<Rightarrow> unit option res io" where
  "markClaimOnce E n = thenE (getPvc E n) (\<lambda>u.
     let hasAnnotation = (index_str (m_annotations (pvc_meta u)) DataExportInProgressKey = ''true'');
         hasFinalizer = ContainsString (m_finalizers (pvc_meta u)) StorageManagerFinalizerName in
     if \<not> hasAnnotation \<and> m_annotations (pvc_meta u) = [] then ret (Inl panicErr)
     else if \<not> hasAnnotation \<or> \<not> hasFinalizer then do {
       r \<leftarrow> exec E (Update (OPvc (markedClaim u)));
       ret (Inr (case r of Inl _ \<Rightarrow> None | Inr _ \<Rightarrow> Some ())) }
     else ret (Inr (Some ())))"

definition ensureUserPVCExportingAnnotationAndFinalizer ::
  "env \<Rightarrow> exportConfig \<Rightarrow> string \<Rightarrow> string \<Rightarrow> unit res io" where
  "ensureUserPVCExportingAnnotationAndFinalizer E X ns n =
     PollUntilContextTimeout (x_claimPolls X) (markClaimOnce E (ns, n))"

definition releasedClaim :: "persistentVolumeClaim \<Rightarrow> persistentVolumeClaim \<times> bool" where
  "releasedClaim u =
     (case removeKeys (DataExportInProgressKey # dataExportRequestAnnotationKeys) (m_annotations (pvc_meta u)) of
        (ann, hasAnnotation) \<Rightarrow>
          (let fs = m_finalizers (pvc_meta u);
               hasFinalizer = ContainsString fs StorageManagerFinalizerName in
           (u\<lparr>pvc_meta := (pvc_meta u)\<lparr>m_annotations := ann,
               m_finalizers := (if hasFinalizer then RemoveString fs StorageManagerFinalizerName else fs)\<rparr>\<rparr>,
            hasAnnotation \<or> hasFinalizer)))"

definition releaseClaimOnce :: "env \<Rightarrow> nsname \<Rightarrow> unit option res io" where
  "releaseClaimOnce E n = thenE (getPvc E n) (\<lambda>u.
     case releasedClaim u of (u', needUpdate) \<Rightarrow>
       if needUpdate then do {
         r \<leftarrow> exec E (Update (OPvc u'));
         ret (Inr (case r of Inl _ \<Rightarrow> None | Inr _ \<Rightarrow> Some ())) }
       else ret (Inr (Some ())))"

definition removeUserPVCExportingAnnotationsAndFinalizer ::
  "env \<Rightarrow> exportConfig \<Rightarrow> persistentVolumeClaim \<Rightarrow> unit res io" where
  "removeUserPVCExportingAnnotationsAndFinalizer E X userPVC =
     PollUntilContextTimeout (x_claimPolls X) (releaseClaimOnce E (keyOf (pvc_meta userPVC)))"

definition ensureAnnotationsOnPVC :: "env \<Rightarrow> persistentVolumeClaim \<Rightarrow> strmap \<Rightarrow> unit res io" where
  "ensureAnnotationsOnPVC E pvc toAdd =
     (let ann = m_annotations (pvc_meta pvc);
          needUpdate = list_ex (\<lambda>(k, v). index_str ann k \<noteq> v) toAdd in
      if needUpdate
      then wrapE ''failed to update PVC with annotation''
             (update_or E (OPvc (pvc\<lparr>pvc_meta := (pvc_meta pvc)\<lparr>m_annotations := putAll toAdd ann\<rparr>\<rparr>)))
      else ret (Inr ()))"

section \<open>Taking a volume over\<close>

definition validateUserPVCInWorkingState :: "persistentVolumeClaim \<Rightarrow> persistentVolume \<Rightarrow> unit res" where
  "validateUserPVCInWorkingState pvc pv =
     (let bad = (\<lambda>msg. Inl (Errorf msg [Sentinel ErrPVCValidationFailed])) in
      if pvc_phase pvc \<noteq> ''Bound'' then bad ''user's PVC is not Bound''
      else if pvc_volumeName pvc = [] \<or> pvc_volumeName pvc \<noteq> m_name (pv_meta pv)
      then bad ''PVC volumeName does not match PV name''
      else (case pv_claimRef pv of
              None \<Rightarrow> bad ''user's PV does not contain ClaimRef''
            | Some ref \<Rightarrow>
                if ref_name ref \<noteq> m_name (pvc_meta pvc) \<or> ref_namespace ref \<noteq> m_namespace (pvc_meta pvc)
                then bad ''PV ClaimRef does not match user's PVC''
                else if m_uid (pvc_meta pvc) \<noteq> [] \<and> ref_uid ref \<noteq> [] \<and> m_uid (pvc_meta pvc) \<noteq> ref_uid ref
                then bad ''PV ClaimRef UID mismatch''
                else Inr ()))"

text \<open>The pods that mount a claim, and the attachments that hold a volume.\<close>

definition usesClaim :: "string \<Rightarrow> pod \<Rightarrow> bool" where
  "usesClaim claim p = list_ex (\<lambda>v. case vol_claim v of None \<Rightarrow> False | Some (c, _) \<Rightarrow> c = claim)
     (ps_volumes (pod_spec p))"

definition holdsVolume :: "string \<Rightarrow> volumeAttachment \<Rightarrow> bool" where
  "holdsVolume pvName va = (va_persistentVolumeName va = Some pvName \<and> va_attached va)"

definition validateUserPVCAndGetPV :: "env \<Rightarrow> persistentVolumeClaim \<Rightarrow> persistentVolume res io" where
  "validateUserPVCAndGetPV E pvc =
     (if pvc_volumeName pvc = []
      then ret (Inl (Errorf ''user's PVC does not contain VolumeName'' [Sentinel ErrPVCValidationFailed]))
      else
      thenE (wrapE ''failed to get PV'' (getPv E (pvc_volumeName pvc))) (\<lambda>pv.
      thenE (ret (validateUserPVCInWorkingState pvc pv)) (\<lambda>_.
      thenE (wrapE ''failed to get podList'' (listReq E (ListIn KPod (m_namespace (pvc_meta pvc))) decPod)) (\<lambda>pods.
      if list_ex (usesClaim (m_name (pvc_meta pvc))) pods
      then ret (Inl (Errorf ''user's PVC is being occupied by pods'' [Sentinel ErrPVCValidationFailed]))
      else
      thenE (wrapE ''failed to get volumeAttachmentList''
        (listReq E (ListIn KVolumeAttachment (m_namespace (pvc_meta pvc))) decVolumeAttachment)) (\<lambda>vas.
      if list_ex (holdsVolume (m_name (pv_meta pv))) vas
      then ret (Inl (Errorf ''user's PV has volumeAttachments'' [Sentinel ErrPVCValidationFailed]))
      else ret (Inr pv))))))"

definition exportClaim :: "exportConfig \<Rightarrow> persistentVolumeClaim \<Rightarrow> persistentVolume \<Rightarrow> string \<Rightarrow> persistentVolumeClaim" where
  "exportClaim X userPVC pv name =
     \<lparr>pvc_meta = emptyMeta\<lparr>m_name := name, m_namespace := dm_controllerNamespace X,
        m_labels := [(LabelApplicationKey, LabelDataExportValue)]\<rparr>,
      pvc_volumeName = m_name (pv_meta pv), pvc_storageClassName = pvc_storageClassName userPVC,
      pvc_volumeMode = pvc_volumeMode userPVC, pvc_accessModes = [''ReadWriteOncePod''],
      pvc_requests = pvc_requests userPVC, pvc_dataSourceRef = None, pvc_phase = []\<rparr>"

definition detachPVC ::
  "env \<Rightarrow> exportConfig \<Rightarrow> persistentVolumeClaim \<Rightarrow> persistentVolume \<Rightarrow> string \<Rightarrow> string \<Rightarrow> persistentVolumeClaim res io" where
  "detachPVC E X userPVC pv exportPVCName dataExportName =
     thenE (ret (validatePVNotOwnedByAnotherDataExport pv (m_namespace (pvc_meta userPVC)) dataExportName)) (\<lambda>_.
     wrapE ''failed to create export PVC''
       (sendObj E (Create (OPvc (exportClaim X userPVC pv exportPVCName))) decPvc))"

definition getExportPVCFromUserPVC ::
  "env \<Rightarrow> exportConfig \<Rightarrow> string \<Rightarrow> string \<Rightarrow> string \<Rightarrow> string \<Rightarrow> (persistentVolumeClaim \<times> persistentVolume) res io" where
  "getExportPVCFromUserPVC E X userNS userPVCName exportPVCName dataExportName = do {
     got \<leftarrow> getPvc E (userNS, userPVCName);
     (case got of
        Inl err \<Rightarrow>
          ret (Inl (if IsNotFound err then Errorf ''user PVC'' [Sentinel ErrTargetNotFound, err] else err))
      | Inr userPVC \<Rightarrow>
          thenE (wrapE ''failed to validate user PVC'' (validateUserPVCAndGetPV E userPVC)) (\<lambda>pv.
          thenE (wrapE ''failed to detach user PVC''
            (detachPVC E X userPVC pv exportPVCName dataExportName)) (\<lambda>exportPVC.
          ret (Inr (exportPVC, pv))))) }"

definition ensureExportPVReady ::
  "env \<Rightarrow> exportConfig \<Rightarrow> persistentVolume option \<Rightarrow> persistentVolumeClaim \<Rightarrow> names \<Rightarrow> dataExport \<Rightarrow> string \<Rightarrow> unit res io" where
  "ensureExportPVReady E X pv0 exportPVC nm de userPVCName =
     (if TargetKindShort nm \<noteq> KindPVCShort \<and> TargetKindShort nm \<noteq> KindVirtualDiskShort then ret (Inr ())
      else
      thenE (case pv0 of
               Some pv \<Rightarrow> ret (Inr pv)
             | None \<Rightarrow>
                 if pvc_volumeName exportPVC = [] then ret (Inl (Errorf ''export PVC has no volume name'' []))
                 else do {
                   got \<leftarrow> getPv E (pvc_volumeName exportPVC);
                   ret (case got of
                          Inl err \<Rightarrow> Inl (if IsNotFound err then Errorf ''export pvc volume not found'' [] else err)
                        | Inr pv \<Rightarrow> Inr pv) }) (\<lambda>pv.
      thenE (ensureUserPVCExportingAnnotationAndFinalizer E X (m_namespace (de_meta de)) userPVCName) (\<lambda>_.
      let infoIsValid = (case parsePVRecoveryInfo E pv (m_namespace (de_meta de)) (m_name (de_meta de)) of
                           Inl _ \<Rightarrow> False | Inr _ \<Rightarrow> True);
          specReady = (pv_reclaimPolicy pv = ''Retain'' \<and>
                       (case pv_claimRef pv of
                          None \<Rightarrow> False
                        | Some r \<Rightarrow> ref_name r = m_name (pvc_meta exportPVC) \<and>
                                    ref_namespace r = m_namespace (pvc_meta exportPVC))) in
      if infoIsValid \<and> specReady then ret (Inr ())
      else patchPVLabelAnnotationsClaimRef E pv exportPVC de nm userPVCName)))"

section \<open>Giving a volume back\<close>

definition reboundPV :: "persistentVolume \<Rightarrow> persistentVolumeClaim \<Rightarrow> persistentVolume" where
  "reboundPV pv userPVC = pv\<lparr>pv_claimRef := Some (claimReference userPVC)\<rparr>"

definition recoverUserPVC ::
  "env \<Rightarrow> exportConfig \<Rightarrow> string \<Rightarrow> string \<Rightarrow> string \<Rightarrow> persistentVolume option \<Rightarrow> unit res io" where
  "recoverUserPVC E X userNS userPVCName dataExportName pv0 =
     thenE (optional (wrapE ''failed to get user PVC'' (getPvc E (userNS, userPVCName)))) (\<lambda>found.
     case found of
       None \<Rightarrow> ret (Inr ())
     | Some userPVC \<Rightarrow>
     thenE (case pv0 of
              Some pv \<Rightarrow> ret (Inr pv)
            | None \<Rightarrow>
                if pvc_volumeName userPVC = []
                then ret (Inl (Errorf ''user PVC does not have a valid PersistentVolume name in spec'' []))
                else wrapE ''failed to get PV for user PVC'' (getPv E (pvc_volumeName userPVC))) (\<lambda>pv.
     if index_str (m_labels (pv_meta pv)) LabelPVDataExporter \<noteq> ''true''
     then removeUserPVCExportingAnnotationsAndFinalizer E X userPVC
     else if (case parsePVRecoveryInfo E pv userNS dataExportName of
                Inl e \<Rightarrow> errorsIs e ErrInvalidOriginalReclaimPolicy | Inr _ \<Rightarrow> False)
     then thenE (wrapE ''failed to label inconsistent PV'' (handleInconsistentPV E X pv)) (\<lambda>_.
          ret (Inl (Errorf ''inconsistent PV'' [Sentinel ErrInvalidOriginalReclaimPolicy])))
     else
     thenE (case validateUserPVCInWorkingState userPVC pv of
              Inr _ \<Rightarrow> ret (Inr pv)
            | Inl _ \<Rightarrow> wrapE ''recover user PVC: failed to patch user PV''
                (sendObj E (Patch True (OPv pv) (OPv (reboundPV pv userPVC))) decPv)) (\<lambda>pv.
     thenE (removeUserPVCExportingAnnotationsAndFinalizer E X userPVC) (\<lambda>_.
     wrapE ''failed to remove annotations/labels from PV'' (restoreOriginalPVState E pv)))))"

definition recoverUserVirtualDisk :: "env \<Rightarrow> exportConfig \<Rightarrow> dataExport \<Rightarrow> unit res io" where
  "recoverUserVirtualDisk E X de =
     thenE (optional (wrapE ''failed to get user VirtualDisk''
       (getDisk E (m_namespace (de_meta de), de_targetName de)))) (\<lambda>found.
     case found of
       None \<Rightarrow> ret (Inr ())
     | Some vd \<Rightarrow> recoverUserPVC E X (m_namespace (de_meta de)) (vd_targetClaim vd) (m_name (de_meta de)) None)"

section \<open>Virtual disks\<close>

definition prepareVirtualDiskForExportAndGetPVCName :: "env \<Rightarrow> string \<Rightarrow> string \<Rightarrow> string res io" where
  "prepareVirtualDiskForExportAndGetPVCName E ns diskName = do {
     got \<leftarrow> getDisk E (ns, diskName);
     (case got of
        Inl err \<Rightarrow>
          ret (Inl (if IsNotFound err then Errorf ''VirtualDisk'' [Sentinel ErrTargetNotFound, err]
                    else Errorf ''failed to get VirtualDisk'' [err]))
      | Inr vd \<Rightarrow>
          if vd_targetClaim vd = []
          then ret (Inl (Errorf ''user VirtualDisk does not have a claim in status'' [Sentinel ErrTargetNotReady]))
          else
          thenE (wrapE ''failed to get PVC for user VirtualDisk'' (getPvc E (ns, vd_targetClaim vd))) (\<lambda>pvc.
          thenE (wrapE ''failed to ensure DataExportRequest annotations''
            (ensureAnnotationsOnPVC E pvc (map (\<lambda>k. (k, ''true'')) dataExportRequestAnnotationKeys))) (\<lambda>_.
          ret (Inr (vd_targetClaim vd))))) }"

definition isVDReady :: "virtualDisk \<Rightarrow> condition \<Rightarrow> bool" where
  "isVDReady vd c =
     (if m_generation (vd_meta vd) \<noteq> c_observedGeneration c then False
      else (case c_status c of
              ConditionTrue \<Rightarrow> True
            | ConditionFalse \<Rightarrow> c_reason c = ''Exporting''
            | ConditionUnknown \<Rightarrow> False))"

text \<open>The loop over the conditions: a later Ready condition decides, an InUse condition is never undone.\<close>

fun diskFlags :: "virtualDisk \<Rightarrow> condition list \<Rightarrow> bool \<Rightarrow> bool \<Rightarrow> bool \<times> bool" where
  "diskFlags vd [] isReady isReadyForExport = (isReady, isReadyForExport)"
| "diskFlags vd (c # cs) isReady isReadyForExport =
     diskFlags vd cs
       (if c_type c = ''Ready'' then isVDReady vd c else isReady)
       (isReadyForExport \<or>
        c_type c = ''InUse'' \<and> c_status c = ConditionTrue \<and> c_reason c = ''UsedForDataExport'' \<and>
        m_generation (vd_meta vd) = c_observedGeneration c)"

definition diskReadyOnce :: "env \<Rightarrow> nsname \<Rightarrow> unit option res io" where
  "diskReadyOnce E n =
     thenE (wrapE ''failed to get user VirtualDisk while checking readiness'' (getDisk E n)) (\<lambda>vd.
     ret (Inr (case diskFlags vd (vd_conditions vd) False False of
                 (isReady, isReadyForExport) \<Rightarrow> if isReady \<and> isReadyForExport then Some () else None)))"

definition isVirtualDiskReadyForExport :: "env \<Rightarrow> exportConfig \<Rightarrow> string \<Rightarrow> string \<Rightarrow> bool res io" where
  "isVirtualDiskReadyForExport E X ns diskName =
     thenE (wrapE ''failed to check if user VirtualDisk is ready for export''
       (PollUntilContextTimeout (x_diskPolls X) (diskReadyOnce E (ns, diskName)))) (\<lambda>_.
     ret (Inr True))"

definition getExportPVCFromUserVirtualDisk ::
  "env \<Rightarrow> exportConfig \<Rightarrow> dataExport \<Rightarrow> names \<Rightarrow>
     (persistentVolumeClaim \<times> persistentVolume \<times> string) res io" where
  "getExportPVCFromUserVirtualDisk E X de nm =
     (let ns = m_namespace (de_meta de) in
      thenE (wrapE ''failed to prepare user VirtualDisk for export''
        (prepareVirtualDiskForExportAndGetPVCName E ns (de_targetName de))) (\<lambda>userPVCName.
      thenE (wrapE ''failed to check if VirtualDisk is ready for export''
        (isVirtualDiskReadyForExport E X ns (de_targetName de))) (\<lambda>isReady.
      if \<not> isReady then ret (Inl (Errorf ''VirtualDisk is not ready for export'' [Sentinel ErrTargetNotReady]))
      else
      thenE (getExportPVCFromUserPVC E X ns userPVCName (ExportPVCName nm) (m_name (de_meta de))) (\<lambda>x.
      ret (Inr (fst x, snd x, userPVCName))))))"

definition resolveUserPVCName :: "env \<Rightarrow> dataExport \<Rightarrow> string \<Rightarrow> string res io" where
  "resolveUserPVCName E de targetKindShort =
     (if targetKindShort = KindPVCShort then ret (Inr (de_targetName de))
      else if targetKindShort = KindVirtualDiskShort then
        thenE (wrapE ''failed to get VirtualDisk'' (getDisk E (m_namespace (de_meta de), de_targetName de))) (\<lambda>vd.
        if vd_targetClaim vd = [] then ret (Inl (Errorf ''VirtualDisk has no PVC name in status'' []))
        else ret (Inr (vd_targetClaim vd)))
      else ret (Inr []))"

section \<open>Orphans\<close>

definition deleteOrphanedDeployment :: "env \<Rightarrow> exportConfig \<Rightarrow> string \<Rightarrow> string \<Rightarrow> unit res io" where
  "deleteOrphanedDeployment E X short hash =
     (let n = (dm_controllerNamespace X, DeployNameForHash short hash) in
      thenE (optional (wrapE ''failed to get deployment'' (getDeploymentObj E n))) (\<lambda>found.
      case found of
        None \<Rightarrow> ret (Inr ())
      | Some deploy \<Rightarrow>
          if index_str (m_labels (dep_meta deploy)) LabelApplicationKey \<noteq> LabelDataExportValue
          then ret (Inl (Errorf ''deployment is not managed by data-exporter'' []))
          else wrapE ''failed to delete orphaned deployment'' (discard (DeleteDeployment E n))))"

definition deleteOrphanedExportPVCs :: "env \<Rightarrow> exportConfig \<Rightarrow> string \<Rightarrow> string \<Rightarrow> unit res io" where
  "deleteOrphanedExportPVCs E X short hash =
     (let n = (dm_controllerNamespace X, ExportPVCNameForHash short hash) in
      thenE (optional (wrapE ''failed to get export PVC'' (getPvc E n))) (\<lambda>found.
      case found of
        None \<Rightarrow> ret (Inr ())
      | Some exportPVC \<Rightarrow>
          if index_str (m_labels (pvc_meta exportPVC)) LabelApplicationKey \<noteq> LabelDataExportValue
          then ret (Inl (Errorf ''export PVC is not managed by data-exporter'' []))
          else wrapE ''failed to delete orphaned exportPVC''
                 (ignoreNotFound (exec E (Delete KPersistentVolumeClaim (keyOf (pvc_meta exportPVC)))))))"

definition recoverOrphanedUserPVC ::
  "env \<Rightarrow> exportConfig \<Rightarrow> persistentVolume \<Rightarrow> string \<Rightarrow> string \<Rightarrow> string \<Rightarrow> unit res io" where
  "recoverOrphanedUserPVC E X pv userNS userPVCName dataExportName =
     (if userNS = [] \<and> userPVCName = []
      then wrapE ''failed to remove storage manager annotations and labels from PV'' (restoreOriginalPVState E pv)
      else wrapE ''failed to recover user PVC'' (recoverUserPVC E X userNS userPVCName dataExportName (Some pv)))"

text \<open>The first volume of the list that carries the export's name is the only one handled.\<close>

definition recoverOrphan :: "env \<Rightarrow> exportConfig \<Rightarrow> string \<Rightarrow> string \<Rightarrow> persistentVolume \<Rightarrow> unit res io" where
  "recoverOrphan E X deNS deName pv =
     (case parsePVRecoveryInfo E pv deNS deName of
        Inl _ \<Rightarrow> wrapE ''failed to label inconsistent PV'' (handleInconsistentPV E X pv)
      | Inr info \<Rightarrow>
          thenE (wrapE ''failed to delete orphaned deployment''
            (deleteOrphanedDeployment E X (ri_targetKindShort info) (ri_hashSuffix info))) (\<lambda>_.
          thenE (wrapE ''failed to delete orphaned export PVCs''
            (deleteOrphanedExportPVCs E X (ri_targetKindShort info) (ri_hashSuffix info))) (\<lambda>_.
          wrapE ''failed to recover user PVC''
            (recoverOrphanedUserPVC E X pv (ri_userPVCNamespace info) (ri_userPVCName info) deName))))"

fun orphanLoop :: "env \<Rightarrow> exportConfig \<Rightarrow> string \<Rightarrow> string \<Rightarrow> persistentVolume list \<Rightarrow> unit res io" where
  "orphanLoop E X deNS deName [] = ret (Inr ())"
| "orphanLoop E X deNS deName (pv # pvs) =
     (if index_str (m_annotations (pv_meta pv)) AnnotationStorageManagerNameKey \<noteq> deName \<or>
         index_str (m_annotations (pv_meta pv)) AnnotationStorageManagerNamespaceKey \<noteq> deNS
      then orphanLoop E X deNS deName pvs
      else recoverOrphan E X deNS deName pv)"

definition removeOrphanResources :: "env \<Rightarrow> exportConfig \<Rightarrow> string \<Rightarrow> string \<Rightarrow> unit res io" where
  "removeOrphanResources E X deNS deName =
     thenE (wrapE ''failed to list PVs for orphan cleanup''
       (listReq E (ListLabeled KPersistentVolume LabelPVDataExporter ''true'') decPv)) (\<lambda>pvs.
     orphanLoop E X deNS deName pvs)"

end
