(* ===== verification/Server_Pod.thy ===== *)
theory Server_Pod
  imports Repository Data_Export
begin

text \<open>
  The controller of the server pods, \<open>server/server_pod.go\<close> of the data manager: it copies the
  address of a running pod into the status of the DataExport or DataImport the pod serves.
\<close>

definition getOperationFromPod :: "pod \<Rightarrow> string res" where
  "getOperationFromPod p =
     (let operation = index_str (m_labels (pod_meta p)) LabelApplicationKey in
      if operation = LabelDataExportValue then Inr OperationExport
      else if operation = LabelDataImportValue then Inr OperationImport
      else Inl (Errorf (''unknown operation: '' @ operation) []))"

definition serverURL :: "pod \<Rightarrow> string" where
  "serverURL p = ''https://'' @ pod_ip p @ '':8085/''"

definition withURL :: "dataManager \<Rightarrow> string \<Rightarrow> dataManager" where
  "withURL d url = mgrSetStatus d ((mgrStatus d)\<lparr>ds_url := url\<rparr>)"

definition podOwner :: "pod \<Rightarrow> nsname option" where
  "podOwner p =
     (let ann = m_annotations (pod_meta p) in
      if has_key ann AnnotationStorageManagerNamespaceKey \<and> has_key ann AnnotationStorageManagerNameKey
      then Some (index_str ann AnnotationStorageManagerNamespaceKey, index_str ann AnnotationStorageManagerNameKey)
      else None)"

definition updateURL :: "env \<Rightarrow> pod \<Rightarrow> nsname \<Rightarrow> ctrlResult res io" where
  "updateURL E p owner =
     thenE (wrapE ''failed to get operation mode'' (ret (getOperationFromPod p))) (\<lambda>operation. do {
       r \<leftarrow> GetDataManager E owner operation;
       (case r of
          Inl e \<Rightarrow>
            if IsNotFound e then ret (Inr emptyResult)
            else ret (Inl (Errorf ''failed to get DataManager resource from cache'' [e]))
        | Inr d \<Rightarrow>
            if ds_url (mgrStatus d) \<noteq> serverURL p
            then thenE (wrapE ''failed update URL for DataManager pod''
                   (exec E (StatusUpdate (mgrObj (withURL d (serverURL p)))))) (\<lambda>_. ret (Inr emptyResult))
            else ret (Inr emptyResult)) })"

definition podReconcile :: "env \<Rightarrow> dmConfig \<Rightarrow> nsname \<Rightarrow> ctrlResult res io" where
  "podReconcile E C req =
     (if fst req \<noteq> dm_controllerNamespace C then ret (Inr emptyResult)
      else do {
        got \<leftarrow> getObj E KPod decPod req;
        (case got of
           Inl e \<Rightarrow>
             if IsNotFound e then ret (Inr emptyResult)
             else ret (Inl (Errorf ''failed to get pod from cache'' [e]))
         | Inr p \<Rightarrow>
             if pod_phase p \<noteq> ''Running'' then ret (Inr emptyResult)
             else (case podOwner p of
                     None \<Rightarrow> ret (Inr emptyResult)
                   | Some owner \<Rightarrow> updateURL E p owner)) })"

section \<open>What it may write\<close>

text \<open>
  The only write is the address of a running pod of the controller's namespace, into the status
  of the object the pod's annotations name, of the kind its label names, as it was read.
\<close>

definition podAllowed :: "dmConfig \<Rightarrow> nsname \<Rightarrow> hist \<Rightarrow> req \<Rightarrow> bool" where
  "podAllowed C n h r \<longleftrightarrow> (\<exists>k m. r = Get k m) \<or>
     (\<exists>p owner d. fst n = dm_controllerNamespace C \<and> (Get KPod n, RObj (OPod p)) \<in> set h \<and>
        pod_phase p = ''Running'' \<and> podOwner p = Some owner \<and>
        (getOperationFromPod p = Inr OperationExport \<and> (Get KDataExport owner, RObj (mgrObj d)) \<in> set h \<or>
         getOperationFromPod p = Inr OperationImport \<and> (Get KDataImport owner, RObj (mgrObj d)) \<in> set h) \<and>
        r = StatusUpdate (mgrObj (withURL d (serverURL p))))"

lemma podAllowed_get [simp]: "podAllowed C n h (Get k m)"
  by (simp add: podAllowed_def)

lemma operation_cases: "getOperationFromPod p = Inr op \<Longrightarrow> op = OperationExport \<or> op = OperationImport"
  by (auto simp: getOperationFromPod_def Let_def split: if_splits)

lemma updateURL_kept:
  assumes "obeys (podAllowed C n) h" "(Get KPod n, RObj (OPod p)) \<in> set h" "fst n = dm_controllerNamespace C"
    and "pod_phase p = ''Running''" "podOwner p = Some owner"
  shows "wp (updateURL E p owner) (\<lambda>_ h'. obeys (podAllowed C n) h') h"
proof (cases "getOperationFromPod p")
  case (Inl e)
  with assms(1) show ?thesis by (simp add: updateURL_def wp_rules)
next
  case (Inr op)
  have url: "podAllowed C n (logged h (Get k owner) (RObj (mgrObj d))) (StatusUpdate (mgrObj (withURL d (serverURL p))))"
    if "k = KDataExport \<and> op = OperationExport \<or> k = KDataImport \<and> op = OperationImport" for k d
    unfolding podAllowed_def
    by (rule disjI2, rule exI [of _ p], rule exI [of _ owner], rule exI [of _ d]) (use that assms(2-5) Inr in auto)
  have send: "wp (thenE (wrapE msg (exec E (StatusUpdate (mgrObj (withURL d (serverURL p)))))) (\<lambda>_. ret (Inr x)))
      (\<lambda>_ h'. obeys (podAllowed C n) h') (logged h (Get k owner) (RObj (mgrObj d)))"
    if "k = KDataExport \<and> op = OperationExport \<or> k = KDataImport \<and> op = OperationImport" for k d msg and x :: ctrlResult
    using url [OF that] assms(1) by (auto simp: wp_rules intro!: wp_exec split: sum.splits)
  from operation_cases [OF Inr] send [where k = KDataExport and d = "MgrExport e" for e]
    send [where k = KDataImport and d = "MgrImport i" for i] assms(1)
  show ?thesis
    by (elim disjE) (simp_all add: updateURL_def GetDataManager_def Inr wp_rules OperationExport_def OperationImport_def,
      auto intro!: wp_getObj simp: wp_rules)
qed

lemma podReconcile_kept: "wp (podReconcile E C req) (\<lambda>_ h'. obeys (podAllowed C req) h') []"
  unfolding podReconcile_def
  by (auto simp: wp_rules intro!: wp_getObj updateURL_kept [where n = req] split: option.splits)

text \<open>
  The controller of the pods and the data controllers share the status without losing each
  other's fields: whatever the API server answers, the pod controller writes the address of a
  pod it read and keeps every other field of the status it read.
\<close>

theorem pod_writes_only_url:
  assumes "snd (run_state (podReconcile E C req) []) = s1 @ (r, a) # s2" "\<forall>k n. r \<noteq> Get k n"
  shows "\<exists>p d k owner. (Get KPod req, RObj (OPod p)) \<in> set s1 \<and> podOwner p = Some owner \<and>
    (Get k owner, RObj (mgrObj d)) \<in> set s1 \<and>
    r = StatusUpdate (mgrObj (mgrSetStatus d ((mgrStatus d)\<lparr>ds_url := ''https://'' @ pod_ip p @ '':8085/''\<rparr>)))"
proof -
  have "podAllowed C req s1 r"
    using podReconcile_kept [of E C req] unfolding wp_run assms(1) by (rule obeys_split)
  with assms(2) show ?thesis
    unfolding podAllowed_def withURL_def serverURL_def by blast
qed

end
