(* ===== verification/Populator.thy ===== *)
theory Populator
  imports Server_Pod Data_Import_Props
begin

text \<open>
  The volume populator, \<open>src/images/populator/cmd/main.go\<close>: the three functions it gives to the
  populator machinery, which calls them with the claim to populate, the prime claim it made in
  the namespace of the controller, and the DataImport that is the data source. The machinery and
  the conversion of its untyped object are not code of this repository: the result of the
  conversion is a field of the parameters.
\<close>

section \<open>The functions of the provider\<close>

record populatorParams =
  pp_pvcPrime :: nsname
  pp_dataImport :: "dataImport res"

definition getDataImportAndNames :: "env \<Rightarrow> populatorParams \<Rightarrow> (dataImport \<times> names) res" where
  "getDataImportAndNames E params =
     (case pp_dataImport params of
        Inl err \<Rightarrow> Inl err
      | Inr di \<Rightarrow> Inr (di, NewNames E KindPVC (m_name (di_meta di)) (m_namespace (di_meta di)) (m_name (di_meta di))))"

definition importServerPod :: "container \<Rightarrow> string \<Rightarrow> podSpec" where
  "importServerPod server pvcName =
     \<lparr>ps_serviceAccountName = ''data-exporter'', ps_imagePullSecrets = [''storage-foundation-module-registry''],
      ps_containers = [server], ps_volumes = MakeVolumes ''pvc'' pvcName False, ps_restartPolicy = []\<rparr>"

definition ensureDeployment :: "env \<Rightarrow> string \<Rightarrow> names \<Rightarrow> populatorParams \<Rightarrow> dataImport \<Rightarrow> unit res io" where
  "ensureDeployment E controllerNamespace nm params di =
     (let dataImportName = (m_namespace (di_meta di), m_name (di_meta di)) in
      thenE (getPvc E (pp_pvcPrime params)) (\<lambda>pvc.
      case pvc_volumeMode pvc of
        None \<Rightarrow> ret (Inl panicErr)
      | Some volumeMode \<Rightarrow>
          thenE (MakeServerContainer E
            \<lparr>scc_configMapName = (controllerNamespace, ''data-exporter-image''),
             scc_resourceName = dataImportName, scc_volumeName = ''pvc'', scc_volumeMode = volumeMode,
             scc_ttl = di_ttl di, scc_serverMode = ''import'', scc_names = nm,
             scc_controllerNamespace = controllerNamespace\<rparr>) (\<lambda>server.
          EnsureDeployment E
            \<lparr>dc_podSpec = importServerPod server (snd (pp_pvcPrime params)),
             dc_deploymentName = (controllerNamespace, DeployName nm),
             dc_resourceName = dataImportName,
             dc_labelApplicationValue = LabelDataImportValue\<rparr>)))"

definition populateFn :: "env \<Rightarrow> string \<Rightarrow> populatorParams \<Rightarrow> unit res io" where
  "populateFn E controllerNamespace params =
     (case getDataImportAndNames E params of
        Inl err \<Rightarrow> ret (Inl err)
      | Inr (di, nm) \<Rightarrow> ensureDeployment E controllerNamespace nm params di)"

definition populateCompleteFn :: "env \<Rightarrow> string \<Rightarrow> populatorParams \<Rightarrow> bool res io" where
  "populateCompleteFn E controllerNamespace params =
     (case getDataImportAndNames E params of
        Inl err \<Rightarrow> ret (Inl err)
      | Inr (di, nm) \<Rightarrow>
          (let conditions = ds_conditions (di_status di) in
           if (case GetCondition conditions ConditionUploadFinished of
                 None \<Rightarrow> False | Some c \<Rightarrow> c_status c = ConditionTrue)
           then ret (Inr True)
           else if (case GetCondition conditions ConditionReady of
                      None \<Rightarrow> False | Some c \<Rightarrow> c_reason c = ReasonDeleted \<or> c_reason c = ReasonExpired)
           then ret (Inr True)
           else thenE (ensureDeployment E controllerNamespace nm params di) (\<lambda>_. ret (Inr False))))"

definition populateCleanupFn :: "env \<Rightarrow> string \<Rightarrow> populatorParams \<Rightarrow> unit res io" where
  "populateCleanupFn E controllerNamespace params =
     (case getDataImportAndNames E params of
        Inl err \<Rightarrow> ret (Inl err)
      | Inr (di, nm) \<Rightarrow>
          thenE (DeleteDeployment E (controllerNamespace, DeployName nm)) (\<lambda>_. ret (Inr ())))"

section \<open>What it deploys\<close>

text \<open>
  The workload of the prime claim: one writable volume on it, a container that runs the import
  server for the DataImport, pods that the controller of the server pods assigns to that
  DataImport, and labels that the headless Service of the published import selects.
\<close>

definition servesImport :: "env \<Rightarrow> dmConfig \<Rightarrow> populatorParams \<Rightarrow> dataImport \<Rightarrow> deploymentSpec \<Rightarrow> bool" where
  "servesImport E C params di spec \<longleftrightarrow>
     (let t = dsp_template spec; owner = (m_namespace (di_meta di), m_name (di_meta di)) in
      dsp_replicas spec = Some 1 \<and>
      ps_volumes (pt_spec t) = [\<lparr>vol_name = ''pvc'', vol_claim = Some (snd (pp_pvcPrime params), False)\<rparr>] \<and>
      (\<exists>c. ps_containers (pt_spec t) = [c] \<and>
        set [''--operation=import'', ''--port=8085'', ''--data-export-namespace='' @ fst owner,
             ''--data-export-name='' @ snd owner] \<subseteq> set (ct_args c)) \<and>
      (\<forall>p. m_labels (pod_meta p) = pt_labels t \<and> m_annotations (pod_meta p) = pt_annotations t \<longrightarrow>
        getOperationFromPod p = Inr OperationImport \<and> podOwner p = Some owner) \<and>
      set (ssp_selector (svc_spec (makeHeadlessService
        \<lparr>hs_serviceName = (dm_controllerNamespace C, HeadlessServiceName (importNames E di)),
         hs_deploymentName = DeployName (importNames E di), hs_labelApplicationValue = LabelDataImportValue\<rparr>)))
        \<subseteq> set (pt_labels t))"

definition populateAllowed :: "env \<Rightarrow> dmConfig \<Rightarrow> populatorParams \<Rightarrow> dataImport \<Rightarrow> hist \<Rightarrow> req \<Rightarrow> bool" where
  "populateAllowed E C params di h r \<longleftrightarrow> \<not> isWrite r \<or>
     (\<exists>d. servesImport E C params di (dep_spec d) \<and>
        (r = Create (ODeployment d) \<and> ownedBy LabelDataImportValue (keyOf (di_meta di)) (dep_meta d) \<and>
           (m_namespace (dep_meta d), m_name (dep_meta d)) = (dm_controllerNamespace C, DeployName (importNames E di)) \<or>
         r = Update (ODeployment d) \<and>
           (\<exists>old. (Get KDeployment (dm_controllerNamespace C, DeployName (importNames E di)),
              RObj (ODeployment old)) \<in> set h \<and> dep_meta d = dep_meta old)))"

lemma populateAllowed_get [simp]: "populateAllowed E C params di h (Get k n)"
  by (simp add: populateAllowed_def)

lemma importServer_serves:
  assumes "set [''--operation=import'', ''--port=8085'', ''--data-export-namespace='' @ m_namespace (di_meta di),
    ''--data-export-name='' @ m_name (di_meta di)] \<subseteq> set (ct_args server)"
  shows "servesImport E C params di (dep_spec (makeDeployment
    \<lparr>dc_podSpec = importServerPod server (snd (pp_pvcPrime params)),
     dc_deploymentName = (ns, DeployName (importNames E di)),
     dc_resourceName = (m_namespace (di_meta di), m_name (di_meta di)),
     dc_labelApplicationValue = LabelDataImportValue\<rparr>))"
  using assms
  by (simp add: servesImport_def makeDeployment_def importServerPod_def MakeVolumes_def Let_def
      managerAnnotations_def podOwner_def getOperationFromPod_def index_str_def has_key_def
      LabelStorageManagerDeploymentNameKey_def LabelDataImportValue_def LabelDataExportValue_def
      makeHeadlessService_def)

lemma EnsureDeployment_kept:
  assumes "obeys (populateAllowed E C params di) h"
    and "dc_deploymentName cfg = (dm_controllerNamespace C, DeployName (importNames E di))"
    and "servesImport E C params di (dep_spec (makeDeployment cfg))"
    and "ownedBy LabelDataImportValue (keyOf (di_meta di)) (dep_meta (makeDeployment cfg))"
  shows "wp (EnsureDeployment E cfg) (\<lambda>_ h'. obeys (populateAllowed E C params di) h') h"
proof -
  have "populateAllowed E C params di g (Create (ODeployment (makeDeployment cfg)))" for g
    unfolding populateAllowed_def using assms(2-4)
    by (intro disjI2 exI [of _ "makeDeployment cfg"]) (simp, simp add: makeDeployment_def Let_def)
  moreover have "populateAllowed E C params di
      (logged h (Get KDeployment (dc_deploymentName cfg)) (RObj (ODeployment old)))
      (Update (ODeployment (old\<lparr>dep_spec := dep_spec (makeDeployment cfg)\<rparr>)))" for old
    unfolding populateAllowed_def using assms(2,3)
    by (intro disjI2 exI [of _ "old\<lparr>dep_spec := dep_spec (makeDeployment cfg)\<rparr>"]) auto
  ultimately show ?thesis
    using assms(1) unfolding EnsureDeployment_def handleExistingDeployment_def
    by (auto simp: wp_rules intro!: wp_getObj wp_create_or wp_update_or)
qed

lemma server_args:
  assumes "obeys (populateAllowed E C params di) h"
    and "scc_serverMode cfg = ''import''" "scc_resourceName cfg = (m_namespace (di_meta di), m_name (di_meta di))"
  shows "wp (MakeServerContainer E cfg) (\<lambda>r h'. obeys (populateAllowed E C params di) h' \<and>
    (\<forall>c. r = Inr c \<longrightarrow> set [''--operation=import'', ''--port=8085'',
      ''--data-export-namespace='' @ m_namespace (di_meta di), ''--data-export-name='' @ m_name (di_meta di)]
      \<subseteq> set (ct_args c))) h"
  unfolding MakeServerContainer_def GetImage_def Let_def
  using assms by (auto simp: wp_rules intro!: wp_getObj split: option.splits)

lemma ensureDeployment_kept:
  assumes "obeys (populateAllowed E C params di) h"
  shows "wp (ensureDeployment E (dm_controllerNamespace C) (importNames E di) params di)
    (\<lambda>_ h'. obeys (populateAllowed E C params di) h') h"
proof -
  have "wp (thenE (MakeServerContainer E cfg) (\<lambda>server. EnsureDeployment E
      \<lparr>dc_podSpec = importServerPod server (snd (pp_pvcPrime params)),
       dc_deploymentName = (dm_controllerNamespace C, DeployName (importNames E di)),
       dc_resourceName = (m_namespace (di_meta di), m_name (di_meta di)),
       dc_labelApplicationValue = LabelDataImportValue\<rparr>)) (\<lambda>_ h'. obeys (populateAllowed E C params di) h') g"
    if "obeys (populateAllowed E C params di) g" "scc_serverMode cfg = ''import''"
      "scc_resourceName cfg = (m_namespace (di_meta di), m_name (di_meta di))" for cfg g
    unfolding wp_thenE
    by (rule wp_mono [OF server_args [OF that]])
      (auto intro!: EnsureDeployment_kept importServer_serves simp: keyOf_def simp del: set_simps split: sum.splits)
  then show ?thesis
    unfolding ensureDeployment_def Let_def wp_thenE [of "getPvc E n" for n]
    by (intro wp_getObj) (simp_all add: assms wp_return split: option.split)
qed

lemma getNames_import [simp]:
  "pp_dataImport params = Inr di \<Longrightarrow> getDataImportAndNames E params = Inr (di, importNames E di)"
  by (simp add: getDataImportAndNames_def importNames_def)

lemma populate_allowed:
  assumes "pp_dataImport params = Inr di"
    and "p @ (r, a) # s = snd (run_state (populateFn E (dm_controllerNamespace C) params) []) \<or>
         p @ (r, a) # s = snd (run_state (populateCompleteFn E (dm_controllerNamespace C) params) [])"
  shows "populateAllowed E C params di p r"
proof -
  note kept = ensureDeployment_kept [of E C params di "[]", simplified]
  have "wp (populateFn E (dm_controllerNamespace C) params) (\<lambda>_ h. obeys (populateAllowed E C params di) h) []"
    using assms(1) kept by (simp add: populateFn_def)
  moreover have "wp (populateCompleteFn E (dm_controllerNamespace C) params) (\<lambda>_ h. obeys (populateAllowed E C params di) h) []"
    using assms(1) wp_mono [OF kept] by (auto simp: populateCompleteFn_def wp_rules Let_def split: sum.splits)
  ultimately show ?thesis
    using assms(2) unfolding wp_run by (metis obeys_split)
qed

text \<open>
  C17. Whatever the API server answers, the only writes by which the populator starts or keeps a
  population create or update one Deployment: the one under the name that the DataImport
  controller watches and waits for. Its pods write to the prime claim, run the import server for
  that DataImport, are assigned to it by the controller of the server pods, and are selected by
  the Service through which the import is published.
\<close>

theorem populator_serves_import:
  assumes "pp_dataImport params = Inr di"
    and "p @ (r, a) # s = snd (run_state (populateFn E (dm_controllerNamespace C) params) []) \<or>
         p @ (r, a) # s = snd (run_state (populateCompleteFn E (dm_controllerNamespace C) params) [])"
    and "isWrite r"
  shows "\<exists>d. servesImport E C params di (dep_spec d) \<and>
    (r = Create (ODeployment d) \<and>
       (m_namespace (dep_meta d), m_name (dep_meta d)) = (dm_controllerNamespace C, DeployName (importNames E di)) \<or>
     r = Update (ODeployment d) \<and>
       (\<exists>old. (Get KDeployment (dm_controllerNamespace C, DeployName (importNames E di)), RObj (ODeployment old)) \<in> set p \<and>
          dep_meta d = dep_meta old))"
  using populate_allowed [OF assms(1,2)] assms(3) unfolding populateAllowed_def by blast

text \<open>An import whose prime claim exists and whose Deployment does not exist yet.\<close>

definition exParams :: "dataImport res \<Rightarrow> populatorParams" where
  "exParams di = \<lparr>pp_pvcPrime = (''d8'', ''prime''), pp_dataImport = di\<rparr>"

fun popSrv :: "hist \<Rightarrow> req \<Rightarrow> resp" where
  "popSrv h (Get k n) =
     (case k of
        KPersistentVolumeClaim \<Rightarrow> RObj (OPvc exScratch)
      | KConfigMap \<Rightarrow> RObj (OConfigMap \<lparr>cm_meta = emptyMeta, cm_data = [(''image'', ''img'')]\<rparr>)
      | _ \<Rightarrow> RErr NotFound)"
| "popSrv h r = ROk"

theorem populator_serves_import_witness:
  "\<exists>p d s. snd (run_state (populateFn (ref_env popSrv (\<lambda>_. 0)) ''d8'' (exParams (Inr exImport))) []) =
       p @ (Create (ODeployment d), ROk) # s \<and>
     servesImport (ref_env popSrv (\<lambda>_. 0)) exConfig (exParams (Inr exImport)) exImport (dep_spec d)"
proof -
  let ?E = "ref_env popSrv (\<lambda>_. 0)"
  have ns: "dm_controllerNamespace exConfig = ''d8''" by (simp add: exConfig_def)
  obtain p d where run: "snd (run_state (populateFn ?E ''d8'' (exParams (Inr exImport))) []) =
      p @ (Create (ODeployment d), ROk) # []"
    by (simp add: populateFn_def getDataImportAndNames_def exParams_def ensureDeployment_def Let_def
      MakeServerContainer_def GetImage_def EnsureDeployment_def optional_def create_or_def exec_def
      thenE_def getObj_def call_def logged_def exScratch_def respErr_def)
  have "pp_dataImport (exParams (Inr exImport)) = Inr exImport" by (simp add: exParams_def)
  from populator_serves_import [OF this disjI1 [OF run [symmetric, folded ns]]] run show ?thesis by auto
qed

section \<open>The end of an import ends the population\<close>

definition populationOver :: "condition list \<Rightarrow> bool" where
  "populationOver cs \<longleftrightarrow>
     (\<exists>c. GetCondition cs ConditionReady = Some c \<and> (c_reason c = ReasonDeleted \<or> c_reason c = ReasonExpired))"




lemma wp_any: "(\<And>x s'. Q x s') \<Longrightarrow> wp m Q s"
  by (simp add: wp_def split: prod.splits)

text \<open>The rule that every status written for the import ends the population.\<close>

definition endRule :: "hist \<Rightarrow> req \<Rightarrow> bool" where
  "endRule h r \<longleftrightarrow> (\<forall>w. r = StatusUpdate (ODataImport w) \<longrightarrow> populationOver (importConditions w))"

lemma endRule_free [simp]:
  "endRule h (Get k n)" "endRule h (Create x)" "endRule h (Update x)" "endRule h (Delete k n)"
  by (simp_all add: endRule_def)














end
