(* ===== verification/Data_Export_Reconcile.thy ===== *)
theory Data_Export_Reconcile
  imports Data_Export
begin

text \<open>
  The reconciler of \<open>src/images/data-manager-controller/internal/controllers/data-export\<close>
  (\<open>data_export_resource.go\<close>): the export Deployment and the wait for its server, the published
  endpoint, provisioning, teardown, phases, and the deferred status write.
\<close>

section \<open>The object in memory\<close>

type_synonym 'a eres = "dataExport \<times> 'a res"

definition updExport :: "(dataExportImportStatus \<Rightarrow> dataExportImportStatus) \<Rightarrow> dataExport \<Rightarrow> dataExport" where
  "updExport f de = de\<lparr>de_status := f (de_status de)\<rparr>"

abbreviation exportConditions :: "dataExport \<Rightarrow> condition list" where
  "exportConditions de \<equiv> ds_conditions (de_status de)"

definition setExportReady :: "env \<Rightarrow> cstatus \<Rightarrow> string \<Rightarrow> string \<Rightarrow> dataExport \<Rightarrow> dataExport" where
  "setExportReady E st reason msg de =
     updExport (\<lambda>s. s\<lparr>ds_conditions := SetStatusCondition E (ds_conditions s)
       \<lparr>c_type = ConditionReady, c_status = st, c_reason = reason, c_message = msg,
        c_observedGeneration = m_generation (de_meta de), c_lastTransitionTime = 0\<rparr>\<rparr>) de"

abbreviation ReasonValidationFailed :: string where "ReasonValidationFailed \<equiv> ''ValidationFailed''"
abbreviation ReasonPublishFailed :: string where "ReasonPublishFailed \<equiv> ''PublishFailed''"
abbreviation ReasonTargetNotFound :: string where "ReasonTargetNotFound \<equiv> ''TargetNotFound''"
abbreviation ReasonTargetNotReady :: string where "ReasonTargetNotReady \<equiv> ''TargetNotReady''"
abbreviation ReasonPVConflict :: string where "ReasonPVConflict \<equiv> ''PVConflict''"
abbreviation ReasonDeploymentFailed :: string where "ReasonDeploymentFailed \<equiv> ''DeploymentFailed''"

definition exportNames :: "env \<Rightarrow> dataExport \<Rightarrow> string \<Rightarrow> names" where
  "exportNames E de short =
     NewNamesFromShort E short (de_targetName de) (m_namespace (de_meta de)) (m_name (de_meta de))"

section \<open>The export Deployment\<close>

definition makeContainerList ::
  "string \<Rightarrow> string \<Rightarrow> string \<Rightarrow> string \<Rightarrow> string \<Rightarrow> string \<Rightarrow> names \<Rightarrow> container list" where
  "makeContainerList pvMode img ttl deNS deName controllerNS nm =
     (let args = [''--port=8085'', ''--ttl='' @ ttl, ''--data-export-namespace='' @ deNS,
            ''--data-export-name='' @ deName, ''--export-target-kind-short='' @ TargetKindShort nm,
            ''--export-target-name='' @ TargetName nm, ''--data-export-ca-secret-name='' @ CASecretName nm,
            ''--data-export-service-name='' @ HeadlessServiceName nm,
            ''--controller-namespace='' @ controllerNS];
          server = (\<lambda>mode path mounts devices.
            \<lparr>ct_name = ''data-exporter'', ct_image = img, ct_args = (''--mode='' @ mode) # (''--path='' @ path) # args,
             ct_env = [(''POD_IP'', ''status.podIP'')], ct_volumeMounts = mounts, ct_volumeDevices = devices,
             ct_ports = [(''http'', FileServerPort)], ct_runAsUser = Some 0\<rparr>) in
      if pvMode = ''Block''
      then [server ''block'' BlockMountPath [] [(''export-pvc'', BlockMountPath)]]
      else if pvMode = ''Filesystem''
      then [server ''filesystem'' FilesystemMountPath [(''export-pvc'', FilesystemMountPath)] []]
      else [])"

definition makeVolumeList :: "string \<Rightarrow> podVolume list" where
  "makeVolumeList pvcName = [\<lparr>vol_name = ''export-pvc'', vol_claim = Some (pvcName, True)\<rparr>]"

definition makeExportDeploySpec ::
  "string \<Rightarrow> dataExport \<Rightarrow> string \<Rightarrow> string \<Rightarrow> string \<Rightarrow> names \<Rightarrow> deploymentSpec" where
  "makeExportDeploySpec pvMode de img ttl controllerNS nm =
     (let labels = [(LabelApplicationKey, LabelDataExportValue),
                    (LabelStorageManagerDeploymentNameKey, DeployName nm)] in
      \<lparr>dsp_replicas = Some 1, dsp_matchLabels = labels,
       dsp_template = \<lparr>pt_labels = labels,
         pt_annotations = managerAnnotations (m_namespace (de_meta de), m_name (de_meta de)),
         pt_spec = \<lparr>ps_serviceAccountName = ''data-exporter'',
           ps_imagePullSecrets = [''storage-foundation-module-registry''],
           ps_containers = makeContainerList pvMode img ttl (m_namespace (de_meta de)) (m_name (de_meta de))
             controllerNS nm,
           ps_volumes = makeVolumeList (ExportPVCName nm), ps_restartPolicy = []\<rparr>\<rparr>\<rparr>)"

text \<open>The first condition that reports a failed rollout, with its message.\<close>

fun rolloutFailure :: "(string \<times> cstatus \<times> string) list \<Rightarrow> string option" where
  "rolloutFailure [] = None"
| "rolloutFailure ((t, st, msg) # cs) =
     (if t = ''Progressing'' \<and> st = ConditionFalse \<or> t = ''ReplicaFailure'' \<and> st = ConditionTrue
      then Some msg else rolloutFailure cs)"

definition launchedOnce :: "env \<Rightarrow> exportConfig \<Rightarrow> dataExport \<Rightarrow> string \<Rightarrow> dataExport option res io" where
  "launchedOnce E X de deployName = do {
     got \<leftarrow> getDeploymentObj E (dm_controllerNamespace X, deployName);
     (case got of
        Inl err \<Rightarrow> ret (if IsNotFound err then Inr None else Inl err)
      | Inr deploy \<Rightarrow>
          (case rolloutFailure (dep_conditions deploy) of
             Some msg \<Rightarrow> ret (Inl (Errorf msg [Sentinel ErrDeploymentFailed]))
           | None \<Rightarrow>
               (case dsp_replicas (dep_spec deploy) of
                  None \<Rightarrow> ret (Inl panicErr)
                | Some k \<Rightarrow>
                    if dep_availableReplicas deploy \<noteq> k then ret (Inr None)
                    else
                    thenE (getExport E (keyOf (de_meta de))) (\<lambda>fresh.
                    if ds_serverState (de_status fresh) \<noteq> ServerStateReady then ret (Inr None)
                    else ret (Inr (Some
                      (if (case FindStatusCondition E (exportConditions de) ConditionReady of
                             None \<Rightarrow> True | Some c \<Rightarrow> c_reason c \<noteq> ReasonExpired)
                       then setExportReady E ConditionTrue ReasonServerReady ''Server is ready and export started'' de
                       else de))))))) }"

definition waitingForDeploymentLaunch :: "env \<Rightarrow> exportConfig \<Rightarrow> dataExport \<Rightarrow> string \<Rightarrow> unit eres io" where
  "waitingForDeploymentLaunch E X de deployName = do {
     r \<leftarrow> PollUntilContextTimeout (x_launchPolls X) (launchedOnce E X de deployName);
     ret (case r of
            Inr de' \<Rightarrow> (de', Inr ())
          | Inl err \<Rightarrow>
              (de, Inl (if err = panicErr \<or> errorsIs err ErrDeploymentFailed then err
                        else Errorf ''timed out waiting for deployment'' [Sentinel ErrDeploymentFailed, err]))) }"

definition createDeployment ::
  "env \<Rightarrow> exportConfig \<Rightarrow> dataExport \<Rightarrow> string \<Rightarrow> names \<Rightarrow> unit eres io" where
  "createDeployment E X de pvMode nm =
     thenD (keepD de (wrapE ''failed to get ConfigMap from cache''
       (getObj E KConfigMap decConfigMap (dm_controllerNamespace X, ''data-exporter-image'')))) (\<lambda>de cm.
     thenD (keepD de (wrapE ''failed to create DataExport deployment'' (create_or E (ODeployment
       \<lparr>dep_meta = emptyMeta\<lparr>m_name := DeployName nm, m_namespace := dm_controllerNamespace X,
          m_labels := [(LabelApplicationKey, LabelDataExportValue)],
          m_annotations := managerAnnotations (m_namespace (de_meta de), m_name (de_meta de))\<rparr>,
        dep_spec = makeExportDeploySpec pvMode de (index_str (cm_data cm) ''image'') (de_ttl de)
          (dm_controllerNamespace X) nm,
        dep_readyReplicas = 0, dep_availableReplicas = 0, dep_conditions = []\<rparr>)))) (\<lambda>de _.
     waitingForDeploymentLaunch E X de (DeployName nm)))"

definition validateExportPVC ::
  "env \<Rightarrow> exportConfig \<Rightarrow> string \<Rightarrow> persistentVolumeClaim option res io" where
  "validateExportPVC E X exportPVCName =
     thenE (optional (wrapE ''failed to get exportPVC from cache''
       (getPvc E (dm_controllerNamespace X, exportPVCName)))) (\<lambda>found.
     case found of
       None \<Rightarrow> ret (Inr None)
     | Some p \<Rightarrow>
         if pvc_phase p = ''Lost'' then ret (Inl (Errorf ''export PVC already exists and has status Lost'' []))
         else ret (Inr (Some p)))"

definition validateExportDeploy ::
  "env \<Rightarrow> exportConfig \<Rightarrow> dataExport \<Rightarrow> string \<Rightarrow> deployment option eres io" where
  "validateExportDeploy E X de deployName =
     thenD (keepD de (optional (wrapE ''failed to get export deployment from cache''
       (getDeploymentObj E (dm_controllerNamespace X, deployName))))) (\<lambda>de found.
     case found of
       None \<Rightarrow> ret (de, Inr None)
     | Some deploy \<Rightarrow>
         thenD (waitingForDeploymentLaunch E X de deployName) (\<lambda>de _. ret (de, Inr (Some deploy))))"

section \<open>The published endpoint\<close>

definition exportCORSExposeHeaders :: string where
  "exportCORSExposeHeaders =
  ''Content-Disposition,Content-Range,Accept-Ranges,X-Attribute-Permissions,X-Attribute-Uid,X-Attribute-Gid,X-Attribute-Modtime,X-Attribute-Hash-Md5,X-LinkTarget''"

definition makePublishConfigs :: "exportConfig \<Rightarrow> dataExport \<Rightarrow> names \<Rightarrow> headlessServiceCfg \<times> ingressCfg" where
  "makePublishConfigs X de nm =
     (\<lparr>hs_serviceName = (dm_controllerNamespace X, HeadlessServiceName nm),
       hs_deploymentName = DeployName nm, hs_labelApplicationValue = LabelDataExportValue\<rparr>,
      \<lparr>ic_ingressName = (dm_controllerNamespace X, IngressResourceName nm),
       ic_serviceName = (dm_controllerNamespace X, HeadlessServiceName nm),
       ic_originIngress = (dm_originIngressNamespace X, ''kubernetes-api''),
       ic_targetSecretName = ''data-exporter-ingress-secret'',
       ic_path = ''/'' @ m_namespace (de_meta de) @ ''/'' @ TargetKindShort nm @ ''/'' @ TargetName nm,
       ic_corsAllowMethods = ''GET, HEAD, OPTIONS'',
       ic_corsAllowHeaders = CORSStandardAllowHeaders,
       ic_corsExposeHeaders = exportCORSExposeHeaders,
       ic_proxyBodySize = []\<rparr>)"

definition reconcilePublishResources :: "env \<Rightarrow> exportConfig \<Rightarrow> dataExport \<Rightarrow> names \<Rightarrow> unit eres io" where
  "reconcilePublishResources E X de nm =
     (case makePublishConfigs X de nm of (serviceCfg, ingressCfg) \<Rightarrow>
      if de_publish de then do {
        r \<leftarrow> EnsurePublicURL E (dm_lookupEnv X) (dm_pollAttempts X) serviceCfg ingressCfg;
        ret (case r of
               Inl err \<Rightarrow>
                 if err = panicErr then (de, Inl err)
                 else (setExportReady E ConditionFalse ReasonPublishFailed (errText err) de,
                       Inl (Errorf ''failed to ensure public URL'' [err]))
             | Inr publicURL \<Rightarrow> (updExport (\<lambda>s. s\<lparr>ds_publicURL := publicURL\<rparr>) de, Inr ())) }
      else
      thenD (keepD de (wrapE ''failed to delete public resources''
        (DeletePublicResources E (hs_serviceName serviceCfg) (ic_ingressName ingressCfg)))) (\<lambda>de _.
      ret (updExport (\<lambda>s. s\<lparr>ds_publicURL := []\<rparr>) de, Inr ())))"

definition ensureDeploymentTrackingAnnotations :: "env \<Rightarrow> deployment \<Rightarrow> dataExport \<Rightarrow> unit res io" where
  "ensureDeploymentTrackingAnnotations E deploy de =
     (let ann = m_annotations (dep_meta deploy); ns = m_namespace (de_meta de); n = m_name (de_meta de) in
      if index_str ann AnnotationStorageManagerNamespaceKey = ns \<and>
         index_str ann AnnotationStorageManagerNameKey = n then ret (Inr ())
      else wrapE ''failed to stamp tracking annotations'' (discard (exec E (Patch False (ODeployment deploy)
             (ODeployment (deploy\<lparr>dep_meta := (dep_meta deploy)\<lparr>m_annotations :=
               putAll (managerAnnotations (ns, n)) ann\<rparr>\<rparr>))))))"

definition getServerDeployment :: "env \<Rightarrow> exportConfig \<Rightarrow> string \<Rightarrow> deployment option res io" where
  "getServerDeployment E X deployName =
     optional (wrapE ''failed to get export deployment'' (getDeploymentObj E (dm_controllerNamespace X, deployName)))"

definition reconcilePodReadyResources :: "env \<Rightarrow> exportConfig \<Rightarrow> dataExport \<Rightarrow> names \<Rightarrow> unit eres io" where
  "reconcilePodReadyResources E X de nm =
     thenD (keepD de (getServerDeployment E X (DeployName nm))) (\<lambda>de found.
     case found of
       None \<Rightarrow>
         ret (setExportReady E ConditionFalse ReasonPending ''Server Deployment missing; re-provisioning'' de, Inr ())
     | Some deploy \<Rightarrow>
         thenD (keepD de (ensureDeploymentTrackingAnnotations E deploy de)) (\<lambda>de _.
         reconcilePublishResources E X de nm))"

section \<open>Provisioning\<close>

text \<open>The new export claim, with the volume and the name of the user's claim where they are known.\<close>

definition createExportPVC ::
  "env \<Rightarrow> exportConfig \<Rightarrow> dataExport \<Rightarrow> names \<Rightarrow>
     (persistentVolumeClaim \<times> persistentVolume option \<times> string) res io" where
  "createExportPVC E X de nm =
     (if TargetKindShort nm = KindPVCShort then
        thenE (wrapE ''failed to process user PVC export'' (getExportPVCFromUserPVC E X
          (m_namespace (de_meta de)) (de_targetName de) (ExportPVCName nm) (m_name (de_meta de)))) (\<lambda>x.
        ret (Inr (fst x, Some (snd x), de_targetName de)))
      else if TargetKindShort nm = KindVirtualDiskShort then
        thenE (wrapE ''failed to process user VirtualDisk export'' (getExportPVCFromUserVirtualDisk E X de nm)) (\<lambda>x.
        ret (Inr (fst x, Some (fst (snd x)), snd (snd x))))
      else if TargetKindShort nm = KindSnapshotShort then
        thenE (wrapE ''failed to process snapshot export'' (getExportPVCFromSnapshot E X de nm)) (\<lambda>p.
        ret (Inr (p, None, [])))
      else ret (Inl (Errorf ''unknown export kind'' [])))"

definition implementDataExportProviding ::
  "env \<Rightarrow> exportConfig \<Rightarrow> dataExport \<Rightarrow> names \<Rightarrow> unit eres io" where
  "implementDataExportProviding E X de nm =
     thenD (keepD de (validateExportPVC E X (ExportPVCName nm))) (\<lambda>de existing.
     thenD (keepD de (case existing of
       Some p \<Rightarrow> ret (Inr (p, None, []))
     | None \<Rightarrow> createExportPVC E X de nm)) (\<lambda>de x.
     thenD (keepD de (if snd (snd x) = []
       then wrapE ''failed to resolve user PVC name'' (resolveUserPVCName E de (TargetKindShort nm))
       else ret (Inr (snd (snd x))))) (\<lambda>de userPVCName.
     thenD (keepD de (ensureExportPVReady E X (fst (snd x)) (fst x) nm de userPVCName)) (\<lambda>de _.
     case pvc_volumeMode (fst x) of
       None \<Rightarrow> ret (de, Inl (Errorf ''export PVC has no volumeMode yet'' [Sentinel ErrTargetNotReady]))
     | Some volumeMode \<Rightarrow>
         thenD (validateExportDeploy E X (updExport (\<lambda>s. s\<lparr>ds_volumeMode := volumeMode\<rparr>) de) (DeployName nm)) (\<lambda>de deploy.
         thenD (if deploy = None then createDeployment E X de volumeMode nm else ret (de, Inr ())) (\<lambda>de _.
         reconcilePublishResources E X de nm))))))"

section \<open>Teardown\<close>

text \<open>An object that is read and then deleted; a missing one is left alone.\<close>

definition deleteFound ::
  "env \<Rightarrow> kind \<Rightarrow> (kobj \<Rightarrow> 'a option) \<Rightarrow> ('a \<Rightarrow> objmeta) \<Rightarrow> nsname \<Rightarrow> unit res io" where
  "deleteFound E k dec metaOf n =
     thenE (optional (wrapE ''failed to get from cache'' (getObj E k dec n))) (\<lambda>found.
     case found of
       None \<Rightarrow> ret (Inr ())
     | Some x \<Rightarrow> wrapE ''error deletion'' (discard (exec E (Delete k (keyOf (metaOf x))))))"

definition recoverTarget :: "env \<Rightarrow> exportConfig \<Rightarrow> dataExport \<Rightarrow> names \<Rightarrow> unit res io" where
  "recoverTarget E X de nm =
     (if TargetKindShort nm = KindPVCShort then
        wrapE ''failed to return PVC to user'' (recoverUserPVC E X (m_namespace (de_meta de))
          (de_targetName de) (m_name (de_meta de)) None)
      else if TargetKindShort nm = KindVirtualDiskShort then
        wrapE ''failed to clear virtual disk'' (recoverUserVirtualDisk E X de)
      else if TargetKindShort nm = KindSnapshotShort then
        wrapE ''failed to clear snapshot export VolumeRestoreRequest'' (deleteVolumeRestoreRequest E X nm)
      else ret (Inl (Errorf ''unknown export kind'' [])))"

definition clearDataExportProviding :: "env \<Rightarrow> exportConfig \<Rightarrow> dataExport \<Rightarrow> names \<Rightarrow> unit eres io" where
  "clearDataExportProviding E X de nm =
     (let ns = dm_controllerNamespace X in
      thenD (keepD de (deleteFound E KDeployment decDeployment dep_meta (ns, DeployName nm))) (\<lambda>de _.
      thenD (keepD de (deleteFound E KPersistentVolumeClaim decPvc pvc_meta (ns, ExportPVCName nm))) (\<lambda>de _.
      thenD (keepD de (recoverTarget E X de nm)) (\<lambda>de _.
      thenD (keepD de (DeletePublicResources E (ns, HeadlessServiceName nm) (ns, IngressResourceName nm))) (\<lambda>de _.
      thenD (keepD de (deleteFound E KSecret decSecret sec_meta (ns, CASecretName nm))) (\<lambda>de _.
      ret (de\<lparr>de_meta := (de_meta de)\<lparr>m_finalizers := []\<rparr>\<rparr>, Inr ())))))))"

section \<open>Phase and status\<close>

definition isDataExportExpired :: "env \<Rightarrow> dataExport \<Rightarrow> bool" where
  "isDataExportExpired E de =
     (if ds_serverState (de_status de) = ServerStateIdleExpired then True
      else (case FindStatusCondition E (exportConditions de) ConditionReady of
              None \<Rightarrow> False
            | Some ready \<Rightarrow> c_status ready = ConditionFalse \<and> c_reason ready = ReasonExpired))"

definition computeDataExportPhase :: "env \<Rightarrow> dataExport \<Rightarrow> gerr option \<Rightarrow> string" where
  "computeDataExportPhase E de err =
     (if m_deletion (de_meta de) \<noteq> None then PhaseTerminating
      else if IsTerminal (ds_phase (de_status de)) then ds_phase (de_status de)
      else if isDataExportExpired E de then PhaseExpired
      else if isTerminalErr err then PhaseFailed
      else if isConditionTrue E (exportConditions de) ConditionReady then PhaseReady
      else PhasePending)"

definition exportReason :: "gerr \<Rightarrow> string option" where
  "exportReason e =
     (if errorsIs e ErrCleanupFailed then Some ReasonCleanupFailed
      else if errorsIs e ErrTargetNotFound then Some ReasonTargetNotFound
      else if errorsIs e ErrPVConflict then Some ReasonPVConflict
      else if errorsIs e ErrTargetNotReady then Some ReasonTargetNotReady
      else if errorsIs e ErrDeploymentFailed then Some ReasonDeploymentFailed
      else None)"

definition deMutateReadyByErr :: "env \<Rightarrow> dataExport \<Rightarrow> gerr option \<Rightarrow> dataExport" where
  "deMutateReadyByErr E de err =
     (case err of
        None \<Rightarrow> de
      | Some e \<Rightarrow>
          if errorsIs e ErrCleanupFailed \<and>
             (case FindStatusCondition E (exportConditions de) ConditionReady of
                None \<Rightarrow> False
              | Some c \<Rightarrow> c_reason c = ReasonExpired \<or> c_reason c = ReasonDeleted)
          then de
          else (case exportReason e of
                  None \<Rightarrow> de
                | Some reason \<Rightarrow> setExportReady E ConditionFalse reason (errText e) de))"

definition finalizeDataExportStatus :: "env \<Rightarrow> dataExport \<Rightarrow> gerr option \<Rightarrow> time \<Rightarrow> dataExport" where
  "finalizeDataExportStatus E de err t =
     (let phase = computeDataExportPhase E de err in
      updExport (\<lambda>s. fst (SetCompletionTimestampOnce (s\<lparr>ds_phase := phase\<rparr>) phase t)) de)"

definition exportUpdateOnce :: "env \<Rightarrow> dataExport \<Rightarrow> bool \<Rightarrow> bool \<Rightarrow> bool \<Rightarrow> string res io" where
  "exportUpdateOnce E new wantFinalizer needMeta needStatus =
     thenE (getExport E (keyOf (de_meta new))) (\<lambda>fresh.
     thenE (if needMeta
            then wrapE ''update DataExport failed'' (sendObj E (Update (ODataExport
                   (fresh\<lparr>de_meta := (de_meta fresh)\<lparr>m_finalizers := ReconcileFinalizer
                     (m_finalizers (de_meta fresh)) StorageManagerFinalizerName wantFinalizer\<rparr>\<rparr>))) decDataExport)
            else ret (Inr fresh)) (\<lambda>fresh.
     if needStatus
     then wrapE ''update DataExport status failed'' (exec E (StatusUpdate (ODataExport
            (fresh\<lparr>de_status := podOwned (de_status fresh) (de_status new)\<rparr>))))
     else ret (Inr [])))"

definition updateDataExport :: "env \<Rightarrow> dataExport \<Rightarrow> dataExport \<Rightarrow> unit res io" where
  "updateDataExport E old new =
     (let wantFinalizer = ContainsString (m_finalizers (de_meta new)) StorageManagerFinalizerName;
          needMeta = (wantFinalizer \<noteq> ContainsString (m_finalizers (de_meta old)) StorageManagerFinalizerName);
          needStatus = (de_status old \<noteq> de_status new) in
      if \<not> needMeta \<and> \<not> needStatus then ret (Inr ())
      else ignoreNotFound (RetryOnConflict E (exportUpdateOnce E new wantFinalizer needMeta needStatus)))"

section \<open>Reconcile\<close>

definition isVirtualDiskCRDExists :: "env \<Rightarrow> bool res io" where
  "isVirtualDiskCRDExists E =
     thenE (optional (wrapE ''checking for VirtualDisk CRD existence''
       (getObj E KCustomResourceDefinition decCrd ([], VirtualDiskCRDName)))) (\<lambda>found.
     ret (Inr (found \<noteq> None)))"

definition validateDataExportSpec :: "env \<Rightarrow> dataExport \<Rightarrow> unit res io" where
  "validateDataExportSpec E de =
     (case classifyTargetRef (de_targetGroup de) (de_targetKind de) of
        Inl err \<Rightarrow> ret (Inl (markErr ErrTerminal err))
      | Inr (cat, _) \<Rightarrow>
          if cat = categoryLiveVirtualDisk then
            thenE (isVirtualDiskCRDExists E) (\<lambda>exists.
            if \<not> exists then ret (Inl (Errorf ''CRD VirtualDisk does not exist in the cluster'' [Sentinel ErrTerminal]))
            else ret (Inr ()))
          else ret (Inr ()))"

definition migrateConditions :: "env \<Rightarrow> dataExport \<Rightarrow> dataExport" where
  "migrateConditions E de0 =
     (let de1 = updExport (\<lambda>s. fst (StripConditionsNotIn s [ConditionReady])) de0 in
      case FindStatusCondition E (exportConditions de1) ConditionReady of
        None \<Rightarrow> de1
      | Some ready \<Rightarrow>
          if c_status ready = ConditionTrue \<and> c_reason ready \<noteq> ReasonServerReady
          then updExport (\<lambda>s. s\<lparr>ds_conditions :=
                 rewriteReason (ds_conditions s) ConditionReady ReasonServerReady\<rparr>) de1
          else de1)"

text \<open>A cleanup that stopped at an inconsistent volume ends the reconciliation without an error.\<close>

definition cleanupResult :: "unit res \<Rightarrow> ctrlResult res" where
  "cleanupResult r =
     (case r of
        Inr _ \<Rightarrow> Inr emptyResult
      | Inl e \<Rightarrow>
          if errorsIs e ErrInvalidOriginalReclaimPolicy then Inr emptyResult
          else Inl (markErr ErrCleanupFailed e))"

definition deleteExport :: "env \<Rightarrow> exportConfig \<Rightarrow> dataExport \<Rightarrow> ctrlResult eres io" where
  "deleteExport E X de =
     (case classifyTargetRef (de_targetGroup de) (de_targetKind de) of
        Inl _ \<Rightarrow>
          ret (de\<lparr>de_meta := fst (RemoveFinalizer (de_meta de) StorageManagerFinalizerName)\<rparr>, Inr emptyResult)
      | Inr (_, short) \<Rightarrow> do {
          x \<leftarrow> clearDataExportProviding E X de (exportNames E de short);
          ret (fst x, cleanupResult (snd x)) })"

definition expireExport :: "env \<Rightarrow> exportConfig \<Rightarrow> dataExport \<Rightarrow> names \<Rightarrow> ctrlResult eres io" where
  "expireExport E X de0 nm =
     (let de = (if (case FindStatusCondition E (exportConditions de0) ConditionReady of
                      None \<Rightarrow> True | Some c \<Rightarrow> c_reason c \<noteq> ReasonExpired)
                then setExportReady E ConditionFalse ReasonExpired ''DataExport idle timeout expired'' de0
                else de0) in
      if ContainsString (m_finalizers (de_meta de)) StorageManagerFinalizerName then do {
        x \<leftarrow> clearDataExportProviding E X de nm;
        ret (fst x, cleanupResult (snd x)) }
      else ret (de, Inr emptyResult))"

definition activeExport :: "env \<Rightarrow> exportConfig \<Rightarrow> dataExport \<Rightarrow> names \<Rightarrow> ctrlResult eres io" where
  "activeExport E X de nm =
     (case FindStatusCondition E (exportConditions de) ConditionReady of
        None \<Rightarrow>
          (let de' = setExportReady E ConditionFalse ReasonPending ''Started'' de in
           ret (de'\<lparr>de_meta := fst (EnsureFinalizer (de_meta de') StorageManagerFinalizerName)\<rparr>, Inr emptyResult))
      | Some ready \<Rightarrow>
          if c_status ready \<noteq> ConditionTrue then do {
            x \<leftarrow> implementDataExportProviding E X de nm;
            ret (case snd x of
                   Inr _ \<Rightarrow> (fst x, Inr emptyResult)
                 | Inl e \<Rightarrow>
                     if errorsIs e ErrPVCValidationFailed
                     then (setExportReady E ConditionFalse ReasonValidationFailed (errText e) (fst x),
                           Inr \<lparr>RequeueAfter = 10 * Second\<rparr>)
                     else (fst x, Inl e)) }
          else thenD (reconcilePodReadyResources E X de nm) (\<lambda>de _. ret (de, Inr emptyResult)))"

definition exportBody :: "env \<Rightarrow> exportConfig \<Rightarrow> dataExport \<Rightarrow> ctrlResult eres io" where
  "exportBody E X original =
     (let de = migrateConditions E original in
      if m_deletion (de_meta de) \<noteq> None then deleteExport E X de
      else do {
        v \<leftarrow> validateDataExportSpec E de;
        (case v of
           Inl e \<Rightarrow>
             ret (if errorsIs e ErrTerminal
                  then (setExportReady E ConditionFalse ReasonValidationFailed (errText e) de, Inl e)
                  else (de, Inl e))
         | Inr _ \<Rightarrow>
             (case classifyTargetRef (de_targetGroup de) (de_targetKind de) of
                Inl e \<Rightarrow>
                  ret (setExportReady E ConditionFalse ReasonValidationFailed (errText e) de,
                       Inl (markErr ErrTerminal e))
              | Inr (_, short) \<Rightarrow>
                  (let nm = exportNames E de short in
                   if isDataExportExpired E de then expireExport E X de nm
                   else if IsTerminal (ds_phase (de_status de)) then ret (de, Inr emptyResult)
                   else activeExport E X de nm))) })"

definition exportResult :: "ctrlResult res \<Rightarrow> unit res \<Rightarrow> ctrlResult res" where
  "exportResult r u =
     (case r of
        Inl e \<Rightarrow>
          if e = panicErr then Inl e
          else if errorsIs e ErrTerminal
          then (case u of Inl ue \<Rightarrow> Inl ue | Inr _ \<Rightarrow> Inr emptyResult)
          else Inl (Errorf [] (e # (case u of Inl ue \<Rightarrow> [ue] | Inr _ \<Rightarrow> [])))
      | Inr result \<Rightarrow>
          (case u of
             Inl ue \<Rightarrow> if IsConflict ue then Inr \<lparr>RequeueAfter = dataExportRequeueInterval\<rparr> else Inl ue
           | Inr _ \<Rightarrow> Inr result))"

definition deReconcile :: "env \<Rightarrow> exportConfig \<Rightarrow> nsname \<Rightarrow> ctrlResult res io" where
  "deReconcile E X req = do {
     got \<leftarrow> getExport E req;
     (case got of
        Inl err \<Rightarrow>
          if IsNotFound err then
            thenE (removeOrphanResources E X (fst req) (snd req)) (\<lambda>_. ret (Inr emptyResult))
          else ret (Inl (Errorf ''failed to get DataExport resource from cache'' [err]))
      | Inr original \<Rightarrow> do {
          x \<leftarrow> exportBody E X original;
          t \<leftarrow> now E;
          (let err = deferredErr (snd x);
               de = finalizeDataExportStatus E (deMutateReadyByErr E (fst x) err) err t in
           do {
             u \<leftarrow> updateDataExport E original de;
             ret (exportResult (snd x) u) }) }) }"

end
