(* ===== verification/Data_Export_Rules.thy ===== *)
theory Data_Export_Rules
  imports Data_Export_Reconcile Publish_Rules
begin

text \<open>
  What the DataExport controller may do, for every server and every interleaving with other
  writers. The rule \<open>exportAllowed\<close> covers a reconciliation of an existing export (\<open>Some d0\<close>,
  the object that was read) and the cleanup after a deleted one (\<open>None\<close>). It speaks about every
  request that touches a volume, a claim, a restore request or the export itself.
\<close>

section \<open>Evidence in a history\<close>

abbreviation claimRead :: "hist \<Rightarrow> nsname \<Rightarrow> persistentVolumeClaim \<Rightarrow> bool" where
  "claimRead h n u \<equiv> (Get KPersistentVolumeClaim n, RObj (OPvc u)) \<in> set h"

abbreviation volumeRead :: "hist \<Rightarrow> string \<Rightarrow> persistentVolume \<Rightarrow> bool" where
  "volumeRead h n pv \<equiv> (Get KPersistentVolume ([], n), RObj (OPv pv)) \<in> set h"

text \<open>The volume was returned by some request, alone or in a list.\<close>

definition volumeSeen :: "hist \<Rightarrow> persistentVolume \<Rightarrow> bool" where
  "volumeSeen h pv \<longleftrightarrow> (\<exists>r a. (r, a) \<in> set h \<and> (a = RObj (OPv pv) \<or> (\<exists>xs. a = RList xs \<and> OPv pv \<in> set xs)))"

definition claimSeen :: "hist \<Rightarrow> persistentVolumeClaim \<Rightarrow> bool" where
  "claimSeen h u \<longleftrightarrow> (\<exists>r. (r, RObj (OPvc u)) \<in> set h)"

text \<open>Nothing uses the claim or holds the volume, and the two are bound to each other.\<close>

definition idleVolume :: "hist \<Rightarrow> persistentVolumeClaim \<Rightarrow> persistentVolume \<Rightarrow> bool" where
  "idleVolume h u pv \<longleftrightarrow>
     volumeRead h (pvc_volumeName u) pv \<and> validateUserPVCInWorkingState u pv = Inr () \<and>
     (\<exists>xs pods. (ListIn KPod (m_namespace (pvc_meta u)), RList xs) \<in> set h \<and> decodeAll decPod xs = Some pods \<and>
        \<not> list_ex (usesClaim (m_name (pvc_meta u))) pods) \<and>
     (\<exists>xs vas. (ListIn KVolumeAttachment (m_namespace (pvc_meta u)), RList xs) \<in> set h \<and>
        decodeAll decVolumeAttachment xs = Some vas \<and> \<not> list_ex (holdsVolume (m_name (pv_meta pv))) vas)"

text \<open>The volume may be taken over for the export \<open>n\<close>.\<close>

definition takeable :: "nsname \<Rightarrow> hist \<Rightarrow> persistentVolumeClaim \<Rightarrow> persistentVolume \<Rightarrow> bool" where
  "takeable n h u pv \<longleftrightarrow>
     (\<exists>un. claimRead h (fst n, un) u) \<and> idleVolume h u pv \<and>
     validatePVNotOwnedByAnotherDataExport pv (m_namespace (pvc_meta u)) (snd n) = Inr ()"

text \<open>The user's claim was read without the marks of an export, or an update without them was accepted.\<close>

definition claimReleased :: "hist \<Rightarrow> nsname \<Rightarrow> bool" where
  "claimReleased h n \<longleftrightarrow> (\<exists>u. claimRead h n u \<and>
     (\<not> snd (releasedClaim u) \<or> accepted h (Update (OPvc (fst (releasedClaim u))))))"

text \<open>The volume is bound to the user's claim, or is the answer to the patch that binds it.\<close>

definition boundBack :: "hist \<Rightarrow> persistentVolumeClaim \<Rightarrow> persistentVolume \<Rightarrow> bool" where
  "boundBack h u pv \<longleftrightarrow>
     validateUserPVCInWorkingState u pv = Inr () \<or>
     (\<exists>a. (Patch True (OPv a) (OPv (reboundPV a u)), RObj (OPv pv)) \<in> set h)"

definition marked :: "persistentVolume \<Rightarrow> bool" where
  "marked pv \<longleftrightarrow> index_str (m_labels (pv_meta pv)) LabelPVDataExporter = ''true''"

definition savedPolicy :: "persistentVolume \<Rightarrow> string" where
  "savedPolicy pv = index_str (m_annotations (pv_meta pv)) AnnotationOriginalReclaimPolicyKey"

text \<open>An export that is being deleted, has idle-expired, or no longer exists.\<close>

definition exportExpired :: "dataExport \<Rightarrow> bool" where
  "exportExpired d \<longleftrightarrow>
     ds_serverState (de_status d) = ServerStateIdleExpired \<or>
     (\<exists>c \<in> set (exportConditions d). c_type c = ConditionReady \<and> c_status c = ConditionFalse \<and>
        c_reason c = ReasonExpired)"

definition ending :: "dataExport option \<Rightarrow> bool" where
  "ending d0 \<longleftrightarrow> (case d0 of None \<Rightarrow> True | Some d \<Rightarrow> m_deletion (de_meta d) \<noteq> None \<or> exportExpired d)"

definition activeNow :: "dataExport option \<Rightarrow> bool" where
  "activeNow d0 \<longleftrightarrow> (\<exists>d. d0 = Some d \<and> m_deletion (de_meta d) = None \<and>
     \<not> IsTerminal (ds_phase (de_status d)))"

text \<open>The artifact of a snapshot in the namespace of the export.\<close>

definition resolvedSnapshot :: "exportConfig \<Rightarrow> dataExport \<Rightarrow> hist \<Rightarrow> snapshotDataArtifact \<Rightarrow> bool" where
  "resolvedSnapshot X d h art \<longleftrightarrow>
     (\<exists>g gvr leaf cn content.
        x_RESTMapping X g (de_targetGroup d) (de_targetKind d) = Mapped gvr True \<and>
        (Get (KResource gvr) (m_namespace (de_meta d), de_targetName d), RObj (OSnapshotLeaf leaf)) \<in> set h \<and>
        leaf_boundSnapshotContentName leaf = Inr cn \<and>
        (Get KSnapshotContent ([], cn), RObj (OSnapshotContent content)) \<in> set h \<and>
        (contentAnchor content = [] \<or> contentAnchor content = m_namespace (de_meta d)) \<and>
        artifactOfData cn (snc_data content) = Inr art)"

section \<open>The rule\<close>

definition exportNamesOf :: "env \<Rightarrow> dataExport \<Rightarrow> names" where
  "exportNamesOf E d =
     (case classifyTargetRef (de_targetGroup d) (de_targetKind d) of
        Inl _ \<Rightarrow> exportNames E d []
      | Inr (_, short) \<Rightarrow> exportNames E d short)"

text \<open>The four ways to change a volume.\<close>

definition takenOver :: "env \<Rightarrow> exportConfig \<Rightarrow> nsname \<Rightarrow> dataExport option \<Rightarrow> hist \<Rightarrow>
    persistentVolume \<Rightarrow> persistentVolume \<Rightarrow> bool" where
  "takenOver E X n d0 h a b \<longleftrightarrow> activeNow d0 \<and>
     (let nm = exportNamesOf E (the d0) in
      \<exists>p u un. claimSeen h p \<and> b = takenPV a p (the d0) nm un \<and>
        (takeable n h u a \<or>
         claimRead h (dm_controllerNamespace X, ExportPVCName nm) p \<and> volumeRead h (pvc_volumeName p) a))"

definition givenBack :: "nsname \<Rightarrow> dataExport option \<Rightarrow> hist \<Rightarrow> persistentVolume \<Rightarrow> persistentVolume \<Rightarrow> bool" where
  "givenBack n d0 h a b \<longleftrightarrow> ending d0 \<and> marked a \<and> validPolicy (savedPolicy a) \<and>
     (\<exists>u un. claimRead h (fst n, un) u \<and> b = reboundPV a u)"

definition unmarkedLast :: "nsname \<Rightarrow> dataExport option \<Rightarrow> hist \<Rightarrow> persistentVolume \<Rightarrow> persistentVolume \<Rightarrow> bool" where
  "unmarkedLast n d0 h a b \<longleftrightarrow> ending d0 \<and> restoredPV a = Inr (b, True) \<and>
     (fst n \<noteq> [] \<longrightarrow> (\<exists>u un. claimRead h (fst n, un) u \<and> boundBack h u a \<and> claimReleased h (keyOf (pvc_meta u))))"

definition volumePatch :: "env \<Rightarrow> exportConfig \<Rightarrow> nsname \<Rightarrow> dataExport option \<Rightarrow> hist \<Rightarrow>
    persistentVolume \<Rightarrow> persistentVolume \<Rightarrow> bool" where
  "volumePatch E X n d0 h a b \<longleftrightarrow>
     takenOver E X n d0 h a b \<or> givenBack n d0 h a b \<or> unmarkedLast n d0 h a b \<or>
     ending d0 \<and> b = inconsistentPV X a"

text \<open>A claim keeps everything but the marks of an export.\<close>

definition exportClaimKeys :: "string set" where
  "exportClaimKeys = insert DataExportInProgressKey (set dataExportRequestAnnotationKeys)"

definition onlyMarks :: "persistentVolumeClaim \<Rightarrow> persistentVolumeClaim \<Rightarrow> bool" where
  "onlyMarks u x \<longleftrightarrow>
     x = u\<lparr>pvc_meta := (pvc_meta u)\<lparr>m_annotations := m_annotations (pvc_meta x),
       m_finalizers := m_finalizers (pvc_meta x)\<rparr>\<rparr> \<and>
     (\<forall>k. k \<notin> exportClaimKeys \<longrightarrow>
        map_of (m_annotations (pvc_meta x)) k = map_of (m_annotations (pvc_meta u)) k) \<and>
     filter (\<lambda>f. f \<noteq> StorageManagerFinalizerName) (m_finalizers (pvc_meta x)) =
       filter (\<lambda>f. f \<noteq> StorageManagerFinalizerName) (m_finalizers (pvc_meta u))"

text \<open>A claim that was read in the namespace of the export, or read again under its own name.\<close>

definition userClaim :: "nsname \<Rightarrow> hist \<Rightarrow> persistentVolumeClaim \<Rightarrow> bool" where
  "userClaim n h u \<longleftrightarrow> (\<exists>un u0. claimRead h (fst n, un) u0 \<and> (u = u0 \<or> claimRead h (keyOf (pvc_meta u0)) u))"

text \<open>The object as the request just before returned it.\<close>

definition exportJustRead :: "hist \<Rightarrow> dataExport \<Rightarrow> bool" where
  "exportJustRead h x \<longleftrightarrow> (\<exists>p r. h = logged p r (RObj (ODataExport x)))"

text \<open>Why an export is ready, or has failed.\<close>

definition serving :: "exportConfig \<Rightarrow> dataExport \<Rightarrow> hist \<Rightarrow> bool" where
  "serving X d h \<longleftrightarrow> (\<exists>n dep fresh.
     (Get KDeployment (dm_controllerNamespace X, n), RObj (ODeployment dep)) \<in> set h \<and>
     dsp_replicas (dep_spec dep) = Some (dep_availableReplicas dep) \<and> rolloutFailure (dep_conditions dep) = None \<and>
     (Get KDataExport (keyOf (de_meta d)), RObj (ODataExport fresh)) \<in> set h \<and>
     ds_serverState (de_status fresh) = ServerStateReady)"

definition readyBy :: "exportConfig \<Rightarrow> dataExport \<Rightarrow> hist \<Rightarrow> bool" where
  "readyBy X d h \<longleftrightarrow> serving X d h \<or>
     (\<exists>c \<in> set (exportConditions d). c_type c = ConditionReady \<and> c_status c = ConditionTrue)"

definition exportFailedBy :: "dataExport \<Rightarrow> hist \<Rightarrow> bool" where
  "exportFailedBy d h \<longleftrightarrow>
     (\<exists>e. classifyTargetRef (de_targetGroup d) (de_targetKind d) = Inl e) \<or>
     de_targetGroup d = GroupVirtualization \<and> de_targetKind d = ''VirtualDisk'' \<and>
       (Get KCustomResourceDefinition ([], VirtualDiskCRDName), RErr NotFound) \<in> set h"

definition exportStatusOk :: "exportConfig \<Rightarrow> dataExport \<Rightarrow> hist \<Rightarrow> dataExportImportStatus \<Rightarrow> bool" where
  "exportStatusOk X d h s \<longleftrightarrow>
     (m_deletion (de_meta d) \<noteq> None \<longrightarrow> ds_phase s = PhaseTerminating) \<and>
     (m_deletion (de_meta d) = None \<and> IsTerminal (ds_phase (de_status d)) \<longrightarrow>
        ds_phase s = ds_phase (de_status d)) \<and>
     (ds_completionTimestamp (de_status d) \<noteq> None \<longrightarrow>
        ds_completionTimestamp s = ds_completionTimestamp (de_status d)) \<and>
     (IsTerminal (ds_phase s) \<longrightarrow> ds_completionTimestamp s \<noteq> None) \<and>
     (ds_phase s = PhaseReady \<longrightarrow> readyBy X d h) \<and>
     (\<not> IsTerminal (ds_phase (de_status d)) \<longrightarrow>
        ds_phase s \<noteq> PhaseCompleted \<and>
        (ds_phase s = PhaseExpired \<longrightarrow> exportExpired d) \<and>
        (ds_phase s = PhaseFailed \<longrightarrow> exportFailedBy d h))"

text \<open>What is gone before the finalizer goes.\<close>

fun workMeta :: "kobj \<Rightarrow> objmeta" where
  "workMeta (ODeployment x) = dep_meta x"
| "workMeta (OPvc x) = pvc_meta x"
| "workMeta (OSecret x) = sec_meta x"
| "workMeta _ = emptyMeta"

definition goneFrom :: "hist \<Rightarrow> kind \<Rightarrow> nsname \<Rightarrow> bool" where
  "goneFrom h k n \<longleftrightarrow> (Get k n, RErr NotFound) \<in> set h \<or>
     (\<exists>x. (Get k n, RObj x) \<in> set h \<and> accepted h (Delete k (keyOf (workMeta x))))"

definition deletedAt :: "hist \<Rightarrow> kind \<Rightarrow> nsname \<Rightarrow> bool" where
  "deletedAt h k n \<longleftrightarrow> (\<exists>a. (Delete k n, a) \<in> set h \<and> (a = RErr NotFound \<or> (\<exists>x. respErr a = Inr x)))"

text \<open>
  The volume of a claim as it was returned to the user, and the marks and the policy of a volume
  that are as they were before the export.
\<close>

definition returnedVolume :: "hist \<Rightarrow> persistentVolumeClaim \<Rightarrow> persistentVolume \<Rightarrow> bool" where
  "returnedVolume h u pv \<longleftrightarrow> (\<exists>a. volumeRead h (pvc_volumeName u) a \<and>
     (pv = a \<and> validateUserPVCInWorkingState u a = Inr () \<or>
      (Patch True (OPv a) (OPv (reboundPV a u)), RObj (OPv pv)) \<in> set h))"

definition policyBack :: "hist \<Rightarrow> persistentVolume \<Rightarrow> bool" where
  "policyBack h pv \<longleftrightarrow> (\<exists>b. restoredPV pv = Inr (b, True) \<and> accepted h (Patch True (OPv pv) (OPv b))) \<or>
     (\<exists>b. restoredPV pv = Inr (b, False))"

definition volumeBack :: "string \<Rightarrow> hist \<Rightarrow> bool" where
  "volumeBack ns h \<longleftrightarrow>
     (\<exists>un. (Get KPersistentVolumeClaim (ns, un), RErr NotFound) \<in> set h) \<or>
     (\<exists>dn. (Get KVirtualDisk (ns, dn), RErr NotFound) \<in> set h) \<or>
     (\<exists>u un pv. claimRead h (ns, un) u \<and> claimReleased h (keyOf (pvc_meta u)) \<and>
        (volumeRead h (pvc_volumeName u) pv \<and> \<not> marked pv \<or> returnedVolume h u pv \<and> policyBack h pv))"

definition targetReturned :: "env \<Rightarrow> exportConfig \<Rightarrow> dataExport \<Rightarrow> hist \<Rightarrow> bool" where
  "targetReturned E X d h \<longleftrightarrow>
     (case classifyTargetRef (de_targetGroup d) (de_targetKind d) of
        Inl _ \<Rightarrow> True
      | Inr (categorySnapshot, _) \<Rightarrow>
          deletedAt h KVolumeRestoreRequest (dm_controllerNamespace X, volumeRestoreRequestName (exportNamesOf E d))
      | Inr _ \<Rightarrow> volumeBack (m_namespace (de_meta d)) h)"

definition tornDown :: "env \<Rightarrow> exportConfig \<Rightarrow> dataExport \<Rightarrow> hist \<Rightarrow> bool" where
  "tornDown E X d h \<longleftrightarrow>
     (let nm = exportNamesOf E d; ns = dm_controllerNamespace X in
      goneFrom h KDeployment (ns, DeployName nm) \<and> goneFrom h KPersistentVolumeClaim (ns, ExportPVCName nm) \<and>
      goneFrom h KSecret (ns, CASecretName nm) \<and> targetReturned E X d h)"

definition exportAllowed ::
  "env \<Rightarrow> exportConfig \<Rightarrow> nsname \<Rightarrow> dataExport option \<Rightarrow> hist \<Rightarrow> req \<Rightarrow> bool" where
  "exportAllowed E X n d0 h r =
     (case r of
        Create (OPvc x) \<Rightarrow>
          activeNow d0 \<and> (\<exists>u pv. takeable n h u pv \<and>
             x = exportClaim X u pv (ExportPVCName (exportNamesOf E (the d0))))
      | Create (OVrr v) \<Rightarrow>
          activeNow d0 \<and> (\<exists>art. resolvedSnapshot X (the d0) h art \<and>
             v = exportRestoreRequest X (the d0) (exportNamesOf E (the d0)) art)
      | Create (ODeployment x) \<Rightarrow>
          (\<exists>d. d0 = Some d \<and> ownedBy LabelDataExportValue (keyOf (de_meta d)) (dep_meta x) \<and>
             m_namespace (dep_meta x) = dm_controllerNamespace X)
      | Patch lock (OPv a) y \<Rightarrow>
          lock \<and> volumeSeen h a \<and> (\<exists>b. y = OPv b \<and> volumePatch E X n d0 h a b)
      | Update (OPvc x) \<Rightarrow> (\<exists>u. userClaim n h u \<and> onlyMarks u x)
      | Delete k m \<Rightarrow>
          k \<in> {KDeployment, KPersistentVolumeClaim, KService, KIngress, KSecret, KVolumeRestoreRequest} \<and>
          (k = KPersistentVolumeClaim \<longrightarrow> ending d0 \<and>
             (\<exists>p short. claimRead h (dm_controllerNamespace X,
                  ExportPVCNameForHash short (generateHashSuffix E (fst n) (snd n))) p \<and> m = keyOf (pvc_meta p)))
      | StatusUpdate x \<Rightarrow>
          (\<exists>d fresh s. d0 = Some d \<and> exportJustRead h fresh \<and> exportStatusOk X d h s \<and>
             x = ODataExport (fresh\<lparr>de_status := podOwned (de_status fresh) s\<rparr>))
      | Update (ODataExport x) \<Rightarrow>
          (\<exists>d. d0 = Some d \<and> (StorageManagerFinalizerName \<notin> set (m_finalizers (de_meta x)) \<longrightarrow>
             ending d0 \<and> (tornDown E X d h \<or>
               (\<exists>e. classifyTargetRef (de_targetGroup d) (de_targetKind d) = Inl e))))
      | _ \<Rightarrow> True)"

lemma exportAllowed_free [simp]:
  "exportAllowed E X n d0 h (Get k m)" "exportAllowed E X n d0 h (ListIn k ns)"
  "exportAllowed E X n d0 h (ListLabeled k l v)"
  "exportAllowed E X n d0 h (Create (OService sv))" "exportAllowed E X n d0 h (Create (OIngress ig))"
  "exportAllowed E X n d0 h (Create (OSecret se))"
  "exportAllowed E X n d0 h (Update (OService sv))" "exportAllowed E X n d0 h (Update (OIngress ig))"
  "exportAllowed E X n d0 h (Update (OSecret se))"
  "exportAllowed E X n d0 h (Patch b (ODeployment dp) y)"
  "exportAllowed E X n d0 h (Delete KService m)" "exportAllowed E X n d0 h (Delete KIngress m)"
  "exportAllowed E X n d0 h (Delete KSecret m)" "exportAllowed E X n d0 h (Delete KDeployment m)"
  "exportAllowed E X n d0 h (Delete KVolumeRestoreRequest m)"
  by (simp_all add: exportAllowed_def)

interpretation exp: publish_client "exportAllowed E X n d0" for E X n d0
  by unfold_locales simp_all

abbreviation exportQuiet :: "env \<Rightarrow> exportConfig \<Rightarrow> nsname \<Rightarrow> dataExport option \<Rightarrow>
    'a io \<Rightarrow> ('a \<Rightarrow> hist \<Rightarrow> bool) \<Rightarrow> hist \<Rightarrow> bool" where
  "exportQuiet E X n d0 \<equiv> quiet (exportAllowed E X n d0)"

section \<open>Evidence stays\<close>

lemma idleVolume_mono: "idleVolume h u pv \<Longrightarrow> later h h' \<Longrightarrow> idleVolume h' u pv"
  unfolding idleVolume_def later_def by blast

lemma takeable_mono: "takeable n h u pv \<Longrightarrow> later h h' \<Longrightarrow> takeable n h' u pv"
  unfolding takeable_def using idleVolume_mono later_mem by meson

lemma seen_mono:
  "volumeSeen h pv \<Longrightarrow> later h h' \<Longrightarrow> volumeSeen h' pv" "claimSeen h u \<Longrightarrow> later h h' \<Longrightarrow> claimSeen h' u"
  unfolding volumeSeen_def claimSeen_def later_def by blast+

lemma claimReleased_mono: "claimReleased h n \<Longrightarrow> later h h' \<Longrightarrow> claimReleased h' n"
  unfolding claimReleased_def using accepted_mono later_mem by meson

lemma boundBack_mono: "boundBack h u pv \<Longrightarrow> later h h' \<Longrightarrow> boundBack h' u pv"
  unfolding boundBack_def later_def by blast

lemma goneFrom_mono: "goneFrom h k n \<Longrightarrow> later h h' \<Longrightarrow> goneFrom h' k n"
  unfolding goneFrom_def using accepted_mono later_mem by meson

lemma deletedAt_mono: "deletedAt h k n \<Longrightarrow> later h h' \<Longrightarrow> deletedAt h' k n"
  unfolding deletedAt_def later_def by blast

lemma resolvedSnapshot_mono: "resolvedSnapshot X d h art \<Longrightarrow> later h h' \<Longrightarrow> resolvedSnapshot X d h' art"
  unfolding resolvedSnapshot_def later_def by (meson subsetD)

lemma serving_mono: "serving X d h \<Longrightarrow> later h h' \<Longrightarrow> serving X d h'"
  unfolding serving_def later_def by blast

lemma readyBy_mono: "readyBy X d h \<Longrightarrow> later h h' \<Longrightarrow> readyBy X d h'"
  unfolding readyBy_def using serving_mono by blast

lemma returnedVolume_mono: "returnedVolume h u pv \<Longrightarrow> later h h' \<Longrightarrow> returnedVolume h' u pv"
  unfolding returnedVolume_def later_def by blast

lemma policyBack_mono: "policyBack h pv \<Longrightarrow> later h h' \<Longrightarrow> policyBack h' pv"
  unfolding policyBack_def using accepted_mono by blast

lemma volumeBack_mono: "volumeBack ns h \<Longrightarrow> later h h' \<Longrightarrow> volumeBack ns h'"
  unfolding volumeBack_def using returnedVolume_mono policyBack_mono claimReleased_mono later_mem by meson

lemma targetReturned_mono: "targetReturned E X d h \<Longrightarrow> later h h' \<Longrightarrow> targetReturned E X d h'"
  unfolding targetReturned_def
  by (auto intro: volumeBack_mono deletedAt_mono split: sum.splits targetCategory.splits)

lemma tornDown_mono: "tornDown E X d h \<Longrightarrow> later h h' \<Longrightarrow> tornDown E X d h'"
  unfolding tornDown_def Let_def by (auto intro: goneFrom_mono targetReturned_mono)

lemma volumeSeenI [simp, intro]:
  "(r, RObj (OPv pv)) \<in> set h \<Longrightarrow> volumeSeen h pv"
  "(r, RList xs) \<in> set h \<Longrightarrow> OPv pv \<in> set xs \<Longrightarrow> volumeSeen h pv"
  unfolding volumeSeen_def by blast+

lemma claimSeenI [simp, intro]: "(r, RObj (OPvc u)) \<in> set h \<Longrightarrow> claimSeen h u"
  unfolding claimSeen_def by blast


lemma seen_logged [simp]:
  "claimSeen (logged h r a) u \<longleftrightarrow> claimSeen h u \<or> a = RObj (OPvc u)"
  "volumeSeen (logged h r a) pv \<longleftrightarrow> volumeSeen h pv \<or> a = RObj (OPv pv) \<or> (\<exists>xs. a = RList xs \<and> OPv pv \<in> set xs)"
  unfolding claimSeen_def volumeSeen_def by auto

lemma evidence_logged [intro]:
  "takeable n h u pv \<Longrightarrow> takeable n (logged h r a) u pv"
  "idleVolume h u pv \<Longrightarrow> idleVolume (logged h r a) u pv"
  "claimReleased h m \<Longrightarrow> claimReleased (logged h r a) m"
  "boundBack h u pv \<Longrightarrow> boundBack (logged h r a) u pv"
  by (erule takeable_mono idleVolume_mono claimReleased_mono boundBack_mono; simp)+

section \<open>Maps and marks\<close>

lemma map_of_putAll: "k \<notin> fst ` set kvs \<Longrightarrow> map_of (putAll kvs m) k = map_of m k"
  by (induction kvs m rule: putAll.induct) auto

lemma map_of_delete [simp]: "map_of (AList.delete k m) k' = (if k' = k then None else map_of m k')"
  by (simp add: delete_conv')

lemma map_of_removeKeys: "map_of (fst (removeKeys ks m)) k = (if k \<in> set ks then None else map_of m k)"
  by (induction ks m rule: removeKeys.induct) (auto split: prod.splits)

lemma removeKeys_changed: "snd (removeKeys ks m) \<longleftrightarrow> (\<exists>k \<in> set ks. has_key m k)"
  by (induction ks m rule: removeKeys.induct) (auto simp: has_key_def split: prod.splits if_splits, metis option.distinct(1))

lemma onlyMarks_marked: "onlyMarks u (markedClaim u)"
  by (simp add: onlyMarks_def markedClaim_def exportClaimKeys_def)

lemma onlyMarks_released: "onlyMarks u (fst (releasedClaim u))"
  using map_of_removeKeys [of "DataExportInProgressKey # dataExportRequestAnnotationKeys" "m_annotations (pvc_meta u)"]
  by (auto simp: onlyMarks_def releasedClaim_def exportClaimKeys_def Let_def split: prod.splits)

lemma onlyMarks_request:
  "onlyMarks u (u\<lparr>pvc_meta := (pvc_meta u)\<lparr>m_annotations :=
     putAll (map (\<lambda>k. (k, ''true'')) dataExportRequestAnnotationKeys) (m_annotations (pvc_meta u))\<rparr>\<rparr>)"
  by (auto simp: onlyMarks_def exportClaimKeys_def image_image intro!: map_of_putAll)

lemma restoredPV_marked: "restoredPV a = Inr (b, c) \<Longrightarrow> marked a \<Longrightarrow> c"
  using removeKeys_changed [of "[LabelPVDataExporter]"]
  by (auto simp: restoredPV_def restorePVReclaimPolicy_def removePVExportMetadata_def marked_def has_key_def
    index_str_def Let_def split: prod.splits if_splits option.splits)

section \<open>Errors and polls\<close>

lemma retryable_other [simp]:
  "retryable (Sentinel (ErrOther s))" "retryable (Errorf m [Sentinel (ErrOther s), e]) = retryable e"
  by (simp_all add: retryable_def)

lemma calm_checks [simp]:
  "calm (validateUserPVCInWorkingState u pv)" "calm (validatePVNotOwnedByAnotherDataExport pv ns nm)"
  "calm (verifySnapshotContentNamespace c cn ns)" "calm (restoredPV pv)"
  by (auto simp: validateUserPVCInWorkingState_def validatePVNotOwnedByAnotherDataExport_def restoredPV_def
    restorePVReclaimPolicy_def verifySnapshotContentNamespace_def Let_def split: option.splits prod.splits sum.splits)

lemma checks_retryable [dest]:
  "validateUserPVCInWorkingState u pv = Inl e \<Longrightarrow> retryable e"
  "validatePVNotOwnedByAnotherDataExport pv ns nm = Inl e \<Longrightarrow> retryable e"
  "verifySnapshotContentNamespace c cn ns = Inl e \<Longrightarrow> retryable e"
  "restoredPV pv = Inl e \<Longrightarrow> retryable e"
  using calm_checks(1) [of u pv] calm_checks(2) [of pv ns nm] calm_checks(3) [of c cn ns] calm_checks(4) [of pv]
  by (simp_all add: calm_def)

text \<open>
  A part that goes well ends with a fact, and every error it can end with may be retried. The
  rules follow the operators the code is written with.
\<close>

definition sane :: "('a \<Rightarrow> hist \<Rightarrow> bool) \<Rightarrow> 'a res \<Rightarrow> hist \<Rightarrow> bool" where
  "sane Q r h \<longleftrightarrow> (case r of Inl e \<Rightarrow> retryable e | Inr x \<Rightarrow> Q x h)"

lemma sane_simps [simp]: "sane Q (Inl e) h = retryable e" "sane Q (Inr x) h = Q x h"
  by (simp_all add: sane_def)

lemma sane_respErr [simp]: "sane Q (respErr a) h \<longleftrightarrow> (\<forall>x. respErr a = Inr x \<longrightarrow> Q x h)"
  by (auto simp: sane_def respErr_def split: resp.splits)

abbreviation goesWell :: "(hist \<Rightarrow> req \<Rightarrow> bool) \<Rightarrow> 'a res io \<Rightarrow> ('a \<Rightarrow> hist \<Rightarrow> bool) \<Rightarrow> hist \<Rightarrow> bool" where
  "goesWell R m Q h \<equiv> quiet R m (sane Q) h"

abbreviation exportPart :: "env \<Rightarrow> exportConfig \<Rightarrow> nsname \<Rightarrow> dataExport option \<Rightarrow>
    'a res io \<Rightarrow> ('a \<Rightarrow> hist \<Rightarrow> bool) \<Rightarrow> hist \<Rightarrow> bool" where
  "exportPart E X n d0 \<equiv> goesWell (exportAllowed E X n d0)"

lemma well_mono:
  "goesWell R m P h \<Longrightarrow> (\<And>x h'. later h h' \<Longrightarrow> P x h' \<Longrightarrow> Q x h') \<Longrightarrow> goesWell R m Q h"
  by (erule quiet_mono) (auto simp: sane_def split: sum.splits)

lemma well_thenE:
  "goesWell R m P h \<Longrightarrow> (\<And>a h'. later h h' \<Longrightarrow> P a h' \<Longrightarrow> goesWell R (k a) Q h') \<Longrightarrow> goesWell R (thenE m k) Q h"
  by (erule quiet_thenE) simp_all

lemma well_wrapE: "goesWell R m Q h \<Longrightarrow> goesWell R (wrapE msg m) Q h"
  by (erule quiet_wrapE) simp_all

lemma well_discard: "goesWell R m (\<lambda>x h'. Q () h') h \<Longrightarrow> goesWell R (discard m) Q h"
  unfolding discard_def by (erule well_thenE) (simp add: quiet_ret)

lemma well_optional:
  "goesWell R m (\<lambda>x h'. Q (Some x) h') h \<Longrightarrow> (\<And>h'. later h h' \<Longrightarrow> Q None h') \<Longrightarrow> goesWell R (optional m) Q h"
  unfolding optional_def
  by (erule quiet_bind) (auto simp: sane_def split: sum.splits intro!: quiet_ret)

lemma well_ignoreNotFound:
  "goesWell R m (\<lambda>x h'. Q () h') h \<Longrightarrow> (\<And>h'. later h h' \<Longrightarrow> Q () h') \<Longrightarrow> goesWell R (ignoreNotFound m) Q h"
  unfolding ignoreNotFound_def
  by (erule quiet_bind) (auto simp: sane_def split: sum.splits intro!: quiet_ret)

lemma well_poll:
  assumes "\<And>h'. later h h' \<Longrightarrow> goesWell R m (\<lambda>r h''. \<forall>x. r = Some x \<longrightarrow> Q x h'') h'"
  shows "goesWell R (PollUntilContextTimeout k m) Q h"
proof -
  have "goesWell R (poll j m) Q h" for j
    using assms
  proof (induction j arbitrary: h)
    case (Suc j)
    show ?case
      unfolding poll.simps
      by (rule well_thenE [OF Suc.prems [OF later_refl]])
        (auto split: option.split intro!: quiet_ret Suc.IH Suc.prems intro: later_trans)
  qed (simp add: quiet_ret)
  then show ?thesis unfolding PollUntilContextTimeout_def .
qed

lemma well_get:
  "R h (Get k n) \<Longrightarrow> (\<And>x y. dec x = Some y \<Longrightarrow> Q y (logged h (Get k n) (RObj x))) \<Longrightarrow>
     goesWell R (getObj E k dec n) Q h"
  by (auto simp: quiet_def intro!: wp_getObj)

lemma well_list:
  "R h r \<Longrightarrow> (\<And>xs ys. decodeAll dec xs = Some ys \<Longrightarrow> Q ys (logged h r (RList xs))) \<Longrightarrow>
     goesWell R (listReq E r dec) Q h"
  by (auto simp: quiet_def intro!: wp_listReq)

lemma well_send:
  "R h r \<Longrightarrow> (\<And>x y. dec x = Some y \<Longrightarrow> Q y (logged h r (RObj x))) \<Longrightarrow> goesWell R (sendObj E r dec) Q h"
  by (auto simp: quiet_def intro!: wp_sendObj)

lemma well_exec:
  "R h r \<Longrightarrow> (\<And>a x. respErr a = Inr x \<Longrightarrow> Q x (logged h r a)) \<Longrightarrow> goesWell R (exec E r) Q h"
  by (auto simp: quiet_def intro!: wp_exec)

lemma well_pure: "sane Q r h \<Longrightarrow> goesWell R (ret r) Q h"
  by (rule quiet_ret)

text \<open>A read that may find nothing: then the server answered so.\<close>

lemma well_found:
  assumes "R h (Get k n)" "Q None (logged h (Get k n) (RErr NotFound))"
    "\<And>x y. dec x = Some y \<Longrightarrow> Q (Some y) (logged h (Get k n) (RObj x))"
  shows "goesWell R (optional (wrapE msg (getObj E k dec n))) Q h"
  using assms
  by (auto simp: quiet_def optional_def wp_rules intro!: wp_getObj)

lemma wp_discard [wp_rules]:
  "wp (discard m) Q s = wp m (\<lambda>r s'. case r of Inl e \<Rightarrow> Q (Inl e) s' | Inr x \<Rightarrow> Q (Inr ()) s') s"
  by (simp add: discard_def thenE_def wp_bind wp_return wp_def split: sum.splits prod.splits)

lemma wp_missingAs [wp_rules]:
  "wp (missingAs t msg m) Q s =
     wp m (\<lambda>r s'. case r of Inl e \<Rightarrow> Q (Inl (Errorf msg [if IsNotFound e then Sentinel t else e])) s'
                          | Inr x \<Rightarrow> Q (Inr x) s') s"
  by (simp add: missingAs_def wp_bind wp_return wp_def split: sum.splits prod.splits)

lemma wp_RESTMapping [wp_rules]: "wp (RESTMapping X g k) Q h = Q (x_RESTMapping X h g k) h"
  by (simp add: RESTMapping_def wp_def)

end
