(* ===== verification/Data_Export_Kept.thy ===== *)
theory Data_Export_Kept
  imports Data_Export_Rules
begin

text \<open>
  Every operation of the DataExport controller keeps the rule of \<open>Data_Export_Rules\<close>: the
  take-over and the return of a volume, the restore of a snapshot, the export workload, the
  teardown and the cleanup of orphans.
\<close>

section \<open>Taking a volume over\<close>

lemma validateUserPVC_well:
  "exportPart E X n d0 (validateUserPVCAndGetPV E u) (\<lambda>pv h'. idleVolume h' u pv) h"
  unfolding validateUserPVCAndGetPV_def
  by (auto simp: quiet_def wp_rules idleVolume_def intro!: wp_getObj wp_listReq split: sum.splits)

lemma detachPVC_well:
  assumes "activeNow d0" "pn = ExportPVCName (exportNamesOf E (the d0))"
    and "claimRead h (fst n, un) u" "idleVolume h u pv"
  shows "exportPart E X n d0 (detachPVC E X u pv pn (snd n)) (\<lambda>p h'. claimSeen h' p \<and> takeable n h' u pv) h"
proof (cases "validatePVNotOwnedByAnotherDataExport pv (m_namespace (pvc_meta u)) (snd n)")
  case (Inl e)
  then show ?thesis by (auto simp: quiet_def detachPVC_def wp_rules)
next
  case (Inr x)
  then have t: "takeable n h u pv" using assms by (auto simp: takeable_def)
  then have "exportAllowed E X n d0 h (Create (OPvc (exportClaim X u pv pn)))"
    using assms(1,2) by (auto simp: exportAllowed_def)
  with Inr t show ?thesis
    by (auto simp: quiet_def detachPVC_def wp_rules intro!: wp_sendObj)
qed

lemma getExportPVC_well:
  assumes "activeNow d0" "pn = ExportPVCName (exportNamesOf E (the d0))"
  shows "exportPart E X n d0 (getExportPVCFromUserPVC E X (fst n) un pn (snd n))
    (\<lambda>x h'. claimSeen h' (fst x) \<and> (\<exists>u. takeable n h' u (snd x))) h"
proof -
  have get: "exportPart E X n d0 (getPvc E (fst n, un)) (\<lambda>u h'. claimRead h' (fst n, un) u) h"
    by (rule well_get) auto
  have rest: "exportPart E X n d0 (thenE (wrapE a (validateUserPVCAndGetPV E u)) (\<lambda>pv.
      thenE (wrapE b (detachPVC E X u pv pn (snd n))) (\<lambda>p. ret (Inr (p, pv)))))
      (\<lambda>x h'. claimSeen h' (fst x) \<and> (\<exists>u. takeable n h' u (snd x))) h'"
    if "claimRead h' (fst n, un) u" for a b u h'
    using that
    by (intro well_thenE [OF well_wrapE, OF validateUserPVC_well]
        well_thenE [OF well_wrapE, OF detachPVC_well [OF assms]] well_pure) (auto dest: later_mem)
  show ?thesis
    unfolding getExportPVCFromUserPVC_def
    by (rule quiet_bind [OF get]) (auto split: sum.splits intro!: quiet_ret rest)
qed

section \<open>The user's claim\<close>

lemma claimUpdate_allowed:
  "userClaim n h u \<Longrightarrow> onlyMarks u x \<Longrightarrow> exportAllowed E X n d0 h (Update (OPvc x))"
  by (auto simp: exportAllowed_def)

lemma userClaimI: "claimRead h (fst n, un) u \<Longrightarrow> userClaim n h u"
  unfolding userClaim_def by blast

lemma userClaimI':
  "claimRead h (fst n, un) u0 \<Longrightarrow> claimRead h (keyOf (pvc_meta u0)) u \<Longrightarrow> userClaim n h u"
  unfolding userClaim_def by blast

lemma ensureAnnotations_well:
  "claimRead h (fst n, un) u \<Longrightarrow>
   exportPart E X n d0 (ensureAnnotationsOnPVC E u (map (\<lambda>k. (k, ''true'')) dataExportRequestAnnotationKeys))
     (\<lambda>_ _. True) h"
  unfolding ensureAnnotationsOnPVC_def Let_def
  by (auto simp: quiet_def wp_rules respErr_def intro!: wp_update_or
    claimUpdate_allowed [OF userClaimI onlyMarks_request] split: sum.splits resp.splits)

lemma ensureUserPVC_well:
  "exportPart E X n d0 (ensureUserPVCExportingAnnotationAndFinalizer E X' (fst n) un) (\<lambda>_ _. True) h"
  unfolding ensureUserPVCExportingAnnotationAndFinalizer_def
  by (rule well_poll)
    (auto simp: quiet_def markClaimOnce_def wp_rules Let_def intro!: wp_getObj wp_exec
      claimUpdate_allowed [OF userClaimI onlyMarks_marked] split: sum.splits)

lemma releaseOnce_well:
  assumes "claimRead h (fst n, un) u0"
  shows "exportPart E X n d0 (releaseClaimOnce E (keyOf (pvc_meta u0)))
    (\<lambda>r h'. \<forall>x. r = Some x \<longrightarrow> claimReleased h' (keyOf (pvc_meta u0))) h"
proof -
  let ?k = "keyOf (pvc_meta u0)"
  have clean: "claimReleased h ?k" if "claimRead h ?k u" "releasedClaim u = (x, False)" for h u x
    using that unfolding claimReleased_def by force
  have cleaned: "claimReleased (logged h (Update (OPvc x)) a) ?k"
    if "claimRead h ?k u" "releasedClaim u = (x, True)" "respErr a = Inr y" for h u x a y
    using that unfolding claimReleased_def by (intro exI [of _ u]) simp
  have "exportPart E X n d0 (case releasedClaim u of (u', c) \<Rightarrow>
      if c then State_Monad.bind (exec E (Update (OPvc u'))) (\<lambda>r. ret (Inr (case r of Inl _ \<Rightarrow> None | Inr _ \<Rightarrow> Some ())))
      else ret (Inr (Some ()))) (\<lambda>r h'. \<forall>x. r = Some x \<longrightarrow> claimReleased h' ?k) h'"
    if "claimRead h' ?k u" "claimRead h' (fst n, un) u0" for u h'
    using that claimUpdate_allowed [OF userClaimI' [of n un u0 h' u] onlyMarks_released]
    by (auto simp: quiet_def wp_rules split: prod.splits sum.splits intro!: wp_exec intro: clean cleaned)
  then show ?thesis
    unfolding releaseClaimOnce_def
    by (intro well_thenE [OF well_get [where Q = "\<lambda>u h'. claimRead h' ?k u"]])
      (use assms in \<open>auto dest: later_mem\<close>)
qed

lemma releaseClaim_well:
  "claimRead h (fst n, un) u0 \<Longrightarrow>
   exportPart E X n d0 (removeUserPVCExportingAnnotationsAndFinalizer E X' u0)
     (\<lambda>_ h'. claimReleased h' (keyOf (pvc_meta u0))) h"
  unfolding removeUserPVCExportingAnnotationsAndFinalizer_def
  by (rule well_poll, rule releaseOnce_well) (auto dest: later_mem)

section \<open>The volume under an export\<close>

text \<open>The volume handed over is the one just taken, or it is read through the existing export claim.\<close>

definition handedOver :: "exportConfig \<Rightarrow> nsname \<Rightarrow> string \<Rightarrow> hist \<Rightarrow> persistentVolumeClaim \<Rightarrow> persistentVolume option \<Rightarrow> bool" where
  "handedOver X n pn h p pv0 \<longleftrightarrow> claimSeen h p \<and>
     (case pv0 of
        Some pv \<Rightarrow> \<exists>u. takeable n h u pv
      | None \<Rightarrow> claimRead h (dm_controllerNamespace X, pn) p)"

lemma handedOver_mono: "handedOver X n pn h p pv0 \<Longrightarrow> later h h' \<Longrightarrow> handedOver X n pn h' p pv0"
  unfolding handedOver_def by (auto intro: seen_mono takeable_mono later_mem split: option.splits)

lemma takeable_seen: "takeable n h u pv \<Longrightarrow> volumeSeen h pv"
  unfolding takeable_def idleVolume_def by blast

lemma takenPV_allowed:
  assumes "activeNow d0" "nm = exportNamesOf E (the d0)" "de_meta d = de_meta (the d0)" "claimSeen h p"
    and "takeable n h u pv \<or>
      claimRead h (dm_controllerNamespace X, ExportPVCName nm) p \<and> volumeRead h (pvc_volumeName p) pv"
  shows "exportAllowed E X n d0 h (Patch True (OPv pv) (OPv (takenPV pv p d nm un)))"
proof -
  have "takenPV pv p d nm un = takenPV pv p (the d0) nm un"
    using assms(3) by (simp add: takenPV_def exportAnnotations_def)
  then have "takenOver E X n d0 h pv (takenPV pv p d nm un)"
    using assms unfolding takenOver_def Let_def by metis
  then show ?thesis
    using assms(5) by (auto simp: exportAllowed_def volumePatch_def dest: takeable_seen)
qed

lemma volumeOf_well:
  assumes "handedOver X n pn h p pv0"
  shows "exportPart E X n d0 (case pv0 of
      Some pv \<Rightarrow> ret (Inr pv)
    | None \<Rightarrow>
        if pvc_volumeName p = [] then ret (Inl (Errorf msg []))
        else State_Monad.bind (getPv E (pvc_volumeName p)) (\<lambda>got. ret (case got of
               Inl err \<Rightarrow> Inl (if IsNotFound err then Errorf msg' [] else err) | Inr pv \<Rightarrow> Inr pv)))
    (\<lambda>pv h'. claimSeen h' p \<and> (\<exists>u. takeable n h' u pv \<or>
       claimRead h' (dm_controllerNamespace X, pn) p \<and> volumeRead h' (pvc_volumeName p) pv)) h"
  using assms unfolding handedOver_def
  by (auto simp: quiet_def wp_rules intro!: wp_getObj split: option.splits)

lemma ensureExportPVReady_well:
  assumes "activeNow d0" "nm = exportNamesOf E (the d0)" "de_meta d = de_meta (the d0)"
    and "fst n = m_namespace (de_meta d)" "TargetKindShort nm \<noteq> KindSnapshotShort \<Longrightarrow> handedOver X n (ExportPVCName nm) h p pv0"
  shows "exportPart E X n d0 (ensureExportPVReady E X pv0 p nm d un) (\<lambda>_ _. True) h"
proof (cases "TargetKindShort nm \<noteq> KindPVCShort \<and> TargetKindShort nm \<noteq> KindVirtualDiskShort")
  case False
  then have ho: "handedOver X n (ExportPVCName nm) h p pv0"
    by (intro assms(5)) (auto simp: KindPVCShort_def KindVirtualDiskShort_def KindSnapshotShort_def)
  have patch: "exportPart E X n d0 (patchPVLabelAnnotationsClaimRef E pv p d nm un) (\<lambda>_ _. True) h'"
    if "claimSeen h' p" "takeable n h' u pv \<or>
       claimRead h' (dm_controllerNamespace X, ExportPVCName nm) p \<and> volumeRead h' (pvc_volumeName p) pv" for h' u pv
    unfolding patchPVLabelAnnotationsClaimRef_def
    by (intro well_wrapE well_discard well_exec takenPV_allowed [OF assms(1-3) that]) simp
  show ?thesis
    unfolding ensureExportPVReady_def if_not_P [OF False] assms(4) [symmetric]
    by (rule well_thenE [OF volumeOf_well [OF ho]], rule well_thenE [OF ensureUserPVC_well])
      (auto simp: Let_def intro!: quiet_ret patch dest: seen_mono takeable_mono later_mem)
qed (simp add: ensureExportPVReady_def quiet_ret)

section \<open>An export that is being provided\<close>

text \<open>The object in memory differs from the one read in its status only, and its target has a category.\<close>

definition sameSpec :: "dataExport \<Rightarrow> dataExport \<Rightarrow> bool" where
  "sameSpec d d1 \<longleftrightarrow> d\<lparr>de_status := de_status d1\<rparr> = d1"

definition provided :: "env \<Rightarrow> nsname \<Rightarrow> dataExport option \<Rightarrow> names \<Rightarrow> dataExport \<Rightarrow> bool" where
  "provided E n d0 nm d \<longleftrightarrow> activeNow d0 \<and> nm = exportNamesOf E (the d0) \<and> sameSpec d (the d0) \<and>
     n = keyOf (de_meta (the d0))"

lemma sameSpec_simps:
  "sameSpec d d1 \<Longrightarrow> de_meta d = de_meta d1" "sameSpec d d1 \<Longrightarrow> de_targetGroup d = de_targetGroup d1"
  "sameSpec d d1 \<Longrightarrow> de_targetKind d = de_targetKind d1" "sameSpec d d1 \<Longrightarrow> de_targetName d = de_targetName d1"
  unfolding sameSpec_def by (cases d; cases d1; simp)+

lemma providedD:
  assumes "provided E n d0 nm d"
  shows "activeNow d0" "nm = exportNamesOf E (the d0)" "de_meta d = de_meta (the d0)"
    "fst n = m_namespace (de_meta d)" "snd n = m_name (de_meta d)" "de_targetName d = de_targetName (the d0)"
  using assms sameSpec_simps [of d "the d0"] by (auto simp: provided_def keyOf_def)

lemma prepareDisk_well:
  assumes "ns = fst n"
  shows "exportPart E X n d0 (prepareVirtualDiskForExportAndGetPVCName E ns disk) (\<lambda>_ _. True) h"
proof -
  have disk: "exportPart E X n d0 (getDisk E (ns, disk)) (\<lambda>_ _. True) h"
    by (rule well_get) auto
  have pvc: "exportPart E X n d0 (wrapE msg (getPvc E (ns, c))) (\<lambda>u h'. claimRead h' (fst n, c) u) h'" for h' msg c
    using assms by (intro well_wrapE well_get) auto
  show ?thesis
    unfolding prepareVirtualDiskForExportAndGetPVCName_def
    by (rule quiet_bind [OF disk])
      (auto split: sum.splits intro!: quiet_ret well_thenE [OF pvc]
        well_thenE [OF well_wrapE, OF ensureAnnotations_well])
qed

lemma diskReady_well: "exportPart E X n d0 (isVirtualDiskReadyForExport E X ns disk) (\<lambda>_ _. True) h"
proof -
  have "exportPart E X n d0 (diskReadyOnce E m) (\<lambda>_ _. True) h'" for h' m
    by (auto simp: diskReadyOnce_def quiet_def wp_rules intro!: wp_getObj split: prod.splits)
  then have poll: "exportPart E X n d0 (PollUntilContextTimeout k (diskReadyOnce E m)) (\<lambda>_ _. True) h" for k m
    by (intro well_poll) simp
  show ?thesis
    unfolding isVirtualDiskReadyForExport_def
    by (rule well_thenE [OF well_wrapE, OF poll]) (auto intro!: quiet_ret)
qed

lemma getExportPVCFromDisk_well:
  assumes "provided E n d0 nm d"
  shows "exportPart E X n d0 (getExportPVCFromUserVirtualDisk E X d nm)
    (\<lambda>x h'. claimSeen h' (fst x) \<and> (\<exists>u. takeable n h' u (fst (snd x)))) h"
proof -
  have pn: "ExportPVCName nm = ExportPVCName (exportNamesOf E (the d0))"
    using providedD(2) [OF assms] by simp
  have claim: "exportPart E X n d0 (thenE (getExportPVCFromUserPVC E X (fst n) c (ExportPVCName nm) (snd n))
      (\<lambda>x. ret (Inr (fst x, snd x, c))))
      (\<lambda>x h'. claimSeen h' (fst x) \<and> (\<exists>u. takeable n h' u (fst (snd x)))) h'" for c h'
    by (rule well_thenE [OF getExportPVC_well [OF providedD(1) [OF assms] pn]]) (auto intro!: quiet_ret)
  show ?thesis
    unfolding getExportPVCFromUserVirtualDisk_def Let_def providedD(4,5) [OF assms, symmetric]
    by (intro well_thenE [OF well_wrapE, OF prepareDisk_well [OF refl]]
        well_thenE [OF well_wrapE, OF diskReady_well])
      (auto intro!: quiet_ret claim)
qed

section \<open>The restore of a snapshot\<close>

lemma artifactOfData_retryable [dest]: "artifactOfData c r = Inl e \<Longrightarrow> retryable e"
  by (auto simp: artifactOfData_def split: sum.splits option.splits if_splits)

lemma verified_namespace:
  "verifySnapshotContentNamespace c cn ns = Inr x \<Longrightarrow> contentAnchor c = [] \<or> contentAnchor c = ns"
  by (auto simp: verifySnapshotContentNamespace_def Let_def split: if_splits)

lemma resolved_artifact:
  assumes "x_RESTMapping X g (de_targetGroup d) (de_targetKind d) = Mapped gvr True"
    "(Get (KResource gvr) (m_namespace (de_meta d), de_targetName d), RObj (OSnapshotLeaf leaf)) \<in> set h"
    "leaf_boundSnapshotContentName leaf = Inr cn"
    "(Get KSnapshotContent ([], cn), RObj (OSnapshotContent content)) \<in> set h"
    "verifySnapshotContentNamespace content cn (m_namespace (de_meta d)) = Inr ()"
  shows "sane (\<lambda>art h'. resolvedSnapshot X d h' art) (artifactOfData cn (snc_data content)) h"
proof (cases "artifactOfData cn (snc_data content)")
  case (Inr art)
  with assms verified_namespace [OF assms(5)] show ?thesis
    unfolding sane_def resolvedSnapshot_def by (simp, blast)
qed auto

lemma resolveSnapshot_well:
  assumes "sameSpec d d1"
  shows "exportPart E X n d0 (resolveSnapshotDataArtifact E X d) (\<lambda>art h'. resolvedSnapshot X d1 h' art) h"
  unfolding resolveSnapshotDataArtifact_def sameSpec_simps [OF assms]
  by (auto simp: quiet_def wp_rules intro!: wp_getObj resolved_artifact split: restMapping.splits sum.splits)

lemma ensureVrr_well:
  assumes "provided E n d0 nm d" "resolvedSnapshot X (the d0) h art"
  shows "exportPart E X n d0 (ensureVolumeRestoreRequest E X d nm art) (\<lambda>_ _. True) h"
proof -
  have "exportRestoreRequest X d nm art = exportRestoreRequest X (the d0) nm art"
    using providedD(3) [OF assms(1)] by (simp add: exportRestoreRequest_def)
  moreover have "resolvedSnapshot X (the d0) (logged h r a) art" for r a
    using assms(2) by (rule resolvedSnapshot_mono) simp
  ultimately have "exportAllowed E X n d0 (logged h r a) (Create (OVrr (exportRestoreRequest X d nm art)))" for r a
    using providedD(1,2) [OF assms(1)] by (auto simp: exportAllowed_def)
  then show ?thesis
    unfolding ensureVolumeRestoreRequest_def
    by (auto simp: quiet_def wp_rules respErr_def intro!: wp_getObj wp_exec split: resp.splits sum.splits)
qed

lemma exportPVCShaped_well:
  "exportPart E X n d0 (exportPVCShaped E m) (\<lambda>r h'. \<forall>p. r = Some p \<longrightarrow> claimRead h' m p) h"
  unfolding exportPVCShaped_def by (auto simp: quiet_def wp_rules intro!: wp_getObj)

lemma waitForExportPVC_well:
  "exportPart E X n d0 (waitForExportPVC E X pn) (\<lambda>p h'. claimRead h' (dm_controllerNamespace X, pn) p) h"
proof -
  have "exportPart E X n d0 (PollUntilContextTimeout k (exportPVCShaped E m)) (\<lambda>p h'. claimRead h' m p) h" for k m
    by (rule well_poll) (rule exportPVCShaped_well)
  then show ?thesis
    unfolding waitForExportPVC_def Let_def
    by (rule quiet_bind) (auto simp: quiet_def wp_rules intro!: wp_getObj split: sum.splits)
qed

lemma getExportPVCFromSnapshot_well:
  assumes "provided E n d0 nm d"
  shows "exportPart E X n d0 (getExportPVCFromSnapshot E X d nm)
    (\<lambda>p h'. claimRead h' (dm_controllerNamespace X, ExportPVCName nm) p) h"
  using assms unfolding getExportPVCFromSnapshot_def
  by (intro well_thenE [OF resolveSnapshot_well] well_thenE [OF ensureVrr_well] waitForExportPVC_well)
    (auto simp: provided_def)

section \<open>The export claim\<close>

lemma createExportPVC_well:
  assumes "provided E n d0 nm d"
  shows "exportPart E X n d0 (createExportPVC E X d nm)
    (\<lambda>x h'. handedOver X n (ExportPVCName nm) h' (fst x) (fst (snd x))) h"
proof -
  have pn: "ExportPVCName nm = ExportPVCName (exportNamesOf E (the d0))"
    using providedD(2) [OF assms] by simp
  show ?thesis
    unfolding createExportPVC_def providedD(4,5) [OF assms, symmetric]
    by (auto simp: handedOver_def intro!: quiet_ret
        well_thenE [OF well_wrapE, OF getExportPVC_well [OF providedD(1) [OF assms] pn]]
        well_thenE [OF well_wrapE, OF getExportPVCFromDisk_well [OF assms]]
        well_thenE [OF well_wrapE, OF getExportPVCFromSnapshot_well [OF assms]])
qed

lemma validateExportPVC_well:
  "exportPart E X n d0 (validateExportPVC E X pn)
     (\<lambda>r h'. \<forall>p. r = Some p \<longrightarrow> handedOver X n pn h' p None) h"
  unfolding validateExportPVC_def
  by (rule well_thenE [OF well_found [where Q = "\<lambda>r h'. \<forall>p. r = Some p \<longrightarrow> handedOver X n pn h' p None"]])
    (auto simp: handedOver_def intro!: quiet_ret split: option.splits)

lemma resolveUserPVCName_well: "exportPart E X n d0 (resolveUserPVCName E d short) (\<lambda>_ _. True) h"
  unfolding resolveUserPVCName_def by (auto simp: quiet_def wp_rules intro!: wp_getObj)

section \<open>Giving a volume back\<close>

lemma inconsistent_allowed:
  "ending d0 \<Longrightarrow> volumeSeen h pv \<Longrightarrow> exportAllowed E X n d0 h (Patch True (OPv pv) (OPv (inconsistentPV X pv)))"
  by (simp add: exportAllowed_def volumePatch_def)

lemma handleInconsistentPV_well:
  "ending d0 \<Longrightarrow> volumeSeen h pv \<Longrightarrow> exportPart E X n d0 (handleInconsistentPV E X pv) (\<lambda>_ _. True) h"
  unfolding handleInconsistentPV_def
  by (intro well_wrapE well_discard well_exec inconsistent_allowed) simp_all

lemma restoreOriginal_well:
  assumes "volumeSeen h pv" "\<And>b. restoredPV pv = Inr (b, True) \<Longrightarrow> unmarkedLast n d0 h pv b"
  shows "exportPart E X n d0 (restoreOriginalPVState E pv) (\<lambda>_ h'. policyBack h' pv) h"
proof (cases "restoredPV pv")
  case (Inr x)
  obtain b c where x: "x = (b, c)" by (cases x)
  show ?thesis
  proof (cases c)
    case True
    then have r: "restoredPV pv = Inr (b, True)" using Inr x by simp
    then have "exportAllowed E X n d0 h (Patch True (OPv pv) (OPv b))"
      using assms by (auto simp: exportAllowed_def volumePatch_def)
    with r show ?thesis
      by (auto simp: restoreOriginalPVState_def policyBack_def quiet_def wp_rules respErr_Inl
        intro!: wp_exec split: sum.splits)
  next
    case False
    with Inr x show ?thesis
      by (simp add: restoreOriginalPVState_def policyBack_def quiet_def wp_rules)
  qed
qed (auto simp: restoreOriginalPVState_def quiet_def wp_rules)

lemma parse_policy:
  "validPolicy (savedPolicy pv) \<or> (case parsePVRecoveryInfo E pv ns nm of
     Inl e \<Rightarrow> errorsIs e ErrInvalidOriginalReclaimPolicy | Inr _ \<Rightarrow> False)"
  by (simp add: parsePVRecoveryInfo_def savedPolicy_def Let_def)

text \<open>The last steps: the volume is bound to the user's claim, the claim is freed, the volume loses its marks.\<close>

lemma rebind_well:
  assumes "ending d0" "claimRead h (fst n, un) u" "volumeSeen h pv" "marked pv" "validPolicy (savedPolicy pv)"
  shows "exportPart E X n d0 (case validateUserPVCInWorkingState u pv of
      Inr _ \<Rightarrow> ret (Inr pv)
    | Inl _ \<Rightarrow> wrapE msg (sendObj E (Patch True (OPv pv) (OPv (reboundPV pv u))) decPv))
    (\<lambda>pv' h'. volumeSeen h' pv' \<and> boundBack h' u pv' \<and>
       (volumeRead h (pvc_volumeName u) pv \<longrightarrow> returnedVolume h' u pv')) h"
proof -
  have "exportAllowed E X n d0 h (Patch True (OPv pv) (OPv (reboundPV pv u)))"
    using assms by (auto simp: exportAllowed_def volumePatch_def givenBack_def)
  then show ?thesis
    using assms(3)
    by (auto simp: boundBack_def returnedVolume_def split: sum.splits intro!: quiet_ret well_wrapE well_send)
qed

lemma giveBack_well:
  assumes "ending d0" "claimRead h (fst n, un) u" "volumeSeen h pv" "boundBack h u pv"
  shows "exportPart E X n d0 (thenE (removeUserPVCExportingAnnotationsAndFinalizer E X u) (\<lambda>_.
      wrapE msg (restoreOriginalPVState E pv)))
    (\<lambda>_ h'. claimReleased h' (keyOf (pvc_meta u)) \<and> policyBack h' pv) h"
proof (rule well_thenE [OF releaseClaim_well [OF assms(2)]], rule well_wrapE, goal_cases)
  case (1 a h')
  then have "unmarkedLast n d0 h' pv b" if "restoredPV pv = Inr (b, True)" for b
    using that assms boundBack_mono later_mem unfolding unmarkedLast_def by metis
  with 1 assms(3) have "exportPart E X n d0 (restoreOriginalPVState E pv) (\<lambda>_ h'. policyBack h' pv) h'"
    by (intro restoreOriginal_well) (auto intro: seen_mono)
  with 1 show ?case
    by (elim well_mono) (auto intro: claimReleased_mono)
qed

lemma volumeBackI:
  "claimRead h (ns, un) u \<Longrightarrow> claimReleased h (keyOf (pvc_meta u)) \<Longrightarrow>
     volumeRead h (pvc_volumeName u) pv \<and> \<not> marked pv \<or> returnedVolume h u pv \<and> policyBack h pv \<Longrightarrow> volumeBack ns h"
  unfolding volumeBack_def by blast

lemma recoverMarked_well:
  assumes "ending d0" "claimRead h (fst n, un) u" "volumeSeen h pv" "marked pv" "validPolicy (savedPolicy pv)"
  shows "exportPart E X n d0 (thenE (case validateUserPVCInWorkingState u pv of
      Inr _ \<Rightarrow> ret (Inr pv)
    | Inl _ \<Rightarrow> wrapE msg (sendObj E (Patch True (OPv pv) (OPv (reboundPV pv u))) decPv)) (\<lambda>pv.
     thenE (removeUserPVCExportingAnnotationsAndFinalizer E X u) (\<lambda>_. wrapE msg' (restoreOriginalPVState E pv))))
    (\<lambda>_ h'. volumeRead h (pvc_volumeName u) pv \<longrightarrow> volumeBack (fst n) h') h"
proof (rule well_thenE [OF rebind_well [OF assms]], goal_cases)
  case (1 pv' h')
  then have u: "claimRead h' (fst n, un) u" using assms(2) later_mem by blast
  have "exportPart E X n d0 (thenE (removeUserPVCExportingAnnotationsAndFinalizer E X u) (\<lambda>_.
      wrapE msg' (restoreOriginalPVState E pv')))
    (\<lambda>_ h'. claimReleased h' (keyOf (pvc_meta u)) \<and> policyBack h' pv') h'"
    using 1 by (intro giveBack_well [OF assms(1) u]) auto
  then show ?case
  proof (rule well_mono, intro impI, goal_cases)
    case (1 x h'')
    with \<open>later h h' \<close> u \<open>volumeSeen h' pv' \<and> _\<close> show ?case
      by (intro volumeBackI [where un = un and u = u and pv = pv'])
        (blast intro: returnedVolume_mono later_mem)+
  qed
qed

lemma recoverUserPVC_well:
  assumes "ending d0" "ns = fst n" "case pv0 of None \<Rightarrow> True | Some pv \<Rightarrow> volumeSeen h pv"
  shows "exportPart E X n d0 (recoverUserPVC E X ns upn den pv0) (\<lambda>_ h'. pv0 = None \<longrightarrow> volumeBack (fst n) h') h"
  unfolding recoverUserPVC_def assms(2)
proof (rule well_thenE [OF well_found [where Q = "\<lambda>r h'. case r of
      None \<Rightarrow> (Get KPersistentVolumeClaim (fst n, upn), RErr NotFound) \<in> set h'
    | Some u \<Rightarrow> claimRead h' (fst n, upn) u"]], simp, simp, simp, goal_cases)
  case (1 r h1)
  show ?case
  proof (cases r)
    case None
    with 1 show ?thesis by (auto simp: volumeBack_def intro!: quiet_ret)
  next
    case (Some u)
    with 1 have u: "claimRead h1 (fst n, upn) u" by simp
    have vol: "exportPart E X n d0 (case pv0 of
          Some pv \<Rightarrow> ret (Inr pv)
        | None \<Rightarrow> if pvc_volumeName u = [] then ret (Inl (Errorf msg []))
                  else wrapE msg' (getPv E (pvc_volumeName u)))
        (\<lambda>pv h'. volumeSeen h' pv \<and> (pv0 = None \<longrightarrow> volumeRead h' (pvc_volumeName u) pv)) h1" for msg msg'
      using assms(3) 1(1)
      by (auto split: option.splits intro!: quiet_ret well_wrapE well_get intro: seen_mono)
    show ?thesis
      unfolding Some option.case
    proof (rule well_thenE [OF vol], goal_cases)
      case (1 pv h2)
      then have u2: "claimRead h2 (fst n, upn) u" and pv: "volumeSeen h2 pv"
        and vr: "pv0 = None \<longrightarrow> volumeRead h2 (pvc_volumeName u) pv"
        using u later_mem by blast+
      let ?bad = "case parsePVRecoveryInfo E pv (fst n) den of
        Inl e \<Rightarrow> errorsIs e ErrInvalidOriginalReclaimPolicy | Inr _ \<Rightarrow> False"
      consider "\<not> marked pv" | "marked pv" "?bad" | "marked pv" "\<not> ?bad" by blast
      then show ?case
      proof cases
        case 1
        have "exportPart E X n d0 (removeUserPVCExportingAnnotationsAndFinalizer E X u)
            (\<lambda>_ h'. pv0 = None \<longrightarrow> volumeBack (fst n) h') h2"
          by (rule well_mono [OF releaseClaim_well [OF u2]])
            (use 1 vr u2 in \<open>blast intro: volumeBackI later_mem\<close>)
        with 1 show ?thesis by (simp add: marked_def)
      next
        case 2
        then show ?thesis
          by (auto simp: marked_def intro!: quiet_ret
            well_thenE [OF well_wrapE, OF handleInconsistentPV_well [OF assms(1) pv]])
      next
        case 3
        then have "validPolicy (savedPolicy pv)" using parse_policy by blast
        from recoverMarked_well [OF assms(1) u2 pv 3(1) this] have
          "exportPart E X n d0 (thenE (case validateUserPVCInWorkingState u pv of
              Inr _ \<Rightarrow> ret (Inr pv)
            | Inl _ \<Rightarrow> wrapE msg (sendObj E (Patch True (OPv pv) (OPv (reboundPV pv u))) decPv)) (\<lambda>pv.
            thenE (removeUserPVCExportingAnnotationsAndFinalizer E X u) (\<lambda>_. wrapE msg' (restoreOriginalPVState E pv))))
            (\<lambda>_ h'. pv0 = None \<longrightarrow> volumeBack (fst n) h') h2" for msg msg'
          by (rule well_mono) (use vr in blast)
        with 3 show ?thesis by (simp add: marked_def)
      qed
    qed
  qed
qed

lemma recoverDisk_well:
  assumes "ending d0" "fst n = m_namespace (de_meta d)"
  shows "exportPart E X n d0 (recoverUserVirtualDisk E X d) (\<lambda>_ h'. volumeBack (fst n) h') h"
  unfolding recoverUserVirtualDisk_def assms(2) [symmetric]
proof (rule well_thenE [OF well_found [where Q = "\<lambda>r h'. r = None \<longrightarrow>
      (Get KVirtualDisk (fst n, de_targetName d), RErr NotFound) \<in> set h'"]], goal_cases)
  case (4 r h')
  then show ?case
    using recoverUserPVC_well [OF assms(1) refl, where ?pv0.0 = None and h = h']
    by (auto simp: volumeBack_def intro!: quiet_ret split: option.splits)
qed simp_all

section \<open>Teardown\<close>

lemma deleteFound_well:
  assumes "\<And>x y. dec x = Some y \<Longrightarrow> metaOf y = workMeta x"
    and "\<And>x y. dec x = Some y \<Longrightarrow>
      exportAllowed E X n d0 (logged h (Get k m) (RObj x)) (Delete k (keyOf (metaOf y)))"
  shows "exportPart E X n d0 (deleteFound E k dec metaOf m) (\<lambda>_ h'. goneFrom h' k m) h"
proof -
  let ?Q = "\<lambda>r h'. case r of None \<Rightarrow> goneFrom h' k m | Some y \<Rightarrow>
    exportAllowed E X n d0 h' (Delete k (keyOf (metaOf y))) \<and>
    (\<exists>x. (Get k m, RObj x) \<in> set h' \<and> metaOf y = workMeta x)"
  have found: "exportPart E X n d0 (optional (wrapE msg (getObj E k dec m))) ?Q h" for msg
    using assms by (intro well_found) (auto simp: goneFrom_def)
  show ?thesis
    unfolding deleteFound_def
    by (rule well_thenE [OF found])
      (auto intro!: quiet_ret well_wrapE well_discard well_exec simp: goneFrom_def split: option.splits)
qed

lemma deleteVrr_well:
  "exportPart E X n d0 (deleteVolumeRestoreRequest E X nm)
     (\<lambda>_ h'. deletedAt h' KVolumeRestoreRequest (dm_controllerNamespace X, volumeRestoreRequestName nm)) h"
  unfolding deleteVolumeRestoreRequest_def ignoreNotFound_def
  by (auto simp: quiet_def wp_rules deletedAt_def respErr_Inl intro!: wp_exec exI split: sum.splits)

text \<open>An export that ends, with its names.\<close>

definition closing :: "env \<Rightarrow> nsname \<Rightarrow> dataExport \<Rightarrow> names \<Rightarrow> dataExport \<Rightarrow> bool" where
  "closing E n d1 nm d \<longleftrightarrow> ending (Some d1) \<and> nm = exportNamesOf E d1 \<and> sameSpec d d1 \<and> n = keyOf (de_meta d1) \<and>
     (\<exists>x. classifyTargetRef (de_targetGroup d1) (de_targetKind d1) = Inr x)"

lemma exportNamesOf_simps:
  "classifyTargetRef (de_targetGroup d) (de_targetKind d) = Inr (cat, short) \<Longrightarrow>
     TargetKindShort (exportNamesOf E d) = short"
  "\<exists>short. ExportPVCName (exportNamesOf E d) =
     ExportPVCNameForHash short (generateHashSuffix E (fst (keyOf (de_meta d))) (snd (keyOf (de_meta d))))"
  by (auto simp: exportNamesOf_def exportNames_def NewNamesFromShort_def ExportPVCNameForHash_def keyOf_def Let_def
    split: sum.splits)

lemma category_short:
  "classifyTargetRef g k = Inr (cat, short) \<Longrightarrow>
     short = (case cat of categoryLivePVC \<Rightarrow> KindPVCShort | categoryLiveVirtualDisk \<Rightarrow> KindVirtualDiskShort
                        | categorySnapshot \<Rightarrow> KindSnapshotShort)"
  by (auto simp: classifyTargetRef_def split: if_splits)

lemma recoverTarget_well:
  assumes "closing E n d1 nm d"
  shows "exportPart E X n (Some d1) (recoverTarget E X d nm) (\<lambda>_ h'. targetReturned E X d1 h') h"
proof -
  from assms obtain cat short where c: "classifyTargetRef (de_targetGroup d1) (de_targetKind d1) = Inr (cat, short)"
    unfolding closing_def by force
  note cl = assms [unfolded closing_def]
  have short: "TargetKindShort nm = (case cat of categoryLivePVC \<Rightarrow> KindPVCShort
      | categoryLiveVirtualDisk \<Rightarrow> KindVirtualDiskShort | categorySnapshot \<Rightarrow> KindSnapshotShort)"
    using exportNamesOf_simps(1) [OF c] category_short [OF c] cl by simp
  have ns: "fst n = m_namespace (de_meta d)" "m_namespace (de_meta d) = m_namespace (de_meta d1)"
    using cl sameSpec_simps [of d d1] by (auto simp: keyOf_def)
  show ?thesis
  proof (cases cat)
    case categoryLivePVC
    then show ?thesis
      unfolding recoverTarget_def
      using short cl ns recoverUserPVC_well [where ?d0.0 = "Some d1" and ns = "fst n" and n = n and ?pv0.0 = None and h = h]
      by (auto simp: shortKind_defs targetReturned_def c intro!: well_wrapE)
  next
    case categoryLiveVirtualDisk
    then show ?thesis
      unfolding recoverTarget_def
      using short cl ns recoverDisk_well [where ?d0.0 = "Some d1" and n = n and d = d and h = h]
      by (auto simp: shortKind_defs targetReturned_def c intro!: well_wrapE)
  next
    case categorySnapshot
    then show ?thesis
      unfolding recoverTarget_def
      using short cl
      by (auto simp: shortKind_defs targetReturned_def c intro!: well_wrapE deleteVrr_well)
  qed
qed

section \<open>Orphans\<close>

lemma orphanDeployment_well: "exportPart E X n d0 (deleteOrphanedDeployment E X short hash) (\<lambda>_ _. True) h"
  unfolding deleteOrphanedDeployment_def Let_def DeleteDeployment_def deleteReport_def
  by (auto simp: quiet_def wp_rules respErr_Inl intro!: wp_getObj wp_exec split: option.splits sum.splits)

lemma orphanClaims_well:
  assumes "ending d0" "hash = generateHashSuffix E (fst n) (snd n)"
  shows "exportPart E X n d0 (deleteOrphanedExportPVCs E X short hash) (\<lambda>_ _. True) h"
  using assms unfolding deleteOrphanedExportPVCs_def Let_def ignoreNotFound_def
  by (auto simp: quiet_def wp_rules respErr_Inl exportAllowed_def [of _ _ _ _ _ "Delete KPersistentVolumeClaim _"]
    intro!: wp_getObj wp_exec split: option.splits sum.splits) blast+

lemma parsed:
  assumes "parsePVRecoveryInfo E pv ns nm = Inr info"
  shows "ri_hashSuffix info = generateHashSuffix E ns nm" "ri_userPVCNamespace info = ns"
  using assms
  by (auto simp: parsePVRecoveryInfo_def ValidateHashAndTarget_def isValidHashSuffix_def Let_def
    split: if_splits)

lemma orphanClaim_well:
  assumes "ending d0" "volumeSeen h pv"
  shows "exportPart E X n d0 (recoverOrphanedUserPVC E X pv (fst n) upn den) (\<lambda>_ _. True) h"
proof (cases "fst n = [] \<and> upn = []")
  case True
  then have "exportPart E X n d0 (restoreOriginalPVState E pv) (\<lambda>_ _. True) h"
    using assms by (intro well_mono [OF restoreOriginal_well]) (auto simp: unmarkedLast_def)
  with True show ?thesis by (simp add: recoverOrphanedUserPVC_def well_wrapE)
next
  case False
  have "exportPart E X n d0 (recoverUserPVC E X (fst n) upn den (Some pv)) (\<lambda>_ _. True) h"
    using assms by (intro well_mono [OF recoverUserPVC_well]) auto
  with False show ?thesis by (simp only: recoverOrphanedUserPVC_def if_False well_wrapE)
qed

lemma recoverOrphan_well:
  assumes "ending d0" "volumeSeen h pv"
  shows "exportPart E X n d0 (recoverOrphan E X (fst n) (snd n) pv) (\<lambda>_ _. True) h"
proof (cases "parsePVRecoveryInfo E pv (fst n) (snd n)")
  case (Inl e)
  with handleInconsistentPV_well [OF assms] show ?thesis by (simp add: recoverOrphan_def well_wrapE)
next
  case (Inr info)
  with assms(2) show ?thesis
    unfolding recoverOrphan_def
    by (auto simp: parsed [OF Inr] intro!: well_wrapE orphanClaim_well assms(1)
      well_thenE [OF well_wrapE, OF orphanDeployment_well]
      well_thenE [OF well_wrapE, OF orphanClaims_well [OF assms(1) refl]] intro: seen_mono)
qed

lemma orphanLoop_well:
  "ending d0 \<Longrightarrow> (\<And>pv. pv \<in> set pvs \<Longrightarrow> volumeSeen h pv) \<Longrightarrow>
     exportPart E X n d0 (orphanLoop E X (fst n) (snd n) pvs) (\<lambda>_ _. True) h"
  by (induction pvs) (auto intro!: quiet_ret recoverOrphan_well)

lemma decodeAll_pv: "decodeAll decPv xs = Some pvs \<Longrightarrow> pv \<in> set pvs \<Longrightarrow> OPv pv \<in> set xs"
  by (induction xs arbitrary: pvs) (auto split: option.splits)

lemma removeOrphans_well:
  "exportPart E X n None (removeOrphanResources E X (fst n) (snd n)) (\<lambda>_ _. True) h"
proof -
  have "exportPart E X n None (wrapE msg (listReq E (ListLabeled KPersistentVolume LabelPVDataExporter ''true'') decPv))
    (\<lambda>pvs h'. \<forall>pv \<in> set pvs. volumeSeen h' pv) h" for msg
    by (intro well_wrapE well_list) (auto dest: decodeAll_pv)
  then show ?thesis
    unfolding removeOrphanResources_def
    by (rule well_thenE) (auto simp: ending_def intro!: orphanLoop_well)
qed

end
