(* ===== verification/Data_Export_Status.thy ===== *)
theory Data_Export_Status
  imports Data_Export_Kept
begin

text \<open>
  The export as the reconciler carries it in memory: what its conditions and its finalizer
  stand for at every point of a reconciliation, up to the deferred write, and that a whole
  reconciliation keeps the rule of \<open>Data_Export_Rules\<close>.
\<close>

section \<open>The invariant of the object in memory\<close>

text \<open>
  The phase, the completion time and the server's state are those of the object that was read.
  A Ready condition that is true has evidence, and an expired export was expired when it was read.
\<close>

definition statusInv :: "env \<Rightarrow> exportConfig \<Rightarrow> dataExport \<Rightarrow> hist \<Rightarrow> dataExport \<Rightarrow> bool" where
  "statusInv E X d1 h d \<longleftrightarrow>
     ds_phase (de_status d) = ds_phase (de_status d1) \<and>
     ds_completionTimestamp (de_status d) = ds_completionTimestamp (de_status d1) \<and>
     ds_serverState (de_status d) = ds_serverState (de_status d1) \<and>
     (isConditionTrue E (exportConditions d) ConditionReady \<longrightarrow> readyBy X d1 h) \<and>
     (isDataExportExpired E d \<longrightarrow> exportExpired d1)"

definition exportInv :: "env \<Rightarrow> exportConfig \<Rightarrow> dataExport \<Rightarrow> hist \<Rightarrow> dataExport \<Rightarrow> bool" where
  "exportInv E X d1 h d \<longleftrightarrow> statusInv E X d1 h d \<and>
     keyOf (de_meta d) = keyOf (de_meta d1) \<and> m_deletion (de_meta d) = m_deletion (de_meta d1) \<and>
     (StorageManagerFinalizerName \<in> set (m_finalizers (de_meta d1)) \<and>
      StorageManagerFinalizerName \<notin> set (m_finalizers (de_meta d)) \<longrightarrow>
        ending (Some d1) \<and> (tornDown E X d1 h \<or>
          (\<exists>e. classifyTargetRef (de_targetGroup d1) (de_targetKind d1) = Inl e)))"

text \<open>The result of a step that only touches the status, and of the whole body.\<close>

definition stepOk :: "env \<Rightarrow> exportConfig \<Rightarrow> dataExport \<Rightarrow> ('a \<Rightarrow> hist \<Rightarrow> bool) \<Rightarrow> 'a eres \<Rightarrow> hist \<Rightarrow> bool" where
  "stepOk E X d1 Q x h \<longleftrightarrow> sameSpec (fst x) d1 \<and> statusInv E X d1 h (fst x) \<and> sane Q (snd x) h"

definition bodyOk :: "env \<Rightarrow> exportConfig \<Rightarrow> dataExport \<Rightarrow> ctrlResult eres \<Rightarrow> hist \<Rightarrow> bool" where
  "bodyOk E X d1 x h \<longleftrightarrow> exportInv E X d1 h (fst x) \<and> (calm (snd x) \<or> exportFailedBy d1 h)"

lemma statusInv_mono: "statusInv E X d1 h d \<Longrightarrow> later h h' \<Longrightarrow> statusInv E X d1 h' d"
  unfolding statusInv_def using readyBy_mono by blast

lemma sameSpec_updExport [simp]: "sameSpec (updExport f d) d1 = sameSpec d d1"
  by (simp add: sameSpec_def updExport_def)

lemma sameSpec_setReady [simp]: "sameSpec (setExportReady E st r m d) d1 = sameSpec d d1"
  by (simp add: setExportReady_def)

lemma meta_updExport [simp]:
  "de_meta (updExport f d) = de_meta d" "de_meta (setExportReady E st r m d) = de_meta d"
  by (simp_all add: updExport_def setExportReady_def)

lemma exportInv_same: "sameSpec d d1 \<Longrightarrow> statusInv E X d1 h d \<Longrightarrow> exportInv E X d1 h d"
  using sameSpec_simps(1) [of d d1] by (simp add: exportInv_def)

lemma statusInv_frame:
  assumes "statusInv E X d1 h d"
    and "\<And>s. ds_phase (f s) = ds_phase s" "\<And>s. ds_completionTimestamp (f s) = ds_completionTimestamp s"
    and "\<And>s. ds_serverState (f s) = ds_serverState s" "\<And>s. ds_conditions (f s) = ds_conditions s"
  shows "statusInv E X d1 h (updExport f d)"
  using assms by (simp add: statusInv_def updExport_def isDataExportExpired_def)

lemma find_setExportReady:
  assumes "env_ok E"
  obtains c where "FindStatusCondition E (exportConditions (setExportReady E st r m d)) ConditionReady = Some c"
    "c_status c = st" "c_reason c = r"
proof -
  let ?c = "\<lparr>c_type = ConditionReady, c_status = st, c_reason = r, c_message = m,
    c_observedGeneration = m_generation (de_meta d), c_lastTransitionTime = 0\<rparr>"
  from condition_api.find_set_same [OF env_ok_cond [OF assms], of "exportConditions d" ?c]
  obtain c where "FindStatusCondition E (SetStatusCondition E (exportConditions d) ?c) ConditionReady = Some c"
    "same_report c ?c" by auto
  then show ?thesis
    by (intro that [of c]) (auto simp: setExportReady_def updExport_def same_report_def)
qed

lemma statusInv_setReady:
  assumes "env_ok E" "statusInv E X d1 h d" "st = ConditionTrue \<Longrightarrow> readyBy X d1 h"
    and "st = ConditionFalse \<Longrightarrow> r = ReasonExpired \<Longrightarrow> exportExpired d1"
  shows "statusInv E X d1 h (setExportReady E st r m d)"
proof -
  obtain c where c: "FindStatusCondition E (exportConditions (setExportReady E st r m d)) ConditionReady = Some c"
    "c_status c = st" "c_reason c = r"
    using find_setExportReady [OF assms(1)] .
  have frame: "ds_phase (de_status (setExportReady E st r m d)) = ds_phase (de_status d)"
    "ds_completionTimestamp (de_status (setExportReady E st r m d)) = ds_completionTimestamp (de_status d)"
    "ds_serverState (de_status (setExportReady E st r m d)) = ds_serverState (de_status d)"
    by (simp_all add: setExportReady_def updExport_def)
  show ?thesis
    using assms(2-4) c
    by (auto simp: statusInv_def frame isConditionTrue_def isDataExportExpired_def split: if_splits)
qed

section \<open>Steps\<close>

lemma quiet_keepD:
  assumes "goesWell R m P h" "\<And>e h'. later h h' \<Longrightarrow> retryable e \<Longrightarrow> Q (d, Inl e) h'"
    and "\<And>a h'. later h h' \<Longrightarrow> P a h' \<Longrightarrow> quiet R (k d a) Q h'"
  shows "quiet R (thenD (keepD d m) k) Q h"
proof -
  have "thenD (keepD d m) k = State_Monad.bind m (\<lambda>r. case r of Inl e \<Rightarrow> ret (d, Inl e) | Inr a \<Rightarrow> k d a)"
    by (simp add: thenD_def keepD_def cong: sum.case_cong)
  then show ?thesis
    using assms(2,3) by (auto intro!: quiet_bind [OF assms(1)] quiet_ret split: sum.splits)
qed

lemma stepOk_keepD:
  assumes "goesWell R m P h" "sameSpec d d1" "statusInv E X d1 h d"
    and "\<And>a h'. later h h' \<Longrightarrow> P a h' \<Longrightarrow> statusInv E X d1 h' d \<Longrightarrow> quiet R (k d a) (stepOk E X d1 Q) h'"
  shows "quiet R (thenD (keepD d m) k) (stepOk E X d1 Q) h"
  by (rule quiet_keepD [OF assms(1)]) (use assms(2,4) statusInv_mono [OF assms(3)] in \<open>auto simp: stepOk_def\<close>)

lemma stepOk_thenD:
  assumes "quiet R m (stepOk E X d1 P) h"
    and "\<And>d a h'. later h h' \<Longrightarrow> P a h' \<Longrightarrow> sameSpec d d1 \<Longrightarrow> statusInv E X d1 h' d \<Longrightarrow>
      quiet R (k d a) (stepOk E X d1 Q) h'"
  shows "quiet R (thenD m k) (stepOk E X d1 Q) h"
  unfolding thenD_def
  using assms(2)
  by (intro quiet_bind [OF assms(1)]) (auto simp: stepOk_def split: sum.splits intro!: quiet_ret)

lemma stepOk_ret:
  "sameSpec d d1 \<Longrightarrow> statusInv E X d1 h d \<Longrightarrow> sane Q r h \<Longrightarrow> quiet R (ret (d, r)) (stepOk E X d1 Q) h"
  by (rule quiet_ret) (simp add: stepOk_def)

section \<open>The export workload\<close>

lemma launchedOnce_well:
  assumes "env_ok E" "sameSpec d d1" "statusInv E X d1 h d"
  shows "exportPart E X n d0 (launchedOnce E X d dn)
    (\<lambda>r h'. \<forall>d'. r = Some d' \<longrightarrow> sameSpec d' d1 \<and> statusInv E X d1 h' d') h"
proof -
  let ?g = "\<lambda>dep. logged h (Get KDeployment (dm_controllerNamespace X, dn)) (RObj (ODeployment dep))"
  let ?h = "\<lambda>dep fresh. logged (?g dep) (Get KDataExport (keyOf (de_meta d1))) (RObj (ODataExport fresh))"
  have ready: "statusInv E X d1 (?h dep fresh) (setExportReady E ConditionTrue r m d)"
    if "rolloutFailure (dep_conditions dep) = None" "dsp_replicas (dep_spec dep) = Some (dep_availableReplicas dep)"
      "ds_serverState (de_status fresh) = ServerStateReady" for dep fresh r m
  proof -
    have "serving X d1 (?h dep fresh)" using that unfolding serving_def by auto
    then show ?thesis
      by (intro statusInv_setReady assms(1) statusInv_mono [OF assms(3)]) (auto simp: readyBy_def)
  qed
  have kept: "statusInv E X d1 (?h dep fresh) d" for dep fresh
    by (rule statusInv_mono [OF assms(3)]) simp
  show ?thesis
    unfolding launchedOnce_def sameSpec_simps(1) [OF assms(2)]
    using assms(2) ready kept
    by (auto simp: quiet_def wp_rules intro!: wp_getObj split: option.splits)
qed

lemma launch_quiet:
  assumes "env_ok E" "sameSpec d d1" "statusInv E X d1 h d"
  shows "exportQuiet E X n d0 (waitingForDeploymentLaunch E X d dn) (stepOk E X d1 (\<lambda>_ _. True)) h"
proof -
  have "exportPart E X n d0 (PollUntilContextTimeout k (launchedOnce E X d dn))
      (\<lambda>d' h'. sameSpec d' d1 \<and> statusInv E X d1 h' d') h" for k
    by (rule well_poll) (use assms in \<open>blast intro: launchedOnce_well statusInv_mono\<close>)
  then show ?thesis
    unfolding waitingForDeploymentLaunch_def
    by (rule quiet_bind) (use assms in \<open>auto simp: stepOk_def intro!: quiet_ret intro: statusInv_mono split: sum.splits\<close>)
qed

lemma create_well: "(\<And>h. R h (Create x)) \<Longrightarrow> goesWell R (create_or E x) (\<lambda>_ _. True) h"
  by (auto simp: quiet_def create_or_def wp_rules respErr_Inl intro!: wp_exec split: sum.splits)

lemma createDeployment_quiet:
  assumes "env_ok E" "sameSpec d d1" "statusInv E X d1 h d"
  shows "exportQuiet E X n (Some d1) (createDeployment E X d mode nm) (stepOk E X d1 (\<lambda>_ _. True)) h"
proof -
  have cm: "exportPart E X n (Some d1) (wrapE msg (getObj E KConfigMap decConfigMap m)) (\<lambda>_ _. True) h" for msg m
    by (intro well_wrapE well_get) simp_all
  have dep: "exportPart E X n (Some d1) (wrapE msg (create_or E (ODeployment dp))) (\<lambda>_ _. True) h'"
    if "ownedBy LabelDataExportValue (keyOf (de_meta d1)) (dep_meta dp)"
      "m_namespace (dep_meta dp) = dm_controllerNamespace X" for msg dp h'
    using that by (intro well_wrapE create_well) (simp add: exportAllowed_def)
  have key: "(m_namespace (de_meta d), m_name (de_meta d)) = keyOf (de_meta d1)"
    using sameSpec_simps(1) [OF assms(2)] by (simp add: keyOf_def)
  show ?thesis
    unfolding createDeployment_def
    by (intro stepOk_keepD [OF cm] stepOk_keepD [OF dep] launch_quiet) (simp_all add: assms key ownedBy_def managerAnnotations_def index_str_def)
qed

lemma validateDeploy_quiet:
  assumes "env_ok E" "sameSpec d d1" "statusInv E X d1 h d"
  shows "exportQuiet E X n d0 (validateExportDeploy E X d dn) (stepOk E X d1 (\<lambda>_ _. True)) h"
proof -
  have found: "exportPart E X n d0 (optional (wrapE msg (getDeploymentObj E m))) (\<lambda>_ _. True) h" for msg m
    by (intro well_found) simp_all
  show ?thesis
    unfolding validateExportDeploy_def
    by (rule stepOk_keepD [OF found])
      (use assms in \<open>auto intro!: stepOk_ret stepOk_thenD [OF launch_quiet] split: option.splits\<close>)
qed

section \<open>Publishing\<close>

lemma publicURL_well:
  "exportPart E X n d0 (EnsurePublicURL E env k a b) (\<lambda>_ _. True) h"
  "exportPart E X n d0 (DeletePublicResources E sn i) (\<lambda>_ _. True) h"
  by (rule quiet_mono [OF quiet_keeps [OF exp.EnsurePublicURL_quiet]], assumption,
      auto simp: calm_def sane_def split: sum.splits)
    (rule quiet_mono [OF quiet_keeps [OF exp.DeletePublicResources_quiet]], assumption,
      auto simp: calm_def sane_def split: sum.splits)

lemma publish_quiet:
  assumes "env_ok E" "sameSpec d d1" "statusInv E X d1 h d"
  shows "exportQuiet E X n d0 (reconcilePublishResources E X d nm) (stepOk E X d1 (\<lambda>_ _. True)) h"
proof (cases "de_publish d")
  case True
  have url: "stepOk E X d1 (\<lambda>_ _. True) (updExport (\<lambda>s. s\<lparr>ds_publicURL := u\<rparr>) d, Inr ()) h'"
    "stepOk E X d1 (\<lambda>_ _. True) (d, Inl panicErr) h'"
    "retryable e \<Longrightarrow> stepOk E X d1 (\<lambda>_ _. True) (setExportReady E ConditionFalse ReasonPublishFailed m d,
       Inl (Errorf msg [e])) h'"
    if "later h h'" for u m e h' msg
    using assms(1,2) statusInv_mono [OF assms(3) that]
    by (auto simp: stepOk_def intro!: statusInv_frame statusInv_setReady)
  show ?thesis
    unfolding reconcilePublishResources_def makePublishConfigs_def
    using True url
    by (auto intro!: quiet_bind [OF publicURL_well(1)] quiet_ret split: sum.splits)
next
  case False
  with assms show ?thesis
    unfolding reconcilePublishResources_def makePublishConfigs_def
    by (auto intro!: stepOk_keepD [OF well_wrapE, OF publicURL_well(2)] stepOk_ret statusInv_frame)
qed

lemma podReady_quiet:
  assumes "env_ok E" "sameSpec d d1" "statusInv E X d1 h d"
  shows "exportQuiet E X n d0 (reconcilePodReadyResources E X d nm) (stepOk E X d1 (\<lambda>_ _. True)) h"
proof -
  have found: "exportPart E X n d0 (getServerDeployment E X m) (\<lambda>_ _. True) h" for m
    unfolding getServerDeployment_def by (intro well_found) simp_all
  have stamp: "exportPart E X n d0 (ensureDeploymentTrackingAnnotations E dep d) (\<lambda>_ _. True) h'" for dep h'
    unfolding ensureDeploymentTrackingAnnotations_def Let_def
    by (auto intro!: quiet_ret well_wrapE well_discard well_exec)
  show ?thesis
    unfolding reconcilePodReadyResources_def
    by (rule stepOk_keepD [OF found])
      (use assms in \<open>auto intro!: stepOk_ret stepOk_keepD [OF stamp] publish_quiet statusInv_setReady
        split: option.splits\<close>)
qed

section \<open>Provisioning and teardown\<close>

lemma provide_quiet:
  assumes "env_ok E" "provided E n (Some d1) nm d" "statusInv E X d1 h d"
  shows "exportQuiet E X n (Some d1) (implementDataExportProviding E X d nm) (stepOk E X d1 (\<lambda>_ _. True)) h"
proof -
  have same: "sameSpec d d1" using assms(2) by (simp add: provided_def)
  let ?P = "\<lambda>x h'. handedOver X n (ExportPVCName nm) h' (fst x) (fst (snd x))"
  have claim: "exportPart E X n (Some d1) (case existing of Some p \<Rightarrow> ret (Inr (p, None, [])) | None \<Rightarrow> createExportPVC E X d nm)
      ?P h'" if "\<forall>p. existing = Some p \<longrightarrow> handedOver X n (ExportPVCName nm) h' p None" for existing h'
    using that by (auto split: option.splits intro!: quiet_ret createExportPVC_well [OF assms(2)])
  have user: "exportPart E X n (Some d1) (if c then wrapE msg (resolveUserPVCName E d short) else ret (Inr un))
      (\<lambda>_ _. True) h'" for c msg short un h'
    by (auto intro!: quiet_ret well_wrapE resolveUserPVCName_well)
  have volume: "exportPart E X n (Some d1) (ensureExportPVReady E X pv0 p nm d un) (\<lambda>_ _. True) h'"
    if "handedOver X n (ExportPVCName nm) h' p pv0" for pv0 p un h'
    using providedD [OF assms(2)] that by (intro ensureExportPVReady_well) auto
  have rest: "exportQuiet E X n (Some d1) (thenD (validateExportDeploy E X (updExport (\<lambda>s. s\<lparr>ds_volumeMode := vm\<rparr>) d)
        (DeployName nm)) (\<lambda>d deploy.
      thenD (if deploy = None then createDeployment E X d vm nm else ret (d, Inr ())) (\<lambda>d _.
      reconcilePublishResources E X d nm))) (stepOk E X d1 (\<lambda>_ _. True)) h'"
    if "statusInv E X d1 h' d" for vm h'
    using that same assms(1)
    by (auto intro!: stepOk_thenD [where P = "\<lambda>_ _. True"]
      validateDeploy_quiet createDeployment_quiet stepOk_ret publish_quiet statusInv_frame)
  show ?thesis
    unfolding implementDataExportProviding_def
    by (rule stepOk_keepD [OF validateExportPVC_well same assms(3)], rule stepOk_keepD [OF claim],
        simp, rule same, assumption, rule stepOk_keepD [OF user same], assumption,
        rule stepOk_keepD [OF volume same])
      (auto intro: handedOver_mono split: option.splits intro!: rest stepOk_ret same)
qed

definition clearOk :: "env \<Rightarrow> exportConfig \<Rightarrow> dataExport \<Rightarrow> unit eres \<Rightarrow> hist \<Rightarrow> bool" where
  "clearOk E X d1 x h \<longleftrightarrow> exportInv E X d1 h (fst x) \<and> calm (snd x)"

lemma clear_keepD:
  assumes "goesWell R m P h1" "sameSpec d d1" "statusInv E X d1 h d" "later h h1"
    and "\<And>a h'. later h h' \<Longrightarrow> later h1 h' \<Longrightarrow> P a h' \<Longrightarrow> quiet R (k d a) (clearOk E X d1) h'"
  shows "quiet R (thenD (keepD d m) k) (clearOk E X d1) h1"
proof (rule quiet_keepD [OF assms(1)])
  fix e h'
  assume "later h1 h'" "retryable e"
  then have "statusInv E X d1 h' d" by (intro statusInv_mono [OF assms(3)] later_trans [OF assms(4)])
  with assms(2) \<open>retryable e\<close> show "clearOk E X d1 (d, Inl e) h'" by (simp add: clearOk_def exportInv_same)
qed (rule assms(5) [OF later_trans [OF assms(4)]])

lemma clear_quiet:
  assumes "closing E n d1 nm d" "statusInv E X d1 h d"
  shows "exportQuiet E X n (Some d1) (clearDataExportProviding E X d nm) (clearOk E X d1) h"
proof -
  let ?ns = "dm_controllerNamespace X"
  note cl = assms(1) [unfolded closing_def]
  have dep: "exportPart E X n (Some d1) (deleteFound E KDeployment decDeployment dep_meta (?ns, DeployName nm))
      (\<lambda>_ h'. goneFrom h' KDeployment (?ns, DeployName nm)) h'" for h'
    by (rule deleteFound_well) auto
  have sec: "exportPart E X n (Some d1) (deleteFound E KSecret decSecret sec_meta (?ns, CASecretName nm))
      (\<lambda>_ h'. goneFrom h' KSecret (?ns, CASecretName nm)) h'" for h'
    by (rule deleteFound_well) auto
  have pvc: "exportPart E X n (Some d1) (deleteFound E KPersistentVolumeClaim decPvc pvc_meta (?ns, ExportPVCName nm))
      (\<lambda>_ h'. goneFrom h' KPersistentVolumeClaim (?ns, ExportPVCName nm)) h'" for h'
    using cl exportNamesOf_simps(2) [of E d1]
    by (intro deleteFound_well) (auto simp: exportAllowed_def, blast)
  have fin: "clearOk E X d1 (d\<lparr>de_meta := (de_meta d)\<lparr>m_finalizers := []\<rparr>\<rparr>, Inr ()) h'"
    if "later h h'" "goneFrom h' KDeployment (?ns, DeployName nm)"
      "goneFrom h' KPersistentVolumeClaim (?ns, ExportPVCName nm)" "goneFrom h' KSecret (?ns, CASecretName nm)"
      "targetReturned E X d1 h'" for h'
  proof -
    have "tornDown E X d1 h'" using that cl by (simp add: tornDown_def Let_def)
    with cl statusInv_mono [OF assms(2) that(1)] sameSpec_simps(1) [of d d1] show ?thesis
      by (auto simp: clearOk_def exportInv_def statusInv_def keyOf_def isDataExportExpired_def)
  qed
  have "sameSpec d d1" using cl by blast
  note step = clear_keepD [OF _ this assms(2)]
  show ?thesis
    unfolding clearDataExportProviding_def Let_def
    by (intro step [OF dep] step [OF pvc] step [OF recoverTarget_well [OF assms(1)]] step [OF publicURL_well(2)]
        step [OF sec] quiet_ret fin later_refl)
      (assumption | elim goneFrom_mono targetReturned_mono | blast intro: later_trans)+
qed

section \<open>The body\<close>

lemma FindStatusCondition_mem:
  "env_ok E \<Longrightarrow> FindStatusCondition E cs t = Some c \<Longrightarrow> c \<in> set cs \<and> c_type c = t"
  by (rule condition_api.find_Some [OF env_ok_cond])

lemma rewriteReason_untouched:
  "c \<in> set (rewriteReason cs t r) \<Longrightarrow> c_reason c \<noteq> r \<Longrightarrow> c \<in> set cs"
  by (induction cs) (auto split: if_splits)

text \<open>An object whose conditions are taken from the one that was read.\<close>

lemma statusInv_seed:
  assumes "env_ok E" "ds_phase (de_status d) = ds_phase (de_status d1)"
    and "ds_completionTimestamp (de_status d) = ds_completionTimestamp (de_status d1)"
    and "ds_serverState (de_status d) = ds_serverState (de_status d1)"
    and "\<And>c. c \<in> set (exportConditions d) \<Longrightarrow>
      \<exists>c' \<in> set (exportConditions d1). c_type c' = c_type c \<and> c_status c' = c_status c"
    and "\<And>c. c \<in> set (exportConditions d) \<Longrightarrow> c_reason c = ReasonExpired \<Longrightarrow> c \<in> set (exportConditions d1)"
  shows "statusInv E X d1 h d"
proof -
  note mem = FindStatusCondition_mem [OF assms(1), of "exportConditions d" ConditionReady]
  have "readyBy X d1 h" if t: "isConditionTrue E (exportConditions d) ConditionReady"
  proof -
    obtain c where "c \<in> set (exportConditions d)" "c_type c = ConditionReady" "c_status c = ConditionTrue"
      using t mem by (auto simp: isConditionTrue_def split: option.splits)
    with assms(5) [of c] show ?thesis unfolding readyBy_def by metis
  qed
  moreover have "exportExpired d1" if "isDataExportExpired E d"
    using that mem assms(4,6)
    by (auto simp: isDataExportExpired_def exportExpired_def split: option.splits if_splits)
  ultimately show ?thesis using assms(2-4) by (simp add: statusInv_def)
qed

lemma migrate_inv:
  assumes "env_ok E"
  shows "sameSpec (migrateConditions E d1) d1" "statusInv E X d1 h (migrateConditions E d1)"
proof -
  let ?s = "updExport (\<lambda>s. fst (StripConditionsNotIn s [ConditionReady])) d1"
  let ?r = "updExport (\<lambda>s. s\<lparr>ds_conditions := rewriteReason (ds_conditions s) ConditionReady ReasonServerReady\<rparr>) ?s"
  have "statusInv E X d1 h ?s"
    by (rule statusInv_seed [OF assms]) (auto simp: updExport_def StripConditions_conditions)
  moreover have "\<exists>c' \<in> set (exportConditions d1). c_type c' = c_type c \<and> c_status c' = c_status c"
    if "c \<in> set (exportConditions ?r)" for c
    using that by (auto simp: updExport_def StripConditions_conditions dest!: rewriteReason_mem)
  then have "statusInv E X d1 h ?r"
    by (rule statusInv_seed [OF assms, rotated 3])
      (auto simp: updExport_def StripConditions_conditions dest: rewriteReason_untouched)
  ultimately show "statusInv E X d1 h (migrateConditions E d1)"
    by (auto simp: migrateConditions_def Let_def split: option.splits)
  show "sameSpec (migrateConditions E d1) d1"
    by (auto simp: migrateConditions_def Let_def sameSpec_def updExport_def split: option.splits)
qed

lemma migrated_sel [simp]:
  "env_ok E \<Longrightarrow> de_meta (migrateConditions E d) = de_meta d"
  "env_ok E \<Longrightarrow> de_targetGroup (migrateConditions E d) = de_targetGroup d"
  "env_ok E \<Longrightarrow> de_targetKind (migrateConditions E d) = de_targetKind d"
  "env_ok E \<Longrightarrow> de_targetName (migrateConditions E d) = de_targetName d"
  by (rule sameSpec_simps [OF migrate_inv(1)], assumption)+

lemma clear_result:
  assumes "quiet R m (clearOk E X d1) h"
  shows "quiet R (State_Monad.bind m (\<lambda>x. ret (fst x, cleanupResult (snd x)))) (bodyOk E X d1) h"
  by (rule quiet_bind [OF assms])
    (auto simp: clearOk_def bodyOk_def cleanupResult_def markErr_def retryable_def split: sum.splits intro!: quiet_ret)

lemma closingI:
  assumes "ending (Some d1)" "sameSpec d d1" "classifyTargetRef (de_targetGroup d1) (de_targetKind d1) = Inr (cat, short)"
  shows "closing E (keyOf (de_meta d1)) d1 (exportNames E d short) d"
  using assms sameSpec_simps [OF assms(2)]
  by (auto simp: closing_def exportNamesOf_def exportNames_def)

lemma deleteExport_quiet:
  assumes "m_deletion (de_meta d1) \<noteq> None" "sameSpec d d1" "statusInv E X d1 h d"
  shows "exportQuiet E X (keyOf (de_meta d1)) (Some d1) (deleteExport E X d) (bodyOk E X d1) h"
proof -
  have ending: "ending (Some d1)" using assms(1) by (simp add: ending_def)
  show ?thesis
  proof (cases "classifyTargetRef (de_targetGroup d1) (de_targetKind d1)")
    case (Inl e)
    with assms ending sameSpec_simps [OF assms(2)] show ?thesis
      by (auto simp: deleteExport_def bodyOk_def exportInv_def statusInv_def isDataExportExpired_def keyOf_def
        RemoveFinalizer_def intro!: quiet_ret)
  next
    case (Inr x)
    with closingI [OF ending assms(2)] sameSpec_simps [OF assms(2)] show ?thesis
      by (auto simp: deleteExport_def intro!: clear_result clear_quiet assms(3) split: prod.splits)
  qed
qed

lemma expireExport_quiet:
  assumes "env_ok E" "exportExpired d1" "sameSpec d d1" "statusInv E X d1 h d"
    and "classifyTargetRef (de_targetGroup d1) (de_targetKind d1) = Inr (cat, short)"
  shows "exportQuiet E X (keyOf (de_meta d1)) (Some d1) (expireExport E X d (exportNames E d short)) (bodyOk E X d1) h"
proof -
  let ?d = "if (case FindStatusCondition E (exportConditions d) ConditionReady of
      None \<Rightarrow> True | Some c \<Rightarrow> c_reason c \<noteq> ReasonExpired)
    then setExportReady E ConditionFalse ReasonExpired ''DataExport idle timeout expired'' d else d"
  have same: "sameSpec ?d d1" using assms(3) by simp
  have inv: "statusInv E X d1 h ?d" using assms(1,2,4) by (auto intro!: statusInv_setReady)
  have names: "exportNames E d short = exportNames E ?d short"
    using sameSpec_simps [OF same] sameSpec_simps [OF assms(3)] by (simp only: exportNames_def)
  have "ending (Some d1)" using assms(2) by (simp add: ending_def)
  note cl = clear_result [OF clear_quiet [OF closingI [OF this same assms(5)] inv]]
  have "bodyOk E X d1 (?d, Inr emptyResult) h" using same inv
    by (simp only: bodyOk_def fst_conv snd_conv calm_simps exportInv_same simp_thms)
  from quiet_ret [of "bodyOk E X d1", OF this] cl show ?thesis
    unfolding expireExport_def names Let_def by (simp only: if_split [of "\<lambda>m. quiet _ m _ _"] simp_thms)
qed

lemma validate_quiet:
  assumes "sameSpec d d1"
  shows "exportQuiet E X n d0 (validateDataExportSpec E d) (\<lambda>r h'. calm r \<or> exportFailedBy d1 h') h"
proof (cases "classifyTargetRef (de_targetGroup d1) (de_targetKind d1)")
  case (Inl e)
  with sameSpec_simps [OF assms] show ?thesis
    by (auto simp: validateDataExportSpec_def exportFailedBy_def intro!: quiet_ret)
next
  case (Inr x)
  have disk: "de_targetGroup d1 = GroupVirtualization \<and> de_targetKind d1 = ''VirtualDisk''"
    if "fst x = categoryLiveVirtualDisk"
    using that Inr by (auto simp: classifyTargetRef_def split: if_splits)
  with Inr sameSpec_simps [OF assms] show ?thesis
    unfolding validateDataExportSpec_def isVirtualDiskCRDExists_def
    by (auto simp: quiet_def wp_rules exportFailedBy_def intro!: wp_getObj split: prod.splits sum.splits option.splits)
qed

lemma activeExport_quiet:
  assumes "env_ok E" "activeNow (Some d1)" "sameSpec d d1" "statusInv E X d1 h d"
    and "classifyTargetRef (de_targetGroup d1) (de_targetKind d1) = Inr (cat, short)"
  shows "exportQuiet E X (keyOf (de_meta d1)) (Some d1) (activeExport E X d (exportNames E d short)) (bodyOk E X d1) h"
proof -
  let ?nm = "exportNames E d short"
  have prov: "provided E (keyOf (de_meta d1)) (Some d1) ?nm d"
    using assms(2,3,5) sameSpec_simps [OF assms(3)] by (auto simp: provided_def exportNamesOf_def exportNames_def)
  have start: "bodyOk E X d1 (d'\<lparr>de_meta := fst (EnsureFinalizer (de_meta d') f)\<rparr>, Inr r) h"
    if "sameSpec d' d1" "statusInv E X d1 h d'" for d' f r
    using that sameSpec_simps(1) [OF that(1)]
    by (auto simp: bodyOk_def exportInv_def statusInv_def isDataExportExpired_def keyOf_def EnsureFinalizer_def)
  have fin: "stepOk E X d1 Q (d', Inr a) h' \<Longrightarrow> bodyOk E X d1 (d', Inr r) h'"
    "stepOk E X d1 Q (d', Inl e) h' \<Longrightarrow> bodyOk E X d1 (d', Inl e) h'"
    "stepOk E X d1 Q (d', Inl e) h' \<Longrightarrow>
       bodyOk E X d1 (setExportReady E ConditionFalse ReasonValidationFailed m d', Inr r) h'"
    for d' and a :: unit and Q h' r e m
    using assms(1) by (auto simp: stepOk_def bodyOk_def intro!: exportInv_same statusInv_setReady)
  note providing = quiet_bind [OF provide_quiet [OF assms(1) prov assms(4)]]
    and podReady = quiet_bind [OF podReady_quiet [OF assms(1,3,4)]]
  show ?thesis
  proof (cases "FindStatusCondition E (exportConditions d) ConditionReady")
    case None
    have "statusInv E X d1 h (setExportReady E ConditionFalse ReasonPending ''Started'' d)"
      using assms(1,4) by (auto intro!: statusInv_setReady)
    with None assms(3) show ?thesis
      by (simp only: activeExport_def option.case Let_def quiet_ret start sameSpec_setReady)
  next
    case (Some c)
    then show ?thesis
      unfolding activeExport_def Some option.case thenD_def
      by (auto split: sum.splits intro!: quiet_ret providing podReady intro: fin)
  qed
qed

lemma body_quiet:
  assumes "env_ok E"
  shows "exportQuiet E X (keyOf (de_meta d1)) (Some d1) (exportBody E X d1) (bodyOk E X d1) h"
proof -
  let ?d = "migrateConditions E d1"
  have same: "sameSpec ?d d1" and inv: "\<And>h. statusInv E X d1 h ?d" using migrate_inv [OF assms] by blast+
  have failed: "bodyOk E X d1 (setExportReady E ConditionFalse ReasonValidationFailed m ?d, Inl e) h'"
    if "exportFailedBy d1 h'" for m e h'
    using that same inv assms by (auto simp: bodyOk_def intro!: exportInv_same statusInv_setReady)
  have stay: "bodyOk E X d1 (?d, r) h'" if "calm r" for r h'
    using that same inv by (simp add: bodyOk_def exportInv_same)
  have checked: "exportQuiet E X (keyOf (de_meta d1)) (Some d1)
      (case classifyTargetRef (de_targetGroup d1) (de_targetKind d1) of
         Inl e \<Rightarrow> ret (setExportReady E ConditionFalse ReasonValidationFailed (errText e) ?d, Inl (markErr ErrTerminal e))
       | Inr (_, short) \<Rightarrow>
           if isDataExportExpired E ?d then expireExport E X ?d (exportNames E ?d short)
           else if IsTerminal (ds_phase (de_status ?d)) then ret (?d, Inr emptyResult)
           else activeExport E X ?d (exportNames E ?d short)) (bodyOk E X d1) h'"
    if "m_deletion (de_meta d1) = None" for h'
    using that inv same
    by (auto split: sum.splits prod.splits simp: statusInv_def activeNow_def exportFailedBy_def
      intro!: quiet_ret failed stay expireExport_quiet activeExport_quiet assms)
  show ?thesis
  proof (cases "m_deletion (de_meta d1) = None")
    case True
    with checked show ?thesis
      unfolding exportBody_def Let_def migrated_sel [OF assms]
      by (auto intro!: quiet_bind [OF validate_quiet [OF same]] quiet_ret failed stay split: sum.splits
        simp: retryable_def)
  next
    case False
    with deleteExport_quiet [OF _ same inv] show ?thesis
      by (simp add: exportBody_def migrated_sel [OF assms])
  qed
qed

section \<open>The deferred write\<close>

lemma exportFailedBy_mono: "exportFailedBy d h \<Longrightarrow> later h h' \<Longrightarrow> exportFailedBy d h'"
  unfolding exportFailedBy_def later_def by blast

lemma exportStatusOk_mono: "exportStatusOk X d h s \<Longrightarrow> later h h' \<Longrightarrow> exportStatusOk X d h' s"
  unfolding exportStatusOk_def using readyBy_mono exportFailedBy_mono by meson

lemma exportReason_known: "exportReason e = Some r \<Longrightarrow> r \<noteq> ReasonExpired"
  by (auto simp: exportReason_def split: if_splits)

lemma deMutate_inv:
  assumes "env_ok E" "exportInv E X d1 h d"
  shows "exportInv E X d1 h (deMutateReadyByErr E d err)"
proof -
  have "exportInv E X d1 h (setExportReady E ConditionFalse r m d)" if "r \<noteq> ReasonExpired" for r m
    using assms that by (auto simp: exportInv_def intro!: statusInv_setReady)
  with assms(2) show ?thesis
    by (auto simp: deMutateReadyByErr_def dest: exportReason_known split: option.splits)
qed

lemma finalizeExport_sel:
  "ds_phase (de_status (finalizeDataExportStatus E d err t)) = computeDataExportPhase E d err"
  "ds_completionTimestamp (de_status (finalizeDataExportStatus E d err t)) =
     (if IsTerminal (computeDataExportPhase E d err) \<and> ds_completionTimestamp (de_status d) = None
      then Some t else ds_completionTimestamp (de_status d))"
  "de_meta (finalizeDataExportStatus E d err t) = de_meta d"
  by (simp_all add: finalizeDataExportStatus_def Let_def updExport_def SetCompletionTimestampOnce_def)

lemma finalizeExport_ok:
  assumes "exportInv E X d1 h d" "isTerminalErr err \<Longrightarrow> exportFailedBy d1 h"
  shows "exportStatusOk X d1 h (de_status (finalizeDataExportStatus E d err t))"
proof -
  have same: "m_deletion (de_meta d) = m_deletion (de_meta d1)"
    "ds_phase (de_status d) = ds_phase (de_status d1)"
    "ds_completionTimestamp (de_status d) = ds_completionTimestamp (de_status d1)"
    and ev: "isConditionTrue E (exportConditions d) ConditionReady \<longrightarrow> readyBy X d1 h"
    "isDataExportExpired E d \<longrightarrow> exportExpired d1"
    using assms(1) by (auto simp: exportInv_def statusInv_def)
  have phases: "PhaseCompleted \<noteq> PhaseFailed" "PhaseExpired \<noteq> PhaseFailed" "PhaseExpired \<noteq> PhaseCompleted"
    "PhaseReady \<noteq> PhaseFailed" "PhaseReady \<noteq> PhaseCompleted" "PhasePending \<noteq> PhaseFailed" "PhaseReady \<noteq> PhaseExpired"
    "PhasePending \<noteq> PhaseCompleted" "PhasePending \<noteq> PhaseExpired" "PhasePending \<noteq> PhaseReady"
    "PhaseTerminating \<noteq> PhaseCompleted" "PhaseTerminating \<noteq> PhaseFailed" "PhaseTerminating \<noteq> PhaseExpired"
    "PhaseTerminating \<noteq> PhaseReady"
    by (simp_all add: phase_defs)
  show ?thesis
    using ev assms(2) phases phases [symmetric]
    unfolding exportStatusOk_def finalizeExport_sel computeDataExportPhase_def same by (auto simp: IsTerminal_def)
qed

lemma exportJustRead_logged [simp]: "exportJustRead (logged p r (RObj (ODataExport x))) x"
  unfolding exportJustRead_def by blast

text \<open>Why the finalizer may go.\<close>

definition mayRelease :: "env \<Rightarrow> exportConfig \<Rightarrow> dataExport \<Rightarrow> hist \<Rightarrow> bool" where
  "mayRelease E X d1 h \<longleftrightarrow> ending (Some d1) \<and> (tornDown E X d1 h \<or>
     (\<exists>e. classifyTargetRef (de_targetGroup d1) (de_targetKind d1) = Inl e))"

lemma mayRelease_mono: "mayRelease E X d1 h \<Longrightarrow> later h h' \<Longrightarrow> mayRelease E X d1 h'"
  unfolding mayRelease_def using tornDown_mono by blast

lemma exportWrites_allowed:
  "exportJustRead h fresh \<Longrightarrow> exportStatusOk X d1 h s \<Longrightarrow>
     exportAllowed E X n (Some d1) h (StatusUpdate (ODataExport (fresh\<lparr>de_status := podOwned (de_status fresh) s\<rparr>)))"
  "(\<not> want \<Longrightarrow> mayRelease E X d1 h) \<Longrightarrow>
     exportAllowed E X n (Some d1) h (Update (ODataExport (fresh\<lparr>de_meta := (de_meta fresh)\<lparr>m_finalizers :=
       ReconcileFinalizer live StorageManagerFinalizerName want\<rparr>\<rparr>)))"
  unfolding exportAllowed_def mayRelease_def by auto

lemma exportUpdateOnce_quiet:
  assumes "exportStatusOk X d1 h (de_status new)" "needMeta \<and> \<not> want \<longrightarrow> mayRelease E X d1 h"
  shows "exportQuiet E X n (Some d1) (exportUpdateOnce E new want needMeta needStatus) (\<lambda>_ _. True) h"
proof -
  note meta = exportWrites_allowed(2) [of want E X d1]
  have status: "exportAllowed E X n (Some d1) h' (StatusUpdate (ODataExport
      (fresh\<lparr>de_status := podOwned (de_status fresh) (de_status new)\<rparr>)))"
    if "later h h'" "exportJustRead h' fresh" for h' fresh
    by (rule exportWrites_allowed(1) [OF that(2) exportStatusOk_mono [OF assms(1) that(1)]])
  have "mayRelease E X d1 h'" if "later h h'" "needMeta" "\<not> want" for h'
    using assms(2) that mayRelease_mono by blast
  then show ?thesis
    unfolding exportUpdateOnce_def
    by (auto simp: quiet_def wp_rules intro!: wp_getObj wp_sendObj wp_exec meta status split: sum.splits)
qed

lemma updateDataExport_quiet:
  assumes "env_ok E" "exportStatusOk X d1 h (de_status new)"
    and "StorageManagerFinalizerName \<in> set (m_finalizers (de_meta d1)) \<and>
      StorageManagerFinalizerName \<notin> set (m_finalizers (de_meta new)) \<longrightarrow> mayRelease E X d1 h"
  shows "exportQuiet E X n (Some d1) (updateDataExport E d1 new) (\<lambda>_ _. True) h"
proof (rule quietI)
  let ?R = "exportAllowed E X n (Some d1)"
  let ?I = "\<lambda>h'. obeys ?R h' \<and> later h h'"
  assume h: "obeys ?R h"
  have once: "wp (exportUpdateOnce E new want needMeta b) (\<lambda>_ h''. ?I h'') h'"
    if "?I h'" "needMeta \<and> \<not> want \<longrightarrow> mayRelease E X d1 h" for h' want needMeta b
    using that mayRelease_mono
    by (intro wp_mono [OF quietD [OF exportUpdateOnce_quiet [OF exportStatusOk_mono [OF assms(2)]]]])
      (blast intro: later_trans)+
  show "wp (updateDataExport E d1 new) (\<lambda>r h'. obeys ?R h' \<and> later h h' \<and> True) h"
    unfolding updateDataExport_def Let_def ContainsString_iff
    using assms(3) h
    by (auto simp: wp_return ignoreNotFound_def wp_bind intro!: wp_RetryOnConflict [OF assms(1), where I = ?I]
        wp_mono [OF once] split: sum.splits)
qed

section \<open>The whole reconciliation\<close>

text \<open>The rule of a reconciliation: of the export that was read, or of the key whose export is gone.\<close>

definition reconcileRule :: "env \<Rightarrow> exportConfig \<Rightarrow> nsname \<Rightarrow> dataExport option \<Rightarrow> hist \<Rightarrow> req \<Rightarrow> bool" where
  "reconcileRule E X req d0 =
     exportAllowed E X (case d0 of None \<Rightarrow> req | Some d \<Rightarrow> keyOf (de_meta d)) d0"

lemma deReconcile_existing:
  assumes "env_ok E" "api E [] (Get KDataExport req) = RObj (ODataExport d1)"
  shows "wp (deReconcile E X req) (\<lambda>_ h'. obeys (reconcileRule E X req (Some d1)) h') []"
proof -
  let ?n = "keyOf (de_meta d1)" and ?h = "logged [] (Get KDataExport req) (RObj (ODataExport d1))"
  have persist: "exportQuiet E X ?n (Some d1) (updateDataExport E d1 (finalizeDataExportStatus E
      (deMutateReadyByErr E (fst x) (deferredErr (snd x))) (deferredErr (snd x)) t)) (\<lambda>_ _. True) h"
    if "bodyOk E X d1 x h" for x h t
  proof (rule updateDataExport_quiet [OF assms(1)])
    let ?err = "deferredErr (snd x)"
    have inv: "exportInv E X d1 h (deMutateReadyByErr E (fst x) ?err)"
      using that deMutate_inv [OF assms(1)] by (simp add: bodyOk_def)
    show "exportStatusOk X d1 h (de_status (finalizeDataExportStatus E (deMutateReadyByErr E (fst x) ?err) ?err t))"
      using that by (intro finalizeExport_ok [OF inv])
        (auto simp: bodyOk_def isTerminalErr_def deferredErr_def calm_def retryable_def split: sum.splits if_splits)
    show "StorageManagerFinalizerName \<in> set (m_finalizers (de_meta d1)) \<and>
        StorageManagerFinalizerName \<notin> set (m_finalizers (de_meta
          (finalizeDataExportStatus E (deMutateReadyByErr E (fst x) ?err) ?err t))) \<longrightarrow> mayRelease E X d1 h"
      using inv by (simp add: finalizeExport_sel exportInv_def mayRelease_def)
  qed
  have now: "exportQuiet E X ?n (Some d1) (now E) (\<lambda>_ h'. h' = h) h" for h
    by (simp add: quiet_def wp_rules)
  have "exportQuiet E X ?n (Some d1) (State_Monad.bind (exportBody E X d1) (\<lambda>x. State_Monad.bind (now E) (\<lambda>t.
      State_Monad.bind (updateDataExport E d1 (finalizeDataExportStatus E
        (deMutateReadyByErr E (fst x) (deferredErr (snd x))) (deferredErr (snd x)) t))
        (\<lambda>u. ret (exportResult (snd x) u))))) (\<lambda>_ _. True) ?h"
    by (rule quiet_bind [OF body_quiet [OF assms(1)]], rule quiet_bind [OF now], rule quiet_bind [OF persist])
      (auto intro!: quiet_ret)
  from wp_mono [OF quietD [OF this], of "\<lambda>_ h'. obeys (exportAllowed E X ?n (Some d1)) h'"] show ?thesis
    by (simp add: deReconcile_def reconcileRule_def getObj_def wp_rules wp_call assms(2) Let_def)
qed

lemma deReconcile_missing:
  assumes "\<And>d. api E [] (Get KDataExport req) \<noteq> RObj (ODataExport d)"
  shows "wp (deReconcile E X req) (\<lambda>_ h'. obeys (reconcileRule E X req None) h') []"
proof -
  have get: "exportPart E X req None (getExport E req) (\<lambda>_ _. False) []"
    using assms by (auto simp: quiet_def getObj_def wp_rules wp_call decodeErr_def split: resp.splits option.splits)
  have orphans: "exportQuiet E X req None (thenE (removeOrphanResources E X (fst req) (snd req)) (\<lambda>_. ret (Inr emptyResult)))
      (\<lambda>_ _. True) h" for h
    by (rule quiet_mono [OF well_thenE [OF removeOrphans_well, where Q = "\<lambda>_ _. True"]]) (auto intro!: quiet_ret)
  have "exportQuiet E X req None (deReconcile E X req) (\<lambda>_ _. True) []"
    unfolding deReconcile_def
    by (rule quiet_bind [OF get]) (auto split: sum.splits intro!: quiet_ret orphans)
  from wp_mono [OF quietD [OF this], of "\<lambda>_ h'. obeys (exportAllowed E X req None) h'"] show ?thesis
    by (simp add: reconcileRule_def)
qed

text \<open>The export a reconciliation acts for.\<close>

definition readExport :: "env \<Rightarrow> nsname \<Rightarrow> dataExport option" where
  "readExport E req = (case api E [] (Get KDataExport req) of RObj (ODataExport d) \<Rightarrow> Some d | _ \<Rightarrow> None)"

lemma readExport_Some: "readExport E req = Some d \<longleftrightarrow> api E [] (Get KDataExport req) = RObj (ODataExport d)"
  by (auto simp: readExport_def split: resp.splits kobj.splits)

lemma deReconcile_kept:
  assumes "env_ok E"
  shows "obeys (reconcileRule E X req (readExport E req)) (snd (run_state (deReconcile E X req) []))"
proof (cases "readExport E req")
  case None
  with deReconcile_missing [of E req X] readExport_Some [of E req] show ?thesis by (auto simp: wp_run)
next
  case (Some d)
  from deReconcile_existing [OF assms Some [unfolded readExport_Some], of X] show ?thesis
    unfolding Some by (simp add: wp_run)
qed

end
