(* ===== verification/Data_Export_Props.thy ===== *)
theory Data_Export_Props
  imports Data_Export_Status
begin

text \<open>
  The properties of the DataExport controller, each for every API server and every interleaving
  with other writers, with a cluster on which the reconciler runs.
\<close>

abbreviation exportTrace :: "env \<Rightarrow> exportConfig \<Rightarrow> nsname \<Rightarrow> hist" where
  "exportTrace E X req \<equiv> snd (run_state (deReconcile E X req) [])"

lemma exportTrace_allowed:
  assumes "env_ok E" "exportTrace E X req = p @ (r, a) # s"
  shows "reconcileRule E X req (readExport E req) p r"
  using deReconcile_kept [OF assms(1), of X req] unfolding assms(2) by (rule obeys_split)

section \<open>A cluster with one export\<close>

definition exExportStatus :: dataExportImportStatus where
  "exExportStatus = \<lparr>ds_url = ''https://pod'', ds_ca = ''ca'', ds_publicURL = [], ds_accessTimestamp = 3,
     ds_conditions = [\<lparr>c_type = ConditionReady, c_status = ConditionFalse, c_reason = ReasonPending, c_message = [],
       c_observedGeneration = 0, c_lastTransitionTime = 0\<rparr>],
     ds_volumeMode = [], ds_phase = PhasePending, ds_completionTimestamp = None, ds_serverState = ServerStateReady,
     ds_data = None\<rparr>"

definition exExport :: dataExport where
  "exExport = \<lparr>de_meta = emptyMeta\<lparr>m_name := ''exp'', m_namespace := ''ns'',
       m_finalizers := [StorageManagerFinalizerName]\<rparr>,
     de_ttl = ''10m'', de_publish = False, de_publicIngress = [], de_targetGroup = [], de_targetKind = KindPVC,
     de_targetName = ''data'', de_status = exExportStatus\<rparr>"

definition exUserClaim :: persistentVolumeClaim where
  "exUserClaim = \<lparr>pvc_meta = emptyMeta\<lparr>m_name := ''data'', m_namespace := ''ns'', m_uid := ''c1'',
       m_annotations := [(''owner'', ''me'')]\<rparr>,
     pvc_volumeName = ''pv1'', pvc_storageClassName = Some ''fast'', pvc_volumeMode = Some ''Block'',
     pvc_accessModes = [''ReadWriteOnce''], pvc_requests = [(''storage'', ''1Gi'')], pvc_dataSourceRef = None,
     pvc_phase = ''Bound''\<rparr>"

definition exUserVolume :: persistentVolume where
  "exUserVolume = \<lparr>pv_meta = emptyMeta\<lparr>m_name := ''pv1''\<rparr>, pv_claimRef = Some (claimReference exUserClaim),
     pv_csi = None, pv_reclaimPolicy = ''Delete''\<rparr>"

definition exExportConfig :: exportConfig where
  "exExportConfig = \<lparr>dm_controllerNamespace = ''d8'', dm_originIngressNamespace = ''auth'',
     dm_lookupEnv = exLookup, dm_pollAttempts = 24, dm_parseQuantity = Inr,
     x_RESTMapping = (\<lambda>h g k. if k = ''Snap'' then Mapped ''snaps'' True else NoMatch),
     x_claimPolls = 5, x_launchPolls = 5, x_diskPolls = 5, x_restorePolls = 5\<rparr>"

text \<open>
  The server knows the export, the user's claim and its volume. The export claim exists or not;
  what is written is returned as written.
\<close>

fun deSrv :: "dataExport \<Rightarrow> persistentVolumeClaim option \<Rightarrow> persistentVolume \<Rightarrow> hist \<Rightarrow> req \<Rightarrow> resp" where
  "deSrv d p pv h (Get k n) =
     (case k of
        KDataExport \<Rightarrow> RObj (ODataExport d)
      | KPersistentVolumeClaim \<Rightarrow>
          if fst n = ''ns'' then RObj (OPvc exUserClaim)
          else (case p of None \<Rightarrow> RErr NotFound | Some x \<Rightarrow> RObj (OPvc x))
      | KPersistentVolume \<Rightarrow> RObj (OPv pv)
      | KResource _ \<Rightarrow> RObj (OSnapshotLeaf \<lparr>leaf_meta = emptyMeta, leaf_boundSnapshotContentName = Inr ''sc1''\<rparr>)
      | KSnapshotContent \<Rightarrow> RObj (OSnapshotContent \<lparr>snc_meta = emptyMeta, snc_snapshotRefNamespace = ''ns'',
          snc_data = Inr (Some \<lparr>sd_artifactKind = artifactKindVolumeSnapshotContent, sd_artifactName = ''vsc1'',
            sd_volumeMode = ''Block'', sd_storageClassName = ''fast'', sd_fsType = [], sd_sourceNamespace = ''ns''\<rparr>)\<rparr>)
      | _ \<Rightarrow> RErr NotFound)"
| "deSrv d p pv h (ListIn k ns) = RList []"
| "deSrv d p pv h (ListLabeled k l v) = RList [OPv pv]"
| "deSrv d p pv h (Create x) = RObj x"
| "deSrv d p pv h (Update x) = RObj x"
| "deSrv d p pv h (Patch b x y) = RObj y"
| "deSrv d p pv h (Delete k n) = (if k = KPersistentVolumeClaim then ROk else RErr NotFound)"
| "deSrv d p pv h r = ROk"

abbreviation deEnv :: "dataExport \<Rightarrow> persistentVolumeClaim option \<Rightarrow> persistentVolume \<Rightarrow> env" where
  "deEnv d p pv \<equiv> ref_env (deSrv d p pv) (\<lambda>h. 9)"

lemma deSrv_subject: "readExport (deEnv d p pv) n = Some d"
  by (simp add: readExport_def ref_env_def)

definition exportBodyRun :: "dataExport \<Rightarrow> persistentVolumeClaim option \<Rightarrow> persistentVolume \<Rightarrow> ctrlResult eres \<times> hist" where
  "exportBodyRun d p pv = run_state (exportBody (deEnv d p pv) exExportConfig d)
     [(Get KDataExport (''ns'', ''exp''), RObj (ODataExport d))]"

definition finalExport :: "dataExport \<Rightarrow> persistentVolumeClaim option \<Rightarrow> persistentVolume \<Rightarrow> ctrlResult eres \<Rightarrow> dataExport" where
  "finalExport d p pv x = finalizeDataExportStatus (deEnv d p pv)
     (deMutateReadyByErr (deEnv d p pv) (fst x) (deferredErr (snd x))) (deferredErr (snd x)) 9"

abbreviation deRun :: "dataExport \<Rightarrow> persistentVolumeClaim option \<Rightarrow> persistentVolume \<Rightarrow> hist" where
  "deRun d p pv \<equiv> exportTrace (deEnv d p pv) exExportConfig (''ns'', ''exp'')"

lemma deRun_eval:
  "deRun d p pv = snd (run_state (updateDataExport (deEnv d p pv) d
     (finalExport d p pv (fst (exportBodyRun d p pv)))) (snd (exportBodyRun d p pv)))"
  by (simp add: deReconcile_def getObj_def call_def now_def Let_def logged_def exportBodyRun_def finalExport_def
    split: prod.splits)

text \<open>The names of the example, and the volume and the claim in the middle of the export.\<close>

definition exNames :: names where
  "exNames = exportNamesOf (deEnv exExport None exUserVolume) exExport"

definition exExportPVC :: persistentVolumeClaim where
  "exExportPVC = exportClaim exExportConfig exUserClaim exUserVolume (ExportPVCName exNames)"

definition exTakenVolume :: persistentVolume where
  "exTakenVolume = takenPV exUserVolume exExportPVC exExport exNames ''data''"

definition exEnding :: dataExport where
  "exEnding = exExport\<lparr>de_meta := (de_meta exExport)\<lparr>m_deletion := Some 7\<rparr>\<rparr>"

definition exSnapExport :: dataExport where
  "exSnapExport = exExport\<lparr>de_targetGroup := ''g'', de_targetKind := ''Snap''\<rparr>"

definition exReturnedVolume :: persistentVolume where
  "exReturnedVolume = reboundPV exTakenVolume exUserClaim"

definition exReleasedExport :: dataExport where
  "exReleasedExport = exEnding\<lparr>de_meta := (de_meta exEnding)\<lparr>m_finalizers := []\<rparr>\<rparr>"

definition exTerminating :: dataExport where
  "exTerminating = exReleasedExport\<lparr>de_status := exExportStatus\<lparr>ds_phase := PhaseTerminating\<rparr>\<rparr>"

definition exRestoreRequest :: volumeRestoreRequest where
  "exRestoreRequest = exportRestoreRequest exExportConfig exSnapExport
     (exportNamesOf (deEnv exSnapExport None exUserVolume) exSnapExport)
     \<lparr>sda_artifactKind = artifactKindVolumeSnapshotContent, sda_artifactName = ''vsc1'', sda_volumeMode = ''Block'',
      sda_storageClassName = ''fast'', sda_fsType = []\<rparr>"

lemma exExport_run:
  "let h = deRun exExport None exUserVolume in
     length h = 14 \<and> h ! 6 = (Create (OPvc exExportPVC), RObj (OPvc exExportPVC))"
  unfolding deRun_eval by code_simp

lemma exEnding_run:
  "let h = deRun exEnding (Some exExportPVC) exTakenVolume in
     length h = 15 \<and> h ! 3 = (Delete KPersistentVolumeClaim (''d8'', ExportPVCName exNames), ROk) \<and>
     h ! 8 = (Patch True (OPv exReturnedVolume) (OPv exUserVolume), RObj (OPv exUserVolume)) \<and>
     h ! 13 = (Update (ODataExport exReleasedExport), RObj (ODataExport exReleasedExport)) \<and>
     h ! 14 = (StatusUpdate (ODataExport exTerminating), ROk)"
  unfolding deRun_eval by code_simp

lemma exSnap_run:
  "let h = deRun exSnapExport None exUserVolume in
     length h = 15 \<and> h ! 5 = (Create (OVrr exRestoreRequest), RObj (OVrr exRestoreRequest))"
  unfolding deRun_eval by code_simp

lemma run_at:
  "i < length h \<Longrightarrow> h ! i = x \<Longrightarrow> h = take i h @ x # drop (Suc i) h"
  using id_take_nth_drop by metis

section \<open>Properties\<close>

text \<open>
  C2. A volume is taken from its user only when it is idle. Whatever the API server answers, a
  reconciliation creates a PersistentVolumeClaim only for an export that was read neither deleted
  nor in a terminal phase, and only after it read, in the namespace of the export, a bound claim
  and its volume, each referring to the other, found no pod that mounts the claim and no
  attachment that holds the volume, and found the volume free or already marked for this very
  export. The new claim is the export claim of the controller's namespace for that volume.
\<close>

theorem export_takes_only_idle_volumes:
  assumes "env_ok E" "exportTrace E X req = p @ (Create (OPvc x), a) # s"
  shows "\<exists>d u un pv. readExport E req = Some d \<and> m_deletion (de_meta d) = None \<and>
    \<not> IsTerminal (ds_phase (de_status d)) \<and>
    claimRead p (m_namespace (de_meta d), un) u \<and> idleVolume p u pv \<and>
    validatePVNotOwnedByAnotherDataExport pv (m_namespace (pvc_meta u)) (m_name (de_meta d)) = Inr () \<and>
    x = exportClaim X u pv (ExportPVCName (exportNamesOf E d))"
proof -
  from exportTrace_allowed [OF assms] obtain d u pv where "readExport E req = Some d"
    "activeNow (Some d)" "takeable (keyOf (de_meta d)) p u pv"
    "x = exportClaim X u pv (ExportPVCName (exportNamesOf E d))"
    by (auto simp: reconcileRule_def exportAllowed_def activeNow_def)
  then show ?thesis
    unfolding takeable_def activeNow_def by (auto simp: keyOf_def)
qed

theorem export_takes_only_idle_volumes_witness:
  "\<exists>p s. deRun exExport None exUserVolume = p @ (Create (OPvc exExportPVC), RObj (OPvc exExportPVC)) # s \<and>
     (\<exists>u pv. idleVolume p u pv)"
proof -
  let ?h = "deRun exExport None exUserVolume"
  have "6 < length ?h" "?h ! 6 = (Create (OPvc exExportPVC), RObj (OPvc exExportPVC))"
    using exExport_run by (simp_all add: Let_def)
  note h = run_at [OF this]
  show ?thesis
    using export_takes_only_idle_volumes [OF ref_env_ok h] h by blast
qed

text \<open>The four patches of a volume, by what they do.\<close>

lemma index_update [simp]: "index_str (AList.update k v m) k' = (if k' = k then v else index_str m k')"
  by (simp add: index_str_def update_conv')

lemma takenPV_facts:
  "pv_reclaimPolicy (takenPV pv p d nm un) = ''Retain''" "savedPolicy (takenPV pv p d nm un) = pv_reclaimPolicy pv"
  "marked (takenPV pv p d nm un)" "pv_claimRef (takenPV pv p d nm un) = Some (claimReference p)"
  by (simp_all add: takenPV_def savedPolicy_def marked_def exportAnnotations_def)






text \<open>
  C5. An export of a snapshot reads only its own namespace. Whatever the API server answers, a
  reconciliation creates a VolumeRestoreRequest only for an active export, for the artifact of a
  snapshot read in the namespace of the export whose content names no other namespace. The
  request asks the restore controller for a source kind it supports and for the very claim the
  export waits for.
\<close>

theorem export_snapshot_isolated:
  assumes "env_ok E" "exportTrace E X req = p @ (Create (OVrr v), a) # s"
  shows "\<exists>d gvr leaf cn content art. readExport E req = Some d \<and> m_deletion (de_meta d) = None \<and>
    (Get (KResource gvr) (m_namespace (de_meta d), de_targetName d), RObj (OSnapshotLeaf leaf)) \<in> set p \<and>
    leaf_boundSnapshotContentName leaf = Inr cn \<and>
    (Get KSnapshotContent ([], cn), RObj (OSnapshotContent content)) \<in> set p \<and>
    (contentAnchor content = [] \<or> contentAnchor content = m_namespace (de_meta d)) \<and>
    artifactOfData cn (snc_data content) = Inr art \<and> ref_name (vrr_sourceRef v) = sda_artifactName art \<and>
    ref_kind (vrr_sourceRef v) \<in> {''VolumeSnapshotContent'', ''PersistentVolume''} \<and>
    (m_namespace (vrr_meta v), tmpl_name (vrr_pvcTemplate v)) =
      (dm_controllerNamespace X, ExportPVCName (exportNamesOf E d))"
proof -
  from exportTrace_allowed [OF assms] obtain d art where d: "readExport E req = Some d" "activeNow (Some d)"
    "resolvedSnapshot X d p art" "v = exportRestoreRequest X d (exportNamesOf E d) art"
    by (auto simp: reconcileRule_def exportAllowed_def activeNow_def)
  have kind: "sda_artifactKind art \<in> {''VolumeSnapshotContent'', ''PersistentVolume''}"
    if "artifactOfData cn r = Inr art" for cn r
    using that by (auto simp: artifactOfData_def split: sum.splits option.splits if_splits)
  from d kind show ?thesis
    unfolding resolvedSnapshot_def activeNow_def by (auto simp: exportRestoreRequest_def) blast+
qed

theorem export_snapshot_isolated_witness:
  "\<exists>p s leaf. deRun exSnapExport None exUserVolume = p @ (Create (OVrr exRestoreRequest), RObj (OVrr exRestoreRequest)) # s \<and>
     (\<exists>gvr. (Get (KResource gvr) (''ns'', ''data''), RObj (OSnapshotLeaf leaf)) \<in> set p)"
proof -
  let ?h = "deRun exSnapExport None exUserVolume"
  have "5 < length ?h" "?h ! 5 = (Create (OVrr exRestoreRequest), RObj (OVrr exRestoreRequest))"
    using exSnap_run by (simp_all add: Let_def)
  note h = run_at [OF this]
  have "m_namespace (de_meta exSnapExport) = ''ns''" "de_targetName exSnapExport = ''data''"
    by (simp_all add: exSnapExport_def exExport_def)
  with export_snapshot_isolated [OF ref_env_ok h] h show ?thesis
    by (auto simp: deSrv_subject)
qed

text \<open>
  C6. Nothing of the user is ever deleted. Whatever the API server answers, a reconciliation
  deletes Deployments, Services, Ingresses, Secrets, restore requests and claims only, never a
  volume; and a claim only when the export ends, namely one that was read in the controller's
  namespace under the name derived from the export.
\<close>

theorem export_deletes_only_its_own:
  assumes "env_ok E" "exportTrace E X req = p @ (Delete k m, a) # s"
    and "n = (case readExport E req of None \<Rightarrow> req | Some d \<Rightarrow> keyOf (de_meta d))"
  shows "k \<noteq> KPersistentVolume \<and> k \<noteq> KDataExport \<and> k \<noteq> KVolumeSnapshotContent \<and>
    (k = KPersistentVolumeClaim \<longrightarrow> ending (readExport E req) \<and>
      (\<exists>e short. claimRead p (dm_controllerNamespace X,
           ExportPVCNameForHash short (generateHashSuffix E (fst n) (snd n))) e \<and> m = keyOf (pvc_meta e)))"
  using exportTrace_allowed [OF assms(1,2)] unfolding assms(3) by (auto simp: reconcileRule_def exportAllowed_def)

theorem export_deletes_only_its_own_witness:
  "\<exists>p s e short. deRun exEnding (Some exExportPVC) exTakenVolume =
       p @ (Delete KPersistentVolumeClaim (''d8'', ExportPVCName exNames), ROk) # s \<and>
     claimRead p (''d8'', ExportPVCNameForHash short (generateHashSuffix (deEnv exEnding (Some exExportPVC) exTakenVolume) ''ns'' ''exp'')) e"
proof -
  let ?h = "deRun exEnding (Some exExportPVC) exTakenVolume"
  have "3 < length ?h" "?h ! 3 = (Delete KPersistentVolumeClaim (''d8'', ExportPVCName exNames), ROk)"
    using exEnding_run by (simp_all add: Let_def)
  note h = run_at [OF this]
  have "keyOf (de_meta exEnding) = (''ns'', ''exp'')" "dm_controllerNamespace exExportConfig = ''d8''"
    by (simp_all add: exEnding_def exExport_def keyOf_def exExportConfig_def)
  with export_deletes_only_its_own [OF ref_env_ok h refl] h show ?thesis
    by (simp add: deSrv_subject) blast
qed





lemma update_absent: "k \<notin> fst ` set m \<Longrightarrow> AList.update k v m = m @ [(k, v)]"
  by (induction m) auto

lemma putAll_absent:
  "distinct (map fst kvs) \<Longrightarrow> (\<forall>k \<in> fst ` set kvs. k \<notin> fst ` set m) \<Longrightarrow> putAll kvs m = m @ kvs"
  by (induction kvs m rule: putAll.induct) (auto simp: update_absent)

lemma removeKeys_filter: "fst (removeKeys ks m) = filter (\<lambda>x. fst x \<notin> set ks) m"
  by (induction ks m rule: removeKeys.induct)
    (auto simp: AList.delete_eq split_beta intro!: filter_cong split: prod.splits)

lemma removeKeys_putAll:
  assumes "distinct (map fst kvs)" "map fst kvs = ks" "\<forall>k \<in> set ks. \<not> has_key m k"
  shows "fst (removeKeys ks (putAll kvs m)) = m"
proof -
  have absent: "k \<notin> fst ` set m" if "k \<in> set ks" for k
    using assms(3) that by (auto simp: has_key_def map_of_eq_None_iff)
  then have "putAll kvs m = m @ kvs"
    by (intro putAll_absent) (use assms(1,2) in force)+
  moreover have "filter (\<lambda>x. fst x \<notin> set ks) m = m" "filter (\<lambda>x. fst x \<notin> set ks) kvs = []"
    using absent assms(2) by (force simp: filter_id_conv filter_empty_conv)+
  ultimately show ?thesis by (simp add: removeKeys_filter)
qed

lemma takenPV_keys:
  "map fst (exportAnnotations pv d nm un) = exportPVKeys" "distinct exportPVKeys"
  by (simp_all add: exportAnnotations_def exportPVKeys_def volumeKey_defs)

text \<open>
  C7. What an export does to a volume is undone exactly. A volume that carried no mark of an
  export and has a valid reclaim policy, once taken over and bound back to the user's claim, is
  restored to itself: every annotation, every label, the policy and the rest of the volume are
  as they were, and its claim reference is the user's claim.
\<close>

theorem export_volume_roundtrip:
  assumes "\<forall>k \<in> set exportPVKeys. \<not> has_key (m_annotations (pv_meta pv)) k"
    and "\<not> has_key (m_labels (pv_meta pv)) LabelPVDataExporter" "validPolicy (pv_reclaimPolicy pv)"
  shows "restoredPV (reboundPV (takenPV pv p d nm un) u) = Inr (pv\<lparr>pv_claimRef := Some (claimReference u)\<rparr>, True)"
proof -
  let ?t = "reboundPV (takenPV pv p d nm un) u"
  have ann: "fst (removeKeys exportPVKeys (m_annotations (pv_meta ?t))) = m_annotations (pv_meta pv)"
    using removeKeys_putAll [OF _ takenPV_keys(1) assms(1)] takenPV_keys
    by (simp add: reboundPV_def takenPV_def)
  have lab: "fst (removeKeys [LabelPVDataExporter] (m_labels (pv_meta ?t))) = m_labels (pv_meta pv)"
    using removeKeys_putAll [of "[(LabelPVDataExporter, ''true'')]" "[LabelPVDataExporter]" "m_labels (pv_meta pv)"] assms(2)
    by (simp add: reboundPV_def takenPV_def)
  have changed: "snd (removeKeys [LabelPVDataExporter] (m_labels (pv_meta ?t)))"
    unfolding removeKeys_changed by (simp add: reboundPV_def takenPV_def has_key_def update_conv')
  have saved: "savedPolicy ?t = pv_reclaimPolicy pv" "pv_reclaimPolicy ?t = ''Retain''" "pv_reclaimPolicy pv \<noteq> []"
    using takenPV_facts(1,2) assms(3) by (auto simp: reboundPV_def savedPolicy_def validPolicy_def)
  then have "restorePVReclaimPolicy ?t = Inr (?t\<lparr>pv_reclaimPolicy := pv_reclaimPolicy pv\<rparr>, pv_reclaimPolicy pv \<noteq> ''Retain'')"
    using assms(3) by (auto simp: restorePVReclaimPolicy_def savedPolicy_def Let_def)
  with ann lab changed show ?thesis
    by (auto simp: restoredPV_def removePVExportMetadata_def reboundPV_def takenPV_def split: prod.splits)
qed

theorem export_volume_roundtrip_witness:
  "restoredPV (reboundPV (takenPV exUserVolume exExportPVC exExport exNames ''data'') exUserClaim) = Inr (exUserVolume, True)"
proof -
  have "exUserVolume\<lparr>pv_claimRef := Some (claimReference exUserClaim)\<rparr> = exUserVolume" by (simp add: exUserVolume_def)
  with export_volume_roundtrip [of exUserVolume exExportPVC exExport exNames "''data''" exUserClaim] show ?thesis
    by (simp add: exUserVolume_def has_key_def validPolicy_def)
qed

lemma parse_invalid:
  "(case parsePVRecoveryInfo E pv ns nm of
      Inl e \<Rightarrow> errorsIs e ErrInvalidOriginalReclaimPolicy | Inr _ \<Rightarrow> False) = (\<not> validPolicy (savedPolicy pv))"
  by (simp add: parsePVRecoveryInfo_def savedPolicy_def ValidateHashAndTarget_def Let_def)

text \<open>
  The owner of a volume is not asked when it is given back. The recovery of a user's claim does
  not depend on the export it is run for: a volume that carries the marks of another export is
  bound to the user's claim and loses its marks all the same, so that deleting a second export of
  a claim ends the first one's access while its server still mounts the volume.
\<close>

theorem export_recovery_ignores_owner:
  "recoverUserPVC E X ns claim name pv0 = recoverUserPVC E X ns claim name' pv0"
  unfolding recoverUserPVC_def parse_invalid ..

section \<open>Waiting\<close>









lemma length_logged [simp]: "length (logged h r a) = Suc (length h)"
  by (simp add: logged_def)




end
