(* ===== verification/Watches.thy ===== *)
theory Watches
  imports Populator Data_Export_Props
begin

text \<open>
  How changes of the cluster reach the controllers of the data manager: the cache, the watches
  and the predicates of \<open>src/images/data-manager-controller/cmd/main.go\<close>. A watch of a controller
  is a kind, a predicate on the metadata of a changed object and a function from that metadata
  to the keys to reconcile. The lemmas relate them to the objects the controllers write.
\<close>

section \<open>The cache\<close>

text \<open>
  \<open>createManager\<close>: the pods, secrets, workloads and Ingresses of other namespaces, and the pods
  without one of the two application labels, are not held and raise no event.
\<close>

definition podSelector :: "strmap \<Rightarrow> bool" where
  "podSelector labels \<longleftrightarrow>
     has_key labels LabelApplicationKey \<and>
     index_str labels LabelApplicationKey \<in> {LabelDataExportValue, LabelDataImportValue}"

definition createManager :: "string \<Rightarrow> kind \<Rightarrow> objmeta \<Rightarrow> bool" where
  "createManager controllerNamespace k m =
     (if k = KPod then podSelector (m_labels m) \<and> m_namespace m = controllerNamespace
      else if k = KSecret \<or> k = KDeployment \<or> k = KIngress then m_namespace m = controllerNamespace
      else True)"

section \<open>Predicates and keys\<close>

definition predicateForEventFilter :: "objmeta \<Rightarrow> bool" where
  "predicateForEventFilter m = True"

definition predicatesForWatches :: "string \<Rightarrow> objmeta \<Rightarrow> bool" where
  "predicatesForWatches appKey m \<longleftrightarrow> index_str (m_labels m) LabelApplicationKey = appKey"

definition pvPredicate :: "objmeta \<Rightarrow> bool" where
  "pvPredicate m \<longleftrightarrow> index_str (m_labels m) LabelPVDataExporter = ''true''"

definition podPredicate :: "objmeta \<Rightarrow> bool" where
  "podPredicate m \<longleftrightarrow>
     index_str (m_labels m) LabelApplicationKey = LabelDataExportValue \<or>
     index_str (m_labels m) LabelApplicationKey = LabelDataImportValue"

definition createRequest :: "string \<Rightarrow> string \<Rightarrow> objmeta \<Rightarrow> nsname list" where
  "createRequest namespaceKey nameKey m =
     (let annotations = m_annotations m in
      if annotations = [] then []
      else
        let ns = index_str annotations namespaceKey; name = index_str annotations nameKey in
        if ns = [] \<or> name = [] then [] else [(ns, name)])"

section \<open>The controllers\<close>

record watch =
  w_kind :: kind
  w_predicate :: "objmeta \<Rightarrow> bool"
  w_requests :: "objmeta \<Rightarrow> nsname list"

record controllerSpec =
  cs_for :: kind
  cs_watches :: "watch list"
  cs_eventFilter :: "objmeta \<Rightarrow> bool"

definition managerRequest :: "objmeta \<Rightarrow> nsname list" where
  "managerRequest = createRequest AnnotationStorageManagerNamespaceKey AnnotationStorageManagerNameKey"

definition exportController :: controllerSpec where
  "exportController =
     (let exportPredicate = predicatesForWatches LabelDataExportValue in
      \<lparr>cs_for = KDataExport,
       cs_watches =
         [\<lparr>w_kind = KDeployment, w_predicate = exportPredicate, w_requests = managerRequest\<rparr>,
          \<lparr>w_kind = KIngress, w_predicate = exportPredicate, w_requests = managerRequest\<rparr>,
          \<lparr>w_kind = KPersistentVolume, w_predicate = pvPredicate, w_requests = managerRequest\<rparr>],
       cs_eventFilter = predicateForEventFilter\<rparr>)"

definition podController :: controllerSpec where
  "podController = \<lparr>cs_for = KPod, cs_watches = [], cs_eventFilter = podPredicate\<rparr>"

definition importController :: controllerSpec where
  "importController =
     (let importPredicate = predicatesForWatches LabelDataImportValue in
      \<lparr>cs_for = KDataImport,
       cs_watches =
         [\<lparr>w_kind = KDeployment, w_predicate = importPredicate, w_requests = managerRequest\<rparr>,
          \<lparr>w_kind = KJob, w_predicate = importPredicate, w_requests = managerRequest\<rparr>,
          \<lparr>w_kind = KIngress, w_predicate = importPredicate, w_requests = managerRequest\<rparr>,
          \<lparr>w_kind = KPersistentVolumeClaim, w_predicate = importPredicate, w_requests = managerRequest\<rparr>],
       cs_eventFilter = predicateForEventFilter\<rparr>)"

text \<open>
  The keys a controller is to reconcile after a change of an object: its own key where the
  controller is for its kind, and what the watches of its kind make of it; the event filter
  applies to both, the predicate of a watch to that watch.
\<close>

definition woken :: "controllerSpec \<Rightarrow> kind \<Rightarrow> objmeta \<Rightarrow> nsname list" where
  "woken cs k m =
     (if \<not> cs_eventFilter cs m then []
      else (if cs_for cs = k then [keyOf m] else []) @
        concat (map (\<lambda>w. if w_kind w = k \<and> w_predicate w m then w_requests w m else [])
          (cs_watches cs)))"

definition wakesOnly :: "string \<Rightarrow> controllerSpec \<Rightarrow> nsname \<Rightarrow> kind \<Rightarrow> objmeta \<Rightarrow> bool" where
  "wakesOnly ns cs n k m \<longleftrightarrow>
     createManager ns k m \<and>
     (\<forall>c \<in> {exportController, podController, importController}.
        woken c k m = (if c = cs then [n] else []))"

section \<open>What wakes whom\<close>

lemma keys_distinct [simp]:
  "LabelDataExportValue \<noteq> LabelDataImportValue" "LabelDataImportValue \<noteq> LabelDataExportValue"
  by (simp_all add: LabelDataExportValue_def LabelDataImportValue_def)

lemma controllers_distinct [simp]:
  "exportController \<noteq> importController" "importController \<noteq> exportController"
  "podController \<noteq> importController" "podController \<noteq> exportController"
  "exportController \<noteq> podController" "importController \<noteq> podController"
  by (simp_all add: exportController_def importController_def podController_def Let_def)

lemmas controller_defs = exportController_def importController_def podController_def Let_def
  predicateForEventFilter_def predicatesForWatches_def

lemma managerRequest_owned:
  assumes "ownedBy app n m" "fst n \<noteq> []" "snd n \<noteq> []"
  shows "managerRequest m = [n]"
proof -
  have "m_annotations m \<noteq> []" using assms(1,2) by (auto simp: ownedBy_def index_str_def)
  then show ?thesis using assms by (simp add: managerRequest_def createRequest_def ownedBy_def)
qed

lemma owned_by_import_wakes:
  assumes "k \<in> {KDeployment, KJob, KPersistentVolumeClaim}" "k = KDeployment \<Longrightarrow> m_namespace m = ns"
    and "ownedBy LabelDataImportValue n m" "fst n \<noteq> []" "snd n \<noteq> []"
  shows "wakesOnly ns importController n k m"
  using assms managerRequest_owned [OF assms(3-5)]
  by (auto simp: wakesOnly_def woken_def controller_defs createManager_def ownedBy_def)

lemma owned_by_export_wakes:
  assumes "ownedBy LabelDataExportValue n m" "m_namespace m = ns" "fst n \<noteq> []" "snd n \<noteq> []"
  shows "wakesOnly ns exportController n KDeployment m"
  using assms managerRequest_owned [OF assms(1,3,4)]
  by (simp add: wakesOnly_def woken_def controller_defs createManager_def ownedBy_def)

lemma taken_volume_wakes:
  assumes "fst (keyOf (de_meta d)) \<noteq> []" "snd (keyOf (de_meta d)) \<noteq> []"
  shows "wakesOnly ns exportController (keyOf (de_meta d)) KPersistentVolume (pv_meta (takenPV pv p d nm un))"
proof -
  let ?m = "pv_meta (takenPV pv p d nm un)"
  have "ownedBy (index_str (m_labels ?m) LabelApplicationKey) (keyOf (de_meta d)) ?m"
    by (simp add: ownedBy_def takenPV_def exportAnnotations_def volumeKey_defs keyOf_def)
  from managerRequest_owned [OF this assms] show ?thesis
    by (simp add: wakesOnly_def woken_def controller_defs createManager_def pvPredicate_def takenPV_def)
qed

text \<open>A volume that was given back is nobody's concern any more.\<close>

lemma returned_volume_sleeps:
  assumes "\<not> marked pv" "c \<in> {exportController, podController, importController}"
  shows "woken c KPersistentVolume (pv_meta pv) = []"
  using assms by (auto simp: woken_def controller_defs pvPredicate_def marked_def)

section \<open>The owners are told\<close>

text \<open>
  The objects that are made for an import and change on their own afterwards.
\<close>

fun childMade :: "req \<Rightarrow> (kind \<times> objmeta) option" where
  "childMade (Create (ODeployment x)) = Some (KDeployment, dep_meta x)"
| "childMade (Create (OJob x)) = Some (KJob, job_meta x)"
| "childMade (Create (OPvc x)) = Some (KPersistentVolumeClaim, pvc_meta x)"
| "childMade r = None"

lemma childMade_SomeD:
  "childMade r = Some (k, m) \<Longrightarrow>
     (\<exists>x. r = Create (ODeployment x) \<and> k = KDeployment \<and> m = dep_meta x) \<or>
     (\<exists>x. r = Create (OJob x) \<and> k = KJob \<and> m = job_meta x) \<or>
     (\<exists>x. r = Create (OPvc x) \<and> k = KPersistentVolumeClaim \<and> m = pvc_meta x)"
  by (cases r rule: childMade.cases) auto

lemma import_child_owned:
  assumes "importAllowed E C di p r \<or> populateAllowed E C params di p r" "childMade r = Some (k, m)"
  shows "k \<in> {KDeployment, KJob, KPersistentVolumeClaim} \<and>
    ownedBy LabelDataImportValue (keyOf (di_meta di)) m \<and>
    (k = KDeployment \<longrightarrow> m_namespace m = dm_controllerNamespace C)"
  using childMade_SomeD [OF assms(2)] assms(1) by (auto simp: importAllowed_def populateAllowed_def)

text \<open>
  C31. Every Job and every PersistentVolumeClaim that a reconciliation of a DataImport creates,
  and every Deployment that the populator creates for it, whatever the API server answers, is
  held by the cache of the data manager, and each of its changes, as long as the object keeps its
  marks, makes the DataImport controller reconcile exactly that DataImport, and neither the
  DataExport controller nor the controller of the server pods anything.
\<close>

theorem import_children_wake_it:
  assumes "env_ok E" "api E [] (Get KDataImport n) = RObj (ODataImport di)"
    and "m_namespace (di_meta di) \<noteq> []" "m_name (di_meta di) \<noteq> []" "pp_dataImport params = Inr di"
    and "p @ (r, a) # s \<in> {snd (run_state (diReconcile E C n) []),
      snd (run_state (populateFn E (dm_controllerNamespace C) params) []),
      snd (run_state (populateCompleteFn E (dm_controllerNamespace C) params) [])}"
    and "childMade r = Some (k, m)"
  shows "wakesOnly (dm_controllerNamespace C) importController (keyOf (di_meta di)) k m"
proof -
  have "importAllowed E C di p r" if "snd (run_state (diReconcile E C n) []) = p @ (r, a) # s"
    using diReconcile_kept [OF assms(1,2), of C] unfolding wp_run that by (rule obeys_split)
  then have "importAllowed E C di p r \<or> populateAllowed E C params di p r"
    using assms(6) populate_allowed [OF assms(5)] by (metis insertE singletonD)
  from import_child_owned [OF this assms(7)] show ?thesis
    using assms(3,4) by (auto intro!: owned_by_import_wakes simp: keyOf_def)
qed

fun wakeSrv :: "hist \<Rightarrow> req \<Rightarrow> resp" where
  "wakeSrv h (Get k n) = (if k = KDataImport then RObj (ODataImport exImport) else popSrv h (Get k n))"
| "wakeSrv h r = ROk"

theorem import_children_wake_it_witness:
  "\<exists>p d s. snd (run_state (populateFn (ref_env wakeSrv (\<lambda>_. 0)) ''d8'' (exParams (Inr exImport))) []) =
       p @ (Create (ODeployment d), ROk) # s \<and>
     wakesOnly ''d8'' importController (''ns'', ''imp'') KDeployment (dep_meta d)"
proof -
  let ?E = "ref_env wakeSrv (\<lambda>_. 0)" and ?P = "exParams (Inr exImport)"
  have ns: "dm_controllerNamespace exConfig = ''d8''" by (simp add: exConfig_def)
  have key: "keyOf (di_meta exImport) = (''ns'', ''imp'')" "m_namespace (di_meta exImport) \<noteq> []"
    "m_name (di_meta exImport) \<noteq> []" by (simp_all add: exImport_def keyOf_def)
  have subject: "api ?E [] (Get KDataImport (''ns'', ''imp'')) = RObj (ODataImport exImport)" by simp
  obtain p d where run: "snd (run_state (populateFn ?E ''d8'' ?P) []) = p @ (Create (ODeployment d), ROk) # []"
    by (simp add: populateFn_def getDataImportAndNames_def exParams_def ensureDeployment_def Let_def
      MakeServerContainer_def GetImage_def EnsureDeployment_def optional_def create_or_def exec_def
      thenE_def getObj_def call_def logged_def exScratch_def respErr_def)
  have P: "pp_dataImport ?P = Inr exImport" by (simp add: exParams_def)
  have "p @ (Create (ODeployment d), ROk) # [] \<in> {snd (run_state (diReconcile ?E exConfig (''ns'', ''imp'')) []),
      snd (run_state (populateFn ?E (dm_controllerNamespace exConfig) ?P) []),
      snd (run_state (populateCompleteFn ?E (dm_controllerNamespace exConfig) ?P) [])}"
    using run ns by simp
  from import_children_wake_it [OF ref_env_ok subject key(2,3) P this] run ns key(1)
  show ?thesis by auto
qed

text \<open>
  The same for a DataExport: the Deployment it creates, and the volume it takes over, tell the
  DataExport controller, and only that, to reconcile it again.
\<close>

lemma export_children_wake_it:
  assumes "env_ok E" "readExport E req = Some d" "m_namespace (de_meta d) \<noteq> []" "m_name (de_meta d) \<noteq> []"
    and "exportTrace E X req = p @ (r, a) # s"
  shows "r = Create (ODeployment x) \<Longrightarrow>
      wakesOnly (dm_controllerNamespace X) exportController (keyOf (de_meta d)) KDeployment (dep_meta x)"
    and "r = Patch lock (OPv pv) (OPv b) \<Longrightarrow> \<not> ending (Some d) \<Longrightarrow>
      wakesOnly (dm_controllerNamespace X) exportController (keyOf (de_meta d)) KPersistentVolume (pv_meta b)"
proof -
  have rule: "exportAllowed E X (keyOf (de_meta d)) (Some d) p r"
    using exportTrace_allowed [OF assms(1,5)] assms(2) by (simp add: reconcileRule_def)
  have key: "fst (keyOf (de_meta d)) \<noteq> []" "snd (keyOf (de_meta d)) \<noteq> []"
    using assms(3,4) by (simp_all add: keyOf_def)
  show "r = Create (ODeployment x) \<Longrightarrow>
      wakesOnly (dm_controllerNamespace X) exportController (keyOf (de_meta d)) KDeployment (dep_meta x)"
    using rule key by (intro owned_by_export_wakes) (simp_all add: exportAllowed_def)
  show "r = Patch lock (OPv pv) (OPv b) \<Longrightarrow> \<not> ending (Some d) \<Longrightarrow>
      wakesOnly (dm_controllerNamespace X) exportController (keyOf (de_meta d)) KPersistentVolume (pv_meta b)"
    using rule taken_volume_wakes [OF key]
    by (auto simp: exportAllowed_def volumePatch_def takenOver_def givenBack_def unmarkedLast_def Let_def)
qed

text \<open>
  The Ingress through which an object is published has neither the label nor the annotations:
  the watches of both controllers for Ingresses ignore it.
\<close>

lemma published_ingress_wakes_nobody:
  assumes "c \<in> {exportController, podController, importController}"
  shows "woken c KIngress (ing_meta (makeIngress cfg host path pathType className domain)) = []"
  using assms by (auto simp: woken_def controller_defs makeIngress_def index_str_def
      LabelDataExportValue_def LabelDataImportValue_def)

end
