(* ===== verification/Paths.thy ===== *)
theory Paths
  imports Http "HOL-Library.Sublist"
begin

text \<open>
  Lexical paths as \<open>path/filepath\<close> treats them on Unix: \<open>Split\<close> on slashes, \<open>Clean\<close>,
  \<open>Join\<close>, \<open>Dir\<close>, \<open>IsAbs\<close>; and what a joined path of a request can reach.
\<close>

section \<open>Definitions\<close>

fun splitSlash :: "string \<Rightarrow> string list" where
  "splitSlash [] = [[]]"
| "splitSlash (c # cs) =
     (if c = CHR ''/'' then [] # splitSlash cs
      else (case splitSlash cs of [] \<Rightarrow> [[c]] | x # xs \<Rightarrow> (c # x) # xs))"

fun joinSlash :: "string list \<Rightarrow> string" where
  "joinSlash [] = []"
| "joinSlash [x] = x"
| "joinSlash (x # y # ys) = x @ CHR ''/'' # joinSlash (y # ys)"

definition rooted :: "string \<Rightarrow> bool" where
  "rooted p = (case p of [] \<Rightarrow> False | c # _ \<Rightarrow> c = CHR ''/'')"

text \<open>The elements kept so far are a stack, the last one on top.\<close>

fun cleanComps :: "bool \<Rightarrow> string list \<Rightarrow> string list \<Rightarrow> string list" where
  "cleanComps r st [] = st"
| "cleanComps r st (c # cs) =
     (if c = [] \<or> c = ''.'' then cleanComps r st cs
      else if c = ''..'' then
        (case st of
           [] \<Rightarrow> cleanComps r (if r then [] else [''..'']) cs
         | s # ss \<Rightarrow> cleanComps r (if s = ''..'' then ''..'' # st else ss) cs)
      else cleanComps r (c # st) cs)"

definition pathComps :: "string \<Rightarrow> string list" where
  "pathComps p = rev (cleanComps (rooted p) [] (splitSlash p))"

definition Clean :: "string \<Rightarrow> string" where
  "Clean p =
     (if rooted p then CHR ''/'' # joinSlash (pathComps p)
      else if pathComps p = [] then ''.'' else joinSlash (pathComps p))"

definition Join :: "string list \<Rightarrow> string" where
  "Join ps = (case dropWhile (\<lambda>p. p = []) ps of [] \<Rightarrow> [] | qs \<Rightarrow> Clean (joinSlash qs))"

definition IsAbs :: "string \<Rightarrow> bool" where
  "IsAbs p = rooted p"

text \<open>\<open>Dir\<close>: everything up to the last slash, cleaned.\<close>

definition Dir :: "string \<Rightarrow> string" where
  "Dir p = Clean (rev (dropWhile (\<lambda>c. c \<noteq> CHR ''/'') (rev p)))"

section \<open>Elements of a path\<close>

definition normal :: "string \<Rightarrow> bool" where
  "normal c \<longleftrightarrow> c \<noteq> [] \<and> c \<noteq> ''.'' \<and> c \<noteq> ''..'' \<and> CHR ''/'' \<notin> set c"

lemma normal_noslash: "normal c \<Longrightarrow> CHR ''/'' \<notin> set c"
  by (simp add: normal_def)

lemma splitSlash_nonempty [simp]: "splitSlash p \<noteq> []"
  by (induction p) (auto split: list.splits)

lemma splitSlash_append: "splitSlash (p @ CHR ''/'' # q) = splitSlash p @ splitSlash q"
  by (induction p) (auto split: list.splits)

lemma splitSlash_noslash: "CHR ''/'' \<notin> set p \<Longrightarrow> splitSlash p = [p]"
  by (induction p) auto

lemma split_joinSlash: "cs \<noteq> [] \<Longrightarrow> \<forall>c \<in> set cs. CHR ''/'' \<notin> set c \<Longrightarrow> splitSlash (joinSlash cs) = cs"
  by (induction cs rule: joinSlash.induct) (simp_all add: splitSlash_noslash splitSlash_append)

lemma joinSlash_append: "xs \<noteq> [] \<Longrightarrow> ys \<noteq> [] \<Longrightarrow> joinSlash (xs @ ys) = joinSlash xs @ CHR ''/'' # joinSlash ys"
proof (induction xs rule: joinSlash.induct)
  case (2 x)
  then show ?case by (cases ys) auto
qed auto

lemma splitSlash_parts: "c \<in> set (splitSlash p) \<Longrightarrow> CHR ''/'' \<notin> set c"
proof (induction p arbitrary: c)
  case (Cons a p)
  obtain x xs where p: "splitSlash p = x # xs" using splitSlash_nonempty by (meson list.exhaust)
  with Cons.IH [of x] Cons.IH [of c] Cons.prems show ?case by (auto split: if_splits)
qed simp

lemma cleanComps_append: "cleanComps r st (xs @ ys) = cleanComps r (cleanComps r st xs) ys"
  by (induction r st xs rule: cleanComps.induct) (auto split: list.splits)

lemma cleanComps_normal: "list_all normal cs \<Longrightarrow> cleanComps r st cs = rev cs @ st"
  by (induction cs arbitrary: st) (auto simp: normal_def)

text \<open>
  A cleaned relative path is a number of \<open>..\<close> followed by ordinary elements; in a rooted one
  there is no \<open>..\<close>.
\<close>

lemma cleanComps_shape:
  assumes "st = rev us @ replicate k ''..''" "list_all normal us" "r \<Longrightarrow> k = 0"
    and "\<forall>c \<in> set cs. CHR ''/'' \<notin> set c"
  shows "\<exists>us' k'. cleanComps r st cs = rev us' @ replicate k' ''..'' \<and> list_all normal us' \<and> (r \<longrightarrow> k' = 0)"
  using assms
proof (induction cs arbitrary: st us k)
  case Nil
  then show ?case by (metis cleanComps.simps(1))
next
  case (Cons c cs)
  have slash: "\<forall>c \<in> set cs. CHR ''/'' \<notin> set c" using Cons.prems(4) by simp
  consider "c = [] \<or> c = ''.''" | "c = ''..''" "us = []" | x xs where "c = ''..''" "us = xs @ [x]"
    | "normal c"
    using Cons.prems(4) by (cases us rule: rev_cases) (auto simp: normal_def)
  then show ?case
  proof cases
    case 1
    then show ?thesis using Cons.IH [OF Cons.prems(1-3) slash] by simp
  next
    case 2
    show ?thesis
    proof (cases r)
      case True
      with 2 Cons.prems(1,3) show ?thesis using Cons.IH [of "[]" "[]" 0] slash by simp
    next
      case False
      with 2 Cons.prems(1) show ?thesis
        using Cons.IH [of "replicate (Suc k) ''..''" "[]" "Suc k"] slash by (cases k) simp_all
    qed
  next
    case (3 x xs)
    then have "x \<noteq> ''..''" using Cons.prems(2) by (simp add: normal_def)
    with 3 Cons.prems show ?thesis using Cons.IH [of "rev xs @ replicate k ''..''" xs k] slash by simp
  next
    case 4
    then have "cleanComps r st (c # cs) = cleanComps r (c # st) cs" by (simp add: normal_def)
    with 4 Cons.prems show ?thesis using Cons.IH [of "c # st" "us @ [c]" k] slash by simp
  qed
qed

lemma pathComps_shape:
  "\<exists>us k. pathComps p = replicate k ''..'' @ us \<and> list_all normal us \<and> (rooted p \<longrightarrow> k = 0)"
proof -
  obtain us k where "cleanComps (rooted p) [] (splitSlash p) = rev us @ replicate k ''..''"
      "list_all normal us" "rooted p \<longrightarrow> k = 0"
    using cleanComps_shape [of "[]" "[]" 0 "rooted p" "splitSlash p"] splitSlash_parts by fastforce
  then show ?thesis by (auto simp: pathComps_def)
qed

lemma cleanComps_dots:
  assumes "list_all normal rs"
  shows "cleanComps True (rev rs) (replicate k ''..'') = rev (take (length rs - k) rs)"
  using assms
proof (induction k arbitrary: rs)
  case (Suc k)
  show ?case
  proof (cases rs rule: rev_cases)
    case Nil
    then show ?thesis using Suc.IH [of "[]"] by simp
  next
    case (snoc xs x)
    then have "x \<noteq> ''..''" using Suc.prems by (auto simp: normal_def)
    with snoc Suc show ?thesis by simp
  qed
qed simp

section \<open>What a joined path reaches\<close>

text \<open>A directory path in clean form, with at least one element.\<close>

definition dirPath :: "string list \<Rightarrow> string" where
  "dirPath rs = CHR ''/'' # joinSlash rs"

lemma pathComps_dirPath: "list_all normal rs \<Longrightarrow> rs \<noteq> [] \<Longrightarrow> pathComps (dirPath rs) = rs"
  using split_joinSlash [of rs] cleanComps_normal [of rs True "[]"]
  by (auto simp: pathComps_def dirPath_def rooted_def list_all_iff normal_def)

lemma Clean_comps:
  assumes "pathComps u = replicate k ''..'' @ us" "list_all normal us"
  shows "cleanComps True st (splitSlash (Clean u)) = cleanComps True st (replicate k ''..'' @ us)"
proof -
  have noslash: "\<forall>c \<in> set (replicate k ''..'' @ us). CHR ''/'' \<notin> set c"
  proof
    fix c assume "c \<in> set (replicate k ''..'' @ us)"
    then have "c = ''..'' \<or> c \<in> set us" by (simp, blast)
    then show "CHR ''/'' \<notin> set c" using assms(2) normal_noslash by (auto simp: list_all_iff)
  qed
  have join: "cleanComps True st (splitSlash (joinSlash cs)) = cleanComps True st cs"
    if "cs = replicate k ''..'' @ us" for cs
  proof (cases "cs = []")
    case True
    then show ?thesis by simp
  next
    case False
    then show ?thesis using split_joinSlash [OF False] noslash that by simp
  qed
  show ?thesis
  proof (cases "rooted u \<or> pathComps u \<noteq> []")
    case True
    then show ?thesis using join assms(1) by (simp add: Clean_def)
  next
    case False
    then have "Clean u = ''.''" "replicate k ''..'' @ us = []" using assms(1) by (auto simp: Clean_def)
    then show ?thesis by simp
  qed
qed

text \<open>
  Joining a directory with a cleaned request path removes as many of the directory's own
  elements as the request path has leading \<open>..\<close>.
\<close>

lemma Join_reaches:
  assumes rs: "list_all normal rs" "rs \<noteq> []"
    and u: "pathComps u = replicate k ''..'' @ us" "list_all normal us"
  shows "Join [dirPath rs, Clean u] = dirPath (take (length rs - k) rs @ us)"
proof -
  let ?p = "dirPath rs @ CHR ''/'' # Clean u"
  have "cleanComps True [] (splitSlash (dirPath rs)) = rev rs"
    using pathComps_dirPath [OF rs] by (simp add: pathComps_def rooted_def dirPath_def rev_swap)
  then have "cleanComps True [] (splitSlash ?p) = cleanComps True (rev rs) (replicate k ''..'' @ us)"
    by (simp add: splitSlash_append cleanComps_append Clean_comps [OF u])
  also have "\<dots> = rev (take (length rs - k) rs @ us)"
    by (simp add: cleanComps_append cleanComps_dots [OF rs(1)] cleanComps_normal [OF u(2)])
  finally have "pathComps ?p = take (length rs - k) rs @ us"
    by (simp add: pathComps_def rooted_def dirPath_def)
  then have "Clean ?p = dirPath (take (length rs - k) rs @ us)"
    by (simp add: Clean_def dirPath_def rooted_def)
  then show ?thesis
    by (simp add: Join_def dirPath_def)
qed

text \<open>
  Joining a clean absolute directory with a cleaned rooted request path stays below the
  directory: the result is the directory's elements followed by ordinary elements.
\<close>

lemma Join_rooted:
  assumes "list_all normal rs" "rs \<noteq> []" "rooted u"
  shows "\<exists>us. list_all normal us \<and> Join [dirPath rs, Clean u] = dirPath (rs @ us)"
proof -
  obtain us where "pathComps u = us" "list_all normal us"
    using pathComps_shape [of u] assms(3) by auto
  then show ?thesis
    using Join_reaches [OF assms(1,2), of u 0 us] by auto
qed

end
