(* ===== verification/Import_Block.thy ===== *)
theory Import_Block
  imports Repository
begin

text \<open>
  The block importer, \<open>src/images/data-exporter/internal/import_block/handler.go\<close>: uploads of
  a block device in chunks, each continuing where the last acknowledged one ended. The handler
  is given twice: as the function of one request that runs alone, and as a step relation in
  which any number of uploads run concurrently, built from the same parts.
\<close>

section \<open>The handler and its parts\<close>

record blockServer =
  bs_device :: "byte list"
  bs_written :: int
  bs_isWriting :: bool
  bs_isServiceOff :: bool

text \<open>What the operating system answers to an upload besides the copying itself.\<close>

datatype openResult = OpenOk | OpenPermission | OpenFailed

record deviceIO =
  io_open :: openResult
  io_sizeErr :: bool
  io_seekErr :: bool

text \<open>
  \<open>NewImportBlockHandler\<close>: the results of the type check and of reading the device are
  parameters.
\<close>

definition NewImportBlockHandler ::
  "env \<Rightarrow> nsname \<Rightarrow> bool res \<Rightarrow> byte list res \<Rightarrow> blockServer res io" where
  "NewImportBlockHandler E n isBlock device =
     thenE (CheckIsServiceAvailable E n) (\<lambda>isServiceOff. ret
       (case isBlock of
          Inl e \<Rightarrow> Inl e
        | Inr False \<Rightarrow> Inl (Errorf ''file is not a block device'' [])
        | Inr True \<Rightarrow>
            (case device of
               Inl e \<Rightarrow> Inl e
             | Inr dev \<Rightarrow>
                 if length dev = 0 then Inl (Errorf ''bad block device size'' [])
                 else Inr \<lparr>bs_device = dev, bs_written = 0, bs_isWriting = False,
                           bs_isServiceOff = isServiceOff\<rparr>)))"

definition putClaim :: "blockServer \<Rightarrow> blockServer option" where
  "putClaim s = (if bs_isWriting s then None else Some (s\<lparr>bs_isWriting := True\<rparr>))"

text \<open>From the upload headers to the seek: a final answer, or the offset and the expected size.\<close>

definition putCheck ::
  "blockServer \<Rightarrow> deviceIO \<Rightarrow> httpRequest \<Rightarrow> httpWriter \<Rightarrow> httpWriter + (int \<times> int)" where
  "putCheck s dio r w =
     (case ParseUploadHeaders r of
        Inl (Errorf msg _) \<Rightarrow> Inl (httpError msg StatusBadRequest w)
      | Inl _ \<Rightarrow> Inl (httpError [] StatusBadRequest w)
      | Inr (offset, expectedTotal) \<Rightarrow>
          if io_open dio = OpenPermission
            then Inl (httpError ''permission denied to write block device'' StatusForbidden w)
          else if io_open dio = OpenFailed
            then Inl (httpError ''failed to open block device'' StatusInternalError w)
          else if io_sizeErr dio
            then Inl (httpError ''failed to get block device size'' StatusInternalError w)
          else if int (length (bs_device s)) \<le> 0
            then Inl (httpError ''bad block device size'' StatusInternalError w)
          else if offset \<noteq> bs_written s
            then Inl (httpError ''Conflict'' StatusConflict
                   (Header_Set ''X-Expected-Offset'' (FormatInt (bs_written s)) w))
          else if offset < 0 \<or> offset > int (length (bs_device s))
            then Inl (httpError ''Requested Range Not Satisfiable'' StatusRangeNotSatisfiable w)
          else if rq_contentLength r \<ge> 0 \<and> rq_contentLength r > int (length (bs_device s)) - offset
            then Inl (httpError ''Requested Range Not Satisfiable'' StatusRangeNotSatisfiable w)
          else if io_seekErr dio then Inl (httpError ''failed to seek'' StatusInternalError w)
          else Inr (offset, expectedTotal))"

text \<open>
  \<open>io.Copy(dev, r.Body)\<close> from a position: the device afterwards, the number of bytes written
  and whether the copy failed, by a read error or by the end of the device.
\<close>

fun ioCopy :: "byte list \<Rightarrow> nat \<Rightarrow> byte list \<Rightarrow> bool \<Rightarrow> byte list \<times> nat \<times> bool" where
  "ioCopy dev pos [] readErr = (dev, 0, readErr)"
| "ioCopy dev pos (b # bs) readErr =
     (if pos < length dev
      then (case ioCopy (dev[pos := b]) (pos + 1) bs readErr of (d, n, e) \<Rightarrow> (d, n + 1, e))
      else (dev, 0, True))"

text \<open>After a copy without error: the new offset is committed and answered, or refused.\<close>

definition putCommit ::
  "blockServer \<Rightarrow> int \<Rightarrow> int \<Rightarrow> int \<Rightarrow> httpWriter \<Rightarrow> blockServer \<times> httpWriter" where
  "putCommit s offset expectedTotal wr w =
     (let newOffset = offset + wr in
      if expectedTotal \<ge> 0 \<and> newOffset > expectedTotal
      then (s, httpError ''written exceeds expected total size'' StatusUnprocessable w)
      else (s\<lparr>bs_written := newOffset\<rparr>,
            WriteHeader (if expectedTotal \<ge> 0 \<and> newOffset = expectedTotal then StatusCreated else StatusNoContent)
              (Header_Set ''X-Next-Offset'' (FormatInt newOffset) w)))"

text \<open>Everything a claimed upload does before it releases the handler.\<close>

definition putUpload ::
  "blockServer \<Rightarrow> deviceIO \<Rightarrow> httpRequest \<Rightarrow> httpWriter \<Rightarrow> blockServer \<times> httpWriter" where
  "putUpload s dio r w =
     (case putCheck s dio r w of
        Inl w' \<Rightarrow> (s, w')
      | Inr (offset, expectedTotal) \<Rightarrow>
          (case ioCopy (bs_device s) (nat offset) (rq_body r) (rq_bodyErr r) of
             (dev, wr, err) \<Rightarrow>
               (let s1 = s\<lparr>bs_device := dev\<rparr> in
                if err then (s1, httpError ''failed to write data'' StatusInternalError w)
                else putCommit s1 offset expectedTotal (int wr) w)))"

definition HandlePutMethod ::
  "blockServer \<Rightarrow> deviceIO \<Rightarrow> httpRequest \<Rightarrow> httpWriter \<Rightarrow> blockServer \<times> httpWriter" where
  "HandlePutMethod s dio r w =
     (case putClaim s of
        None \<Rightarrow> (s, httpError ''Conflict'' StatusConflict w)
      | Some s1 \<Rightarrow>
          (case putUpload s1 dio r w of (s2, w2) \<Rightarrow> (s2\<lparr>bs_isWriting := False\<rparr>, w2)))"

definition HandleHeadMethod :: "blockServer \<Rightarrow> deviceIO \<Rightarrow> httpWriter \<Rightarrow> httpWriter" where
  "HandleHeadMethod s dio w =
     (if io_open dio \<noteq> OpenOk then httpError ''failed to open block device'' StatusInternalError w
      else if io_sizeErr dio then httpError ''failed to get block device size'' StatusInternalError w
      else WriteHeader StatusOK
             (Header_Set ''X-Device-Size'' (FormatInt (int (length (bs_device s))))
               (Header_Set ''X-Next-Offset'' (FormatInt (bs_written s)) w)))"

definition CompleteImport :: "env \<Rightarrow> nsname \<Rightarrow> httpWriter \<Rightarrow> httpWriter io" where
  "CompleteImport E n w = do {
     r \<leftarrow> SetServerState E OperationImport n ServerStateFinished;
     ret (case r of
            Inl e \<Rightarrow> httpError ''failed to set data import finished'' StatusInternalError w
          | Inr _ \<Rightarrow> WriteHeader StatusOK w) }"

definition importBlockServeHTTP ::
  "env \<Rightarrow> nsname \<Rightarrow> deviceIO \<Rightarrow> blockServer \<Rightarrow> httpRequest \<Rightarrow> httpWriter \<Rightarrow> (blockServer \<times> httpWriter) io" where
  "importBlockServeHTTP E n dio s r w =
     (if rq_path r \<noteq> []
        then ret (s, httpError ''volumeMode: block. not supported path. use /api/v1/block'' StatusBadRequest w)
      else if bs_isServiceOff s then ret (s, httpError ''service is off'' StatusForbidden w)
      else if rq_method r = ''PUT'' then ret (HandlePutMethod s dio r w)
      else if rq_method r = ''HEAD'' then ret (s, HandleHeadMethod s dio w)
      else if rq_method r = ''POST'' then do { w' \<leftarrow> CompleteImport E n w; ret (s, w') }
      else ret (s, httpError ''method not allowed'' StatusMethodNotAllowed w))"

section \<open>Copying\<close>

lemma ioCopy_spec:
  assumes "ioCopy dev pos body readErr = (dev', n, err)" "pos \<le> length dev"
  shows "n \<le> length body \<and> length dev' = length dev \<and> pos + n \<le> length dev \<and>
    take (pos + n) dev' = take pos dev @ take n body \<and> (\<not> err \<longrightarrow> n = length body)"
  using assms
proof (induction dev pos body readErr arbitrary: dev' n err rule: ioCopy.induct)
  case (2 dev pos b bs readErr)
  show ?case
  proof (cases "pos < length dev")
    case True
    obtain d m e where c: "ioCopy (dev[pos := b]) (pos + 1) bs readErr = (d, m, e)" by (metis prod_cases3)
    from 2(2) True c have *: "dev' = d" "n = m + 1" "err = e" by auto
    have "take (pos + 1) (dev[pos := b]) = take pos dev @ [b]"
      using True by (simp add: take_Suc_conv_app_nth)
    with 2(1) [OF True c] True show ?thesis by (simp add: *)
  next
    case False
    with 2 show ?thesis by auto
  qed
qed auto

lemma ioCopy_total: "ioCopy dev pos body readErr = (dev', n, err) \<Longrightarrow> \<not> err \<Longrightarrow> n = length body"
  by (induction dev pos body readErr arbitrary: dev' n err rule: ioCopy.induct) (auto split: prod.splits if_splits)

lemma ioCopy_take:
  assumes "ioCopy dev pos body readErr = (dev', n, err)" "pos \<le> length dev"
  shows "take pos dev' = take pos dev"
proof -
  have "take pos (take (pos + n) dev') = take pos dev"
    using ioCopy_spec [OF assms] assms(2) by simp
  then show ?thesis by (simp add: min_def)
qed

lemma putCheck_ok:
  assumes "putCheck s dio r w = Inr (offset, expectedTotal)"
  shows "offset = bs_written s \<and> 0 \<le> offset \<and> offset \<le> int (length (bs_device s))"
  using assms
  by (auto simp: putCheck_def split: sum.splits gerr.splits prod.splits if_splits)

lemma putCheck_code:
  assumes "putCheck s dio r w = Inl w'" "w_code w = None"
  shows "w_code w' \<in> Some ` {400, 403, 409, 416, 500}"
  using assms
  by (auto simp: putCheck_def split: sum.splits gerr.splits prod.splits if_splits)

section \<open>Concurrent uploads\<close>

text \<open>
  A thread serves one PUT. It claims the handler, checks the request, copies the body byte by
  byte, commits or gives up, and releases the handler. The ghost component \<open>bs_acked\<close> holds
  the bodies that were acknowledged, in order.
\<close>

datatype putPhase =
    Claiming
  | Checking
  | Copying int int "byte list" "byte list"
  | Releasing httpWriter
  | Answered httpWriter

record blockSystem =
  sys_server :: blockServer
  sys_threads :: "nat \<Rightarrow> (httpRequest \<times> putPhase) option"
  sys_acked :: "byte list"

fun active :: "putPhase \<Rightarrow> bool" where
  "active Claiming = False"
| "active (Answered w) = False"
| "active _ = True"

abbreviation setThread :: "blockSystem \<Rightarrow> nat \<Rightarrow> httpRequest \<Rightarrow> putPhase \<Rightarrow> blockSystem" where
  "setThread \<sigma> i r p \<equiv> \<sigma>\<lparr>sys_threads := (sys_threads \<sigma>)(i \<mapsto> (r, p))\<rparr>"

inductive blockStep :: "blockSystem \<Rightarrow> blockSystem \<Rightarrow> bool" where
  arrive: "sys_threads \<sigma> i = None \<Longrightarrow> blockStep \<sigma> (setThread \<sigma> i r Claiming)"
| busy: "sys_threads \<sigma> i = Some (r, Claiming) \<Longrightarrow> putClaim (sys_server \<sigma>) = None \<Longrightarrow>
    blockStep \<sigma> (setThread \<sigma> i r (Answered (httpError ''Conflict'' StatusConflict newWriter)))"
| claim: "sys_threads \<sigma> i = Some (r, Claiming) \<Longrightarrow> putClaim (sys_server \<sigma>) = Some s' \<Longrightarrow>
    blockStep \<sigma> (setThread (\<sigma>\<lparr>sys_server := s'\<rparr>) i r Checking)"
| reject: "sys_threads \<sigma> i = Some (r, Checking) \<Longrightarrow> putCheck (sys_server \<sigma>) dio r newWriter = Inl w \<Longrightarrow>
    blockStep \<sigma> (setThread \<sigma> i r (Releasing w))"
| accept: "sys_threads \<sigma> i = Some (r, Checking) \<Longrightarrow>
    putCheck (sys_server \<sigma>) dio r newWriter = Inr (offset, expectedTotal) \<Longrightarrow>
    blockStep \<sigma> (setThread \<sigma> i r (Copying offset expectedTotal [] (rq_body r)))"
| copy: "sys_threads \<sigma> i = Some (r, Copying offset expectedTotal dn (b # bs)) \<Longrightarrow>
    s = sys_server \<sigma> \<Longrightarrow> nat offset + length dn < length (bs_device s) \<Longrightarrow>
    blockStep \<sigma> (setThread (\<sigma>\<lparr>sys_server := s\<lparr>bs_device := (bs_device s)[nat offset + length dn := b]\<rparr>\<rparr>)
      i r (Copying offset expectedTotal (dn @ [b]) bs))"
| copyFails: "sys_threads \<sigma> i = Some (r, Copying offset expectedTotal dn bs) \<Longrightarrow>
    blockStep \<sigma> (setThread \<sigma> i r (Releasing (httpError ''failed to write data'' StatusInternalError newWriter)))"
| commit: "sys_threads \<sigma> i = Some (r, Copying offset expectedTotal dn []) \<Longrightarrow>
    putCommit (sys_server \<sigma>) offset expectedTotal (int (length dn)) newWriter = (s', w) \<Longrightarrow>
    blockStep \<sigma> (setThread (\<sigma>\<lparr>sys_server := s',
        sys_acked := sys_acked \<sigma> @ (if w_code w = Some StatusUnprocessable then [] else dn)\<rparr>) i r (Releasing w))"
| release: "sys_threads \<sigma> i = Some (r, Releasing w) \<Longrightarrow> s = sys_server \<sigma> \<Longrightarrow>
    blockStep \<sigma> (setThread (\<sigma>\<lparr>sys_server := s\<lparr>bs_isWriting := False\<rparr>\<rparr>) i r (Answered w))"

text \<open>The invariant: one active thread at most, and the acknowledged bytes are on the device.\<close>

definition acked :: "blockSystem \<Rightarrow> bool" where
  "acked \<sigma> \<longleftrightarrow>
     bs_written (sys_server \<sigma>) = int (length (sys_acked \<sigma>)) \<and>
     length (sys_acked \<sigma>) \<le> length (bs_device (sys_server \<sigma>)) \<and>
     take (length (sys_acked \<sigma>)) (bs_device (sys_server \<sigma>)) = sys_acked \<sigma>"

definition exclusive :: "blockSystem \<Rightarrow> bool" where
  "exclusive \<sigma> \<longleftrightarrow>
     (\<forall>i r p. sys_threads \<sigma> i = Some (r, p) \<and> active p \<longrightarrow>
        bs_isWriting (sys_server \<sigma>) \<and>
        (\<forall>j r' p'. sys_threads \<sigma> j = Some (r', p') \<and> active p' \<longrightarrow> j = i))"

definition copying :: "blockSystem \<Rightarrow> bool" where
  "copying \<sigma> \<longleftrightarrow>
     (\<forall>i r offset e dn bs. sys_threads \<sigma> i = Some (r, Copying offset e dn bs) \<longrightarrow>
        offset = bs_written (sys_server \<sigma>) \<and>
        length (sys_acked \<sigma>) + length dn \<le> length (bs_device (sys_server \<sigma>)) \<and>
        take (length (sys_acked \<sigma>) + length dn) (bs_device (sys_server \<sigma>)) = sys_acked \<sigma> @ dn)"

definition blockInv :: "blockSystem \<Rightarrow> bool" where
  "blockInv \<sigma> \<longleftrightarrow> exclusive \<sigma> \<and> acked \<sigma> \<and> copying \<sigma>"


lemma exclusiveD:
  "exclusive \<sigma> \<Longrightarrow> sys_threads \<sigma> i = Some (r, p) \<Longrightarrow> active p \<Longrightarrow>
     bs_isWriting (sys_server \<sigma>) \<and> (\<forall>j r' p'. sys_threads \<sigma> j = Some (r', p') \<and> active p' \<longrightarrow> j = i)"
  unfolding exclusive_def by blast

text \<open>A step of an active thread that keeps the flag, or that makes the thread inactive.\<close>

lemma exclusive_update:
  assumes "exclusive \<sigma>" "sys_threads \<sigma> i = Some (r, p)" "active p"
    and "sys_threads \<sigma>' = (sys_threads \<sigma>)(i \<mapsto> (r, p'))"
    and "bs_isWriting (sys_server \<sigma>) \<Longrightarrow> active p' \<longrightarrow> bs_isWriting (sys_server \<sigma>')"
  shows "exclusive \<sigma>'"
proof -
  have only: "j = i" if "sys_threads \<sigma> j = Some (r', q)" "active q" for j r' q
    using exclusiveD [OF assms(1-3)] that by blast
  show ?thesis
    unfolding exclusive_def using assms(4,5) only exclusiveD [OF assms(1-3)] by (auto split: if_splits)
qed

lemma exclusive_step: "blockStep \<sigma> \<sigma>' \<Longrightarrow> exclusive \<sigma> \<Longrightarrow> exclusive \<sigma>'"
proof (induction rule: blockStep.induct)
  case (arrive \<sigma> i r)
  then show ?case by (auto simp: exclusive_def split: if_splits)
next
  case (busy \<sigma> i r)
  then show ?case by (auto simp: exclusive_def split: if_splits)
next
  case (claim \<sigma> i r s')
  then have "\<not> bs_isWriting (sys_server \<sigma>)" "bs_isWriting s'" by (auto simp: putClaim_def split: if_splits)
  then have "\<not> active p" if "sys_threads \<sigma> j = Some (r', p)" for j r' p
    using claim(3) that by (auto simp: exclusive_def)
  then show ?case using \<open>bs_isWriting s'\<close> by (auto simp: exclusive_def split: if_splits)
next
  case (reject \<sigma> i r dio w)
  show ?case by (rule exclusive_update [OF reject(3,1)]) (use reject in auto)
next
  case (accept \<sigma> i r dio offset expectedTotal)
  show ?case by (rule exclusive_update [OF accept(3,1)]) (use accept in auto)
next
  case (copy \<sigma> i r offset expectedTotal dn b bs s)
  show ?case by (rule exclusive_update [OF copy(4,1)]) (use copy in auto)
next
  case (copyFails \<sigma> i r offset expectedTotal dn bs)
  show ?case by (rule exclusive_update [OF copyFails(2,1)]) (use copyFails in auto)
next
  case (commit \<sigma> i r offset expectedTotal dn s' w)
  have "bs_isWriting s' = bs_isWriting (sys_server \<sigma>)"
    using commit(2) by (auto simp: putCommit_def Let_def split: if_splits)
  show ?case by (rule exclusive_update [OF commit(3,1)]) (use \<open>bs_isWriting s' = bs_isWriting (sys_server \<sigma>)\<close> in auto)
next
  case (release \<sigma> i r w s)
  show ?case by (rule exclusive_update [OF release(3,1)]) auto
qed


lemma copyingD:
  assumes "blockInv \<sigma>" "sys_threads \<sigma> i = Some (r, Copying offset e dn bs)"
  shows "offset = int (length (sys_acked \<sigma>))"
    and "length (sys_acked \<sigma>) + length dn \<le> length (bs_device (sys_server \<sigma>))"
    and "take (length (sys_acked \<sigma>) + length dn) (bs_device (sys_server \<sigma>)) = sys_acked \<sigma> @ dn"
  using assms unfolding blockInv_def acked_def copying_def by metis+

lemma acked_step:
  assumes "blockStep \<sigma> \<sigma>'" "blockInv \<sigma>"
  shows "acked \<sigma>'"
  using assms
proof (induction rule: blockStep.induct)
  case (claim \<sigma> i r s')
  then have "bs_device s' = bs_device (sys_server \<sigma>)" "bs_written s' = bs_written (sys_server \<sigma>)"
    by (auto simp: putClaim_def split: if_splits)
  with claim(3) show ?case by (simp add: blockInv_def acked_def)
next
  case (copy \<sigma> i r offset expectedTotal dn b bs s)
  then have "nat offset = length (sys_acked \<sigma>)" using copyingD(1) [OF copy(4,1)] by simp
  with copy(2,4) show ?case by (simp add: blockInv_def acked_def)
next
  case (commit \<sigma> i r offset expectedTotal dn s' w)
  have "acked \<sigma>" using commit(3) by (simp add: blockInv_def)
  with commit(2) copyingD [OF commit(3,1)] show ?case
    by (auto simp: putCommit_def Let_def acked_def split: if_splits)
qed (auto simp: blockInv_def acked_def)

text \<open>Only the thread that takes a step can be copying.\<close>

lemma copying_update:
  assumes "exclusive \<sigma>" "sys_threads \<sigma> i = Some (r, p)" "active p"
    and "sys_threads \<sigma>' = (sys_threads \<sigma>)(i \<mapsto> (r, p'))"
    and "\<And>offset e dn bs. p' = Copying offset e dn bs \<Longrightarrow>
        offset = bs_written (sys_server \<sigma>') \<and>
        length (sys_acked \<sigma>') + length dn \<le> length (bs_device (sys_server \<sigma>')) \<and>
        take (length (sys_acked \<sigma>') + length dn) (bs_device (sys_server \<sigma>')) = sys_acked \<sigma>' @ dn"
  shows "copying \<sigma>'"
proof -
  have only: "j = i" if "sys_threads \<sigma> j = Some (r', Copying offset e dn bs)" for j r' offset e dn bs
    using exclusiveD [OF assms(1-3)] that by fastforce
  show ?thesis
    unfolding copying_def using assms(4,5) only by (auto split: if_splits)
qed

lemma copying_step:
  assumes "blockStep \<sigma> \<sigma>'" "blockInv \<sigma>"
  shows "copying \<sigma>'"
  using assms
proof (induction rule: blockStep.induct)
  case (arrive \<sigma> i r)
  then show ?case by (auto simp: blockInv_def copying_def split: if_splits)
next
  case (busy \<sigma> i r)
  then show ?case by (auto simp: blockInv_def copying_def split: if_splits)
next
  case (claim \<sigma> i r s')
  then have "bs_device s' = bs_device (sys_server \<sigma>)" "bs_written s' = bs_written (sys_server \<sigma>)"
    by (auto simp: putClaim_def split: if_splits)
  with claim(3) show ?case by (auto simp: blockInv_def copying_def split: if_splits)
next
  case (reject \<sigma> i r dio w)
  show ?case by (rule copying_update [OF _ reject(1)]) (use reject in \<open>auto simp: blockInv_def\<close>)
next
  case (accept \<sigma> i r dio offset expectedTotal)
  then show ?case
    using putCheck_ok [OF accept(2)]
    by (intro copying_update [OF _ accept(1)]) (auto simp: blockInv_def acked_def)
next
  case (copy \<sigma> i r offset expectedTotal dn b bs s)
  let ?n = "length (sys_acked \<sigma>) + length dn"
  have pos: "nat offset = length (sys_acked \<sigma>)" "offset = bs_written s"
    and tk: "take ?n (bs_device s) = sys_acked \<sigma> @ dn"
    using copyingD [OF copy(4,1)] copy(2,4) by (auto simp: blockInv_def acked_def)
  have "take (Suc ?n) ((bs_device s)[?n := b]) = sys_acked \<sigma> @ dn @ [b]"
    using copy(3) pos tk by (simp add: take_Suc_conv_app_nth)
  with pos copy(3) show ?case
    by (intro copying_update [OF _ copy(1)]) (use copy(4) in \<open>auto simp: blockInv_def\<close>)
next
  case (copyFails \<sigma> i r offset expectedTotal dn bs)
  show ?case by (rule copying_update [OF _ copyFails(1)]) (use copyFails in \<open>auto simp: blockInv_def\<close>)
next
  case (commit \<sigma> i r offset expectedTotal dn s' w)
  show ?case by (rule copying_update [OF _ commit(1)]) (use commit in \<open>auto simp: blockInv_def\<close>)
next
  case (release \<sigma> i r w s)
  show ?case by (rule copying_update [OF _ release(1)]) (use release in \<open>auto simp: blockInv_def\<close>)
qed

lemma blockInv_run:
  assumes "blockStep\<^sup>*\<^sup>* \<sigma> \<sigma>'" "blockInv \<sigma>"
  shows "blockInv \<sigma>'"
  using assms
proof (induction rule: rtranclp_induct)
  case (step \<sigma>' \<sigma>'')
  then show ?case
    using exclusive_step acked_step copying_step by (simp add: blockInv_def)
qed


section \<open>One request alone is a run of the system\<close>

lemma copy_run:
  assumes "sys_threads \<sigma> i = Some (r, Copying offset e dn bs)"
    and "ioCopy (bs_device (sys_server \<sigma>)) (nat offset + length dn) bs readErr = (dev', n, err)"
  shows "blockStep\<^sup>*\<^sup>* \<sigma> (setThread (\<sigma>\<lparr>sys_server := (sys_server \<sigma>)\<lparr>bs_device := dev'\<rparr>\<rparr>) i r
    (Copying offset e (dn @ take n bs) (drop n bs)))"
  using assms
proof (induction bs arbitrary: \<sigma> dn n dev' err)
  case Nil
  then have "setThread (\<sigma>\<lparr>sys_server := (sys_server \<sigma>)\<lparr>bs_device := dev'\<rparr>\<rparr>) i r (Copying offset e dn []) = \<sigma>"
    by (auto simp: map_upd_triv)
  then show ?case by (simp only: append_Nil2 take_Nil drop_Nil rtranclp.rtrancl_refl)
next
  case (Cons b bs)
  let ?pos = "nat offset + length dn"
  let ?s = "sys_server \<sigma>"
  show ?case
  proof (cases "?pos < length (bs_device ?s)")
    case True
    let ?\<sigma> = "setThread (\<sigma>\<lparr>sys_server := ?s\<lparr>bs_device := (bs_device ?s)[?pos := b]\<rparr>\<rparr>) i r
      (Copying offset e (dn @ [b]) bs)"
    obtain d m x where c: "ioCopy ((bs_device ?s)[?pos := b]) (?pos + 1) bs readErr = (d, m, x)"
      by (metis prod_cases3)
    with Cons.prems(2) True have *: "dev' = d" "n = Suc m" by auto
    have st: "blockStep \<sigma> ?\<sigma>" using copy [OF Cons.prems(1) refl True] .
    have run: "blockStep\<^sup>*\<^sup>* ?\<sigma> (setThread (?\<sigma>\<lparr>sys_server := (sys_server ?\<sigma>)\<lparr>bs_device := d\<rparr>\<rparr>) i r
        (Copying offset e ((dn @ [b]) @ take m bs) (drop m bs)))"
      using c by (intro Cons.IH) simp_all
    have eq: "setThread (?\<sigma>\<lparr>sys_server := (sys_server ?\<sigma>)\<lparr>bs_device := d\<rparr>\<rparr>) i r
          (Copying offset e ((dn @ [b]) @ take m bs) (drop m bs)) =
        setThread (\<sigma>\<lparr>sys_server := ?s\<lparr>bs_device := dev'\<rparr>\<rparr>) i r
          (Copying offset e (dn @ take n (b # bs)) (drop n (b # bs)))"
      by (simp add: *)
    from converse_rtranclp_into_rtranclp [OF st run] show ?thesis unfolding eq .
  next
    case False
    with Cons.prems have "dev' = bs_device ?s" "n = 0" by auto
    with Cons.prems(1) have "setThread (\<sigma>\<lparr>sys_server := ?s\<lparr>bs_device := dev'\<rparr>\<rparr>) i r
        (Copying offset e (dn @ take n (b # bs)) (drop n (b # bs))) = \<sigma>"
      by (auto simp: map_upd_triv)
    then show ?thesis by (simp only: rtranclp.rtrancl_refl)
  qed
qed

lemma release_run:
  assumes "blockStep\<^sup>*\<^sup>* \<sigma> \<sigma>1" "sys_threads \<sigma>1 i = Some (r, Releasing w)" "sys_server \<sigma>1 = s"
  shows "\<exists>\<sigma>'. blockStep\<^sup>*\<^sup>* \<sigma> \<sigma>' \<and> sys_server \<sigma>' = s\<lparr>bs_isWriting := False\<rparr> \<and>
    sys_threads \<sigma>' i = Some (r, Answered w)"
  using rtranclp.rtrancl_into_rtrancl [OF assms(1) release [OF assms(2) refl]] assms(3) by fastforce

lemma upload_run:
  assumes r1: "blockStep\<^sup>*\<^sup>* \<sigma> \<sigma>1" "sys_threads \<sigma>1 i = Some (r, Checking)" "sys_server \<sigma>1 = s1"
    and up: "putUpload s1 dio r newWriter = (s2, w)"
  shows "\<exists>\<sigma>'. blockStep\<^sup>*\<^sup>* \<sigma> \<sigma>' \<and> sys_server \<sigma>' = s2\<lparr>bs_isWriting := False\<rparr> \<and>
    sys_threads \<sigma>' i = Some (r, Answered w)"
proof (cases "putCheck s1 dio r newWriter")
  case (Inl w')
  let ?\<sigma>2 = "setThread \<sigma>1 i r (Releasing w')"
  have "blockStep \<sigma>1 ?\<sigma>2" using Inl r1 by (intro reject) simp_all
  with r1(1) have r2: "blockStep\<^sup>*\<^sup>* \<sigma> ?\<sigma>2" by (rule rtranclp.rtrancl_into_rtrancl)
  have "s2 = s1" "w = w'" using up Inl by (simp_all add: putUpload_def)
  then show ?thesis using release_run [OF r2, of i r w' s1] r1(3) by simp
next
  case (Inr x)
  obtain offset e where x: "x = (offset, e)" by (cases x)
  let ?\<sigma>2 = "setThread \<sigma>1 i r (Copying offset e [] (rq_body r))"
  have "blockStep \<sigma>1 ?\<sigma>2" using Inr x r1 by (intro accept [where dio = dio]) simp_all
  with r1(1) have r2: "blockStep\<^sup>*\<^sup>* \<sigma> ?\<sigma>2" by (rule rtranclp.rtrancl_into_rtrancl)
  obtain dev n err where c: "ioCopy (bs_device s1) (nat offset) (rq_body r) (rq_bodyErr r) = (dev, n, err)"
    by (metis prod_cases3)
  let ?s1 = "s1\<lparr>bs_device := dev\<rparr>"
  let ?\<sigma>3 = "setThread (?\<sigma>2\<lparr>sys_server := ?s1\<rparr>) i r (Copying offset e (take n (rq_body r)) (drop n (rq_body r)))"
  have r3: "blockStep\<^sup>*\<^sup>* \<sigma> ?\<sigma>3"
    using rtranclp_trans [OF r2] copy_run [of ?\<sigma>2 i r offset e "[]" "rq_body r" "rq_bodyErr r" dev n err] c r1(3)
    by simp
  have res: "(s2, w) = (if err then (?s1, httpError ''failed to write data'' StatusInternalError newWriter)
      else putCommit ?s1 offset e (int n) newWriter)"
    using up Inr c x by (simp add: putUpload_def Let_def)
  have "\<exists>\<sigma>4. blockStep ?\<sigma>3 \<sigma>4 \<and> sys_server \<sigma>4 = s2 \<and> sys_threads \<sigma>4 i = Some (r, Releasing w)"
  proof (cases err)
    case True
    then show ?thesis
      using res copyFails [of ?\<sigma>3 i r offset e "take n (rq_body r)" "drop n (rq_body r)"]
      by (intro exI [of _ "setThread ?\<sigma>3 i r (Releasing w)"] conjI) simp_all
  next
    case False
    then have "n = length (rq_body r)" using ioCopy_total [OF c] by simp
    then show ?thesis
      using res False
      by (intro exI [of _ "setThread (?\<sigma>3\<lparr>sys_server := s2, sys_acked := sys_acked ?\<sigma>3 @
            (if w_code w = Some StatusUnprocessable then [] else rq_body r)\<rparr>) i r (Releasing w)"] conjI commit)
        simp_all
  qed
  then obtain \<sigma>4 where fin: "blockStep ?\<sigma>3 \<sigma>4" "sys_server \<sigma>4 = s2" "sys_threads \<sigma>4 i = Some (r, Releasing w)"
    by blast
  have r4: "blockStep\<^sup>*\<^sup>* \<sigma> \<sigma>4" using r3 fin(1) by (rule rtranclp.rtrancl_into_rtrancl)
  show ?thesis by (rule release_run [OF r4 fin(3,2)])
qed

lemma put_run:
  assumes "sys_threads \<sigma> i = None" "HandlePutMethod (sys_server \<sigma>) dio r newWriter = (s', w)"
  shows "\<exists>\<sigma>'. blockStep\<^sup>*\<^sup>* \<sigma> \<sigma>' \<and> sys_server \<sigma>' = s' \<and> sys_threads \<sigma>' i = Some (r, Answered w)"
proof -
  let ?s = "sys_server \<sigma>"
  let ?\<sigma>0 = "setThread \<sigma> i r Claiming"
  have start: "blockStep\<^sup>*\<^sup>* \<sigma> ?\<sigma>0" using arrive [OF assms(1)] by blast
  show ?thesis
  proof (cases "putClaim ?s")
    case None
    with assms(2) have "s' = ?s" "w = httpError ''Conflict'' StatusConflict newWriter"
      by (simp_all add: HandlePutMethod_def)
    moreover have "blockStep ?\<sigma>0 (setThread ?\<sigma>0 i r (Answered (httpError ''Conflict'' StatusConflict newWriter)))"
      using None by (intro busy) simp_all
    ultimately show ?thesis
      using rtranclp.rtrancl_into_rtrancl [OF start]
      by (intro exI [of _ "setThread ?\<sigma>0 i r (Answered w)"]) auto
  next
    case (Some s1)
    let ?\<sigma>1 = "setThread (?\<sigma>0\<lparr>sys_server := s1\<rparr>) i r Checking"
    have r1: "blockStep\<^sup>*\<^sup>* \<sigma> ?\<sigma>1"
      using rtranclp.rtrancl_into_rtrancl [OF start claim [of ?\<sigma>0 i r s1]] Some by simp
    obtain s2 where "putUpload s1 dio r newWriter = (s2, w)" "s' = s2\<lparr>bs_isWriting := False\<rparr>"
      using assms(2) Some by (auto simp: HandlePutMethod_def split: prod.splits)
    then show ?thesis using upload_run [OF r1, of i r s1 dio s2 w] by simp
  qed
qed

section \<open>Properties\<close>

text \<open>
  C32. An upload that runs alone is acknowledged (201 or 204) only if it starts at the offset
  the server has acknowledged and its whole body is on the device behind the bytes
  acknowledged before; then the acknowledged offset advances by the length of the body, and
  the answer is 201 exactly when the announced size is reached. Any other answer leaves the
  acknowledged offset and the bytes before it as they were. The handler is always released.
\<close>

theorem block_put_extends_prefix:
  assumes "HandlePutMethod s dio r newWriter = (s', w)" "\<not> bs_isWriting s"
    and "0 \<le> bs_written s" "bs_written s \<le> int (length (bs_device s))"
  shows "\<not> bs_isWriting s' \<and>
    (if w_code w = Some StatusCreated \<or> w_code w = Some StatusNoContent
     then \<exists>expectedTotal. ParseUploadHeaders r = Inr (bs_written s, expectedTotal) \<and>
       bs_written s' = bs_written s + int (length (rq_body r)) \<and>
       bs_written s' \<le> int (length (bs_device s')) \<and>
       take (nat (bs_written s')) (bs_device s') = take (nat (bs_written s)) (bs_device s) @ rq_body r \<and>
       (w_code w = Some StatusCreated \<longleftrightarrow> bs_written s' = expectedTotal)
     else bs_written s' = bs_written s \<and>
       take (nat (bs_written s)) (bs_device s') = take (nat (bs_written s)) (bs_device s))"
proof -
  let ?s1 = "s\<lparr>bs_isWriting := True\<rparr>"
  obtain s2 where s2: "putUpload ?s1 dio r newWriter = (s2, w)" "s' = s2\<lparr>bs_isWriting := False\<rparr>"
    using assms(1,2) by (auto simp: HandlePutMethod_def putClaim_def split: prod.splits)
  show ?thesis
  proof (cases "putCheck ?s1 dio r newWriter")
    case (Inl w')
    then have "s2 = ?s1" "w = w'" using s2(1) by (simp_all add: putUpload_def)
    with s2(2) putCheck_code [OF Inl] show ?thesis by auto
  next
    case (Inr x)
    obtain offset e where x: "x = (offset, e)" by (cases x)
    note ok = putCheck_ok [OF Inr [unfolded x]]
    have hdr: "ParseUploadHeaders r = Inr (bs_written s, e)"
      using Inr ok by (auto simp: x putCheck_def split: sum.splits gerr.splits prod.splits if_splits)
    obtain dev n err where c: "ioCopy (bs_device s) (nat (bs_written s)) (rq_body r) (rq_bodyErr r) = (dev, n, err)"
      by (metis prod_cases3)
    have pos: "nat (bs_written s) \<le> length (bs_device s)" using assms(4) by (simp add: nat_le_iff)
    note copied = ioCopy_spec [OF c pos] ioCopy_take [OF c pos]
    have "putCheck ?s1 dio r newWriter = Inr (bs_written s, e)" using Inr x ok by simp
    then show ?thesis
      using s2 copied assms(3) hdr
      by (auto simp: putUpload_def putCommit_def Let_def nat_add_distrib c split: if_splits)
  qed
qed

definition exBlock :: blockServer where
  "exBlock = \<lparr>bs_device = [1, 2, 0, 0], bs_written = 2, bs_isWriting = False, bs_isServiceOff = False\<rparr>"

definition exPut :: httpRequest where
  "exPut = \<lparr>rq_method = ''PUT'', rq_path = [],
     rq_headers = [(''X-Offset'', ''2''), (''X-Content-Length'', ''4'')],
     rq_contentLength = 2, rq_body = [7, 8], rq_bodyErr = False, rq_peerCert = None\<rparr>"

abbreviation okIO :: deviceIO where
  "okIO \<equiv> \<lparr>io_open = OpenOk, io_sizeErr = False, io_seekErr = False\<rparr>"

lemma exPut_runs:
  "w_code (snd (HandlePutMethod exBlock okIO exPut newWriter)) = Some StatusCreated"
  "bs_written (fst (HandlePutMethod exBlock okIO exPut newWriter)) = 4"
  "\<not> bs_isWriting exBlock" "0 \<le> bs_written exBlock" "bs_written exBlock \<le> int (length (bs_device exBlock))"
  "take (nat (bs_written exBlock)) (bs_device exBlock) @ rq_body exPut = [1, 2, 7, 8]"
  by code_simp+

theorem block_put_extends_prefix_witness:
  "w_code (snd (HandlePutMethod exBlock okIO exPut newWriter)) = Some StatusCreated \<and>
   take (nat 4) (bs_device (fst (HandlePutMethod exBlock okIO exPut newWriter))) = [1, 2, 7, 8]"
  using block_put_extends_prefix [OF surjective_pairing exPut_runs(3-5)] exPut_runs(1,2,6) by metis

text \<open>
  C33. Under any interleaving of concurrent uploads, starting from a fresh handler: at most
  one upload is active at a time, and the bytes of the device before the acknowledged offset
  are exactly the acknowledged bodies in the order they were acknowledged.
\<close>

theorem block_uploads_serialised:
  assumes "blockStep\<^sup>*\<^sup>* \<sigma>0 \<sigma>" "sys_threads \<sigma>0 = Map.empty" "sys_acked \<sigma>0 = []"
    and "bs_written (sys_server \<sigma>0) = 0"
  shows "(\<forall>i j r r' p p'. sys_threads \<sigma> i = Some (r, p) \<and> active p \<and>
       sys_threads \<sigma> j = Some (r', p') \<and> active p' \<longrightarrow> i = j) \<and>
    bs_written (sys_server \<sigma>) = int (length (sys_acked \<sigma>)) \<and>
    take (nat (bs_written (sys_server \<sigma>))) (bs_device (sys_server \<sigma>)) = sys_acked \<sigma>"
proof -
  have "blockInv \<sigma>0" using assms(2-4) by (simp add: blockInv_def exclusive_def acked_def copying_def)
  then have inv: "blockInv \<sigma>" using blockInv_run [OF assms(1)] by blast
  then have "acked \<sigma>" "exclusive \<sigma>" by (simp_all add: blockInv_def)
  moreover from \<open>exclusive \<sigma>\<close> have "\<forall>i j r r' p p'. sys_threads \<sigma> i = Some (r, p) \<and> active p \<and>
       sys_threads \<sigma> j = Some (r', p') \<and> active p' \<longrightarrow> i = j"
    unfolding exclusive_def by blast
  ultimately show ?thesis by (simp add: acked_def)
qed

definition exFresh :: blockSystem where
  "exFresh = \<lparr>sys_server = \<lparr>bs_device = [0, 0, 0], bs_written = 0, bs_isWriting = False, bs_isServiceOff = False\<rparr>,
     sys_threads = Map.empty, sys_acked = []\<rparr>"

definition exFirst :: httpRequest where
  "exFirst = exPut\<lparr>rq_headers := [(''X-Offset'', ''0''), (''X-Content-Length'', ''3'')]\<rparr>"

lemma exFirst_runs: "bs_written (fst (HandlePutMethod (sys_server exFresh) okIO exFirst newWriter)) = 2"
  by code_simp

theorem block_uploads_serialised_witness:
  "\<exists>\<sigma>. blockStep\<^sup>*\<^sup>* exFresh \<sigma> \<and> bs_written (sys_server \<sigma>) = 2 \<and> length (sys_acked \<sigma>) = 2 \<and>
     take 2 (bs_device (sys_server \<sigma>)) = sys_acked \<sigma>"
proof -
  obtain \<sigma> where run: "blockStep\<^sup>*\<^sup>* exFresh \<sigma>"
      "sys_server \<sigma> = fst (HandlePutMethod (sys_server exFresh) okIO exFirst newWriter)"
    using put_run [of exFresh 0 okIO exFirst, OF _ surjective_pairing] by (auto simp: exFresh_def)
  have "bs_written (sys_server \<sigma>) = 2" using run(2) exFirst_runs by simp
  then show ?thesis
    using block_uploads_serialised [OF run(1)] run(1) by (auto simp: exFresh_def)
qed

text \<open>
  The sequential handler is one run of the concurrent system: whatever one request does
  alone, a thread of the system can do, ending in the same server state with the same answer.
\<close>

theorem block_put_refines_steps:
  assumes "sys_threads \<sigma> i = None" "HandlePutMethod (sys_server \<sigma>) dio r newWriter = (s', w)"
  shows "\<exists>\<sigma>'. blockStep\<^sup>*\<^sup>* \<sigma> \<sigma>' \<and> sys_server \<sigma>' = s' \<and> sys_threads \<sigma>' i = Some (r, Answered w)"
  by (rule put_run [OF assms])

theorem block_put_refines_steps_witness:
  "\<exists>\<sigma>' w. blockStep\<^sup>*\<^sup>* exFresh \<sigma>' \<and> sys_threads \<sigma>' 0 = Some (exFirst, Answered w) \<and>
     bs_written (sys_server \<sigma>') = 2"
  using block_put_refines_steps [of exFresh 0 okIO exFirst, OF _ surjective_pairing] exFirst_runs
  by (fastforce simp: exFresh_def)

end
