(* ===== verification/Import_Fs.thy ===== *)
theory Import_Fs
  imports Paths Import_Block
begin

text \<open>
  The filesystem importer, \<open>src/images/data-exporter/internal/import_filesystem/handler.go\<close>,
  with \<open>SetFileAttributes\<close> of \<open>httpiohelpers/file.go\<close>: files are uploaded in chunks into a
  temporary file beside the target, which is renamed over the target when the announced size
  is reached.
\<close>

section \<open>A file system\<close>

record fileAttr =
  fa_perm :: int
  fa_uid :: int
  fa_gid :: int
  fa_mtime :: time

text \<open>Attributes are tracked for regular files. Other nodes have the size \<open>Lstat\<close> reports.\<close>

datatype fsNode = NFile "byte list" fileAttr | NDir int | NSymlink string | NOther int

type_synonym files = "string \<Rightarrow> fsNode option"

fun nodeSize :: "fsNode \<Rightarrow> int" where
  "nodeSize (NFile bs _) = int (length bs)"
| "nodeSize (NDir n) = n"
| "nodeSize (NSymlink t) = int (length t)"
| "nodeSize (NOther n) = n"

fun isDirNode :: "fsNode \<Rightarrow> bool" where
  "isDirNode (NDir _) = True" | "isDirNode _ = False"

text \<open>
  What the operating system adds to one request: failures of the calls (of \<open>MkdirAll\<close> after
  a number of directories), and how many bytes still fit on the volume (no limit if \<open>None\<close>).
  Opening a temporary path that is not a regular file fails; uploads create regular files only.
\<close>

record fsIO =
  fi_mkdirErr :: "nat option"
  fi_statErr :: bool
  fi_tempStatErr :: bool
  fi_openErr :: bool
  fi_seekErr :: bool
  fi_room :: "nat option"
  fi_closeErr :: bool
  fi_renameErr :: bool
  fi_attrErr :: bool

text \<open>\<open>MkdirAll\<close> of a clean absolute path: every missing directory on the way is created.\<close>

definition ancestors :: "string \<Rightarrow> string list" where
  "ancestors p = map (\<lambda>i. CHR ''/'' # joinSlash (take i (pathComps p))) [1 ..< Suc (length (pathComps p))]"

definition mkdirs :: "string list \<Rightarrow> files \<Rightarrow> files" where
  "mkdirs ps fs = (\<lambda>q. if fs q = None \<and> q \<in> set ps then Some (NDir 4096) else fs q)"

definition MkdirAll :: "nat option \<Rightarrow> string \<Rightarrow> files \<Rightarrow> files \<times> bool" where
  "MkdirAll failAfter p fs =
     (case failAfter of
        None \<Rightarrow> (mkdirs (ancestors p) fs, True)
      | Some k \<Rightarrow> (mkdirs (take k (ancestors p)) fs, False))"

fun setAttr :: "(fileAttr \<Rightarrow> fileAttr) \<Rightarrow> fsNode \<Rightarrow> fsNode" where
  "setAttr f (NFile bs a) = NFile bs (f a)"
| "setAttr f n = n"

definition updAttr :: "(fileAttr \<Rightarrow> fileAttr) \<Rightarrow> string \<Rightarrow> files \<Rightarrow> files" where
  "updAttr f p fs = fs(p := map_option (setAttr f) (fs p))"

definition SetFileAttributes ::
  "bool \<Rightarrow> files \<Rightarrow> string \<Rightarrow> int \<Rightarrow> int \<Rightarrow> int \<Rightarrow> time \<Rightarrow> files \<times> gerr option" where
  "SetFileAttributes attrErr fs p perm uid gid mtime =
     (let fails = (fs p = None \<or> attrErr) in
      if perm \<noteq> 0 \<and> fails then (fs, Some errInvalidPermissionsOctalNumber)
      else let fs1 = (if perm \<noteq> 0 then updAttr (fa_perm_update (\<lambda>_. perm)) p fs else fs) in
      if uid \<ge> 0 \<and> gid \<ge> 0 \<and> fails then (fs1, Some errInvalidUID)
      else let fs2 = (if uid \<ge> 0 \<and> gid \<ge> 0 then updAttr (\<lambda>a. a\<lparr>fa_uid := uid, fa_gid := gid\<rparr>) p fs1 else fs1) in
      if mtime \<noteq> 0 \<and> fails then (fs2, Some errInvalidModTime)
      else (if mtime \<noteq> 0 then updAttr (fa_mtime_update (\<lambda>_. mtime)) p fs2 else fs2, None))"

section \<open>The handler\<close>

record fsServer =
  fss_files :: files
  fss_root :: string
  fss_isWriting :: bool
  fss_isServiceOff :: bool

definition checkIsDir :: "files \<Rightarrow> string \<Rightarrow> string res" where
  "checkIsDir fs p =
     (case fs p of
        None \<Rightarrow> Inl (Errorf ''file does not exist'' [])
      | Some n \<Rightarrow> if isDirNode n then Inr [] else Inl (Errorf ''not a directory'' []))"

definition NewImportFilesystemHandler ::
  "env \<Rightarrow> nsname \<Rightarrow> files \<Rightarrow> bool \<Rightarrow> string \<Rightarrow> fsServer res io" where
  "NewImportFilesystemHandler E n fs readDirErr path =
     thenE (CheckIsServiceAvailable E n) (\<lambda>isServiceOff. ret
       (let cleanPath = Clean path in
        if \<not> IsAbs cleanPath then Inl (Errorf ''path must be absolute'' [])
        else (case checkIsDir fs cleanPath of
                Inl e \<Rightarrow> Inl e
              | Inr _ \<Rightarrow>
                  if readDirErr then Inl (Errorf ''failed to read directory'' [])
                  else Inr \<lparr>fss_files = fs, fss_root = cleanPath, fss_isWriting = False,
                            fss_isServiceOff = isServiceOff\<rparr>)))"

definition dirAt :: "files \<Rightarrow> string \<Rightarrow> bool" where
  "dirAt fs p = (case fs p of None \<Rightarrow> False | Some n \<Rightarrow> isDirNode n)"

definition tempOf :: "string \<Rightarrow> string" where
  "tempOf p = p @ ''.tempupload''"

definition targetOf :: "string \<Rightarrow> httpRequest \<Rightarrow> string" where
  "targetOf root r = Join [root, Clean (rq_path r)]"

text \<open>The three header parsers, in the order the handler calls them.\<close>

definition parseUpload ::
  "(string \<Rightarrow> time option) \<Rightarrow> httpRequest \<Rightarrow> (int option \<times> int \<times> int \<times> time \<times> int \<times> int) res" where
  "parseUpload parseRFC3339 r =
     (case ParseFileAttributes r of
        Inl e \<Rightarrow> Inl e
      | Inr (perm, uid, gid) \<Rightarrow>
          (case ParseExtraAttributes parseRFC3339 r of
             Inl e \<Rightarrow> Inl e
           | Inr (modTime, _) \<Rightarrow>
               (case ParseUploadHeaders r of
                  Inl e \<Rightarrow> Inl e
                | Inr (offset, expectedTotal) \<Rightarrow> Inr (perm, uid, gid, modTime, offset, expectedTotal))))"

text \<open>The bytes of a body that reach the file, and whether the copy fails.\<close>

definition copied :: "fsIO \<Rightarrow> httpRequest \<Rightarrow> byte list \<times> bool" where
  "copied io r =
     (case fi_room io of
        None \<Rightarrow> (rq_body r, rq_bodyErr r)
      | Some n \<Rightarrow> (take n (rq_body r), rq_bodyErr r \<or> n < length (rq_body r)))"

text \<open>
  From the opened temporary file to the answer: copy, close, and either rename and answer 201
  (in that order: the status first) or answer 204; then set the attributes of the target.
\<close>

definition finishUpload ::
  "fsIO \<Rightarrow> files \<Rightarrow> string \<Rightarrow> byte list \<Rightarrow> fileAttr \<Rightarrow> int \<Rightarrow> int \<Rightarrow> int \<Rightarrow> int \<Rightarrow> int \<Rightarrow> time \<Rightarrow>
   httpRequest \<Rightarrow> httpWriter \<Rightarrow> files \<times> httpWriter" where
  "finishUpload io fs absPath old attr currentSize expectedTotal filePerm uid gid modTime r w =
     (case copied io r of
        (bytes, copyErr) \<Rightarrow>
          (let temp = NFile (old @ bytes) attr; fs1 = fs(tempOf absPath := Some temp) in
           if copyErr then (fs1, httpError ''Error writing request body'' StatusInternalError w)
           else if fi_closeErr io then (fs1, httpError ''Error closing file'' StatusInternalError w)
           else
             (let newSize = currentSize + int (length bytes) in
              if expectedTotal \<ge> 0 \<and> newSize = expectedTotal then
                (let w1 = WriteHeader StatusCreated w in
                 if fi_renameErr io \<or> dirAt fs1 absPath
                 then (fs1, httpError ''error renaming temporary file'' StatusInternalError w1)
                 else
                   (let fs2 = fs1(absPath := Some temp, tempOf absPath := None) in
                    case SetFileAttributes (fi_attrErr io) fs2 absPath filePerm uid gid modTime of
                      (fs3, None) \<Rightarrow> (fs3, w1)
                    | (fs3, Some e) \<Rightarrow> (fs3, httpError ''error setting file attributes'' StatusInternalError w1)))
              else
                (let w1 = WriteHeader StatusNoContent (Header_Set ''X-Next-Offset'' (FormatInt newSize) w) in
                 case SetFileAttributes (fi_attrErr io) fs1 absPath filePerm uid gid modTime of
                   (fs3, None) \<Rightarrow> (fs3, w1)
                 | (fs3, Some e) \<Rightarrow> (fs3, httpError ''error setting file attributes'' StatusInternalError w1)))))"

definition defaultFilePerm :: int where
  "defaultFilePerm = 416"

definition createFileLocked ::
  "(string \<Rightarrow> time option) \<Rightarrow> fsIO \<Rightarrow> files \<Rightarrow> string \<Rightarrow> httpRequest \<Rightarrow> httpWriter \<Rightarrow> files \<times> httpWriter" where
  "createFileLocked parseRFC3339 io fs0 root r w =
     (case parseUpload parseRFC3339 r of
        Inl e \<Rightarrow> (fs0, httpError (case e of Errorf m _ \<Rightarrow> m | _ \<Rightarrow> []) StatusBadRequest w)
      | Inr (perm, uid, gid, modTime, offset, expectedTotal) \<Rightarrow>
          (let absPath = targetOf root r; tempPath = tempOf absPath in
           case MkdirAll (fi_mkdirErr io) (Dir absPath) fs0 of
             (fs, False) \<Rightarrow> (fs, httpError ''failed to create parent directories'' StatusInternalError w)
           | (fs, True) \<Rightarrow>
             (if fi_statErr io then (fs, httpError ''failed to check file'' StatusInternalError w)
              else
                (let targetSize = (case fs absPath of None \<Rightarrow> 0 | Some n \<Rightarrow> nodeSize n) in
                 if fs absPath \<noteq> None \<and> expectedTotal \<ge> 0 \<and> targetSize = expectedTotal
                 then (fs, httpError ''Conflict'' StatusConflict w)
                 else
                   (let filePerm = (case perm of None \<Rightarrow> defaultFilePerm | Some p \<Rightarrow> p) in
                    if fi_tempStatErr io then (fs, httpError ''failed to check temporary file'' StatusInternalError w)
                    else (case fs tempPath of
                      None \<Rightarrow>
                        if offset \<noteq> 0
                        then (fs, httpError ''Conflict'' StatusConflict (Header_Set ''X-Expected-Offset'' ''0'' w))
                        else if fi_openErr io then (fs, httpError ''Error file access denied'' StatusInternalError w)
                        else finishUpload io fs absPath []
                               \<lparr>fa_perm = filePerm, fa_uid = 0, fa_gid = 0, fa_mtime = 0\<rparr>
                               targetSize expectedTotal filePerm uid gid modTime r w
                    | Some n \<Rightarrow>
                        if offset \<noteq> nodeSize n
                        then (fs, httpError ''Conflict'' StatusConflict
                               (Header_Set ''X-Expected-Offset'' (FormatInt (nodeSize n)) w))
                        else (case n of
                          NFile old attr \<Rightarrow>
                            if fi_openErr io then (fs, httpError ''Error file access denied'' StatusInternalError w)
                            else if fi_seekErr io then (fs, httpError ''failed to seek'' StatusInternalError w)
                            else finishUpload io fs absPath old attr (nodeSize n) expectedTotal filePerm uid gid modTime r w
                        | _ \<Rightarrow> (fs, httpError ''Error file access denied'' StatusInternalError w))))))))"

definition CreateFile ::
  "(string \<Rightarrow> time option) \<Rightarrow> fsIO \<Rightarrow> fsServer \<Rightarrow> httpRequest \<Rightarrow> httpWriter \<Rightarrow> fsServer \<times> httpWriter" where
  "CreateFile parseRFC3339 io s r w =
     (if fss_isWriting s then (s, httpError ''Conflict'' StatusConflict w)
      else (case createFileLocked parseRFC3339 io (fss_files s) (fss_root s) r w of
              (fs, w') \<Rightarrow> (s\<lparr>fss_files := fs, fss_isWriting := False\<rparr>, w')))"

definition HeadFile :: "fsIO \<Rightarrow> fsServer \<Rightarrow> httpRequest \<Rightarrow> httpWriter \<Rightarrow> httpWriter" where
  "HeadFile io s r w =
     (let absPath = targetOf (fss_root s) r in
      if fi_tempStatErr io then WriteHeader StatusInternalError (Header_Set ''Content-Length'' ''0'' w)
      else (case fss_files s (tempOf absPath) of
              Some n \<Rightarrow> WriteHeader StatusOK (Header_Set ''X-Next-Offset'' (FormatInt (nodeSize n)) w)
            | None \<Rightarrow>
                if fi_statErr io then WriteHeader StatusInternalError (Header_Set ''Content-Length'' ''0'' w)
                else (case fss_files s absPath of
                        None \<Rightarrow> WriteHeader StatusNotFound (Header_Set ''Content-Length'' ''0'' w)
                      | Some n \<Rightarrow> WriteHeader StatusOK (Header_Set ''Content-Length'' (FormatInt (nodeSize n)) w))))"

definition importFsServeHTTP ::
  "env \<Rightarrow> nsname \<Rightarrow> (string \<Rightarrow> time option) \<Rightarrow> fsIO \<Rightarrow> fsServer \<Rightarrow> httpRequest \<Rightarrow> httpWriter \<Rightarrow>
   (fsServer \<times> httpWriter) io" where
  "importFsServeHTTP E n parseRFC3339 io s r w =
     (if fss_isServiceOff s then ret (s, httpError ''service is off'' StatusForbidden w)
      else if rq_method r = ''PUT'' then ret (CreateFile parseRFC3339 io s r w)
      else if rq_method r = ''POST'' then do { w' \<leftarrow> CompleteImport E n w; ret (s, w') }
      else if rq_method r = ''HEAD'' then
        (if rq_path r = [] \<or> last (rq_path r) = CHR ''/''
         then ret (s, httpError ''HEAD is supported for files only'' StatusBadRequest w)
         else ret (s, HeadFile io s r w))
      else ret (s, httpError ''Method not allowed'' StatusMethodNotAllowed w))"

section \<open>The parent directories\<close>

lemma dirPath_length:
  "length (dirPath (take i cs)) \<le> length (dirPath cs)"
proof (induction cs arbitrary: i rule: joinSlash.induct)
  case (3 x y ys)
  show ?case
  proof (cases i)
    case (Suc j)
    with "3.IH" [of j] show ?thesis by (cases j) (auto simp: dirPath_def)
  qed (simp add: dirPath_def)
qed (auto simp: dirPath_def take_Cons')

lemma Dir_dirPath:
  assumes "list_all normal (cs @ [c])"
  shows "Dir (dirPath (cs @ [c])) = dirPath cs"
proof -
  let ?pre = "if cs = [] then [] else dirPath cs"
  have split: "dirPath (cs @ [c]) = ?pre @ CHR ''/'' # c"
    using joinSlash_append [of cs "[c]"] by (simp add: dirPath_def)
  have "CHR ''/'' \<notin> set c" using assms normal_noslash by simp
  then have "dropWhile (\<lambda>d. d \<noteq> CHR ''/'') (rev c @ CHR ''/'' # rev ?pre) = CHR ''/'' # rev ?pre"
    by (subst dropWhile_append2) auto
  then have dir: "Dir (dirPath (cs @ [c])) = Clean (?pre @ [CHR ''/''])"
    by (simp add: Dir_def split)
  show ?thesis
  proof (cases "cs = []")
    case True
    then have "Dir (dirPath (cs @ [c])) = Clean ''/''" using dir by simp
    with True show ?thesis by (simp add: Clean_def dirPath_def pathComps_def rooted_def)
  next
    case False
    have "cleanComps True [] (splitSlash (dirPath cs)) = rev cs"
      using pathComps_dirPath [OF _ False] assms by (simp add: pathComps_def rooted_def dirPath_def rev_swap)
    then have "pathComps (dirPath cs @ ''/'') = cs"
      using splitSlash_append [of "dirPath cs" "[]"]
      by (simp add: pathComps_def cleanComps_append rooted_def dirPath_def)
    then have "Clean (dirPath cs @ ''/'') = dirPath cs"
      by (simp add: Clean_def rooted_def dirPath_def)
    with False dir show ?thesis by simp
  qed
qed

lemma ancestors_shorter:
  assumes "list_all normal cs" "q \<in> set (ancestors (Dir (dirPath cs)))"
  shows "length q < length (dirPath cs)"
proof (cases cs rule: rev_cases)
  case Nil
  with assms show ?thesis by (simp add: ancestors_def Dir_def dirPath_def Clean_def rooted_def pathComps_def)
next
  case (snoc ds d)
  then have "q \<in> set (ancestors (dirPath ds))" using assms Dir_dirPath by simp
  then obtain i where "ds \<noteq> []" and q: "q = dirPath (take i ds)"
    using pathComps_dirPath [of ds] assms(1) snoc
    by (cases "ds = []") (auto simp: ancestors_def dirPath_def pathComps_def rooted_def)
  have "length q \<le> length (dirPath ds)" unfolding q by (rule dirPath_length)
  also have "\<dots> < length (dirPath cs)"
    using \<open>ds \<noteq> []\<close> joinSlash_append [of ds "[d]"] snoc by (simp add: dirPath_def)
  finally show ?thesis .
qed

text \<open>The paths a request addresses: absolute and clean, so no parent directory of them.\<close>

definition cleanPath :: "string \<Rightarrow> bool" where
  "cleanPath p \<longleftrightarrow> (\<exists>cs. list_all normal cs \<and> p = dirPath cs)"

lemma targetOf_clean: "list_all normal rs \<Longrightarrow> rs \<noteq> [] \<Longrightarrow> cleanPath (targetOf (dirPath rs) r)"
proof -
  assume rs: "list_all normal rs" "rs \<noteq> []"
  obtain k us where "pathComps (rq_path r) = replicate k ''..'' @ us" "list_all normal us"
    using pathComps_shape by blast
  with Join_reaches [OF rs this] rs(1) show ?thesis
    unfolding cleanPath_def targetOf_def by (intro exI conjI) (auto simp: list_all_iff dest: in_set_takeD)
qed

lemma tempOf_neq [simp]: "tempOf p \<noteq> p" "p \<noteq> tempOf p"
  by (simp_all add: tempOf_def)

lemma mkdirs_above:
  assumes "cleanPath p" "length p \<le> length q"
  shows "mkdirs (ancestors (Dir p)) fs q = fs q" "mkdirs (take k (ancestors (Dir p))) fs q = fs q"
  using assms ancestors_shorter by (fastforce simp: cleanPath_def mkdirs_def dest: in_set_takeD)+

lemma MkdirAll_above [simp]:
  assumes "cleanPath p"
  shows "MkdirAll f (Dir p) fs = (fs', b) \<Longrightarrow> fs' p = fs p"
    "MkdirAll f (Dir p) fs = (fs', b) \<Longrightarrow> fs' (tempOf p) = fs (tempOf p)"
  using mkdirs_above [OF assms, of p] mkdirs_above [OF assms, of "tempOf p"]
  by (auto simp: MkdirAll_def tempOf_def split: option.splits)

section \<open>Uploads\<close>

text \<open>What is already stored of an upload.\<close>

definition uploaded :: "files \<Rightarrow> string \<Rightarrow> byte list" where
  "uploaded fs p = (case fs (tempOf p) of Some (NFile bs _) \<Rightarrow> bs | _ \<Rightarrow> [])"

definition contentAt :: "files \<Rightarrow> string \<Rightarrow> byte list option" where
  "contentAt fs p = (case fs p of Some (NFile bs _) \<Rightarrow> Some bs | _ \<Rightarrow> None)"

lemma contentAt_updAttr [simp]: "contentAt (updAttr f p fs) q = contentAt fs q"
  by (auto simp: contentAt_def updAttr_def split: option.splits fsNode.splits elim: setAttr.elims)

lemma updAttr_other [simp]: "q \<noteq> p \<Longrightarrow> updAttr f p fs q = fs q" "updAttr f p fs q = None \<longleftrightarrow> fs q = None"
  by (auto simp: updAttr_def)

lemma SetFileAttributes_frame:
  assumes "SetFileAttributes e fs p perm uid gid mtime = (fs', err)"
  shows "contentAt fs' q = contentAt fs q" "q \<noteq> p \<Longrightarrow> fs' q = fs q" "fs' q = None \<longleftrightarrow> fs q = None"
  using assms by (auto simp: SetFileAttributes_def Let_def split: if_splits)

lemma copied_all: "copied io r = (bs, False) \<Longrightarrow> bs = rq_body r"
  by (auto simp: copied_def split: option.splits)

lemma finishUpload_writes:
  assumes run: "finishUpload io fs p old attr cur tot perm uid gid mtime r newWriter = (fs', w)"
    and ren: "\<not> fi_renameErr io" "\<not> dirAt fs p"
    and ok: "w_code w = Some StatusCreated \<or> w_code w = Some StatusNoContent"
  shows "if 0 \<le> tot \<and> cur + int (length (rq_body r)) = tot
    then w_code w = Some StatusCreated \<and> contentAt fs' p = Some (old @ rq_body r) \<and> fs' (tempOf p) = None
    else w_code w = Some StatusNoContent \<and> contentAt fs' (tempOf p) = Some (old @ rq_body r) \<and>
      contentAt fs' p = contentAt fs p"
proof -
  obtain bs e where c: "copied io r = (bs, e)" by force
  let ?t = "NFile (old @ bs) attr"
  let ?fs1 = "fs(tempOf p := Some ?t)"
  let ?fs2 = "?fs1(p := Some ?t, tempOf p := None)"
  obtain fsA eA where A: "SetFileAttributes (fi_attrErr io) ?fs2 p perm uid gid mtime = (fsA, eA)" by force
  obtain fsB eB where B: "SetFileAttributes (fi_attrErr io) ?fs1 p perm uid gid mtime = (fsB, eB)" by force
  have good: "\<not> e" "\<not> fi_closeErr io"
    using run ok c by (auto simp: finishUpload_def Let_def split: if_splits)
  then have bs: "bs = rq_body r" using c by (auto dest: copied_all)
  show ?thesis
  proof (cases "0 \<le> tot \<and> cur + int (length (rq_body r)) = tot")
    case True
    then have "fs' = fsA \<and> w_code w = Some StatusCreated"
      using run c A good ren bs by (cases eA) (auto simp: finishUpload_def Let_def dirAt_def)
    moreover have "contentAt fsA p = Some (old @ rq_body r)" "fsA (tempOf p) = None"
      using SetFileAttributes_frame [OF A] bs by (simp_all add: contentAt_def)
    ultimately show ?thesis using True by simp
  next
    case False
    then have "fs' = fsB \<and> w_code w = Some StatusNoContent"
      using run c B good ren bs by (cases eB) (auto simp: finishUpload_def Let_def)
    moreover have "contentAt fsB (tempOf p) = Some (old @ rq_body r)" "contentAt fsB p = contentAt fs p"
      using SetFileAttributes_frame [OF B] bs by (simp_all add: contentAt_def)
    ultimately show ?thesis using False by simp
  qed
qed

text \<open>The size the handler continues from: that of the temporary file, or else of the target.\<close>

definition startSize :: "files \<Rightarrow> string \<Rightarrow> int" where
  "startSize fs p = (case fs (tempOf p) of
     Some n \<Rightarrow> nodeSize n | None \<Rightarrow> (case fs p of Some n \<Rightarrow> nodeSize n | None \<Rightarrow> 0))"

lemma createFile_finishes:
  assumes "createFileLocked prs io fs root r newWriter = (fs', w)"
    and "cleanPath (targetOf root r)"
    and "w_code w = Some StatusCreated \<or> w_code w = Some StatusNoContent"
  obtains fs1 attr perm uid gid mtime perm' offset tot where
    "parseUpload prs r = Inr (perm, uid, gid, mtime, offset, tot)"
    "offset = int (length (uploaded fs (targetOf root r)))"
    "MkdirAll None (Dir (targetOf root r)) fs = (fs1, True)"
    "\<forall>n. fs (tempOf (targetOf root r)) = Some n \<longrightarrow> contentAt fs (tempOf (targetOf root r)) \<noteq> None"
    "finishUpload io fs1 (targetOf root r) (uploaded fs (targetOf root r)) attr
       (startSize fs (targetOf root r)) tot perm' uid gid mtime r newWriter = (fs', w)"
proof -
  let ?p = "targetOf root r"
  obtain perm uid gid mtime offset tot where
    h: "parseUpload prs r = Inr (perm, uid, gid, mtime, offset, tot)"
    using assms(1,3) by (cases "parseUpload prs r") (auto simp: createFileLocked_def)
  obtain fs1 b where m: "MkdirAll (fi_mkdirErr io) (Dir ?p) fs = (fs1, b)" by force
  have same: "fs1 ?p = fs ?p" "fs1 (tempOf ?p) = fs (tempOf ?p)"
    using MkdirAll_above [OF assms(2) m] by auto
  have b: b "fi_mkdirErr io = None"
    using assms(1,3) h m by (auto simp: createFileLocked_def Let_def MkdirAll_def split: if_splits option.splits)
  show thesis
  proof (cases "fs (tempOf ?p)")
    case None
    with assms(1,3) h m b same show thesis
      by (intro that [OF h, of fs1])
         (auto simp: createFileLocked_def Let_def uploaded_def startSize_def split: if_splits option.splits)
  next
    case (Some n)
    then obtain bs a where "n = NFile bs a"
      using assms(1,3) h m b same
      by (cases n) (auto simp: createFileLocked_def Let_def split: if_splits)
    with Some assms(1,3) h m b same show thesis
      by (intro that [OF h, of fs1])
         (auto simp: createFileLocked_def Let_def uploaded_def startSize_def contentAt_def split: if_splits)
  qed
qed


definition fsOk :: fsIO where
  "fsOk = \<lparr>fi_mkdirErr = None, fi_statErr = False, fi_tempStatErr = False, fi_openErr = False,
     fi_seekErr = False, fi_room = None, fi_closeErr = False, fi_renameErr = False, fi_attrErr = False\<rparr>"

definition fsAttr0 :: fileAttr where
  "fsAttr0 = \<lparr>fa_perm = 416, fa_uid = 0, fa_gid = 0, fa_mtime = 0\<rparr>"

definition exFsServer :: fsServer where
  "exFsServer = \<lparr>fss_files = [''/mnt'' \<mapsto> NDir 4096, ''/mnt/a.tempupload'' \<mapsto> NFile [1, 2] fsAttr0,
       ''/mnt/b'' \<mapsto> NFile [9, 9, 9] fsAttr0],
     fss_root = ''/mnt'', fss_isWriting = False, fss_isServiceOff = False\<rparr>"

definition exFsPut :: "string \<Rightarrow> string \<Rightarrow> string \<Rightarrow> httpRequest" where
  "exFsPut p off tot = exPut\<lparr>rq_path := p, rq_headers := [(''X-Offset'', off), (''X-Content-Length'', tot)]\<rparr>"


text \<open>
  When the target already exists as a regular file of another size and no temporary file
  does, the size the handler counts from is that of the old target. A chunk that brings this
  count to the announced size is acknowledged with 201 and renamed over the target, although
  it is shorter than the announced size by the size of the old file.
\<close>

theorem fs_overwrite_truncates:
  assumes "CreateFile prs io s r newWriter = (s', w)"
    and "fss_root s = dirPath rs" "list_all normal rs" "rs \<noteq> []"
    and "fss_files s (targetOf (fss_root s) r) = Some (NFile before attr)" "before \<noteq> []"
    and "fss_files s (tempOf (targetOf (fss_root s) r)) = None" "\<not> fi_renameErr io"
    and "w_code w = Some StatusCreated"
  shows "\<exists>perm uid gid mtime tot.
     parseUpload prs r = Inr (perm, uid, gid, mtime, 0, tot) \<and>
     contentAt (fss_files s') (targetOf (fss_root s) r) = Some (rq_body r) \<and>
     int (length (rq_body r)) = tot - int (length before) \<and> int (length (rq_body r)) < tot"
proof -
  let ?p = "targetOf (fss_root s) r"
  have clean: "cleanPath ?p" using targetOf_clean assms(2-4) by simp
  obtain fs' where run: "createFileLocked prs io (fss_files s) (fss_root s) r newWriter = (fs', w)"
    and s': "fss_files s' = fs'"
    using assms(1,9) by (auto simp: CreateFile_def split: if_splits prod.splits)
  have old: "uploaded (fss_files s) ?p = []" "startSize (fss_files s) ?p = int (length before)"
    using assms(5,7) by (simp_all add: uploaded_def startSize_def)
  have ok: "w_code w = Some StatusCreated \<or> w_code w = Some StatusNoContent" using assms(9) by simp
  obtain fs1 attr' perm uid gid mtime perm' offset tot where
    h: "parseUpload prs r = Inr (perm, uid, gid, mtime, offset, tot)" "offset = int (length ([] :: byte list))"
    and m: "MkdirAll None (Dir ?p) (fss_files s) = (fs1, True)"
    and "\<forall>n. fss_files s (tempOf ?p) = Some n \<longrightarrow> contentAt (fss_files s) (tempOf ?p) \<noteq> None"
    and f: "finishUpload io fs1 ?p [] attr' (int (length before)) tot perm' uid gid mtime r newWriter = (fs', w)"
    by (rule createFile_finishes [OF run clean ok, unfolded old]) (rule that)
  have "\<not> dirAt fs1 ?p" using MkdirAll_above(1) [OF clean m] assms(5) by (simp add: dirAt_def)
  from finishUpload_writes [OF f assms(8) this] assms(6,9) h s' show ?thesis
    by (auto split: if_splits)
qed

theorem fs_overwrite_truncates_witness:
  "w_code (snd (CreateFile (\<lambda>_. None) fsOk exFsServer (exFsPut ''b'' ''0'' ''5'') newWriter)) = Some StatusCreated \<and>
   contentAt (fss_files (fst (CreateFile (\<lambda>_. None) fsOk exFsServer (exFsPut ''b'' ''0'' ''5'') newWriter))) ''/mnt/b''
     = Some [7, 8]"
proof -
  let ?run = "CreateFile (\<lambda>_. None) fsOk exFsServer (exFsPut ''b'' ''0'' ''5'') newWriter"
  have facts: "fss_root exFsServer = dirPath [''mnt'']" "list_all normal [''mnt'']"
    "fss_files exFsServer (targetOf (fss_root exFsServer) (exFsPut ''b'' ''0'' ''5'')) = Some (NFile [9, 9, 9] fsAttr0)"
    "fss_files exFsServer (tempOf (targetOf (fss_root exFsServer) (exFsPut ''b'' ''0'' ''5''))) = None"
    "\<not> fi_renameErr fsOk" "w_code (snd ?run) = Some StatusCreated"
    "targetOf (fss_root exFsServer) (exFsPut ''b'' ''0'' ''5'') = ''/mnt/b''"
    "rq_body (exFsPut ''b'' ''0'' ''5'') = [7, 8]"
    by code_simp+
  show ?thesis
    using fs_overwrite_truncates [OF surjective_pairing facts(1,2) _ facts(3) _ facts(4,5,6)] facts(6-8)
    by auto
qed

lemma finishUpload_frame:
  assumes "finishUpload io fs p old attr cur tot perm uid gid mtime r w0 = (fs', w)"
    and "q \<noteq> p" "q \<noteq> tempOf p"
  shows "fs' q = fs q"
proof -
  obtain bs e where c: "copied io r = (bs, e)" by force
  let ?t = "NFile (old @ bs) attr"
  let ?fs1 = "fs(tempOf p := Some ?t)"
  let ?fs2 = "?fs1(p := Some ?t, tempOf p := None)"
  obtain fsA eA where A: "SetFileAttributes (fi_attrErr io) ?fs2 p perm uid gid mtime = (fsA, eA)" by force
  obtain fsB eB where B: "SetFileAttributes (fi_attrErr io) ?fs1 p perm uid gid mtime = (fsB, eB)" by force
  have "fs' \<in> {?fs1, fsA, fsB}"
    using assms(1) c A B
    by (cases eA; cases eB) (auto simp: finishUpload_def Let_def split: if_splits)
  then show ?thesis
    using SetFileAttributes_frame(2) [OF A assms(2)] SetFileAttributes_frame(2) [OF B assms(2)] assms(2,3)
    by auto
qed

lemma createFile_frame:
  assumes "createFileLocked prs io fs root r w0 = (fs', w)"
    and q: "q \<noteq> targetOf root r" "q \<noteq> tempOf (targetOf root r)"
  shows "fs' q = fs q \<or> fs' q = fst (MkdirAll (fi_mkdirErr io) (Dir (targetOf root r)) fs) q"
proof -
  obtain fs1 b where m: "MkdirAll (fi_mkdirErr io) (Dir (targetOf root r)) fs = (fs1, b)" by force
  then show ?thesis
    using assms finishUpload_frame [OF _ q]
    by (auto simp: createFileLocked_def Let_def split: sum.splits bool.splits if_splits option.splits fsNode.splits)
qed

text \<open>
  Whatever a request and the operating system do, an upload changes nothing but the
  target, its temporary file, and missing parent directories, which become directories.
\<close>

theorem fs_upload_frame:
  assumes "CreateFile prs io s r w0 = (s', w)"
    and "q \<noteq> targetOf (fss_root s) r" "q \<noteq> tempOf (targetOf (fss_root s) r)"
  shows "fss_files s' q = fss_files s q \<or>
     fss_files s q = None \<and> q \<in> set (ancestors (Dir (targetOf (fss_root s) r))) \<and> fss_files s' q = Some (NDir 4096)"
proof (cases "fss_isWriting s")
  case False
  then obtain fs' where "createFileLocked prs io (fss_files s) (fss_root s) r w0 = (fs', w)" "fss_files s' = fs'"
    using assms(1) by (auto simp: CreateFile_def split: prod.splits)
  from createFile_frame [OF this(1) assms(2,3)] this(2) show ?thesis
    by (auto simp: MkdirAll_def mkdirs_def split: option.splits if_splits dest: in_set_takeD)
qed (use assms(1) in \<open>auto simp: CreateFile_def\<close>)

theorem fs_upload_frame_witness:
  "contentAt (fss_files (fst (CreateFile (\<lambda>_. None) fsOk exFsServer (exFsPut ''a'' ''2'' ''4'') newWriter))) ''/mnt/b''
     = Some [9, 9, 9]"
proof -
  have facts: "targetOf (fss_root exFsServer) (exFsPut ''a'' ''2'' ''4'') = ''/mnt/a''"
    "tempOf ''/mnt/a'' = ''/mnt/a.tempupload''" "fss_files exFsServer ''/mnt/b'' = Some (NFile [9, 9, 9] fsAttr0)"
    by code_simp+
  then show ?thesis
    using fs_upload_frame [OF surjective_pairing, of "''/mnt/b''" exFsServer "exFsPut ''a'' ''2'' ''4''" "\<lambda>_. None" fsOk newWriter]
    by (simp add: contentAt_def)
qed

text \<open>
  Resuming an upload: a chunk sent at the offset a HEAD request reported for a stored
  part is not refused with a conflict, as long as there is no target yet and no other upload
  is running.
\<close>

theorem fs_resume_accepted:
  assumes "fss_files s (tempOf (targetOf (fss_root s) r)) = Some (NFile old attr)" "int (length old) < 2 ^ 63"
    and "fss_root s = dirPath rs" "list_all normal rs" "rs \<noteq> []"
    and "fss_files s (targetOf (fss_root s) r) = None" "\<not> fss_isWriting s"
    and "rq_path r0 = rq_path r" "\<not> fi_tempStatErr io0"
    and "Header_Get r ''X-Offset'' = index_str (w_headers (HeadFile io0 s r0 newWriter)) ''X-Next-Offset''"
  shows "w_code (snd (CreateFile prs io s r newWriter)) \<noteq> Some StatusConflict"
proof -
  let ?p = "targetOf (fss_root s) r"
  have clean: "cleanPath ?p" using targetOf_clean assms(3-5) by simp
  have "Header_Get r ''X-Offset'' = FormatInt (int (length old))"
    using assms(1,8,9,10)
    by (simp add: HeadFile_def targetOf_def Let_def WriteHeader_def Header_Set_def newWriter_def index_str_def)
  then have off: "ParseUploadHeaders r = Inr (off, tot) \<Longrightarrow> off = int (length old)" for off tot
    using ParseInt_FormatInt [of 64 "int (length old)"] assms(2)
    by (auto simp: ParseUploadHeaders_def Let_def split: option.splits if_splits)
  obtain fs1 b where m: "MkdirAll (fi_mkdirErr io) (Dir ?p) (fss_files s) = (fs1, b)" by force
  have "fs1 ?p = None" "fs1 (tempOf ?p) = Some (NFile old attr)"
    using MkdirAll_above [OF clean m] assms(1,6) by auto
  moreover have "w_code (snd (finishUpload io fs1 ?p old attr cur tot perm uid gid mtime r newWriter)) = Some StatusConflict \<longleftrightarrow> False"
    for cur tot perm uid gid mtime
    by (auto simp: finishUpload_def Let_def split: prod.splits if_splits option.splits)
  ultimately show ?thesis
    using m assms(7) off
    by (auto simp: CreateFile_def createFileLocked_def Let_def parseUpload_def
        split: sum.splits bool.splits if_splits) (auto simp: split_beta)
qed

theorem fs_resume_accepted_witness:
  "w_code (snd (CreateFile (\<lambda>_. None) fsOk exFsServer (exFsPut ''a'' ''2'' ''4'') newWriter)) \<noteq> Some StatusConflict"
proof -
  have facts: "fss_files exFsServer (tempOf (targetOf (fss_root exFsServer) (exFsPut ''a'' ''2'' ''4''))) =
       Some (NFile [1, 2] fsAttr0)"
    "fss_root exFsServer = dirPath [''mnt'']" "list_all normal [''mnt'']"
    "fss_files exFsServer (targetOf (fss_root exFsServer) (exFsPut ''a'' ''2'' ''4'')) = None"
    "\<not> fss_isWriting exFsServer" "\<not> fi_tempStatErr fsOk"
    "Header_Get (exFsPut ''a'' ''2'' ''4'') ''X-Offset'' =
       index_str (w_headers (HeadFile fsOk exFsServer (exFsPut ''a'' ''2'' ''4'') newWriter)) ''X-Next-Offset''"
    by code_simp+
  show ?thesis
    by (rule fs_resume_accepted [OF facts(1) _ facts(2,3) _ facts(4,5) refl facts(6,7)]) simp_all
qed

end
