(* ===== verification/Idle_Timer.thy ===== *)
theory Idle_Timer
  imports Repository
begin

text \<open>
  The idle timer of the data server, \<open>src/images/data-exporter/internal/ttl_control\<close>: the
  middleware that reports written response bytes, the timer that turns them into heartbeats and
  one expiry, and the two loops that publish those signals. The timer's \<open>select\<close> is a function
  of the sequence of events it receives; the ticker and the notifications may arrive in any
  order, so a statement for all sequences covers every schedule.
\<close>

section \<open>The timer\<close>

datatype timerEvent = Wrote int | Tick time

datatype timerSignal = Heartbeat time | Expired time

record idleTimer =
  it_timeToLive :: duration
  it_previousTickWrittenBytes :: int
  it_currentTickWrittenBytes :: int
  it_lastRequestTimestamp :: time
  it_expired :: bool

definition NewIdleTimer :: "duration \<Rightarrow> time \<Rightarrow> idleTimer" where
  "NewIdleTimer ttl t = \<lparr>it_timeToLive = ttl, it_previousTickWrittenBytes = 0, it_currentTickWrittenBytes = 0,
     it_lastRequestTimestamp = t, it_expired = False\<rparr>"

fun idleStep :: "idleTimer \<Rightarrow> timerEvent \<Rightarrow> idleTimer \<times> timerSignal list" where
  "idleStep t (Wrote n) = (t\<lparr>it_currentTickWrittenBytes := it_currentTickWrittenBytes t + n\<rparr>, [])"
| "idleStep t (Tick tm) =
     (if it_currentTickWrittenBytes t > it_previousTickWrittenBytes t
      then (t\<lparr>it_lastRequestTimestamp := tm, it_previousTickWrittenBytes := it_currentTickWrittenBytes t\<rparr>,
            [Heartbeat tm])
      else if time_Sub tm (it_lastRequestTimestamp t) > it_timeToLive t \<and> \<not> it_expired t
      then (t\<lparr>it_expired := True\<rparr>, [Expired tm])
      else (t, []))"

fun idleLoop :: "idleTimer \<Rightarrow> timerEvent list \<Rightarrow> idleTimer \<times> timerSignal list" where
  "idleLoop t [] = (t, [])"
| "idleLoop t (e # es) =
     (case idleStep t e of (t1, s1) \<Rightarrow> (case idleLoop t1 es of (t2, s2) \<Rightarrow> (t2, s1 @ s2)))"

text \<open>\<open>Run\<close> starts with a heartbeat; the events end when the context is cancelled.\<close>

definition idleRun :: "idleTimer \<Rightarrow> timerEvent list \<Rightarrow> idleTimer \<times> timerSignal list" where
  "idleRun t es = (case idleLoop t es of (t', s) \<Rightarrow> (t', Heartbeat (it_lastRequestTimestamp t) # s))"

section \<open>The middleware and the loops that publish\<close>

text \<open>
  A handler of requests over a server state. \<open>RequestNotifier\<close> hands it a writer that reports
  the size of every chunk written to the body.
\<close>

type_synonym 's handler = "'s \<Rightarrow> httpRequest \<Rightarrow> httpWriter \<Rightarrow> ('s \<times> httpWriter) io"

definition RequestNotifier ::
  "'s handler \<Rightarrow> 's \<Rightarrow> httpRequest \<Rightarrow> httpWriter \<Rightarrow> ('s \<times> httpWriter \<times> timerEvent list) io" where
  "RequestNotifier next s r w = do {
     let w0 = Header_Set ''Expires'' ''0'' (Header_Set ''Pragma'' ''no-cache''
       (Header_Set ''Cache-Control'' ''no-store, no-cache, must-revalidate, max-age=0'' w));
     x \<leftarrow> next s r w0;
     (case x of (s', w') \<Rightarrow>
        ret (s', w', map (\<lambda>b. Wrote (int (length b))) (drop (length (w_body w0)) (w_body w')))) }"

text \<open>
  \<open>NewTTLControl\<close>: an empty time to live is the default of one minute, in the notation that
  \<open>Duration.String\<close> gives it. \<open>TrimSpace\<close> is used for the ASCII white space only.
\<close>

definition isSpace :: "char \<Rightarrow> bool" where
  "isSpace c \<longleftrightarrow> c \<in> {CHR '' '', CHR 0x09, CHR 0x0A, CHR 0x0B, CHR 0x0C, CHR 0x0D}"

definition NewTTLControl :: "(string \<Rightarrow> duration res) \<Rightarrow> string \<Rightarrow> time \<Rightarrow> idleTimer res" where
  "NewTTLControl parseDuration ttlStr t =
     (case parseDuration (if list_all isSpace ttlStr then ''1m0s'' else ttlStr) of
        Inl e \<Rightarrow> Inl e
      | Inr ttl \<Rightarrow> Inr (NewIdleTimer ttl t))"

text \<open>
  After the expiry \<open>SetServerState\<close> is tried until it succeeds or, after a number of attempts,
  the context is cancelled. The result says whether it succeeded.
\<close>

fun SetDataManagerServerStateIdleExpired :: "env \<Rightarrow> string \<Rightarrow> nsname \<Rightarrow> nat \<Rightarrow> bool io" where
  "SetDataManagerServerStateIdleExpired E op n 0 = ret False"
| "SetDataManagerServerStateIdleExpired E op n (Suc attempts) = do {
     r \<leftarrow> SetServerState E op n ServerStateIdleExpired;
     (case r of
        Inr _ \<Rightarrow> ret True
      | Inl _ \<Rightarrow> SetDataManagerServerStateIdleExpired E op n attempts) }"

fun UpdateDataManagerAccessTimestamp :: "env \<Rightarrow> string \<Rightarrow> nsname \<Rightarrow> time list \<Rightarrow> unit io" where
  "UpdateDataManagerAccessTimestamp E op n [] = ret ()"
| "UpdateDataManagerAccessTimestamp E op n (t # ts) = do {
     _ \<leftarrow> UpdateAccessTimestamp E op n t;
     UpdateDataManagerAccessTimestamp E op n ts }"

section \<open>What the timer computes\<close>















fun isExpired :: "timerSignal \<Rightarrow> bool" where
  "isExpired (Expired _) = True" | "isExpired (Heartbeat _) = False"

lemma idleLoop_expired_once:
  "length (filter isExpired (snd (idleLoop t es))) \<le> (if it_expired t then 0 else 1)"
proof (induction es arbitrary: t)
  case (Cons e es)
  obtain t1 s1 where st: "idleStep t e = (t1, s1)" by force
  have *: "length (filter isExpired s1) + (if it_expired t1 then 0 else 1) \<le> (if it_expired t then 0 else (1::nat))"
    using st by (cases e) (auto split: if_splits)
  show ?case using Cons.IH [of t1] * st by (auto split: prod.splits if_splits)
qed simp

text \<open>
  At most one expiry is ever sent, so the sender never blocks on its channel of capacity
  one.
\<close>

theorem idle_expiry_once:
  "length (filter isExpired (snd (idleRun (NewIdleTimer ttl t) es))) \<le> 1"
  using idleLoop_expired_once [of "NewIdleTimer ttl t" es]
  by (auto simp: idleRun_def NewIdleTimer_def split: prod.splits)

lemma IdleExpired_kept:
  assumes "env_ok E" "obeys (stateWrite ServerStateIdleExpired) h"
  shows "wp (SetDataManagerServerStateIdleExpired E op n attempts)
    (\<lambda>sent h'. obeys (stateWrite ServerStateIdleExpired) h' \<and> (sent \<longrightarrow> published ServerStateIdleExpired h')) h"
  using assms(2)
proof (induction attempts arbitrary: h)
  case (Suc k)
  show ?case
    by (auto simp: wp_rules split: sum.splits intro!: wp_mono [OF SetServerState_kept [OF assms(1) Suc.prems]] Suc.IH)
qed (simp add: wp_rules)

text \<open>
  The loop that publishes the expiry, whatever the API server answers and however often
  it fails: it writes the server state of objects it read along allowed transitions only, so a
  Finished import is not overwritten; and if it ends before its context is cancelled, the
  signal is on record.
\<close>

theorem idle_expiry_published:
  assumes "env_ok E" "run_state (SetDataManagerServerStateIdleExpired E op n attempts) [] = (sent, h)"
  shows "(sent \<longrightarrow> published ServerStateIdleExpired h) \<and>
    (\<forall>r a p s. h = p @ (r, a) # s \<and> isWrite r \<longrightarrow>
       (\<exists>d. readAs p (mgrObj d) \<and> ds_serverState (mgrStatus d) \<in> {[], ServerStateReady} \<and>
          r = StatusUpdate (mgrObj (withServerState d ServerStateIdleExpired))))"
proof -
  have *: "obeys (stateWrite ServerStateIdleExpired) h \<and> (sent \<longrightarrow> published ServerStateIdleExpired h)"
    using IdleExpired_kept [OF assms(1), of "[]" op n attempts] by (simp add: wp_def assms(2))
  have "\<exists>d. readAs p (mgrObj d) \<and> ds_serverState (mgrStatus d) \<in> {[], ServerStateReady} \<and>
      r = StatusUpdate (mgrObj (withServerState d ServerStateIdleExpired))"
    if "h = p @ (r, a) # s" "isWrite r" for p r a s
  proof -
    have "stateWrite ServerStateIdleExpired p r" using * obeys_split unfolding that(1) by blast
    then show ?thesis
      using that(2) by cases (auto simp: shouldSetServerState_def serverState_defs split: if_splits)
  qed
  with * show ?thesis by blast
qed

theorem idle_expiry_published_witness:
  "\<exists>h. run_state (SetDataManagerServerStateIdleExpired importEnv OperationImport (''ns'', ''imp'') 3) [] = (True, h) \<and>
     published ServerStateIdleExpired h"
proof -
  let ?r = "run_state (SetDataManagerServerStateIdleExpired importEnv OperationImport (''ns'', ''imp'') 3) []"
  have "fst ?r" by code_simp
  then have r: "?r = (True, snd ?r)" by (simp add: prod_eq_iff)
  from idle_expiry_published [OF ref_env_ok r] r show ?thesis by blast
qed

end
