(* ===== verification/Export.thy ===== *)
theory Export
  imports Import_Fs Idle_Timer
begin

text \<open>
  The exporters of the data server: \<open>src/images/data-exporter/internal/export_filesystem/handler.go\<close>
  and \<open>export_block/handler.go\<close>. The volume is a map from absolute paths to nodes; a path that
  is looked up component by component and refused at the first symbolic link is never resolved
  by the operating system through a link, so the map is enough. Writing to the response does
  not fail. \<open>http.ServeContent\<close> (ranges and conditional requests), the MD5 sum and the JSON
  encoder are parameters.
\<close>

section \<open>Escaping of paths in URLs\<close>

definition unreserved :: "char \<Rightarrow> bool" where
  "unreserved c \<longleftrightarrow>
     (let n = of_char c :: nat in (48 \<le> n \<and> n \<le> 57) \<or> (65 \<le> n \<and> n \<le> 90) \<or> (97 \<le> n \<and> n \<le> 122)) \<or>
     c \<in> set ''-_.~$&+,/:;=@''"

definition hexChar :: "nat \<Rightarrow> char" where
  "hexChar n = (if n < 10 then char_of (48 + n) else char_of (55 + n))"

fun EscapedPath :: "string \<Rightarrow> string" where
  "EscapedPath [] = []"
| "EscapedPath (c # cs) =
     (if unreserved c then c # EscapedPath cs
      else let n = of_char c :: nat in CHR ''%'' # hexChar (n div 16) # hexChar (n mod 16) # EscapedPath cs)"

definition unhex :: "char \<Rightarrow> nat option" where
  "unhex c = (let n = of_char c :: nat in
     if 48 \<le> n \<and> n \<le> 57 then Some (n - 48)
     else if 65 \<le> n \<and> n \<le> 70 then Some (n - 55)
     else if 97 \<le> n \<and> n \<le> 102 then Some (n - 87) else None)"

text \<open>What the server's own URL parser makes of an escaped path.\<close>

fun unescapePath :: "string \<Rightarrow> string option" where
  "unescapePath [] = Some []"
| "unescapePath (c # cs) =
     (if c = CHR ''%'' then
        (case cs of
           a # b # rest \<Rightarrow>
             (case (unhex a, unhex b) of
                (Some x, Some y) \<Rightarrow> map_option (Cons (char_of (16 * x + y))) (unescapePath rest)
              | _ \<Rightarrow> None)
         | _ \<Rightarrow> None)
      else map_option (Cons c) (unescapePath cs))"

section \<open>The filesystem exporter\<close>

datatype exportErr = HTTPError string int | PathError | PlainError string

datatype itemType = TyFile | TyDir | TyLink | TyLinkErr | TyOther

fun typeName :: "itemType \<Rightarrow> string" where
  "typeName TyFile = ''file''" | "typeName TyDir = ''dir''" | "typeName TyLink = ''link''"
| "typeName TyLinkErr = ''linkErr''" | "typeName TyOther = ''other''"

text \<open>
  The attributes of an item (\<open>map[string]any\<close>) with rendered values, in the order the code
  adds them.
\<close>

record exportItem =
  ei_name :: string
  ei_type :: itemType
  ei_uri :: string
  ei_targetPath :: string
  ei_attributes :: strmap

record attributesMask =
  am_stat :: bool
  am_hashMd5 :: bool

text \<open>
  The exporter and its volume: the nodes, their attributes (\<open>None\<close> if the platform gives no
  \<open>Stat_t\<close>), the entries of directories in directory order, links that cannot be read, paths
  that cannot be opened, files whose content cannot be read, and paths that are gone when they
  are looked at a second time.
\<close>

record exporter =
  ex_root :: string
  ex_files :: files
  ex_attr :: "string \<Rightarrow> fileAttr option"
  ex_entries :: "string \<Rightarrow> string list"
  ex_readLinkErr :: "string \<Rightarrow> bool"
  ex_openErr :: "string \<Rightarrow> bool"
  ex_readErr :: "string \<Rightarrow> bool"
  ex_gone :: "string \<Rightarrow> bool"

record exportLib =
  lib_serveContent :: "httpRequest \<Rightarrow> byte list \<Rightarrow> httpWriter \<Rightarrow> httpWriter"
  lib_md5 :: "byte list \<Rightarrow> string"
  lib_formatRFC3339 :: "time \<Rightarrow> string"
  lib_encodeItem :: "exportItem \<Rightarrow> string"
  lib_queryAttributes :: "httpRequest \<Rightarrow> string list"

definition NewFilesystemExporter :: "exporter \<Rightarrow> exporter res" where
  "NewFilesystemExporter d =
     (case checkIsDir (ex_files d) (ex_root d) of Inl e \<Rightarrow> Inl e | Inr _ \<Rightarrow> Inr d)"

definition getRequestedAttributes :: "exportLib \<Rightarrow> httpRequest \<Rightarrow> attributesMask" where
  "getRequestedAttributes L r =
     \<lparr>am_stat = (''stat'' \<in> set (lib_queryAttributes L r)),
      am_hashMd5 = (''hash.md5'' \<in> set (lib_queryAttributes L r))\<rparr>"

fun isSymlink :: "fsNode \<Rightarrow> bool" where
  "isSymlink (NSymlink _) = True" | "isSymlink _ = False"

fun isRegular :: "fsNode \<Rightarrow> bool" where
  "isRegular (NFile _ _) = True" | "isRegular _ = False"

fun modeToType :: "fsNode \<Rightarrow> itemType" where
  "modeToType (NDir _) = TyDir"
| "modeToType (NFile _ _) = TyFile"
| "modeToType (NSymlink _) = TyLink"
| "modeToType (NOther _) = TyOther"

fun resolveLoop :: "files \<Rightarrow> string \<Rightarrow> string list \<Rightarrow> exportErr + fsNode" where
  "resolveLoop fs pfx [] = Inl (PlainError ''no segments'')"
| "resolveLoop fs pfx (seg # segs) =
     (let p = Join [pfx, seg] in
      case fs p of
        None \<Rightarrow> Inl PathError
      | Some n \<Rightarrow>
          if segs = [] then Inr n
          else if isSymlink n then Inl (HTTPError ''symlink is not allowed'' StatusBadRequest)
          else resolveLoop fs p segs)"

definition resolvePath :: "exporter \<Rightarrow> string \<Rightarrow> exportErr + (string \<times> fsNode)" where
  "resolvePath d urlPath =
     (let path = Clean urlPath in
      case resolveLoop (ex_files d) (ex_root d) (splitSlash path) of
        Inl e \<Rightarrow> Inl e
      | Inr n \<Rightarrow> Inr (Join [ex_root d, path], n))"

definition validateFileType :: "fsNode \<Rightarrow> itemType \<Rightarrow> exportErr option" where
  "validateFileType n requestedType =
     (if isDirNode n \<and> requestedType = TyFile
        then Some (HTTPError ''file is requested, but it's a directory'' StatusBadRequest)
      else if (isRegular n \<or> isSymlink n) \<and> requestedType = TyDir
        then Some (HTTPError ''directory is requested, but it's a file'' StatusBadRequest)
      else if \<not> isDirNode n \<and> \<not> isRegular n \<and> \<not> isSymlink n
        then Some (HTTPError ''requested file is not a regular file, directory or symlink'' StatusBadRequest)
      else None)"

definition Base :: "string \<Rightarrow> string" where
  "Base p = (case pathComps p of [] \<Rightarrow> ''/'' | cs \<Rightarrow> last cs)"

definition writeRequiredHeaders :: "exporter \<Rightarrow> httpWriter \<Rightarrow> string \<Rightarrow> fsNode \<Rightarrow> exportErr option \<times> httpWriter" where
  "writeRequiredHeaders d w path n =
     (let w1 = Header_Set ''X-Type'' (typeName (modeToType n)) w in
      case n of
        NDir _ \<Rightarrow> (None, Header_Set ''Transfer-Encoding'' ''chunked'' (Header_Set ''Content-Type'' ''application/json'' w1))
      | NFile bs _ \<Rightarrow>
          (None, Header_Set ''Content-Disposition'' (''attachment; filename='' @ Base path)
             (Header_Set ''Content-Length'' (FormatInt (nodeSize n))
             (Header_Set ''Content-Type'' ''application/octet-stream'' w1)))
      | NSymlink t \<Rightarrow>
          if ex_readLinkErr d path then (Some (PlainError ''failed to read symlink target''), w1)
          else (None, Header_Set ''Content-Length'' ''0'' (Header_Set ''Content-Type'' ''application/x-symlink''
                 (Header_Set ''X-LinkTarget'' t w1)))
      | NOther _ \<Rightarrow> (None, Header_Set ''Content-Length'' ''0'' w1))"

text \<open>\<open>%#o\<close>: octal digits with a leading zero.\<close>

fun octDigits :: "nat \<Rightarrow> string" where
  "octDigits n = (if n < 8 then [char_of (48 + n)] else octDigits (n div 8) @ [char_of (48 + n mod 8)])"

declare octDigits.simps [simp del]

definition FormatOctal :: "int \<Rightarrow> string" where
  "FormatOctal i = (if i = 0 then ''0'' else CHR ''0'' # octDigits (nat i))"

definition prepareAttributesStat :: "exportLib \<Rightarrow> exporter \<Rightarrow> string \<Rightarrow> exportErr + strmap" where
  "prepareAttributesStat L d path =
     (case ex_attr d path of
        None \<Rightarrow> Inl (PlainError ''failed to get GID and UID of file'')
      | Some a \<Rightarrow> Inr [(''modtime'', lib_formatRFC3339 L (fa_mtime a)), (''gid'', FormatInt (fa_gid a)),
                       (''uid'', FormatInt (fa_uid a)), (''permissions'', FormatOctal (fa_perm a))])"

definition prepareAttributesMd5 :: "exportLib \<Rightarrow> exporter \<Rightarrow> string \<Rightarrow> fsNode \<Rightarrow> exportErr + strmap" where
  "prepareAttributesMd5 L d path n =
     (case n of
        NFile bs _ \<Rightarrow>
          if ex_openErr d path then Inl PathError
          else if ex_readErr d path then Inl (PlainError ''failed to calculate checksum'')
          else Inr [(''hash.md5'', lib_md5 L bs)]
      | _ \<Rightarrow> Inr [])"

definition prepareAttributes ::
  "exportLib \<Rightarrow> exporter \<Rightarrow> attributesMask \<Rightarrow> string \<Rightarrow> fsNode \<Rightarrow> exportErr + strmap" where
  "prepareAttributes L d am path n =
     (case prepareAttributesStat L d path of
        Inl e \<Rightarrow> Inl e
      | Inr attrs \<Rightarrow>
          if am_hashMd5 am
          then (case prepareAttributesMd5 L d path n of Inl e \<Rightarrow> Inl e | Inr md5 \<Rightarrow> Inr (attrs @ md5))
          else Inr attrs)"

definition mapAttributesToHeader :: strmap where
  "mapAttributesToHeader = [(''size'', ''Content-Length''), (''modtime'', ''X-Attribute-Modtime''),
     (''gid'', ''X-Attribute-Gid''), (''uid'', ''X-Attribute-Uid''),
     (''permissions'', ''X-Attribute-Permissions''), (''hash.md5'', ''X-Attribute-Hash-Md5'')]"

fun attributeLoop :: "strmap \<Rightarrow> httpWriter \<Rightarrow> exportErr option \<times> httpWriter" where
  "attributeLoop [] w = (None, w)"
| "attributeLoop ((k, v) # rest) w =
     (case map_of mapAttributesToHeader k of
        None \<Rightarrow> (Some (PlainError ''invalid attribute name''), w)
      | Some h \<Rightarrow> attributeLoop rest (Header_Set h v w))"

definition writeAttributes ::
  "exportLib \<Rightarrow> exporter \<Rightarrow> httpWriter \<Rightarrow> httpRequest \<Rightarrow> string \<Rightarrow> fsNode \<Rightarrow> exportErr option \<times> httpWriter" where
  "writeAttributes L d w r path n =
     (case prepareAttributes L d (getRequestedAttributes L r) path n of
        Inl e \<Rightarrow> (Some e, w)
      | Inr attrs \<Rightarrow> attributeLoop attrs w)"

text \<open>Every failed lookup is a \<open>PathError\<close> and becomes a 404.\<close>

definition prepareHead ::
  "exportLib \<Rightarrow> exporter \<Rightarrow> httpWriter \<Rightarrow> httpRequest \<Rightarrow> itemType \<Rightarrow> (exportErr + string \<times> fsNode) \<times> httpWriter" where
  "prepareHead L d w r requestedType =
     (case resolvePath d (rq_path r) of
        Inl PathError \<Rightarrow> (Inl (HTTPError ''file not found'' StatusNotFound), w)
      | Inl e \<Rightarrow> (Inl e, w)
      | Inr (path, n) \<Rightarrow>
          (case validateFileType n requestedType of
             Some e \<Rightarrow> (Inl e, w)
           | None \<Rightarrow>
               (case writeRequiredHeaders d w path n of
                  (Some e, w1) \<Rightarrow> (Inl e, w1)
                | (None, w1) \<Rightarrow>
                    (case writeAttributes L d w1 r path n of
                       (Some e, w2) \<Rightarrow> (Inl e, w2)
                     | (None, w2) \<Rightarrow> (Inr (path, n), w2)))))"

definition Rel :: "string \<Rightarrow> string \<Rightarrow> string" where
  "Rel base targ =
     (let b = pathComps base; t = pathComps targ; c = length (longest_common_prefix b t);
          cs = replicate (length b - c) ''..'' @ drop c t in
      if cs = [] then ''.'' else joinSlash cs)"

definition getFileURI :: "exporter \<Rightarrow> string \<Rightarrow> fsNode \<Rightarrow> string" where
  "getFileURI d path n =
     EscapedPath (Rel (ex_root d) path) @ (if isDirNode n then ''/'' else [])"

definition resolveItem ::
  "exportLib \<Rightarrow> exporter \<Rightarrow> string \<Rightarrow> string \<Rightarrow> attributesMask \<Rightarrow> exportErr + exportItem" where
  "resolveItem L d path name am =
     (case ex_files d path of
        None \<Rightarrow> Inl PathError
      | Some n \<Rightarrow>
          (case prepareAttributes L d am path n of
             Inl e \<Rightarrow> Inl e
           | Inr attrs \<Rightarrow>
               (let item = \<lparr>ei_name = name, ei_type = modeToType n, ei_uri = getFileURI d path n,
                            ei_targetPath = [], ei_attributes = attrs\<rparr> in
                case n of
                  NSymlink t \<Rightarrow>
                    Inr (if ex_readLinkErr d path then item\<lparr>ei_type := TyLinkErr\<rparr>
                         else item\<lparr>ei_targetPath := t\<rparr>)
                | NFile bs _ \<Rightarrow> Inr (item\<lparr>ei_attributes := attrs @ [(''size'', FormatInt (nodeSize n))]\<rparr>)
                | _ \<Rightarrow> Inr item)))"

fun listLoop ::
  "exportLib \<Rightarrow> exporter \<Rightarrow> attributesMask \<Rightarrow> string \<Rightarrow> string list \<Rightarrow> nat \<Rightarrow> httpWriter \<Rightarrow> exportErr option \<times> httpWriter" where
  "listLoop L d am path [] fileCounter w = (None, w)"
| "listLoop L d am path (name # names) fileCounter w =
     (case resolveItem L d (Join [path, name]) name am of
        Inl e \<Rightarrow> (Some e, w)
      | Inr item \<Rightarrow>
          (let w1 = (if fileCounter > 0 then Write '','' w else w) in
           listLoop L d am path names (fileCounter + 1) (Write (lib_encodeItem L item @ [CHR 0x0A]) w1)))"

definition listOpen :: string where
  "listOpen = ''{'' @ [CHR 0x22] @ ''apiVersion'' @ [CHR 0x22] @ '': '' @ [CHR 0x22] @ ''v1'' @ [CHR 0x22] @
     '', '' @ [CHR 0x22] @ ''items'' @ [CHR 0x22] @ '': [''"

definition listClose :: string where
  "listClose = '']}'' @ [CHR 0x0A]"

definition listDir ::
  "exportLib \<Rightarrow> exporter \<Rightarrow> httpWriter \<Rightarrow> httpRequest \<Rightarrow> string \<Rightarrow> exportErr option \<times> httpWriter" where
  "listDir L d w r path =
     (if ex_openErr d path then (Some PathError, w)
      else (case listLoop L d (getRequestedAttributes L r) path (ex_entries d path) 0 (Write listOpen w) of
              (Some e, w1) \<Rightarrow> (Some e, w1)
            | (None, w1) \<Rightarrow> (None, Write listClose w1)))"

definition sendFile ::
  "exportLib \<Rightarrow> exporter \<Rightarrow> httpWriter \<Rightarrow> httpRequest \<Rightarrow> string \<Rightarrow> byte list \<Rightarrow> exportErr option \<times> httpWriter" where
  "sendFile L d w r path bs =
     (if ex_openErr d path then (Some PathError, w) else (None, lib_serveContent L r bs w))"

definition HandleHead ::
  "exportLib \<Rightarrow> exporter \<Rightarrow> httpWriter \<Rightarrow> httpRequest \<Rightarrow> itemType \<Rightarrow> exportErr option \<times> httpWriter" where
  "HandleHead L d w r ty =
     (case prepareHead L d w r ty of (Inl e, w1) \<Rightarrow> (Some e, w1) | (Inr _, w1) \<Rightarrow> (None, w1))"

definition HandleGet ::
  "exportLib \<Rightarrow> exporter \<Rightarrow> httpWriter \<Rightarrow> httpRequest \<Rightarrow> itemType \<Rightarrow> exportErr option \<times> httpWriter" where
  "HandleGet L d w r ty =
     (case prepareHead L d w r ty of
        (Inl e, w1) \<Rightarrow> (Some e, w1)
      | (Inr (path, _), w1) \<Rightarrow>
          (case (if ex_gone d path then None else ex_files d path) of
             None \<Rightarrow> (Some PathError, w1)
           | Some (NDir _) \<Rightarrow> listDir L d w1 r path
           | Some (NFile bs _) \<Rightarrow> sendFile L d w1 r path bs
           | Some _ \<Rightarrow> (None, w1)))"

text \<open>An error without a status is a 500 with an empty message.\<close>

definition answerErr :: "exportErr option \<times> httpWriter \<Rightarrow> httpWriter" where
  "answerErr x =
     (case x of
        (Some (HTTPError msg code), w) \<Rightarrow> httpError msg code w
      | (Some _, w) \<Rightarrow> httpError [] StatusInternalError w
      | (None, w) \<Rightarrow> w)"

definition requestedType :: "httpRequest \<Rightarrow> itemType" where
  "requestedType r = (if rq_path r = [] \<or> last (rq_path r) = CHR ''/'' then TyDir else TyFile)"

definition exportFsServeHTTP :: "exportLib \<Rightarrow> exporter \<Rightarrow> httpRequest \<Rightarrow> httpWriter \<Rightarrow> httpWriter" where
  "exportFsServeHTTP L d r w =
     answerErr
       (if rq_method r = ''GET'' then HandleGet L d w r (requestedType r)
        else if rq_method r = ''HEAD'' then HandleHead L d w r (requestedType r)
        else (Some (HTTPError ''supports only methods GET and HEAD'' StatusMethodNotAllowed), w))"

section \<open>The block exporter\<close>

text \<open>
  The device, whether opening it fails, finding its size fails, and a second opening or its
  \<open>Stat\<close> fails.
\<close>

record blockExporter =
  be_device :: "byte list"
  be_openErr :: bool
  be_sizeErr :: bool
  be_reopenErr :: bool

definition NewBlockExporter :: "bool res \<Rightarrow> blockExporter \<Rightarrow> blockExporter res" where
  "NewBlockExporter isBlock e =
     (case isBlock of
        Inl err \<Rightarrow> Inl err
      | Inr False \<Rightarrow> Inl (Errorf ''file is not a block device'' [])
      | Inr True \<Rightarrow>
          if be_openErr e then Inl (Errorf ''Failed to open block device file'' [])
          else if be_sizeErr e then Inl (Errorf ''Failed to get block device file size'' [])
          else if be_device e = [] then Inl (Errorf ''bad block device size'' [])
          else Inr e)"

definition blockPrepareHead :: "blockExporter \<Rightarrow> httpWriter \<Rightarrow> httpRequest \<Rightarrow> exportErr option \<times> httpWriter" where
  "blockPrepareHead e w r =
     (if rq_path r \<noteq> []
      then (Some (HTTPError ''volumeMode: block. Not supported path. Use /api/v1/block to download raw block''
                    StatusBadRequest), w)
      else if be_openErr e then (Some PathError, w)
      else
        (let w1 = Header_Set ''Content-Type'' ''application/octet-stream''
                    (Header_Set ''Content-Disposition'' ''attachment; filename=data.img'' w) in
         if be_sizeErr e then (Some (PlainError ''size''), w1)
         else (None, Header_Set ''Content-Length'' (FormatInt (int (length (be_device e)))) w1)))"

definition blockHandleGet ::
  "exportLib \<Rightarrow> blockExporter \<Rightarrow> httpWriter \<Rightarrow> httpRequest \<Rightarrow> exportErr option \<times> httpWriter" where
  "blockHandleGet L e w r =
     (case blockPrepareHead e w r of
        (Some err, w1) \<Rightarrow> (Some err, w1)
      | (None, w1) \<Rightarrow>
          if be_reopenErr e then (Some PathError, w1)
          else (None, lib_serveContent L r (be_device e) w1))"

definition exportBlockServeHTTP :: "exportLib \<Rightarrow> blockExporter \<Rightarrow> httpRequest \<Rightarrow> httpWriter \<Rightarrow> httpWriter" where
  "exportBlockServeHTTP L e r w =
     answerErr
       (if rq_method r = ''GET'' then blockHandleGet L e w r
        else if rq_method r = ''HEAD'' then blockPrepareHead e w r
        else (Some (HTTPError ''supports only methods GET and HEAD'' StatusMethodNotAllowed), w))"

section \<open>Resolution of paths\<close>

text \<open>The directory reached from a directory by a list of path segments.\<close>

definition reach :: "string list \<Rightarrow> string list \<Rightarrow> string" where
  "reach cs segs = dirPath (rev (cleanComps True (rev cs) segs))"

lemma cleanComps_rooted_normal:
  assumes "list_all normal cs" "\<forall>s \<in> set segs. CHR ''/'' \<notin> set s"
  shows "list_all normal (rev (cleanComps True (rev cs) segs))"
  using cleanComps_shape [of "rev cs" cs 0 True segs] assms by auto

lemma Join_segment:
  assumes "list_all normal cs" "CHR ''/'' \<notin> set seg"
  shows "Join [dirPath cs, seg] = reach cs [seg]"
proof -
  have "cleanComps True [] (splitSlash (dirPath cs)) = rev cs"
  proof (cases "cs = []")
    case False
    then show ?thesis
      using pathComps_dirPath [OF assms(1)] by (simp add: pathComps_def rooted_def dirPath_def rev_swap)
  qed (simp add: dirPath_def)
  moreover have root: "rooted (dirPath cs @ CHR ''/'' # seg)" by (simp add: rooted_def dirPath_def)
  ultimately have "pathComps (dirPath cs @ CHR ''/'' # seg) = rev (cleanComps True (rev cs) [seg])"
    by (simp only: pathComps_def splitSlash_append splitSlash_noslash [OF assms(2)] cleanComps_append)
  then have "Clean (dirPath cs @ CHR ''/'' # seg) = reach cs [seg]"
    by (simp only: Clean_def root reach_def if_True) (simp only: dirPath_def)
  then show ?thesis by (simp add: Join_def dirPath_def)
qed

lemma reach_step: "reach (rev (cleanComps True (rev cs) [seg])) segs = reach cs (seg # segs)"
  using cleanComps_append [of True "rev cs" "[seg]" segs] by (simp add: reach_def)

lemma resolveLoop_iff:
  assumes "list_all normal cs" "\<forall>s \<in> set segs. CHR ''/'' \<notin> set s"
  shows "resolveLoop fs (dirPath cs) segs = Inr n \<longleftrightarrow>
    segs \<noteq> [] \<and> fs (reach cs segs) = Some n \<and>
    (\<forall>i. 0 < i \<and> i < length segs \<longrightarrow> (\<exists>m. fs (reach cs (take i segs)) = Some m \<and> \<not> isSymlink m))"
  using assms
proof (induction segs arbitrary: cs)
  case (Cons seg segs)
  let ?cs = "rev (cleanComps True (rev cs) [seg])"
  have join: "Join [dirPath cs, seg] = dirPath ?cs"
    using Join_segment [OF Cons.prems(1)] Cons.prems(2) by (simp add: reach_def)
  have norm: "list_all normal ?cs"
    by (rule cleanComps_rooted_normal) (use Cons.prems in auto)
  show ?case
  proof (cases "segs = []")
    case True
    then show ?thesis by (simp add: join Let_def reach_def split: option.splits)
  next
    case False
    have IH: "resolveLoop fs (dirPath ?cs) segs = Inr n \<longleftrightarrow>
      fs (reach cs (seg # segs)) = Some n \<and>
      (\<forall>i. 0 < i \<and> i < length segs \<longrightarrow> (\<exists>m. fs (reach cs (take (Suc i) (seg # segs))) = Some m \<and> \<not> isSymlink m))"
      using Cons.IH [OF norm] Cons.prems(2) False by (simp only: reach_step take_Suc_Cons) auto
    have first: "dirPath ?cs = reach cs (take (Suc 0) (seg # segs))" by (simp add: reach_def)
    have split: "(\<forall>i. 0 < i \<and> i < length (seg # segs) \<longrightarrow> P i) \<longleftrightarrow>
       P (Suc 0) \<and> (\<forall>i. 0 < i \<and> i < length segs \<longrightarrow> P (Suc i))" for P
      using False by (auto simp: gr0_conv_Suc) (metis Suc_pred not_gr_zero)
    have "resolveLoop fs (dirPath cs) (seg # segs) = Inr n \<longleftrightarrow>
      (\<exists>m. fs (dirPath ?cs) = Some m \<and> \<not> isSymlink m) \<and> resolveLoop fs (dirPath ?cs) segs = Inr n"
      using False by (simp add: join Let_def del: cleanComps.simps split: option.splits)
    then have "resolveLoop fs (dirPath cs) (seg # segs) = Inr n \<longleftrightarrow>
      (\<exists>m. fs (reach cs (take (Suc 0) (seg # segs))) = Some m \<and> \<not> isSymlink m) \<and>
      fs (reach cs (seg # segs)) = Some n \<and>
      (\<forall>i. 0 < i \<and> i < length segs \<longrightarrow> (\<exists>m. fs (reach cs (take (Suc i) (seg # segs))) = Some m \<and> \<not> isSymlink m))"
      unfolding IH unfolding first .
    then show ?thesis unfolding split by blast
  qed
qed simp

lemma splitSlash_Clean_noslash: "\<forall>s \<in> set (splitSlash p). CHR ''/'' \<notin> set s"
  using splitSlash_parts by blast

lemma resolvePath_iff:
  assumes "ex_root d = dirPath rs" "list_all normal rs"
  shows "resolvePath d u = Inr (p, n) \<longleftrightarrow>
    p = Join [ex_root d, Clean u] \<and> ex_files d (reach rs (splitSlash (Clean u))) = Some n \<and>
    (\<forall>i. 0 < i \<and> i < length (splitSlash (Clean u)) \<longrightarrow>
       (\<exists>m. ex_files d (reach rs (take i (splitSlash (Clean u)))) = Some m \<and> \<not> isSymlink m))"
proof -
  have *: "resolveLoop (ex_files d) (ex_root d) (splitSlash (Clean u)) = Inr n \<longleftrightarrow>
      ex_files d (reach rs (splitSlash (Clean u))) = Some n \<and>
      (\<forall>i. 0 < i \<and> i < length (splitSlash (Clean u)) \<longrightarrow>
         (\<exists>m. ex_files d (reach rs (take i (splitSlash (Clean u)))) = Some m \<and> \<not> isSymlink m))" for n
    using resolveLoop_iff [OF assms(2) splitSlash_Clean_noslash] by (simp add: assms(1))
  have "resolvePath d u = Inr (p, n) \<longleftrightarrow>
      p = Join [ex_root d, Clean u] \<and> resolveLoop (ex_files d) (ex_root d) (splitSlash (Clean u)) = Inr n"
    by (auto simp: resolvePath_def Let_def split: sum.splits)
  then show ?thesis unfolding * .
qed

lemma reach_normal: "list_all normal us \<Longrightarrow> reach rs us = dirPath (rs @ us)"
  by (simp add: reach_def cleanComps_normal)

lemma reach_empty: "reach rs ([] # us) = reach rs us"
  by (simp add: reach_def)

lemma reach_dots:
  assumes "list_all normal rs" "list_all normal us"
  shows "reach rs (replicate k ''..'' @ us) = dirPath (take (length rs - k) rs @ us)"
  by (simp add: reach_def cleanComps_append cleanComps_dots [OF assms(1)] cleanComps_normal [OF assms(2)])

lemma splitSlash_rooted:
  assumes "rooted u"
  shows "\<exists>us. list_all normal us \<and> pathComps u = us \<and>
    splitSlash (Clean u) = (if us = [] then [[], []] else [] # us)"
proof -
  obtain us where us: "pathComps u = us" "list_all normal us"
    using pathComps_shape [of u] assms by auto
  then have "Clean u = dirPath us" using assms by (simp add: Clean_def dirPath_def)
  moreover have "splitSlash (dirPath us) = (if us = [] then [[], []] else [] # us)"
    using split_joinSlash [of us] us(2) by (auto simp: dirPath_def list_all_iff normal_def)
  ultimately show ?thesis using us by auto
qed

text \<open>
  C37. For a rooted request path the exporter never leaves its root and never follows a
  symbolic link: a path that is resolved is the root followed by ordinary elements, it names
  the node that is returned, and every directory on the way from the root is present and not a
  symbolic link.
\<close>

theorem export_confined:
  assumes "ex_root d = dirPath rs" "list_all normal rs" "rs \<noteq> []" "rooted u"
    and "resolvePath d u = Inr (p, n)"
  shows "\<exists>us. list_all normal us \<and> p = dirPath (rs @ us) \<and> ex_files d p = Some n \<and>
    (\<forall>i < length us. \<exists>m. ex_files d (dirPath (rs @ take i us)) = Some m \<and> \<not> isSymlink m)"
proof -
  obtain us where us: "list_all normal us" and pc: "pathComps u = us"
    and segs: "splitSlash (Clean u) = (if us = [] then [[], []] else [] # us)"
    using splitSlash_rooted [OF assms(4)] by blast
  have ok: "p = Join [ex_root d, Clean u]" "ex_files d (reach rs (splitSlash (Clean u))) = Some n"
    "\<forall>i. 0 < i \<and> i < length (splitSlash (Clean u)) \<longrightarrow>
       (\<exists>m. ex_files d (reach rs (take i (splitSlash (Clean u)))) = Some m \<and> \<not> isSymlink m)"
    using assms(5) unfolding resolvePath_iff [OF assms(1,2)] by auto
  have p: "p = dirPath (rs @ us)"
    using ok(1) Join_reaches [OF assms(2,3), of u 0 us] pc us assms(1) by simp
  have full: "reach rs (splitSlash (Clean u)) = dirPath (rs @ us)"
    using us by (simp add: segs reach_empty reach_normal)
  have "\<exists>m. ex_files d (dirPath (rs @ take i us)) = Some m \<and> \<not> isSymlink m" if "i < length us" for i
  proof -
    have "take (Suc i) (splitSlash (Clean u)) = [] # take i us" "Suc i < length (splitSlash (Clean u))"
      using that by (auto simp: segs)
    moreover have "list_all normal (take i us)" using us by (auto simp: list_all_iff dest: in_set_takeD)
    ultimately show ?thesis using ok(3) [rule_format, of "Suc i"] by (simp add: reach_empty reach_normal)
  qed
  with us p ok(2) full show ?thesis by auto
qed

definition exVolume :: exporter where
  "exVolume = \<lparr>ex_root = ''/mnt/fs'',
     ex_files = [''/'' \<mapsto> NDir 4096, ''/mnt'' \<mapsto> NDir 4096, ''/mnt/fs'' \<mapsto> NDir 4096, ''/mnt/fs/d'' \<mapsto> NDir 4096,
       ''/mnt/fs/d/f'' \<mapsto> NFile [1, 2, 3] fsAttr0, ''/mnt/fs/l'' \<mapsto> NSymlink ''/etc'', ''/etc'' \<mapsto> NDir 4096,
       ''/etc/shadow'' \<mapsto> NFile [7] fsAttr0],
     ex_attr = (\<lambda>_. Some fsAttr0),
     ex_entries = (\<lambda>p. if p = ''/mnt/fs'' then [''d'', ''l''] else if p = ''/mnt/fs/d'' then [''f''] else []),
     ex_readLinkErr = (\<lambda>_. False), ex_openErr = (\<lambda>_. False), ex_readErr = (\<lambda>_. False), ex_gone = (\<lambda>_. False)\<rparr>"

lemma exVolume_root: "ex_root exVolume = dirPath [''mnt'', ''fs'']" "list_all normal [''mnt'', ''fs'']"
  by code_simp+

theorem export_confined_witness:
  "\<exists>us. list_all normal us \<and> ''/mnt/fs/d/f'' = dirPath ([''mnt'', ''fs''] @ us) \<and>
     ex_files exVolume ''/mnt/fs/d/f'' = Some (NFile [1, 2, 3] fsAttr0)"
proof -
  have "resolvePath exVolume ''/../d//f'' = Inr (''/mnt/fs/d/f'', NFile [1, 2, 3] fsAttr0)" "rooted ''/../d//f''"
    by code_simp+
  from export_confined [OF exVolume_root _ this(2,1)] show ?thesis by auto
qed

text \<open>
  For a relative request path, which is what the handler receives once the route prefix
  is stripped, leading \<open>..\<close> elements do leave the root: if the directories on the way are
  present and not links, the exporter resolves the request to the node outside the root.
\<close>

theorem export_escapes:
  assumes "ex_root d = dirPath rs" "list_all normal rs" "rs \<noteq> []"
    and "pathComps u = replicate k ''..'' @ us" "list_all normal us" "0 < k"
    and "\<And>i. i < k + length us \<Longrightarrow> 0 < i \<Longrightarrow>
      \<exists>m. ex_files d (reach rs (take i (pathComps u))) = Some m \<and> \<not> isSymlink m"
    and "ex_files d (dirPath (take (length rs - k) rs @ us)) = Some n"
  shows "resolvePath d u = Inr (dirPath (take (length rs - k) rs @ us), n)"
proof -
  have noslash: "\<forall>c \<in> set (pathComps u). CHR ''/'' \<notin> set c"
  proof
    fix c assume "c \<in> set (pathComps u)"
    then have "c = ''..'' \<or> c \<in> set us" using assms(4) by (simp, blast)
    then show "CHR ''/'' \<notin> set c" using assms(5) normal_noslash by (auto simp: list_all_iff)
  qed
  have "\<not> rooted u"
  proof
    assume "rooted u"
    then obtain vs where "list_all normal vs" "pathComps u = vs" using splitSlash_rooted by blast
    moreover have "''..'' \<in> set (pathComps u)" using assms(4,6) by simp
    ultimately show False by (auto simp: list_all_iff normal_def)
  qed
  moreover have ne: "pathComps u \<noteq> []" using assms(4,6) by simp
  ultimately have segs: "splitSlash (Clean u) = pathComps u"
    using split_joinSlash [OF ne noslash] by (simp add: Clean_def)
  have full: "reach rs (pathComps u) = dirPath (take (length rs - k) rs @ us)"
    using reach_dots [OF assms(2,5)] assms(4) by simp
  have "length (pathComps u) = k + length us" using assms(4) by simp
  then show ?thesis
    unfolding resolvePath_iff [OF assms(1,2)] segs full
    using Join_reaches [OF assms(2,3,4,5)] assms(1,7,8) by simp
qed

theorem export_escapes_witness:
  "resolvePath exVolume ''../../etc/shadow'' = Inr (''/etc/shadow'', NFile [7] fsAttr0)"
proof -
  have comps: "pathComps ''../../etc/shadow'' = replicate 2 ''..'' @ [''etc'', ''shadow'']"
    "list_all normal [''etc'', ''shadow'']" by code_simp+
  have shadow: "ex_files exVolume (dirPath (take (length [''mnt'', ''fs''] - 2) [''mnt'', ''fs''] @ [''etc'', ''shadow'']))
      = Some (NFile [7] fsAttr0)" by code_simp
  have way: "ex_files exVolume (reach [''mnt'', ''fs''] (take 1 (pathComps ''../../etc/shadow''))) = Some (NDir 4096)"
    "ex_files exVolume (reach [''mnt'', ''fs''] (take 2 (pathComps ''../../etc/shadow''))) = Some (NDir 4096)"
    "ex_files exVolume (reach [''mnt'', ''fs''] (take 3 (pathComps ''../../etc/shadow''))) = Some (NDir 4096)"
    by code_simp+
  have "\<exists>m. ex_files exVolume (reach [''mnt'', ''fs''] (take i (pathComps ''../../etc/shadow''))) = Some m \<and> \<not> isSymlink m"
    if "i < 2 + length [''etc'', ''shadow'']" "0 < i" for i
  proof -
    from that consider "i = 1" | "i = 2" | "i = 3" by force
    then show ?thesis using way by cases auto
  qed
  from export_escapes [OF exVolume_root _ comps _ this shadow]
  have "resolvePath exVolume ''../../etc/shadow'' = Inr (dirPath (take (length [''mnt'', ''fs''] - 2) [''mnt'', ''fs''] @ [''etc'', ''shadow'']), NFile [7] fsAttr0)"
    by simp
  then show ?thesis by (simp add: dirPath_def)
qed

section \<open>Listings\<close>

lemma of_char_bound: "of_char c < (256 :: nat)"
  by (metis of_char_mod_256 mod_less_divisor zero_less_numeral)

lemma unhex_hexChar: "n < 16 \<Longrightarrow> unhex (hexChar n) = Some n"
  by (auto simp: unhex_def hexChar_def Let_def)

lemma percent_reserved: "\<not> unreserved CHR ''%''"
  by code_simp

text \<open>
  The URI an item is listed under, decoded by the server, is the path that was escaped:
  escaping is undone by unescaping for every string.
\<close>

theorem export_uri_roundtrip: "unescapePath (EscapedPath p) = Some p"
proof (induction p)
  case (Cons c cs)
  let ?n = "of_char c :: nat"
  have "?n div 16 < 16" using of_char_bound [of c] by (intro less_mult_imp_div_less) simp
  then have hex: "unhex (hexChar (?n div 16)) = Some (?n div 16)" "unhex (hexChar (?n mod 16)) = Some (?n mod 16)"
    by (simp_all add: unhex_hexChar)
  have "char_of (16 * (?n div 16) + ?n mod 16) = c" by simp
  with Cons hex show ?case
    using percent_reserved by (auto simp: Let_def)
qed simp

text \<open>The chunks of a list of items, with commas between them.\<close>

fun commaSep :: "nat \<Rightarrow> string list \<Rightarrow> string list" where
  "commaSep k [] = []"
| "commaSep k (x # xs) = (if k > 0 then ['',''] else []) @ x # commaSep (k + 1) xs"

lemma w_body_Write: "w_body (Write c v) = w_body v @ [c]"
  by (simp add: Write_def WriteHeader_def Let_def)

lemma listLoop_ok:
  assumes "list_all2 (\<lambda>name x. resolveItem L d (Join [path, name]) name am = Inr x) names items"
  shows "fst (listLoop L d am path names k (Write b w)) = None \<and>
    w_body (snd (listLoop L d am path names k (Write b w))) =
      w_body (Write b w) @ commaSep k (map (\<lambda>x. lib_encodeItem L x @ [CHR 0x0A]) items) \<and>
    w_code (snd (listLoop L d am path names k (Write b w))) = w_code (Write b w)"
  using assms
proof (induction arbitrary: k b w rule: list_all2_induct)
  case (Cons name names item items)
  have "w_code (Write c (Write b w)) = w_code (Write b w)" for c
    by (simp split: option.splits)
  with Cons show ?case
    using Cons.IH [of "Suc k" "lib_encodeItem L item @ [CHR 0x0A]" "Write b w"]
      Cons.IH [of "Suc k" "lib_encodeItem L item @ [CHR 0x0A]" "Write '','' (Write b w)"]
    by (auto simp: Let_def w_body_Write split: option.splits)
qed simp

text \<open>
  A directory that is listed: if every entry can be described, the response is a 200
  whose body is the opening, the encoded items in directory order separated by single commas,
  and the closing.
\<close>

theorem export_list_complete:
  assumes "\<not> ex_openErr d path" "w_code w = None" "w_body w = []"
    and "list_all2 (\<lambda>name x. resolveItem L d (Join [path, name]) name (getRequestedAttributes L r) = Inr x)
       (ex_entries d path) items"
    and "listDir L d w r path = (e, w')"
  shows "e = None \<and> w_code w' = Some StatusOK \<and>
    w_body w' = [listOpen] @ commaSep 0 (map (\<lambda>x. lib_encodeItem L x @ [CHR 0x0A]) items) @ [listClose]"
proof -
  let ?l = "listLoop L d (getRequestedAttributes L r) path (ex_entries d path) 0 (Write listOpen w)"
  from listLoop_ok [OF assms(4), of 0 listOpen w]
  have "fst ?l = None" "w_code (snd ?l) = Some StatusOK"
    "w_body (snd ?l) = [listOpen] @ commaSep 0 (map (\<lambda>x. lib_encodeItem L x @ [CHR 0x0A]) items)"
    using assms(2,3) by (auto simp: w_body_Write)
  then show ?thesis
    using assms(1,5) by (cases ?l) (auto simp: listDir_def w_body_Write)
qed

definition exLib :: exportLib where
  "exLib = \<lparr>lib_serveContent = (\<lambda>r bs w. Write (map (\<lambda>b. char_of (unat b)) bs) w), lib_md5 = (\<lambda>_. ''00''),
     lib_formatRFC3339 = (\<lambda>_. ''t''), lib_encodeItem = ei_name, lib_queryAttributes = (\<lambda>_. [])\<rparr>"

definition exGet :: "string \<Rightarrow> httpRequest" where
  "exGet p = \<lparr>rq_method = ''GET'', rq_path = p, rq_headers = [], rq_contentLength = 0, rq_body = [],
     rq_bodyErr = False, rq_peerCert = None\<rparr>"

theorem export_list_complete_witness:
  "\<exists>e w'. listDir exLib exVolume newWriter (exGet []) ''/mnt/fs'' = (e, w') \<and>
     w_code w' = Some StatusOK \<and>
     w_body w' = [listOpen] @ [''d'' @ [CHR 0x0A], '','', ''l'' @ [CHR 0x0A]] @ [listClose]"
proof -
  let ?am = "getRequestedAttributes exLib (exGet [])"
  obtain x where x: "resolveItem exLib exVolume (Join [''/mnt/fs'', ''d'']) ''d'' ?am = Inr x" "ei_name x = ''d''"
  proof -
    have "map_sum (\<lambda>_. ()) ei_name (resolveItem exLib exVolume (Join [''/mnt/fs'', ''d'']) ''d'' ?am) = Inr ''d''"
      by code_simp
    with that show thesis by (cases "resolveItem exLib exVolume (Join [''/mnt/fs'', ''d'']) ''d'' ?am") auto
  qed
  obtain y where y: "resolveItem exLib exVolume (Join [''/mnt/fs'', ''l'']) ''l'' ?am = Inr y" "ei_name y = ''l''"
  proof -
    have "map_sum (\<lambda>_. ()) ei_name (resolveItem exLib exVolume (Join [''/mnt/fs'', ''l'']) ''l'' ?am) = Inr ''l''"
      by code_simp
    with that show thesis by (cases "resolveItem exLib exVolume (Join [''/mnt/fs'', ''l'']) ''l'' ?am") auto
  qed
  obtain e w' where run: "listDir exLib exVolume newWriter (exGet []) ''/mnt/fs'' = (e, w')" by force
  have entries: "ex_entries exVolume ''/mnt/fs'' = [''d'', ''l'']" "\<not> ex_openErr exVolume ''/mnt/fs''"
    "w_body newWriter = []" "lib_encodeItem exLib = ei_name"
    by (simp_all add: exVolume_def newWriter_def exLib_def)
  from export_list_complete [OF entries(2) _ entries(3) _ run, of "[x, y]"] x y run
  show ?thesis by (simp add: entries)
qed

lemma resolveItem_err: "resolveItem L d path name am = Inl e \<Longrightarrow> (\<And>m c. e \<noteq> HTTPError m c)"
  by (auto simp: resolveItem_def prepareAttributes_def prepareAttributesStat_def prepareAttributesMd5_def Let_def
      split: option.splits sum.splits fsNode.splits if_splits)

lemma listLoop_code: "w_code w = Some c \<Longrightarrow> w_code (snd (listLoop L d am path names k w)) = Some c"
  by (induction L d am path names k w rule: listLoop.induct) (auto simp: Let_def split: sum.splits)

lemma listLoop_err: "fst (listLoop L d am path names k w) = Some e \<Longrightarrow> (\<And>m c. e \<noteq> HTTPError m c)"
  by (induction L d am path names k w rule: listLoop.induct)
    (auto simp: Let_def resolveItem_err split: sum.splits dest: resolveItem_err)

text \<open>
  A directory with an entry that cannot be described (it vanished, or its attributes or
  checksum cannot be read) is still answered with status 200: the error comes after the first
  bytes of the body, so the client receives a document that ends with an empty line instead of
  its closing, and no error status.
\<close>

theorem export_list_error_is_ok:
  assumes "\<not> ex_openErr d path" "w_code w = None"
    and "listDir L d w r path = (Some e, w')"
  shows "w_code (answerErr (Some e, w')) = Some StatusOK \<and>
    last (w_body (answerErr (Some e, w'))) = [CHR 0x0A]"
proof -
  let ?l = "listLoop L d (getRequestedAttributes L r) path (ex_entries d path) 0 (Write listOpen w)"
  have code: "w_code (snd ?l) = Some StatusOK" using assms(2) by (intro listLoop_code) simp
  have "?l = (Some e, w')" using assms(1,3) by (auto simp: listDir_def split: prod.splits option.splits)
  with code listLoop_err [of L d "getRequestedAttributes L r" path "ex_entries d path" 0 "Write listOpen w" e]
  have "w_code w' = Some StatusOK" "\<And>m c. e \<noteq> HTTPError m c" by auto
  then show ?thesis
    by (cases e) (auto simp: answerErr_def httpError_def w_body_Write)
qed

theorem export_list_error_is_ok_witness:
  "w_code (answerErr (listDir exLib (exVolume\<lparr>ex_attr := (\<lambda>_. None)\<rparr>) newWriter (exGet []) ''/mnt/fs'')) = Some StatusOK"
proof -
  let ?d = "exVolume\<lparr>ex_attr := (\<lambda>_. None)\<rparr>"
  have "fst (listDir exLib ?d newWriter (exGet []) ''/mnt/fs'') = Some (PlainError ''failed to get GID and UID of file'')"
    "\<not> ex_openErr ?d ''/mnt/fs''"
    by code_simp+
  then show ?thesis
    using export_list_error_is_ok [of ?d "''/mnt/fs''" newWriter exLib "exGet []"]
    by (metis prod.collapse w_code_simps(1))
qed

end
