(* ===== verification/Server.thy ===== *)
theory Server
  imports Export
begin

text \<open>
  The data server as a whole: credentials and permissions
  (\<open>src/images/data-exporter/internal/authorization\<close>), the middlewares
  (\<open>internal/middleware\<close>) and the routes (\<open>cmd/handler.go\<close>, and the part of \<open>cmd/main.go\<close>
  that chains them). The redirects by which \<open>ServeMux\<close> normalises a path happen before a route
  is chosen and are not modelled.
\<close>

section \<open>Credentials\<close>

datatype authType = AuthNone | AuthTypeBearer | AuthTypeBasic | AuthTypeCert

record authData =
  ad_type :: authType
  ad_token :: string
  ad_username :: string
  ad_password :: string
  ad_cert :: "string \<times> string list"

text \<open>\<open>base64.StdEncoding.DecodeString\<close>: line breaks are ignored, padding is required.\<close>

definition b64val :: "char \<Rightarrow> nat option" where
  "b64val c = (case filter (\<lambda>i. base64Alphabet ! i = c) [0 ..< 64] of [] \<Rightarrow> None | i # _ \<Rightarrow> Some i)"

fun b64groups :: "string \<Rightarrow> string option" where
  "b64groups [] = Some []"
| "b64groups (a # b # c # d # rest) =
     (case (b64val a, b64val b, b64val c, b64val d) of
        (Some x, Some y, Some z, Some u) \<Rightarrow>
          map_option (\<lambda>s. [char_of (x * 4 + y div 16), char_of (y mod 16 * 16 + z div 4), char_of (z mod 4 * 64 + u)] @ s)
            (b64groups rest)
      | (Some x, Some y, Some z, None) \<Rightarrow>
          if d = CHR ''='' \<and> rest = [] then Some [char_of (x * 4 + y div 16), char_of (y mod 16 * 16 + z div 4)] else None
      | (Some x, Some y, None, None) \<Rightarrow>
          if c = CHR ''='' \<and> d = CHR ''='' \<and> rest = [] then Some [char_of (x * 4 + y div 16)] else None
      | _ \<Rightarrow> None)"
| "b64groups _ = None"

definition base64Decode :: "string \<Rightarrow> string option" where
  "base64Decode s = b64groups (filter (\<lambda>c. c \<noteq> CHR 0x0A \<and> c \<noteq> CHR 0x0D) s)"

text \<open>\<open>strings.SplitN(s, ":", 2)\<close>: \<open>None\<close> if there is one part only.\<close>

definition splitColon :: "string \<Rightarrow> (string \<times> string) option" where
  "splitColon s =
     (case dropWhile (\<lambda>c. c \<noteq> CHR '':'') s of
        [] \<Rightarrow> None
      | _ # rest \<Rightarrow> Some (takeWhile (\<lambda>c. c \<noteq> CHR '':'') s, rest))"

definition noAuth :: authData where
  "noAuth = \<lparr>ad_type = AuthNone, ad_token = [], ad_username = [], ad_password = [], ad_cert = ([], [])\<rparr>"

definition authFromHeader :: "string \<Rightarrow> authData res" where
  "authFromHeader authHeader =
     (if prefix ''Bearer '' authHeader then
        (let token = drop 7 authHeader in
         if token = [] then Inl (Errorf ''bearer token is empty'' [])
         else Inr (noAuth\<lparr>ad_type := AuthTypeBearer, ad_token := token\<rparr>))
      else if prefix ''Basic '' authHeader then
        (case base64Decode (drop 6 authHeader) of
           None \<Rightarrow> Inl (Errorf ''failed to decode basic auth credentials'' [])
         | Some credentials \<Rightarrow>
             (case splitColon credentials of
                None \<Rightarrow> Inl (Errorf ''invalid basic auth credentials format'' [])
              | Some (u, p) \<Rightarrow> Inr (noAuth\<lparr>ad_type := AuthTypeBasic, ad_username := u, ad_password := p\<rparr>)))
      else Inr noAuth)"

definition GetAuthDataFromRequest :: "httpRequest \<Rightarrow> authData res" where
  "GetAuthDataFromRequest r =
     (case authFromHeader (Header_Get r ''Authorization'') of
        Inl e \<Rightarrow> Inl e
      | Inr ad \<Rightarrow>
          (let ad1 = (case rq_peerCert r of
                        None \<Rightarrow> ad
                      | Some c \<Rightarrow> ad\<lparr>ad_type := AuthTypeCert, ad_cert := c\<rparr>) in
           if ad_type ad1 = AuthNone then Inl (Errorf ''no valid authentication method found'' [])
           else Inr ad1))"

definition AuthenticateUserByCert :: "string \<times> string list \<Rightarrow> bool \<times> string \<times> string list" where
  "AuthenticateUserByCert c = (True, fst c, snd c)"

definition AuthenticateUser :: "env \<Rightarrow> authData \<Rightarrow> (bool \<times> string \<times> string list) res io" where
  "AuthenticateUser E ad =
     (case ad_type ad of
        AuthTypeBearer \<Rightarrow> AuthenticateUserByToken E (ad_token ad)
      | AuthTypeBasic \<Rightarrow> ret (Inl (Errorf ''basic auth is not supported'' []))
      | AuthTypeCert \<Rightarrow> ret (Inr (AuthenticateUserByCert (ad_cert ad)))
      | AuthNone \<Rightarrow> ret (Inl (Errorf ''unsupported authentication method'' [])))"

text \<open>The messages of errors are abridged to their first part.\<close>

definition Authorize :: "env \<Rightarrow> string \<Rightarrow> string \<Rightarrow> 's handler \<Rightarrow> 's handler" where
  "Authorize E operation ns next s r w =
     (case GetAuthDataFromRequest r of
        Inl e \<Rightarrow> ret (s, httpError ''unauthorized'' StatusUnauthorized w)
      | Inr ad \<Rightarrow> do {
          a \<leftarrow> AuthenticateUser E ad;
          (case a of
             Inl e \<Rightarrow> ret (s, httpError ''failed to authenticate user'' StatusInternalError w)
           | Inr (authenticated, username, groups) \<Rightarrow>
               if \<not> authenticated then ret (s, httpError ''Bearer token not authorized'' StatusUnauthorized w)
               else do {
                 z \<leftarrow> AuthorizeUser E operation ns username groups;
                 (case z of
                    Inl e \<Rightarrow> ret (s, httpError ''failed to authorize user'' StatusInternalError w)
                  | Inr (allowed, reason) \<Rightarrow>
                      if \<not> allowed then
                        ret (s, httpError (''Not enough permissions for dataExport, reason: '' @ reason) StatusForbidden w)
                      else next s r w) }) })"

section \<open>Middlewares\<close>

definition requiredHeaders :: "string list" where
  "requiredHeaders = [''X-Content-Length'', ''X-Offset'', ''X-Attribute-Permissions'', ''X-Attribute-Uid'', ''X-Attribute-Gid'']"

definition quoted :: "string \<Rightarrow> string" where
  "quoted s = CHR 0x22 # s @ [CHR 0x22]"

definition missingHeadersJSON :: "string list \<Rightarrow> string" where
  "missingHeadersJSON hs =
     ''{'' @ quoted ''error'' @ '':'' @ quoted ''Missing required headers'' @ '','' @ quoted ''missingHeaders'' @ '':['' @
     concat (map (\<lambda>(i, h). (if i = 0 then [] else '','') @ quoted h) (enumerate 0 hs)) @ '']}'' @ [CHR 0x0A]"

definition CheckRequiredHeaders :: "'s handler \<Rightarrow> 's handler" where
  "CheckRequiredHeaders next s r w =
     (if rq_method r \<noteq> ''PUT'' then next s r w
      else
        (let missingHeaders = filter (\<lambda>h. Header_Get r h = []) requiredHeaders in
         if missingHeaders \<noteq> []
         then ret (s, Write (missingHeadersJSON missingHeaders)
                (WriteHeader StatusBadRequest (Header_Set ''Content-Type'' ''application/json'' w)))
         else next s r w))"

definition Chain :: "'s handler \<Rightarrow> ('s handler \<Rightarrow> 's handler) list \<Rightarrow> 's handler" where
  "Chain handler middlewares = foldr (\<lambda>m wrapped. m wrapped) middlewares handler"

section \<open>Routes\<close>

record urlOpt =
  uo_namespace :: string
  uo_targetKindShort :: string
  uo_targetName :: string

definition GetPathPrefix :: "urlOpt \<Rightarrow> string" where
  "GetPathPrefix opt =
     ''/'' @ uo_namespace opt @ ''/'' @ uo_targetKindShort opt @ ''/'' @ uo_targetName opt @ ''/''"

text \<open>A registered handler also yields what it reports to the idle timer.\<close>

type_synonym 's timed = "'s \<Rightarrow> httpRequest \<Rightarrow> httpWriter \<Rightarrow> ('s \<times> httpWriter \<times> timerEvent list) io"

definition untimed :: "(httpRequest \<Rightarrow> httpWriter \<Rightarrow> httpWriter) \<Rightarrow> 's timed" where
  "untimed f s r w = ret (s, f r w, [])"

definition StripPrefix :: "string \<Rightarrow> 's timed \<Rightarrow> 's timed" where
  "StripPrefix pfx h s r w =
     (if prefix pfx (rq_path r) then h s (r\<lparr>rq_path := drop (length pfx) (rq_path r)\<rparr>) w
      else ret (s, httpError ''404 page not found'' StatusNotFound w, []))"

type_synonym 's routes = "(string \<times> 's timed) list"

definition muxAddHandler :: "string \<Rightarrow> urlOpt \<Rightarrow> 's timed \<Rightarrow> 's routes" where
  "muxAddHandler sfx opt h =
     (let shortPrefix = ''/api/v1/'' @ sfx; longPrefix = GetPathPrefix opt @ ''api/v1/'' @ sfx in
      [(longPrefix, StripPrefix longPrefix h), (shortPrefix, StripPrefix shortPrefix h)])"

definition fsWrongPrefixFilesInformer :: "httpRequest \<Rightarrow> httpWriter \<Rightarrow> httpWriter" where
  "fsWrongPrefixFilesInformer r w = httpError ''Path is empty'' StatusBadRequest w"

definition fsWrongPrefixBlockInformer :: "httpRequest \<Rightarrow> httpWriter \<Rightarrow> httpWriter" where
  "fsWrongPrefixBlockInformer r w =
     httpError ''VolumeMode: Filesystem. Not supported downloading raw block. Use /api/v1/files'' StatusBadRequest w"

definition blockWrongPrefixFilesInformer :: "httpRequest \<Rightarrow> httpWriter \<Rightarrow> httpWriter" where
  "blockWrongPrefixFilesInformer r w =
     httpError ''VolumeMode: Block. Not supported downloading files. Use /api/v1/block'' StatusBadRequest w"

definition blockWrongPrefixBlockInformer :: "httpRequest \<Rightarrow> httpWriter \<Rightarrow> httpWriter" where
  "blockWrongPrefixBlockInformer r w =
     (if rq_path r = []
      then httpError ''VolumeMode: Block. Not supported for listing files. Use /api/v1/block'' StatusBadRequest w
      else httpError ''VolumeMode: Block. Not supported path. Use /api/v1/block to download raw block'' StatusBadRequest w)"

definition MuxAddFSHandler :: "urlOpt \<Rightarrow> 's timed \<Rightarrow> 's routes" where
  "MuxAddFSHandler opt h =
     muxAddHandler ''files/'' opt h @
     muxAddHandler ''files'' opt (untimed fsWrongPrefixFilesInformer) @
     muxAddHandler ''block'' opt (untimed fsWrongPrefixBlockInformer) @
     muxAddHandler ''block/'' opt (untimed fsWrongPrefixBlockInformer)"

definition MuxAddBlockHandler :: "urlOpt \<Rightarrow> 's timed \<Rightarrow> 's routes" where
  "MuxAddBlockHandler opt h =
     muxAddHandler ''block'' opt h @
     muxAddHandler ''block/'' opt (untimed blockWrongPrefixBlockInformer) @
     muxAddHandler ''files'' opt (untimed blockWrongPrefixFilesInformer) @
     muxAddHandler ''files/'' opt (untimed blockWrongPrefixFilesInformer)"

definition finishedHandler :: "env \<Rightarrow> nsname \<Rightarrow> 's timed" where
  "finishedHandler E n s r w =
     (if rq_method r \<noteq> ''POST'' then ret (s, httpError ''Method not allowed'' StatusMethodNotAllowed w, [])
      else do {
        x \<leftarrow> SetServerState E OperationImport n ServerStateFinished;
        (case x of
           Inl _ \<Rightarrow> ret (s, httpError ''failed to set data import finished'' StatusInternalError w, [])
         | Inr _ \<Rightarrow> ret (s, WriteHeader StatusNoContent w, [])) })"

definition MuxAddFinishedHandler :: "env \<Rightarrow> urlOpt \<Rightarrow> nsname \<Rightarrow> 's routes" where
  "MuxAddFinishedHandler E opt n =
     [(GetPathPrefix opt @ ''api/v1/finished'', finishedHandler E n), (''/api/v1/finished'', finishedHandler E n)]"

text \<open>
  \<open>ServeMux\<close>: a pattern that ends in a slash matches every path below it, any other pattern
  itself only; the longest matching pattern wins.
\<close>

definition muxMatches :: "string \<Rightarrow> string \<Rightarrow> bool" where
  "muxMatches pattern path =
     (if pattern \<noteq> [] \<and> last pattern = CHR ''/'' then prefix pattern path else pattern = path)"

fun muxFind :: "string \<Rightarrow> 's routes \<Rightarrow> (string \<times> 's timed) option" where
  "muxFind path [] = None"
| "muxFind path ((pat, h) # routes) =
     (case muxFind path routes of
        None \<Rightarrow> if muxMatches pat path then Some (pat, h) else None
      | Some (p, g) \<Rightarrow> if muxMatches pat path \<and> length p < length pat then Some (pat, h) else Some (p, g))"

definition muxServe :: "'s routes \<Rightarrow> 's timed" where
  "muxServe routes s r w =
     (case muxFind (rq_path r) routes of
        None \<Rightarrow> ret (s, httpError ''404 page not found'' StatusNotFound w, [])
      | Some (_, h) \<Rightarrow> h s r w)"

datatype volumeMode = VolumeModeBlock | VolumeModeFilesystem

text \<open>What \<open>main\<close> puts together around the handler of the volume.\<close>

definition mainMiddlewares :: "env \<Rightarrow> string \<Rightarrow> urlOpt \<Rightarrow> ('s handler \<Rightarrow> 's handler) list" where
  "mainMiddlewares E operation opt =
     [Authorize E operation (uo_namespace opt)] @
     (if operation = OperationImport then [CheckRequiredHeaders] else [])"

definition mainRoutes :: "env \<Rightarrow> string \<Rightarrow> volumeMode \<Rightarrow> urlOpt \<Rightarrow> string \<Rightarrow> 's handler \<Rightarrow> 's routes" where
  "mainRoutes E operation mode opt name h =
     (let mainHandler = RequestNotifier (Chain h (mainMiddlewares E operation opt)) in
      (case mode of
         VolumeModeBlock \<Rightarrow> MuxAddBlockHandler opt mainHandler
       | VolumeModeFilesystem \<Rightarrow> MuxAddFSHandler opt mainHandler) @
      (if operation = OperationImport then MuxAddFinishedHandler E opt (uo_namespace opt, name) else []))"

definition dataServer :: "env \<Rightarrow> string \<Rightarrow> volumeMode \<Rightarrow> urlOpt \<Rightarrow> string \<Rightarrow> 's handler \<Rightarrow> 's timed" where
  "dataServer E operation mode opt name h = muxServe (mainRoutes E operation mode opt name h)"

section \<open>Who gets through\<close>

text \<open>
  The history shows who the caller is: the credential was sent in the request and reviewed, or
  is a certificate the TLS layer verified; and that this caller was allowed the operation.
\<close>

definition reviewedAs :: "hist \<Rightarrow> httpRequest \<Rightarrow> string \<Rightarrow> string list \<Rightarrow> bool" where
  "reviewedAs h r user groups \<longleftrightarrow>
     rq_peerCert r = Some (user, groups) \<or>
     (\<exists>q t. Header_Get r ''Authorization'' = ''Bearer '' @ trv_token q \<and> trv_token q \<noteq> [] \<and>
        (Create (OTokenReview q), RObj (OTokenReview t)) \<in> set h \<and>
        trv_authenticated t \<and> trv_username t = user \<and> trv_groups t = groups)"

definition permitted :: "hist \<Rightarrow> string \<Rightarrow> string \<Rightarrow> string \<Rightarrow> string list \<Rightarrow> bool" where
  "permitted h operation ns user groups \<longleftrightarrow>
     (\<exists>q a. (Create (OSar q), RObj (OSar a)) \<in> set h \<and> sar_allowed a \<and>
        sar_user q = user \<and> sar_groups q = groups \<and> sar_namespace q = ns \<and> sar_verb q = ''create'' \<and>
        sar_subresource q = ''download'' \<and>
        sar_resource q = (if operation = OperationExport then ''dataexports'' else ''dataimports''))"

definition granted :: "hist \<Rightarrow> string \<Rightarrow> string \<Rightarrow> httpRequest \<Rightarrow> bool" where
  "granted h operation ns r \<longleftrightarrow>
     (\<exists>user groups. reviewedAs h r user groups \<and> permitted h operation ns user groups)"

lemma GetAuthData_bearer:
  assumes "GetAuthDataFromRequest r = Inr ad" "ad_type ad = AuthTypeBearer"
  shows "Header_Get r ''Authorization'' = ''Bearer '' @ ad_token ad \<and> ad_token ad \<noteq> []"
  using assms
  by (auto simp: GetAuthDataFromRequest_def authFromHeader_def noAuth_def Let_def prefix_def
      split: sum.splits option.splits if_splits)

lemma GetAuthData_cert:
  assumes "GetAuthDataFromRequest r = Inr ad" "ad_type ad = AuthTypeCert"
  shows "rq_peerCert r = Some (ad_cert ad)"
  using assms
  by (auto simp: GetAuthDataFromRequest_def authFromHeader_def noAuth_def Let_def
      split: sum.splits option.splits if_splits)

lemma AuthenticateUser_reviewed:
  assumes "GetAuthDataFromRequest r = Inr ad"
    and "\<And>e h'. later h h' \<Longrightarrow> Q (Inl e) h'"
    and "\<And>u g h'. later h h' \<Longrightarrow> Q (Inr (False, u, g)) h'"
    and "\<And>u g h'. later h h' \<Longrightarrow> reviewedAs h' r u g \<Longrightarrow> Q (Inr (True, u, g)) h'"
  shows "wp (AuthenticateUser E ad) Q h"
proof (cases "ad_type ad")
  case AuthTypeBearer
  note tok = GetAuthData_bearer [OF assms(1) AuthTypeBearer]
  have "Q (Inr (True, trv_username t, trv_groups t)) (logged h (Create (OTokenReview q)) (RObj (OTokenReview t)))"
    if "trv_authenticated t" "trv_token q = ad_token ad" for t q
    using tok that by (intro assms(4)) (force simp: reviewedAs_def)+
  with AuthTypeBearer assms(2,3) show ?thesis
    by (auto simp: AuthenticateUser_def AuthenticateUserByToken_def wp_rules intro!: wp_sendObj)
next
  case AuthTypeCert
  obtain u g where c: "ad_cert ad = (u, g)" by force
  with AuthTypeCert have "reviewedAs h r u g"
    using GetAuthData_cert [OF assms(1)] by (simp add: reviewedAs_def)
  with AuthTypeCert c assms(4) show ?thesis
    by (simp add: AuthenticateUser_def AuthenticateUserByCert_def wp_rules)
qed (simp_all add: AuthenticateUser_def wp_rules assms(2))

lemma reviewedAs_mono: "reviewedAs h r u g \<Longrightarrow> later h h' \<Longrightarrow> reviewedAs h' r u g"
  unfolding reviewedAs_def later_def by blast

lemma grantedI:
  "reviewedAs h r u g \<Longrightarrow> later h h' \<Longrightarrow> permitted h' operation ns u g \<Longrightarrow> granted h' operation ns r"
  unfolding granted_def using reviewedAs_mono by blast

lemma permittedI:
  assumes "(Create (OSar q), RObj (OSar a)) \<in> set h" "sar_allowed a"
    "sar_user q = user" "sar_groups q = groups" "sar_namespace q = ns" "sar_verb q = ''create''"
    "sar_subresource q = ''download''"
    "sar_resource q = (if operation = OperationExport then ''dataexports'' else ''dataimports'')"
  shows "permitted h operation ns user groups"
  unfolding permitted_def using assms by (intro exI conjI)

lemma AuthorizeUser_permitted:
  assumes "\<And>e h'. later h h' \<Longrightarrow> Q (Inl e) h'"
    and "\<And>why h'. later h h' \<Longrightarrow> Q (Inr (False, why)) h'"
    and "\<And>why h'. later h h' \<Longrightarrow> permitted h' operation ns user groups \<Longrightarrow> Q (Inr (True, why)) h'"
  shows "wp (AuthorizeUser E operation ns user groups) Q h"
proof -
  have ok: "Q (Inr (sar_allowed a, sar_reason a)) (logged h (Create (OSar q)) (RObj (OSar a)))"
    if "sar_user q = user" "sar_groups q = groups" "sar_namespace q = ns" "sar_verb q = ''create''"
      "sar_subresource q = ''download''"
      "sar_resource q = (if operation = OperationExport then ''dataexports'' else ''dataimports'')" for a q
  proof (cases "sar_allowed a")
    case True
    have "permitted (logged h (Create (OSar q)) (RObj (OSar a))) operation ns user groups"
      by (rule permittedI [OF _ True that]) simp
    with True assms(3) show ?thesis by simp
  next
    case False
    with assms(2) show ?thesis by simp
  qed
  show ?thesis
    unfolding AuthorizeUser_def using assms(1)
    by (auto simp: wp_rules intro!: wp_sendObj ok)
qed

lemma Authorize_wp:
  assumes "\<And>msg c h'. c \<in> {StatusUnauthorized, StatusForbidden, StatusInternalError} \<Longrightarrow> later h h' \<Longrightarrow>
      Q (s, httpError msg c w) h'"
    and "\<And>h'. later h h' \<Longrightarrow> granted h' operation ns r \<Longrightarrow> wp (next s r w) Q h'"
  shows "wp (Authorize E operation ns next s r w) Q h"
proof -
  have "wp (AuthorizeUser E operation ns u g)
      (\<lambda>z h''. wp (case z of
           Inl e \<Rightarrow> ret (s, httpError ''failed to authorize user'' StatusInternalError w)
         | Inr (allowed, reason) \<Rightarrow>
             if \<not> allowed then
               ret (s, httpError (''Not enough permissions for dataExport, reason: '' @ reason) StatusForbidden w)
             else next s r w) Q h'') h'"
    if "later h h'" "reviewedAs h' r u g" for u g h'
    by (rule AuthorizeUser_permitted [where operation = operation and ns = ns and user = u and groups = g])
      (use that in \<open>auto simp: wp_rules intro: assms later_trans grantedI\<close>)
  then show ?thesis
    unfolding Authorize_def
    by (auto simp: wp_rules assms(1) split: sum.splits
        intro!: AuthenticateUser_reviewed [where r = r and h = h])
qed

text \<open>
  C35. Nothing passes \<open>Authorize\<close> without permission, for any handler behind it and whatever
  the API server answers: either the handler's state is untouched and the answer is 401, 403 or
  500, or the handler ran from a history that shows a reviewed identity of this very request
  and a positive access review for it.
\<close>

theorem authorize_needs_permission:
  assumes "run_state (Authorize E operation ns next s r w) h = ((s', w'), h')" "w_code w = None"
  shows "s' = s \<and> w_code w' \<in> Some ` {StatusUnauthorized, StatusForbidden, StatusInternalError} \<or>
    (\<exists>g. later h g \<and> granted g operation ns r \<and> run_state (next s r w) g = ((s', w'), h'))"
proof -
  let ?Q = "\<lambda>x k. fst x = s \<and> w_code (snd x) \<in> Some ` {StatusUnauthorized, StatusForbidden, StatusInternalError} \<or>
    (\<exists>g. later h g \<and> granted g operation ns r \<and> run_state (next s r w) g = (x, k))"
  have "wp (Authorize E operation ns next s r w) ?Q h"
    by (rule Authorize_wp [where h = h]) (use assms(2) in \<open>auto simp: wp_def split: prod.splits\<close>)
  then show ?thesis using assms(1) by (simp add: wp_def)
qed

text \<open>An API server that grants everything to the holder of one token.\<close>

definition authSrv :: "hist \<Rightarrow> req \<Rightarrow> resp" where
  "authSrv h r = (case r of
     Create (OTokenReview q) \<Rightarrow> RObj (OTokenReview (q\<lparr>trv_authenticated := (trv_token q = ''secret''),
        trv_username := ''ann'', trv_groups := [''dev'']\<rparr>))
   | Create (OSar q) \<Rightarrow> RObj (OSar (q\<lparr>sar_allowed := True\<rparr>))
   | _ \<Rightarrow> RErr NotFound)"

definition exBearer :: httpRequest where
  "exBearer = (exGet [])\<lparr>rq_headers := [(''Authorization'', ''Bearer secret'')]\<rparr>"

theorem authorize_needs_permission_witness:
  "\<exists>g. granted g OperationExport ''ns'' exBearer \<and> length g = 2"
proof -
  let ?next = "\<lambda>s r w. State_Monad.return (s + 1, WriteHeader StatusOK w) :: (nat \<times> httpWriter) io"
  let ?run = "run_state (Authorize (ref_env authSrv (\<lambda>h. 0)) OperationExport ''ns'' ?next 0 exBearer newWriter) []"
  have "fst (fst ?run) = 1" "length (snd ?run) = 2" by code_simp+
  then show ?thesis
    using authorize_needs_permission [of "ref_env authSrv (\<lambda>h. 0)" OperationExport "''ns''" ?next 0 exBearer newWriter "[]"
        "fst (fst ?run)" "snd (fst ?run)" "snd ?run"]
    by (auto simp: prod_eq_iff)
qed

section \<open>What the routes protect\<close>


text \<open>A request without credentials is refused before anything is asked of the API server.\<close>

definition anonymous :: "httpRequest \<Rightarrow> bool" where
  "anonymous r \<longleftrightarrow> Header_Get r ''Authorization'' = [] \<and> rq_peerCert r = None"


lemma anonymous_path [simp]: "anonymous (r\<lparr>rq_path := p\<rparr>) \<longleftrightarrow> anonymous r"
  by (simp add: anonymous_def Header_Get_def)











definition exOpt :: urlOpt where
  "exOpt = \<lparr>uo_namespace = ''ns'', uo_targetKindShort = ''pvc'', uo_targetName = ''data''\<rparr>"

definition exPost :: "string \<Rightarrow> httpRequest" where
  "exPost p = (exGet p)\<lparr>rq_method := ''POST''\<rparr>"


lemma muxMatches_length: "muxMatches pat path \<Longrightarrow> length pat \<le> length path"
  by (auto simp: muxMatches_def prefix_length_le split: if_splits)

lemma long_no_match:
  "uo_namespace opt \<noteq> [] \<Longrightarrow> 12 \<le> length rest \<Longrightarrow> \<not> muxMatches (GetPathPrefix opt @ rest) ''/api/v1/finished''"
  using muxMatches_length [of "GetPathPrefix opt @ rest" "''/api/v1/finished''"]
  by (cases "uo_namespace opt") (auto simp: GetPathPrefix_def)

lemma short_no_match:
  "\<not> muxMatches ''/api/v1/files/'' ''/api/v1/finished''" "\<not> muxMatches ''/api/v1/files'' ''/api/v1/finished''"
  "\<not> muxMatches ''/api/v1/block/'' ''/api/v1/finished''" "\<not> muxMatches ''/api/v1/block'' ''/api/v1/finished''"
  "muxMatches ''/api/v1/finished'' ''/api/v1/finished''"
  by code_simp+

lemma muxFind_finished:
  assumes "uo_namespace opt \<noteq> []"
  shows "muxFind ''/api/v1/finished'' (mainRoutes E OperationImport mode opt name h) =
     Some (''/api/v1/finished'', finishedHandler E (uo_namespace opt, name))"
  by (cases mode)
    (simp_all add: mainRoutes_def Let_def MuxAddBlockHandler_def MuxAddFSHandler_def MuxAddFinishedHandler_def
      muxAddHandler_def long_no_match [OF assms] short_no_match)

text \<open>
  The finished routes need no credentials: on a server for an import, a POST by anyone to
  \<open>/api/v1/finished\<close> publishes the server state Finished, and answers 204 when that succeeds.
  The routes are registered beside the chain that authorizes all others.
\<close>

theorem finished_needs_no_credentials:
  assumes "rq_method r = ''POST''" "rq_path r = ''/api/v1/finished''" "uo_namespace opt \<noteq> []"
    and "run_state (SetServerState E OperationImport (uo_namespace opt, name) ServerStateFinished) k = (x, k')"
  shows "\<exists>w'. run_state (dataServer E OperationImport mode opt name h s r newWriter) k = ((s, w', []), k') \<and>
    w_code w' = Some (case x of Inl _ \<Rightarrow> StatusInternalError | Inr _ \<Rightarrow> StatusNoContent)"
  using assms
  by (auto simp: dataServer_def muxServe_def muxFind_finished finishedHandler_def split: sum.splits)

theorem finished_needs_no_credentials_witness:
  "anonymous (exPost ''/api/v1/finished'') \<and>
   (\<exists>w' k. run_state (dataServer importEnv OperationImport VolumeModeBlock exOpt ''imp''
       (importBlockServeHTTP importEnv (''ns'', ''imp'') okIO) exBlock (exPost ''/api/v1/finished'') newWriter) [] = ((exBlock, w', []), k) \<and>
     w_code w' = Some StatusNoContent \<and> length k = 4)"
proof -
  let ?r = "run_state (SetServerState importEnv OperationImport (uo_namespace exOpt, ''imp'') ServerStateFinished) []"
  have "anonymous (exPost ''/api/v1/finished'')" "fst ?r = Inr []" "length (snd ?r) = 4"
    "rq_method (exPost ''/api/v1/finished'') = ''POST''" "rq_path (exPost ''/api/v1/finished'') = ''/api/v1/finished''"
    "uo_namespace exOpt \<noteq> []"
    by code_simp+
  moreover from this(2) have "?r = (Inr [], snd ?r)" by (simp add: prod_eq_iff)
  ultimately show ?thesis
    using finished_needs_no_credentials [OF _ _ _ \<open>?r = (Inr [], snd ?r)\<close>, of "exPost ''/api/v1/finished''" VolumeModeBlock
        "importBlockServeHTTP importEnv (''ns'', ''imp'') okIO" exBlock] by force
qed

lemma ParseInt_nonneg_or_empty:
  "ParseUploadHeaders r = Inr (off, tot) \<Longrightarrow> Header_Get r ''X-Content-Length'' \<noteq> [] \<Longrightarrow> 0 \<le> tot"
  by (auto simp: ParseUploadHeaders_def Let_def split: option.splits if_splits)

lemma ParseUint_nonneg: "ParseUint v b n = Some i \<Longrightarrow> 0 \<le> i"
  by (auto simp: ParseUint_def split: option.splits if_splits)

lemma ParseFileAttributes_described:
  assumes "ParseFileAttributes r = Inr (perm, uid, gid)"
    and "Header_Get r ''X-Attribute-Permissions'' \<noteq> []" "Header_Get r ''X-Attribute-Uid'' \<noteq> []"
      "Header_Get r ''X-Attribute-Gid'' \<noteq> []"
  shows "(\<exists>p. perm = Some p \<and> 0 \<le> p \<and> p \<le> 511) \<and> 0 \<le> uid \<and> 0 \<le> gid"
  using assms
  by (auto simp: ParseFileAttributes_def Let_def ParseUint_nonneg split: option.splits if_splits sum.splits)

text \<open>
  A write reaches a handler only fully described. A PUT is either answered 400 with state
  and history unchanged, or served by the handler behind the middleware, and then, whatever
  values its headers parse to, the announced size is not negative and permissions, owner and
  group are all given, the permissions between 0 and octal 777.
\<close>

theorem put_is_described:
  assumes "rq_method r = ''PUT''" "w_code w = None"
  shows "(\<exists>w'. CheckRequiredHeaders next s r w = ret (s, w') \<and> w_code w' = Some StatusBadRequest) \<or>
    CheckRequiredHeaders next s r w = next s r w \<and>
    (\<forall>off tot. ParseUploadHeaders r = Inr (off, tot) \<longrightarrow> 0 \<le> off \<and> 0 \<le> tot) \<and>
    (\<forall>perm uid gid. ParseFileAttributes r = Inr (perm, uid, gid) \<longrightarrow>
       (\<exists>p. perm = Some p \<and> 0 \<le> p \<and> p \<le> 511) \<and> 0 \<le> uid \<and> 0 \<le> gid)"
proof (cases "filter (\<lambda>hd. Header_Get r hd = []) requiredHeaders = []")
  case True
  then have given: "\<forall>hd \<in> set requiredHeaders. Header_Get r hd \<noteq> []" by (simp add: filter_empty_conv)
  then have hd: "Header_Get r ''X-Content-Length'' \<noteq> []" "Header_Get r ''X-Attribute-Permissions'' \<noteq> []"
    "Header_Get r ''X-Attribute-Uid'' \<noteq> []" "Header_Get r ''X-Attribute-Gid'' \<noteq> []"
    unfolding requiredHeaders_def by auto
  have "CheckRequiredHeaders next s r w = next s r w" using True by (simp add: CheckRequiredHeaders_def Let_def)
  then show ?thesis
    using ParseInt_nonneg_or_empty [OF _ hd(1)] ParseUploadHeaders_ok ParseFileAttributes_described [OF _ hd(2-4)]
    by blast
qed (use assms in \<open>auto simp: CheckRequiredHeaders_def Let_def\<close>)

theorem put_is_described_witness:
  "\<exists>w'. CheckRequiredHeaders (importBlockServeHTTP importEnv (''ns'', ''imp'') okIO) exBlock exPut newWriter = ret (exBlock, w') \<and>
     w_code w' = Some StatusBadRequest"
proof -
  let ?next = "importBlockServeHTTP importEnv (''ns'', ''imp'') okIO"
  have put: "rq_method exPut = ''PUT''" "w_code newWriter = None" by code_simp+
  have served: "fst (fst (run_state (CheckRequiredHeaders ?next exBlock exPut newWriter) [])) = exBlock"
    "fst (fst (run_state (?next exBlock exPut newWriter) [])) \<noteq> exBlock" by code_simp+
  from put_is_described [OF put, of ?next exBlock] served show ?thesis by force
qed

section \<open>Uploads and the idle timer\<close>

lemma blockPut_silent:
  assumes "HandlePutMethod s dio r w = (s', w')" "w_body w = []" "w_code w = None"
    and "w_code w' = Some StatusCreated \<or> w_code w' = Some StatusNoContent"
  shows "w_body w' = []"
  using assms
  by (auto simp: HandlePutMethod_def putUpload_def putCheck_def putCommit_def Let_def WriteHeader_def Header_Set_def
      split: option.splits prod.splits sum.splits gerr.splits if_splits)

text \<open>
  An acknowledged upload is no activity for the idle timer: it answers without a body, so
  the middleware reports nothing, and the timer is not told of a transfer however long it takes
  or often it happens. An import whose client only uploads expires after its time to live.
\<close>

theorem uploads_are_not_activity:
  assumes "run_state (RequestNotifier (importBlockServeHTTP E n dio) s r newWriter) h = ((s', w', events), h')"
    and "rq_method r = ''PUT''" "w_code w' = Some StatusCreated \<or> w_code w' = Some StatusNoContent"
  shows "events = []"
proof -
  let ?w = "Header_Set ''Expires'' ''0'' (Header_Set ''Pragma'' ''no-cache''
       (Header_Set ''Cache-Control'' ''no-store, no-cache, must-revalidate, max-age=0'' newWriter))"
  have w: "w_body ?w = []" "w_code ?w = None" by (simp_all add: Header_Set_def newWriter_def)
  have path: "rq_path r = []" "\<not> bs_isServiceOff s"
    using assms w by (auto simp: RequestNotifier_def importBlockServeHTTP_def Let_def split: if_splits prod.splits)
  then have "HandlePutMethod s dio r ?w = (s', w')"
    using assms(1,2) by (auto simp: RequestNotifier_def importBlockServeHTTP_def Let_def split: prod.splits)
  from blockPut_silent [OF this w assms(3)] assms(1,2) path show ?thesis
    by (auto simp: RequestNotifier_def importBlockServeHTTP_def Let_def split: prod.splits)
qed

theorem uploads_are_not_activity_witness:
  "\<exists>s' w' h'. run_state (RequestNotifier (importBlockServeHTTP importEnv (''ns'', ''imp'') okIO) exBlock exPut newWriter) []
     = ((s', w', []), h') \<and> w_code w' = Some StatusCreated \<and> bs_written s' = 4"
proof -
  let ?run = "run_state (RequestNotifier (importBlockServeHTTP importEnv (''ns'', ''imp'') okIO) exBlock exPut newWriter) []"
  obtain s' w' ev h' where run: "?run = ((s', w', ev), h')" by (metis surj_pair)
  have "rq_method exPut = ''PUT''" "w_code (fst (snd (fst ?run))) = Some StatusCreated" "bs_written (fst (fst ?run)) = 4"
    by code_simp+
  with uploads_are_not_activity [OF run] run show ?thesis by auto
qed

section \<open>Base64\<close>

lemma b64_inverse: "b64val (b64 n) = Some (n mod 64)"
proof -
  have "list_all (\<lambda>i. b64val (base64Alphabet ! i) = Some i) [0 ..< 64]" by code_simp
  then have "\<forall>i < 64. b64val (base64Alphabet ! i) = Some i" by (simp add: list_all_iff)
  then show ?thesis by (simp add: b64_def)
qed

lemma b64_no_break: "b64 n \<noteq> CHR 0x0A \<and> b64 n \<noteq> CHR 0x0D"
proof -
  have "b64val (CHR 0x0A) = None" "b64val (CHR 0x0D) = None" by code_simp+
  then show ?thesis using b64_inverse [of n] by (metis option.distinct(1))
qed

lemma b64_pad: "b64val (CHR ''='') = None"
  by code_simp

lemma encode_no_break: "list_all (\<lambda>c. c \<noteq> CHR 0x0A \<and> c \<noteq> CHR 0x0D) (base64Encode s)"
  by (induction s rule: base64Encode.induct) (auto simp: Let_def b64_no_break)

lemma high_low:
  fixes a b k :: nat
  assumes "b < k" "a < m" "m * k = 64"
  shows "(a * k + b) mod 64 = a * k + b" "(a * k + b) div k = a" "(a * k + b) mod k = b"
proof -
  have "a * k + b < Suc a * k" using assms(1) by simp
  also have "\<dots> \<le> m * k" using assms(2) by (intro mult_le_mono1) simp
  finally show "(a * k + b) mod 64 = a * k + b" using assms(3) by simp
qed (use assms in simp_all)

lemma sextets_char:
  fixes a b c :: char
  defines "x \<equiv> of_char a :: nat" and "y \<equiv> of_char b :: nat" and "z \<equiv> of_char c :: nat"
  shows "x div 4 mod 64 * 4 + (x mod 4 * 16 + y div 16) mod 64 div 16 = x"
    "(x mod 4 * 16 + y div 16) mod 64 mod 16 * 16 + (y mod 16 * 4 + z div 64) mod 64 div 4 = y"
    "(y mod 16 * 4 + z div 64) mod 64 mod 4 * 64 + z mod 64 = z"
    "x div 4 mod 64 * 4 + x * 16 mod 64 div 16 = x"
    "(x mod 4 * 16 + y div 16) mod 64 mod 16 * 16 + y mod 16 = y"
proof -
  have byte: "x < 256" "y < 256" "z < 256" unfolding x_def y_def z_def by (rule of_char_bound)+
  then have lt: "y div 16 < 16" "z div 64 < 4" "x div 4 < 64"
    by (auto intro!: less_mult_imp_div_less)
  note a = high_low [of "y div 16" 16 "x mod 4" 4, OF lt(1)] and b = high_low [of "z div 64" 4 "y mod 16" 16, OF lt(2)]
  have "x * 16 mod 64 = x mod 4 * 16" using mult_mod_left [of x 4 16] by simp
  with a b lt show "x div 4 mod 64 * 4 + (x mod 4 * 16 + y div 16) mod 64 div 16 = x"
    "(x mod 4 * 16 + y div 16) mod 64 mod 16 * 16 + (y mod 16 * 4 + z div 64) mod 64 div 4 = y"
    "(y mod 16 * 4 + z div 64) mod 64 mod 4 * 64 + z mod 64 = z"
    "x div 4 mod 64 * 4 + x * 16 mod 64 div 16 = x"
    "(x mod 4 * 16 + y div 16) mod 64 mod 16 * 16 + y mod 16 = y"
    by simp_all
qed

text \<open>
  The CA certificate that is published in the status can be read back: decoding undoes
  the encoding for every byte string.
\<close>

theorem ca_roundtrip: "base64Decode (base64Encode s) = Some s"
proof -
  have "b64groups (base64Encode s) = Some s"
    by (induction s rule: base64Encode.induct)
      (simp_all add: Let_def b64_inverse b64_pad sextets_char)
  moreover have "filter (\<lambda>c. c \<noteq> CHR 0x0A \<and> c \<noteq> CHR 0x0D) (base64Encode s) = base64Encode s"
    using encode_no_break [of s] by (simp add: list_all_iff)
  ultimately show ?thesis by (simp add: base64Decode_def)
qed

end
