(* ===== verification/Startup.thy ===== *)
theory Startup
  imports Server Populator Data_Export_Reconcile
begin

text \<open>
  The configuration of the controllers, and the start of the data server: the flags of \<open>internal/config/config.go\<close>, the certificates of
  \<open>internal/certutil/bundle.go\<close> and the sequence of \<open>main\<close> in \<open>cmd/main.go\<close>, up to the point
  where it waits for a signal. The flag parser, the cryptography, the file system and the
  parser of durations are parameters. An exit with status 1 is an error value. The goroutines
  that \<open>main\<close> starts are modelled in the theories of the timer and of the routes; if one of them
  exits the process, the requests sent here are a prefix of those of the model.
\<close>

section \<open>Configuration of the controllers\<close>

text \<open>
  \<open>NewConfig\<close> of the data manager (\<open>src/common/config\<close>) and of the request controllers
  (\<open>src/images/controller/pkg/config\<close>), over the environment variables, of which an unset one
  is empty, and the namespace file of the service account.
\<close>

record commonOptions =
  co_loglevel :: string
  co_healthProbeBindAddress :: string
  co_controllerNamespace :: string
  co_originIngressNamespace :: string
  co_requeueStorageClassInterval :: duration
  co_leaderElection :: bool
  co_leaderElectionID :: string

definition orDefault :: "string \<Rightarrow> string \<Rightarrow> string" where
  "orDefault v d = (if v = [] then d else v)"

definition controllerNamespaceOf :: "(string \<Rightarrow> string) \<Rightarrow> string res \<Rightarrow> string" where
  "controllerNamespaceOf getenv namespaceFile =
     (if getenv ''CONTROLLER_NAMESPACE'' \<noteq> [] then getenv ''CONTROLLER_NAMESPACE''
      else case namespaceFile of Inl _ \<Rightarrow> ''d8-storage-foundation'' | Inr ns \<Rightarrow> ns)"

definition NewCommonConfig :: "(string \<Rightarrow> string) \<Rightarrow> string res \<Rightarrow> commonOptions" where
  "NewCommonConfig getenv namespaceFile =
     (let ha = (getenv ''HA_MODE'' = ''true'') in
      \<lparr>co_loglevel = orDefault (getenv ''LOG_LEVEL'') ''3'',
       co_healthProbeBindAddress = orDefault (getenv ''HEALTH_PROBE_BIND_ADDRESS'') '':8081'',
       co_controllerNamespace = controllerNamespaceOf getenv namespaceFile,
       co_originIngressNamespace = orDefault (getenv ''ORIGIN_INGRESS_NAMESPACE'') ''d8-user-authn'',
       co_requeueStorageClassInterval = 10,
       co_leaderElection = ha,
       co_leaderElectionID = (if ha then ''storage-foundation.deckhouse.io'' else [])\<rparr>)"

definition parseDurationEnv ::
  "(string \<Rightarrow> duration res) \<Rightarrow> (string \<Rightarrow> string) \<Rightarrow> string \<Rightarrow> duration \<Rightarrow> duration" where
  "parseDurationEnv parseDuration getenv envName defaultValue =
     (if getenv envName = [] then defaultValue
      else case parseDuration (getenv envName) of Inl _ \<Rightarrow> defaultValue | Inr d \<Rightarrow> d)"

record controllerOptions =
  ro_loglevel :: string
  ro_healthProbeBindAddress :: string
  ro_controllerNamespace :: string
  ro_snapshotTTL :: duration
  ro_detachTTL :: duration

definition NewControllerConfig ::
  "(string \<Rightarrow> duration res) \<Rightarrow> (string \<Rightarrow> string) \<Rightarrow> string res \<Rightarrow> controllerOptions" where
  "NewControllerConfig parseDuration getenv namespaceFile =
     \<lparr>ro_loglevel = orDefault (getenv ''LOG_LEVEL'') ''3'',
      ro_healthProbeBindAddress = orDefault (getenv ''HEALTH_PROBE_BIND_ADDRESS'') '':8081'',
      ro_controllerNamespace = controllerNamespaceOf getenv namespaceFile,
      ro_snapshotTTL = parseDurationEnv parseDuration getenv ''RETENTION_SNAPSHOT_TTL'' (24 * Hour),
      ro_detachTTL = parseDurationEnv parseDuration getenv ''RETENTION_DETACH_TTL'' (24 * Hour)\<rparr>"

text \<open>
  Both programs of a deployment work in the same, non-empty namespace, unless the file of the
  service account is empty; an election without a name is never configured.
\<close>

lemma controllers_share_namespace:
  "co_controllerNamespace (NewCommonConfig getenv f) = ro_controllerNamespace (NewControllerConfig p getenv f)"
  "f \<noteq> Inr [] \<Longrightarrow> ro_controllerNamespace (NewControllerConfig p getenv f) \<noteq> []"
  "co_leaderElection (NewCommonConfig getenv f) \<longleftrightarrow> co_leaderElectionID (NewCommonConfig getenv f) \<noteq> []"
  by (auto simp: NewCommonConfig_def NewControllerConfig_def controllerNamespaceOf_def Let_def split: sum.splits)

section \<open>Flags\<close>

record serverConfig =
  sv_port :: string
  sv_mode :: string
  sv_operation :: string
  sv_path :: string
  sv_ttl :: string
  sv_name :: string
  sv_caSecretName :: string
  sv_serviceName :: string
  sv_controllerNamespace :: string
  sv_url :: urlOpt

definition serverFlags :: strmap where
  "serverFlags =
     [(''mode'', ''filesystem''), (''port'', ''8080''), (''path'', ''/''), (''ttl'', ''1m''),
      (''data-export-namespace'', ''default_namespace''), (''data-export-name'', ''default_name''),
      (''export-target-kind-short'', ''pvc''), (''export-target-name'', ''default-target''),
      (''data-export-ca-secret-name'', ''default-ca-secret''),
      (''data-export-service-name'', ''default-service''),
      (''controller-namespace'', ''d8-data-exporter''), (''operation'', ''export'')]"

definition Parse :: "(strmap \<Rightarrow> string list \<Rightarrow> strmap res) \<Rightarrow> string list \<Rightarrow> serverConfig res" where
  "Parse execute args =
     (case execute serverFlags args of
        Inl err \<Rightarrow> Inl err
      | Inr m \<Rightarrow>
          let flag = index_str m in
          Inr \<lparr>sv_port = flag ''port'', sv_mode = flag ''mode'', sv_operation = flag ''operation'',
            sv_path = flag ''path'', sv_ttl = flag ''ttl'', sv_name = flag ''data-export-name'',
            sv_caSecretName = flag ''data-export-ca-secret-name'',
            sv_serviceName = flag ''data-export-service-name'',
            sv_controllerNamespace = flag ''controller-namespace'',
            sv_url = \<lparr>uo_namespace = flag ''data-export-namespace'',
              uo_targetKindShort = flag ''export-target-kind-short'',
              uo_targetName = flag ''export-target-name''\<rparr>\<rparr>)"

section \<open>Certificates\<close>

record certTemplate =
  ctp_serial :: int
  ctp_commonName :: string
  ctp_notBefore :: time
  ctp_notAfter :: time
  ctp_keyUsage :: "string list"
  ctp_extKeyUsage :: "string list"
  ctp_isCA :: bool
  ctp_ipAddresses :: "string list"
  ctp_dnsNames :: "string list"

text \<open>
  What is used of \<open>net\<close>, \<open>crypto\<close> and \<open>time\<close>: keys, serial numbers and readings of the clock come
  by the number of the call;
  a certificate is made of a template, the template of its issuer, the key it certifies and the
  key that signs it.
\<close>

record cryptoLib =
  cl_parseIP :: "string \<Rightarrow> string option"
  cl_generateKey :: "nat \<Rightarrow> string res"
  cl_randInt :: "nat \<Rightarrow> int res"
  cl_createCertificate :: "certTemplate \<Rightarrow> certTemplate \<Rightarrow> string \<Rightarrow> string \<Rightarrow> string res"
  cl_marshalKey :: "string \<Rightarrow> string res"
  cl_encodePEM :: "string \<Rightarrow> string \<Rightarrow> string"
  cl_keyPair :: "string \<Rightarrow> string \<Rightarrow> string res"
  cl_now :: "nat \<Rightarrow> time"

record tlsBundle =
  tb_serverCert :: string
  tb_caCertPEM :: string

definition wrapR :: "string \<Rightarrow> 'a res \<Rightarrow> 'a res" where
  "wrapR msg r = (case r of Inl e \<Rightarrow> Inl (Errorf msg [e]) | Inr x \<Rightarrow> Inr x)"

definition thenR :: "'a res \<Rightarrow> ('a \<Rightarrow> 'b res) \<Rightarrow> 'b res" where
  "thenR r f = (case r of Inl e \<Rightarrow> Inl e | Inr x \<Rightarrow> f x)"

definition caTemplate :: "int \<Rightarrow> time \<Rightarrow> time \<Rightarrow> duration \<Rightarrow> certTemplate" where
  "caTemplate sn t1 t2 ttl =
     \<lparr>ctp_serial = sn, ctp_commonName = ''data-exporter-CA'', ctp_notBefore = t1 - Minute,
      ctp_notAfter = t2 + ttl, ctp_keyUsage = [''CertSign'', ''CRLSign''], ctp_extKeyUsage = [],
      ctp_isCA = True, ctp_ipAddresses = [], ctp_dnsNames = []\<rparr>"

definition serverTemplate ::
  "int \<Rightarrow> time \<Rightarrow> time \<Rightarrow> duration \<Rightarrow> string \<Rightarrow> string \<Rightarrow> string \<Rightarrow> string \<Rightarrow> certTemplate" where
  "serverTemplate sn t1 t2 ttl ip ipParsed host ns =
     \<lparr>ctp_serial = sn, ctp_commonName = ip, ctp_notBefore = t1 - Minute, ctp_notAfter = t2 + ttl,
      ctp_keyUsage = [''KeyEncipherment'', ''DigitalSignature''], ctp_extKeyUsage = [''ServerAuth''],
      ctp_isCA = False, ctp_ipAddresses = [ipParsed],
      ctp_dnsNames =
        (if host \<noteq> []
         then [host, host @ ''.'' @ ns, host @ ''.'' @ ns @ ''.svc'', host @ ''.'' @ ns @ ''.svc.cluster.local'']
         else [])\<rparr>"

definition GenerateTLSBundle ::
  "cryptoLib \<Rightarrow> string \<Rightarrow> string \<Rightarrow> string \<Rightarrow> duration \<Rightarrow> tlsBundle res" where
  "GenerateTLSBundle L ip host ns ttl =
     (case cl_parseIP L ip of
        None \<Rightarrow> Inl (Errorf ''invalid IP for SAN'' [])
      | Some ipParsed \<Rightarrow>
     if ttl \<le> 0 then Inl (Errorf ''invalid TTL'' [])
     else
     thenR (wrapR ''generate CA key'' (cl_generateKey L 0)) (\<lambda>caKey.
     thenR (wrapR ''generate serial number'' (cl_randInt L 0)) (\<lambda>sn.
     let caTpl = caTemplate sn (cl_now L 0) (cl_now L 1) ttl in
     thenR (wrapR ''create CA cert'' (cl_createCertificate L caTpl caTpl caKey caKey)) (\<lambda>caDER.
     thenR (wrapR ''generate server key'' (cl_generateKey L 1)) (\<lambda>srvKey.
     thenR (wrapR ''generate serial number'' (cl_randInt L 1)) (\<lambda>sn.
     let srvTpl = serverTemplate sn (cl_now L 2) (cl_now L 3) ttl ip ipParsed host ns in
     thenR (wrapR ''create server cert'' (cl_createCertificate L srvTpl caTpl srvKey caKey)) (\<lambda>srvDER.
     let caPEM = cl_encodePEM L ''CERTIFICATE'' caDER;
         srvCertPEM = cl_encodePEM L ''CERTIFICATE'' srvDER in
     thenR (wrapR ''MarshalECPrivateKey'' (cl_marshalKey L srvKey)) (\<lambda>srvKeyMarshalled.
     let srvKeyPEM = cl_encodePEM L ''EC PRIVATE KEY'' srvKeyMarshalled in
     thenR (wrapR ''X509KeyPair'' (cl_keyPair L srvCertPEM srvKeyPEM)) (\<lambda>srvTLS.
     Inr \<lparr>tb_serverCert = srvTLS, tb_caCertPEM = caPEM\<rparr>)))))))))"

section \<open>The sequence of main\<close>

definition tlsTTL :: duration where "tlsTTL = 24 * Hour"

definition volumeModeOf :: "string \<Rightarrow> volumeMode option" where
  "volumeModeOf m =
     (if m = ''block'' then Some VolumeModeBlock
      else if m = ''filesystem'' then Some VolumeModeFilesystem else None)"

text \<open>
  The environment of the process. The constructors of the handlers take the mode and the path;
  they are modelled with their components and succeed or fail with the file system.
\<close>

record 's serverLib =
  sl_execute :: "strmap \<Rightarrow> string list \<Rightarrow> strmap res"
  sl_client :: "unit res"
  sl_exporter :: "volumeMode \<Rightarrow> string \<Rightarrow> 's handler res"
  sl_importer :: "volumeMode \<Rightarrow> string \<Rightarrow> 's handler res"
  sl_parseDuration :: "string \<Rightarrow> duration res"
  sl_crypto :: cryptoLib
  sl_podIP :: string
  sl_clusterCA :: "string res"
  sl_appendCerts :: "string \<Rightarrow> bool"

definition invalidMode :: "string \<Rightarrow> gerr" where
  "invalidMode m = Errorf (''invalid program argument, mode '' @ m) []"

definition NewExporterHandler :: "'s serverLib \<Rightarrow> string \<Rightarrow> string \<Rightarrow> 's handler res" where
  "NewExporterHandler L path mode =
     (case volumeModeOf mode of None \<Rightarrow> Inl (invalidMode mode) | Some m \<Rightarrow> sl_exporter L m path)"

definition NewImportHandler :: "'s serverLib \<Rightarrow> string \<Rightarrow> string \<Rightarrow> 's handler res" where
  "NewImportHandler L path mode =
     (case volumeModeOf mode of None \<Rightarrow> Inl (invalidMode mode) | Some m \<Rightarrow> sl_importer L m path)"

definition mainHTTPHandler :: "'s serverLib \<Rightarrow> serverConfig \<Rightarrow> 's handler res" where
  "mainHTTPHandler L cfg =
     (if sv_operation cfg = OperationExport then NewExporterHandler L (sv_path cfg) (sv_mode cfg)
      else if sv_operation cfg = OperationImport then NewImportHandler L (sv_path cfg) (sv_mode cfg)
      else Inl (Errorf (''invalid operation: '' @ sv_operation cfg) []))"

definition clientCAs :: "'s serverLib \<Rightarrow> string res" where
  "clientCAs L =
     (case sl_clusterCA L of
        Inl err \<Rightarrow> Inl err
      | Inr ca \<Rightarrow> if sl_appendCerts L ca then Inr ca else Inl (Errorf ''invalid CA certificate'' []))"

record 's runningServer =
  rs_addr :: string
  rs_certificate :: string
  rs_clientCAs :: string
  rs_timer :: idleTimer
  rs_serve :: "'s timed"

text \<open>\<open>main\<close> with the arguments after the name of the program; \<open>None\<close> is the throwaway consumer.\<close>

definition serverMain :: "env \<Rightarrow> 's serverLib \<Rightarrow> string list \<Rightarrow> 's runningServer option res io" where
  "serverMain E L args =
     (if args \<noteq> [] \<and> hd args = ''dummy'' then ret (Inr None)
      else
      thenE (ret (Parse (sl_execute L) args)) (\<lambda>parsed.
      let cfg = parsed\<lparr>sv_port := '':'' @ sv_port parsed\<rparr>;
          manager = (uo_namespace (sv_url cfg), sv_name cfg) in
      thenE (ret (sl_client L)) (\<lambda>_.
      thenE (ret (mainHTTPHandler L cfg)) (\<lambda>handler. do {
      t \<leftarrow> now E;
      thenE (ret (NewTTLControl (sl_parseDuration L) (sv_ttl cfg) t)) (\<lambda>timer.
      thenE (ret (GenerateTLSBundle (sl_crypto L) (sl_podIP L) (sv_serviceName cfg)
        (sv_controllerNamespace cfg) tlsTTL)) (\<lambda>tlsBundle.
      thenE (CreateOrUpdateDataManagerCASecretIfNeeded E (sv_controllerNamespace cfg)
        (sv_caSecretName cfg) (tb_caCertPEM tlsBundle)) (\<lambda>_.
      thenE (ret (clientCAs L)) (\<lambda>kubernetesCACertPool.
      case volumeModeOf (sv_mode cfg) of
        None \<Rightarrow> ret (Inl (invalidMode (sv_mode cfg)))
      | Some mode \<Rightarrow>
      thenE (UpdateDataManagerCA E (sv_operation cfg) manager (tb_caCertPEM tlsBundle)) (\<lambda>_.
      thenE (SetServerState E (sv_operation cfg) manager ServerStateReady) (\<lambda>_.
      ret (Inr (Some
        \<lparr>rs_addr = sv_port cfg, rs_certificate = tb_serverCert tlsBundle,
         rs_clientCAs = kubernetesCACertPool, rs_timer = timer,
         rs_serve = dataServer E (sv_operation cfg) mode (sv_url cfg) (sv_name cfg) handler\<rparr>)))))))) }))))"

section \<open>What the certificates are good for\<close>


lemma thenR_Inr [simp]: "thenR r f = Inr y \<longleftrightarrow> (\<exists>x. r = Inr x \<and> f x = Inr y)"
  by (cases r) (simp_all add: thenR_def)

lemma wrapR_Inr [simp]: "wrapR msg r = Inr x \<longleftrightarrow> r = Inr x"
  by (cases r) (simp_all add: wrapR_def)


section \<open>The order of the signals\<close>

definition secretStored :: "hist \<Rightarrow> nsname \<Rightarrow> string \<Rightarrow> bool" where
  "secretStored h n pem \<longleftrightarrow>
     (\<exists>s. index_str (sec_data s) ''ca.crt'' = pem \<and>
        ((Get KSecret n, RObj (OSecret s)) \<in> set h \<or>
         keyOf (sec_meta s) = n \<and> accepted h (Create (OSecret s)) \<or>
         (\<exists>old. (Get KSecret n, RObj (OSecret old)) \<in> set h \<and> sec_meta s = sec_meta old \<and>
            accepted h (Update (OSecret s)))))"

definition caPublished :: "hist \<Rightarrow> string \<Rightarrow> bool" where
  "caPublished h pem \<longleftrightarrow>
     (\<exists>d. ds_ca (mgrStatus d) = base64Encode pem \<and>
        (readAs h (mgrObj d) \<or> accepted h (StatusUpdate (mgrObj d))))"

inductive startWrite :: "nsname \<Rightarrow> string \<Rightarrow> hist \<Rightarrow> req \<Rightarrow> bool" for n pem h where
  start_read: "\<not> isWrite r \<Longrightarrow> startWrite n pem h r"
| start_secret: "keyOf (sec_meta s) = n \<Longrightarrow> index_str (sec_data s) ''ca.crt'' = pem \<Longrightarrow>
    startWrite n pem h (Create (OSecret s))"
| start_rotate: "(Get KSecret n, RObj (OSecret old)) \<in> set h \<Longrightarrow> index_str (sec_data old) ''ca.crt'' \<noteq> pem \<Longrightarrow>
    startWrite n pem h (Update (OSecret (old\<lparr>sec_data := AList.update ''ca.crt'' pem (sec_data old)\<rparr>)))"
| start_ca: "secretStored h n pem \<Longrightarrow> readAs h (mgrObj d) \<Longrightarrow>
    startWrite n pem h (StatusUpdate (mgrObj (mgrSetStatus d ((mgrStatus d)\<lparr>ds_ca := base64Encode pem\<rparr>))))"
| start_ready: "secretStored h n pem \<Longrightarrow> caPublished h pem \<Longrightarrow> readAs h (mgrObj d) \<Longrightarrow>
    ds_serverState (mgrStatus d) = [] \<Longrightarrow>
    startWrite n pem h (StatusUpdate (mgrObj (withServerState d ServerStateReady)))"

lemma startWrite_Get [simp]: "startWrite n pem h (Get k m)"
  by (rule start_read) simp

lemma secretStored_logged: "secretStored h n pem \<Longrightarrow> secretStored (logged h r a) n pem"
  unfolding secretStored_def by auto

lemma caPublished_logged: "caPublished h pem \<Longrightarrow> caPublished (logged h r a) pem"
  unfolding caPublished_def by auto

lemmas start_logged = secretStored_logged caPublished_logged

lemma secret_kept:
  assumes "obeys (startWrite (ns, name) pem) h"
  shows "wp (CreateOrUpdateDataManagerCASecretIfNeeded E ns name pem)
    (\<lambda>r h'. obeys (startWrite (ns, name) pem) h' \<and> (\<forall>x. r = Inr x \<longrightarrow> secretStored h' (ns, name) pem)) h"
proof -
  let ?R = "startWrite (ns, name) pem" and ?new = "\<lparr>sec_meta = emptyMeta\<lparr>m_name := name, m_namespace := ns\<rparr>,
    sec_type = ''Opaque'', sec_data = [(''ca.crt'', pem)]\<rparr>"
  have create: "?R g (Create (OSecret ?new))" for g
    by (rule start_secret) (simp_all add: keyOf_def index_str_def)
  have created: "secretStored (logged g (Create (OSecret ?new)) a) (ns, name) pem" if "respErr a = Inr x" for g a x
    using that unfolding secretStored_def by (intro exI [of _ ?new]) (auto simp: keyOf_def index_str_def)
  have updated: "secretStored (logged (logged h (Get KSecret (ns, name)) (RObj (OSecret old)))
      (Update (OSecret (old\<lparr>sec_data := AList.update ''ca.crt'' pem (sec_data old)\<rparr>))) a) (ns, name) pem"
    if "respErr a = Inr x" for old a x
    using that unfolding secretStored_def
    by (intro exI [of _ "old\<lparr>sec_data := AList.update ''ca.crt'' pem (sec_data old)\<rparr>"]) auto
  have found: "secretStored (logged h (Get KSecret (ns, name)) (RObj (OSecret old))) (ns, name)
      (index_str (sec_data old) ''ca.crt'')" for old
    unfolding secretStored_def by auto
  show ?thesis
    unfolding CreateOrUpdateDataManagerCASecretIfNeeded_def
    using assms by (auto simp: wp_rules create created updated found intro!: wp_getObj wp_exec start_rotate
        split: sum.splits)
qed

lemma ca_kept:
  assumes "env_ok E" "obeys (startWrite n pem) h" "secretStored h n pem"
  shows "wp (UpdateDataManagerCA E op m pem)
    (\<lambda>r h'. obeys (startWrite n pem) h' \<and> secretStored h' n pem \<and> (\<forall>x. r = Inr x \<longrightarrow> caPublished h' pem)) h"
proof -
  let ?I = "\<lambda>h. obeys (startWrite n pem) h \<and> secretStored h n pem"
  let ?d = "\<lambda>d. mgrSetStatus d ((mgrStatus d)\<lparr>ds_ca := base64Encode pem\<rparr>)"
  have found: "caPublished (logged g (Get k m) (RObj (mgrObj d))) pem"
    if "ds_ca (mgrStatus d) = base64Encode pem" for g k m d
    using that unfolding caPublished_def by auto
  have sent: "caPublished (logged g (StatusUpdate (mgrObj (?d d))) a) pem" if "respErr a = Inr x" for g d a x
    using that unfolding caPublished_def by (intro exI [of _ "?d d"]) auto
  show ?thesis
    unfolding UpdateDataManagerCA_def Let_def
    using assms(2,3) by (auto simp: wp_rules found sent start_logged intro!: wp_RetryOnConflict [OF assms(1), where I = ?I]
        wp_GetDataManager wp_exec start_ca split: sum.splits)
qed

lemma ready_kept:
  assumes "env_ok E" "obeys (startWrite n pem) h" "secretStored h n pem" "caPublished h pem"
  shows "wp (SetServerState E op m ServerStateReady) (\<lambda>_. obeys (startWrite n pem)) h"
proof -
  let ?I = "\<lambda>h. obeys (startWrite n pem) h \<and> secretStored h n pem \<and> caPublished h pem"
  have unset: "ds_serverState (mgrStatus d) = []" if "shouldSetServerState (ds_serverState (mgrStatus d)) ServerStateReady" for d
    using that by (simp add: shouldSetServerState_def split: if_splits)
  show ?thesis
    unfolding SetServerState_def
    using assms(2-4) by (auto simp: wp_rules start_logged unset intro!: wp_RetryOnConflict [OF assms(1), where I = ?I]
        wp_GetDataManager wp_exec start_ready split: sum.splits)
qed

text \<open>The secret that \<open>main\<close> keeps for the configuration.\<close>

definition caSecret :: "serverConfig \<Rightarrow> nsname" where
  "caSecret cfg = (sv_controllerNamespace cfg, sv_caSecretName cfg)"

definition bundleOf :: "'s serverLib \<Rightarrow> serverConfig \<Rightarrow> tlsBundle res" where
  "bundleOf L cfg =
     GenerateTLSBundle (sl_crypto L) (sl_podIP L) (sv_serviceName cfg) (sv_controllerNamespace cfg) tlsTTL"

lemma serverMain_kept:
  assumes "env_ok E" "Parse (sl_execute L) args = Inr cfg"
  shows "wp (serverMain E L args) (\<lambda>_ h. h = [] \<or>
    (\<exists>b. bundleOf L cfg = Inr b \<and> obeys (startWrite (caSecret cfg) (tb_caCertPEM b)) h)) []"
proof (cases "bundleOf L cfg")
  case (Inl e)
  then show ?thesis
    using assms(2) unfolding serverMain_def bundleOf_def
    by (auto simp: wp_rules Let_def split: sum.splits)
next
  case (Inr b)
  let ?R = "startWrite (caSecret cfg) (tb_caCertPEM b)"
  note secret = secret_kept [of "sv_controllerNamespace cfg" "sv_caSecretName cfg" "tb_caCertPEM b", folded caSecret_def]
  from Inr show ?thesis
    using assms(2) unfolding serverMain_def bundleOf_def
    by (auto simp: wp_rules Let_def split: sum.splits option.splits
      intro!: wp_mono [OF secret] wp_mono [OF ca_kept [OF assms(1)]] wp_mono [OF ready_kept [OF assms(1)]])
qed

text \<open>
  C29. Whatever the API server answers, everything a starting data server writes is one of these,
  for the certificate of the one authority it generated: the secret of its configuration, created
  with the certificate or, if it was read with another one, changed to it; the certificate in the
  status of the DataExport or DataImport, after the secret is known to hold it; and the signal
  that the server is ready, after the secret holds the certificate and the status shows it, and
  only on an object read without any server state. Everything else of the object is kept as read.
\<close>

theorem server_ready_follows_ca:
  assumes "env_ok E" "Parse (sl_execute L) args = Inr cfg"
    and "snd (run_state (serverMain E L args) []) = p @ (r, a) # s" "isWrite r"
  shows "\<exists>b pem. GenerateTLSBundle (sl_crypto L) (sl_podIP L) (sv_serviceName cfg)
      (sv_controllerNamespace cfg) tlsTTL = Inr b \<and> pem = tb_caCertPEM b \<and>
    ((\<exists>x. keyOf (sec_meta x) = caSecret cfg \<and> index_str (sec_data x) ''ca.crt'' = pem \<and> r = Create (OSecret x)) \<or>
     (\<exists>old. (Get KSecret (caSecret cfg), RObj (OSecret old)) \<in> set p \<and> index_str (sec_data old) ''ca.crt'' \<noteq> pem \<and>
        r = Update (OSecret (old\<lparr>sec_data := AList.update ''ca.crt'' pem (sec_data old)\<rparr>))) \<or>
     secretStored p (caSecret cfg) pem \<and> (\<exists>d. readAs p (mgrObj d) \<and>
        (r = StatusUpdate (mgrObj (mgrSetStatus d ((mgrStatus d)\<lparr>ds_ca := base64Encode pem\<rparr>))) \<or>
         caPublished p pem \<and> ds_serverState (mgrStatus d) = [] \<and>
           r = StatusUpdate (mgrObj (withServerState d ServerStateReady)))))"
proof -
  from serverMain_kept [OF assms(1,2)] obtain b where b: "bundleOf L cfg = Inr b"
    "obeys (startWrite (caSecret cfg) (tb_caCertPEM b)) (p @ (r, a) # s)"
    unfolding wp_run assms(3) by auto
  from obeys_split [OF b(2)] assms(4) b(1) show ?thesis
    by (cases rule: startWrite.cases) (fastforce simp: bundleOf_def)+
qed

section \<open>The server that was asked for\<close>

text \<open>
  What is used of the flag parser: arguments of the form \<open>--name=value\<close>, each for another
  declared flag, give these flags their values and leave the others at their defaults.
\<close>

definition flagArg :: "string \<times> string \<Rightarrow> string" where
  "flagArg nv = ''--'' @ fst nv @ ''='' @ snd nv"

definition flagName :: "string \<Rightarrow> bool" where
  "flagName n \<longleftrightarrow> n \<noteq> [] \<and> hd n \<noteq> CHR ''-'' \<and> CHR ''='' \<notin> set n"

definition flagValue :: "strmap \<Rightarrow> strmap \<Rightarrow> string \<Rightarrow> string" where
  "flagValue flags vals n = (if has_key vals n then index_str vals n else index_str flags n)"

definition parsesFlags :: "(strmap \<Rightarrow> string list \<Rightarrow> strmap res) \<Rightarrow> bool" where
  "parsesFlags execute \<longleftrightarrow>
     (\<forall>flags vals. distinct (map fst vals) \<and> fst ` set vals \<subseteq> fst ` set flags \<and>
        (\<forall>n \<in> fst ` set flags. flagName n) \<longrightarrow>
        (\<exists>m. execute flags (map flagArg vals) = Inr m \<and>
           (\<forall>n \<in> fst ` set flags. index_str m n = flagValue flags vals n)))"

lemma Parse_flags:
  assumes "parsesFlags execute" "distinct (map fst vals)" "fst ` set vals \<subseteq> fst ` set serverFlags"
  defines "v \<equiv> flagValue serverFlags vals"
  shows "Parse execute (map flagArg vals) =
    Inr \<lparr>sv_port = v ''port'', sv_mode = v ''mode'', sv_operation = v ''operation'', sv_path = v ''path'',
      sv_ttl = v ''ttl'', sv_name = v ''data-export-name'', sv_caSecretName = v ''data-export-ca-secret-name'',
      sv_serviceName = v ''data-export-service-name'', sv_controllerNamespace = v ''controller-namespace'',
      sv_url = \<lparr>uo_namespace = v ''data-export-namespace'', uo_targetKindShort = v ''export-target-kind-short'',
        uo_targetName = v ''export-target-name''\<rparr>\<rparr>"
proof -
  have "\<forall>n \<in> fst ` set serverFlags. flagName n" by (simp add: serverFlags_def flagName_def)
  then obtain m where m: "execute serverFlags (map flagArg vals) = Inr m"
    "\<forall>n \<in> fst ` set serverFlags. index_str m n = v n"
    using assms(1) [unfolded parsesFlags_def, rule_format, of vals serverFlags] assms(2,3) unfolding v_def by blast
  from m(2) have "index_str m n = v n" if "n \<in> set (map fst serverFlags)" for n
    using that by auto
  then show ?thesis by (simp add: Parse_def m(1) Let_def) (simp add: serverFlags_def)
qed












section \<open>A server that starts\<close>

text \<open>
  A parser that reads arguments as they are documented, cryptography that names what it makes,
  and a cluster with the object, where the server finds no secret and no certificate yet.
\<close>

definition refArg :: "string \<Rightarrow> string \<times> string" where
  "refArg a = (takeWhile (\<lambda>c. c \<noteq> CHR ''='') (drop 2 a), drop 1 (dropWhile (\<lambda>c. c \<noteq> CHR ''='') (drop 2 a)))"

definition refExecute :: "strmap \<Rightarrow> string list \<Rightarrow> strmap res" where
  "refExecute flags args =
     (if list_all (\<lambda>a. take 2 a = ''--'' \<and> CHR ''='' \<in> set a \<and> has_key flags (fst (refArg a))) args
      then Inr (map refArg args @ flags)
      else Inl (Errorf ''unknown flag'' []))"

lemma refArg_flag: "flagName n \<Longrightarrow> refArg (flagArg (n, v)) = (n, v)"
  by (simp add: refArg_def flagArg_def flagName_def takeWhile_append dropWhile_append)

lemma refExecute_ok: "parsesFlags refExecute"
  unfolding parsesFlags_def
proof (intro allI impI, elim conjE)
  fix flags vals :: strmap
  assume sub: "fst ` set vals \<subseteq> fst ` set flags" and names: "\<forall>n \<in> fst ` set flags. flagName n"
  have arg: "refArg (flagArg nv) = nv" if "nv \<in> set vals" for nv
  proof -
    have "flagName (fst nv)" using sub names that by blast
    then show ?thesis using refArg_flag [of "fst nv" "snd nv"] by simp
  qed
  have vals: "map refArg (map flagArg vals) = vals"
    using arg by (simp add: map_idI)
  have "list_all (\<lambda>a. take 2 a = ''--'' \<and> CHR ''='' \<in> set a \<and> has_key flags (fst (refArg a))) (map flagArg vals)"
    unfolding list_all_iff set_map
  proof (intro ballI, elim imageE, intro conjI)
    fix a nv assume "nv \<in> set vals" and a: "a = flagArg nv"
    then have "fst nv \<in> fst ` set flags" using sub by blast
    then show "has_key flags (fst (refArg a))"
      using arg [OF \<open>nv \<in> set vals\<close>] by (simp add: a has_key_def map_of_eq_None_iff)
  qed (simp_all add: flagArg_def)
  then have "refExecute flags (map flagArg vals) = Inr (vals @ flags)"
    using vals by (simp add: refExecute_def)
  then show "\<exists>m. refExecute flags (map flagArg vals) = Inr m \<and>
      (\<forall>n \<in> fst ` set flags. index_str m n = flagValue flags vals n)"
    by (auto simp: flagValue_def index_str_def has_key_def map_add_def split: option.splits)
qed


definition exCrypto :: cryptoLib where
  "exCrypto = \<lparr>cl_parseIP = Some, cl_generateKey = (\<lambda>i. Inr (''key'')), cl_randInt = (\<lambda>i. Inr 7),
     cl_createCertificate = (\<lambda>tpl issuer pub key. Inr (ctp_commonName tpl)), cl_marshalKey = Inr,
     cl_encodePEM = (\<lambda>t der. der), cl_keyPair = (\<lambda>cert key. Inr cert), cl_now = int\<rparr>"

lemma exCrypto_bundle:
  "GenerateTLSBundle exCrypto ''10.0.0.1'' ''svc'' ''d8'' tlsTTL =
     Inr \<lparr>tb_serverCert = ''10.0.0.1'', tb_caCertPEM = ''data-exporter-CA''\<rparr>"
  by (simp add: GenerateTLSBundle_def exCrypto_def thenR_def wrapR_def Let_def caTemplate_def serverTemplate_def
      tlsTTL_def Hour_def Minute_def Second_def)


definition exServerLib :: "unit serverLib" where
  "exServerLib = \<lparr>sl_execute = refExecute, sl_client = Inr (),
     sl_exporter = (\<lambda>m p. Inr (\<lambda>s r w. ret (s, w))), sl_importer = (\<lambda>m p. Inr (\<lambda>s r w. ret (s, w))),
     sl_parseDuration = (\<lambda>d. Inr Minute), sl_crypto = exCrypto, sl_podIP = ''10.0.0.1'',
     sl_clusterCA = Inr ''cluster'', sl_appendCerts = (\<lambda>ca. True)\<rparr>"

lemma exServerLib_sel:
  "sl_client exServerLib = Inr ()" "sl_importer exServerLib m p = Inr (\<lambda>s r w. ret (s, w))"
  "sl_parseDuration exServerLib d = Inr Minute" "sl_crypto exServerLib = exCrypto"
  "sl_podIP exServerLib = ''10.0.0.1''" "sl_clusterCA exServerLib = Inr ''cluster''" "sl_appendCerts exServerLib ca"
  by (simp_all add: exServerLib_def)

definition exServerArgs :: "string list" where
  "exServerArgs = map flagArg [(''mode'', ''block''), (''data-export-namespace'', ''ns''), (''data-export-name'', ''imp''),
     (''data-export-ca-secret-name'', ''ca''), (''data-export-service-name'', ''svc''),
     (''controller-namespace'', ''d8''), (''operation'', ''import'')]"

definition exStarting :: "string \<Rightarrow> dataImport" where
  "exStarting ca = exImport\<lparr>di_status := (di_status exImport)\<lparr>ds_ca := ca, ds_serverState := []\<rparr>\<rparr>"

fun startSrv :: "hist \<Rightarrow> req \<Rightarrow> resp" where
  "startSrv h (Get k n) =
     (if k = KSecret then RErr NotFound
      else RObj (ODataImport (exStarting (if length h < 4 then [] else base64Encode ''data-exporter-CA''))))"
| "startSrv h r = ROk"

definition exServerConfig :: serverConfig where
  "exServerConfig = \<lparr>sv_port = ''8080'', sv_mode = ''block'', sv_operation = ''import'', sv_path = ''/'', sv_ttl = ''1m'',
     sv_name = ''imp'', sv_caSecretName = ''ca'', sv_serviceName = ''svc'', sv_controllerNamespace = ''d8'',
     sv_url = \<lparr>uo_namespace = ''ns'', uo_targetKindShort = ''pvc'', uo_targetName = ''default-target''\<rparr>\<rparr>"

lemma exServer_parse: "Parse (sl_execute exServerLib) exServerArgs = Inr exServerConfig"
proof -
  let ?vals = "[(''mode'', ''block''), (''data-export-namespace'', ''ns''), (''data-export-name'', ''imp''),
     (''data-export-ca-secret-name'', ''ca''), (''data-export-service-name'', ''svc''),
     (''controller-namespace'', ''d8''), (''operation'', ''import'')]"
  have "distinct (map fst ?vals)" "fst ` set ?vals \<subseteq> fst ` set serverFlags" by (simp_all add: serverFlags_def)
  from Parse_flags [OF refExecute_ok this] show ?thesis
    by (simp add: exServerLib_def exServerArgs_def exServerConfig_def flagValue_def has_key_def index_str_def serverFlags_def)
qed

abbreviation exStartRun :: hist where
  "exStartRun \<equiv> snd (run_state (serverMain (ref_env startSrv (\<lambda>_. 0)) exServerLib exServerArgs) [])"

abbreviation exReadyUpdate :: req where
  "exReadyUpdate \<equiv> StatusUpdate (ODataImport (exStarting (base64Encode ''data-exporter-CA'')
     \<lparr>di_status := (di_status (exStarting (base64Encode ''data-exporter-CA'')))\<lparr>ds_serverState := ServerStateReady\<rparr>\<rparr>))"

lemma exStart_run: "5 < length exStartRun" "exStartRun ! 5 = (exReadyUpdate, ROk)"
proof -
  let ?E = "ref_env startSrv (\<lambda>_. 0)"
  have args: "hd exServerArgs \<noteq> ''dummy''" by (simp add: exServerArgs_def flagArg_def)
  have "exStartRun = snd (run_state (thenE
      (CreateOrUpdateDataManagerCASecretIfNeeded ?E ''d8'' ''ca'' ''data-exporter-CA'') (\<lambda>_.
      thenE (UpdateDataManagerCA ?E ''import'' (''ns'', ''imp'') ''data-exporter-CA'') (\<lambda>_.
      SetServerState ?E ''import'' (''ns'', ''imp'') ServerStateReady))) [])"
    using args exCrypto_bundle
    by (simp add: serverMain_def exServer_parse exServerConfig_def mainHTTPHandler_def NewImportHandler_def
      volumeModeOf_def OperationImport_def OperationExport_def NewTTLControl_def clientCAs_def Let_def thenE_def now_def
      exServerLib_sel split: sum.splits prod.splits)
  then show "5 < length exStartRun" "exStartRun ! 5 = (exReadyUpdate, ROk)" by (simp; code_simp)+
qed

theorem server_ready_follows_ca_witness:
  "\<exists>p s. exStartRun = p @ (exReadyUpdate, ROk) # s \<and> secretStored p (''d8'', ''ca'') ''data-exporter-CA''"
proof -
  have h: "exStartRun = take 5 exStartRun @ (exReadyUpdate, ROk) # drop (Suc 5) exStartRun"
    using id_take_nth_drop [OF exStart_run(1)] unfolding exStart_run(2) .
  show ?thesis
    using server_ready_follows_ca [OF ref_env_ok exServer_parse h] h exCrypto_bundle
    by (auto simp: exServerConfig_def exServerLib_def caSecret_def)
qed

end
