(* ===== verification/Webhooks.thy ===== *)
theory Webhooks
  imports Data_Export_Reconcile
begin

text \<open>
  The admission webhooks, \<open>src/images/webhooks/handlers\<close>: the validation of a new DataExport and
  the mutation of a VolumeSnapshot. The webhook framework decodes the object and calls them; the
  result of making a client for the cluster is an argument.
\<close>

section \<open>Validation of a DataExport\<close>

text \<open>The operations of an admission review; the code distinguishes the creation.\<close>

datatype admissionOp = OperationCreate | OtherOperation string

record validatorResult =
  vr_valid :: bool
  vr_message :: string

definition DataExportValidateFunc :: "admissionOp \<Rightarrow> kobj \<Rightarrow> validatorResult" where
  "DataExportValidateFunc operation obj =
     (if operation \<noteq> OperationCreate then \<lparr>vr_valid = True, vr_message = []\<rparr>
      else (case decDataExport obj of
        None \<Rightarrow> \<lparr>vr_valid = False, vr_message = ''object is not a DataExport''\<rparr>
      | Some de \<Rightarrow>
          if de_targetKind de = [] \<or> de_targetName de = []
          then \<lparr>vr_valid = False, vr_message = ''spec.targetRef.kind or spec.targetRef.name is empty''\<rparr>
          else if de_targetGroup de = GroupSnapshotStorage \<and> de_targetKind de = artifactKindVolumeSnapshotContent
          then \<lparr>vr_valid = False, vr_message =
            ''spec.targetRef must not reference a bare cluster-scoped VolumeSnapshotContent; reference a namespaced snapshot resource instead''\<rparr>
          else \<lparr>vr_valid = True, vr_message = []\<rparr>))"

section \<open>Mutation of a VolumeSnapshot\<close>

definition storageClassVolumeSnapshotAnnotationName :: string where
  "storageClassVolumeSnapshotAnnotationName = ''storage.deckhouse.io/volumesnapshotclass''"
definition storageClassManagedbyLabelName :: string where
  "storageClassManagedbyLabelName = ''storage-foundation.deckhouse.io/managed-by''"

text \<open>The class that is written into the snapshot, if any, once the storage class is known.\<close>

definition chooseSnapshotClass :: "storageClass \<Rightarrow> volumeSnapshot \<Rightarrow> volumeSnapshot option res" where
  "chooseSnapshotClass sc snapshot =
     (let annotated = map_of (m_annotations (sc_meta sc)) storageClassVolumeSnapshotAnnotationName in
      if \<not> has_key (m_labels (sc_meta sc)) storageClassManagedbyLabelName then
        (case (vs_volumeSnapshotClassName snapshot, annotated) of
           (None, Some c) \<Rightarrow> Inr (Some (snapshot\<lparr>vs_volumeSnapshotClassName := Some c\<rparr>))
         | _ \<Rightarrow> Inr None)
      else (case annotated of
        None \<Rightarrow> Inl (Errorf ''StorageClass does not have volume snapshot class name annotation'' [])
      | Some c \<Rightarrow>
          (case vs_volumeSnapshotClassName snapshot of
             Some c' \<Rightarrow>
               if c' \<noteq> c
               then Inl (Errorf (''VolumeSnapshotMutate: if VolumeSnapshotClassName is set, it must match the StorageClass annotation, snapshotVolumeSnapshotClassName ''
                      @ c' @ '', storageClassAnnotation '' @ c) [])
               else Inr (Some (snapshot\<lparr>vs_volumeSnapshotClassName := Some c\<rparr>))
           | None \<Rightarrow> Inr (Some (snapshot\<lparr>vs_volumeSnapshotClassName := Some c\<rparr>)))))"

definition VolumeSnapshotMutate :: "env \<Rightarrow> unit res \<Rightarrow> kobj \<Rightarrow> volumeSnapshot option res io" where
  "VolumeSnapshotMutate E newClient obj =
     (case decVolumeSnapshot obj of
        None \<Rightarrow> ret (Inr None)
      | Some snapshot \<Rightarrow>
          thenE (ret newClient) (\<lambda>_.
          case vs_persistentVolumeClaimName snapshot of
            None \<Rightarrow> ret (Inr None)
          | Some pvcName \<Rightarrow>
              (let ns = m_namespace (vs_meta snapshot) in
               thenE (getObj E KPersistentVolumeClaim decPvc (ns, pvcName)) (\<lambda>pvc.
               case pvc_storageClassName pvc of
                 None \<Rightarrow> ret (Inl (Errorf ''PVC StorageClassName is nil'' []))
               | Some scName \<Rightarrow>
                   thenE (getObj E KStorageClass decStorageClass (ns, scName)) (\<lambda>sc.
                   ret (chooseSnapshotClass sc snapshot))))))"

section \<open>Agreement with the controller\<close>

lemma validate_classified:
  assumes "classifyTargetRef (de_targetGroup de) (de_targetKind de) = Inr c"
    and "run_state (validateDataExportSpec E de) h = (r, h)"
  shows "r = Inr ()"
proof -
  have "logged h q a \<noteq> h" for q a by (simp add: logged_def)
  then have "wp (validateDataExportSpec E de) (\<lambda>r h'. h' = h \<longrightarrow> r = Inr ()) h"
    using assms(1) unfolding validateDataExportSpec_def isVirtualDiskCRDExists_def
    by (auto simp: wp_rules intro!: wp_getObj split: prod.splits)
  with assms(2) show ?thesis by (simp add: wp_run)
qed

text \<open>
  C9. The webhook admits a new DataExport exactly when its target has a name and the controller
  classifies its group and kind; every other operation is admitted. Where the classification
  fails, and only there, the controller's own validation fails before its first request, and it
  fails terminally: what slips past the webhook is refused by the controller on the same grounds.
\<close>

theorem export_admission_agrees:
  "(vr_valid (DataExportValidateFunc OperationCreate (ODataExport de)) \<longleftrightarrow>
      de_targetName de \<noteq> [] \<and> (\<exists>c. classifyTargetRef (de_targetGroup de) (de_targetKind de) = Inr c)) \<and>
   ((\<exists>e. classifyTargetRef (de_targetGroup de) (de_targetKind de) = Inl e) \<longleftrightarrow>
      (\<exists>e. run_state (validateDataExportSpec E de) h = (Inl e, h) \<and> errorsIs e ErrTerminal)) \<and>
   vr_valid (DataExportValidateFunc (OtherOperation op) obj)"
proof (cases "classifyTargetRef (de_targetGroup de) (de_targetKind de)")
  case (Inl e)
  then have "run_state (validateDataExportSpec E de) h = (Inl (markErr ErrTerminal e), h)"
    by (simp add: validateDataExportSpec_def)
  moreover have "errorsIs (markErr ErrTerminal e) ErrTerminal" by (simp add: markErr_def)
  moreover from Inl have "de_targetKind de = [] \<or>
      de_targetGroup de = GroupSnapshotStorage \<and> de_targetKind de = artifactKindVolumeSnapshotContent"
    by (auto simp: classifyTargetRef_def split: if_splits)
  ultimately show ?thesis using Inl by (auto simp: DataExportValidateFunc_def)
next
  case (Inr c)
  then have "de_targetKind de \<noteq> []"
    "\<not> (de_targetGroup de = GroupSnapshotStorage \<and> de_targetKind de = artifactKindVolumeSnapshotContent)"
    by (auto simp: classifyTargetRef_def GroupSnapshotStorage_def GroupVirtualization_def split: if_splits)
  with Inr validate_classified [OF Inr] show ?thesis
    by (auto simp: DataExportValidateFunc_def)
qed

section \<open>The class of a snapshot\<close>

text \<open>
  The storage class of the claim a snapshot names: both were read, the claim in the namespace of
  the snapshot.
\<close>

definition classRead :: "volumeSnapshot \<Rightarrow> storageClass \<Rightarrow> hist \<Rightarrow> bool" where
  "classRead s sc h \<longleftrightarrow> (\<exists>claim pvc name.
     vs_persistentVolumeClaimName s = Some claim \<and>
     (Get KPersistentVolumeClaim (m_namespace (vs_meta s), claim), RObj (OPvc pvc)) \<in> set h \<and>
     pvc_storageClassName pvc = Some name \<and>
     (Get KStorageClass (m_namespace (vs_meta s), name), RObj (OStorageClass sc)) \<in> set h)"

lemma chooseSnapshotClass_ok:
  "chooseSnapshotClass sc s = Inr r \<Longrightarrow>
     (\<forall>s'. r = Some s' \<longrightarrow>
        (\<exists>c. s' = s\<lparr>vs_volumeSnapshotClassName := Some c\<rparr> \<and>
           map_of (m_annotations (sc_meta sc)) storageClassVolumeSnapshotAnnotationName = Some c \<and>
           (vs_volumeSnapshotClassName s = None \<or> vs_volumeSnapshotClassName s = Some c))) \<and>
     (r = None \<longrightarrow> \<not> has_key (m_labels (sc_meta sc)) storageClassManagedbyLabelName \<and>
        (vs_volumeSnapshotClassName s = None \<longrightarrow>
           map_of (m_annotations (sc_meta sc)) storageClassVolumeSnapshotAnnotationName = None))"
  by (auto simp: chooseSnapshotClass_def Let_def split: if_splits option.splits)

lemma VolumeSnapshotMutate_wp:
  "wp (VolumeSnapshotMutate E cl (OVolumeSnapshot s)) (\<lambda>r h.
     list_all (\<lambda>(q, a). \<not> isWrite q) h \<and>
     (\<forall>r'. r = Inr r' \<longrightarrow>
        (vs_persistentVolumeClaimName s = None \<and> r' = None) \<or>
        (\<exists>sc. classRead s sc h \<and> chooseSnapshotClass sc s = Inr r'))) []"
  by (cases cl; cases "vs_persistentVolumeClaimName s")
    (auto simp: VolumeSnapshotMutate_def Let_def wp_rules classRead_def list_all_iff
      intro!: wp_getObj split: option.splits)

text \<open>
  Whatever the API server answers, the mutation of a VolumeSnapshot that succeeds wrote
  nothing and changed at most the class name. A class is filled in only from the annotation of the
  storage class that was read for the claim in the snapshot's own namespace, and a class the user
  chose is never replaced by another. Without a change either the snapshot names no claim, or its
  storage class is not managed and has no class to offer to a snapshot without one: under a
  managed storage class a snapshot that is admitted always has the annotated class.
\<close>

theorem snapshot_class_is_annotated:
  assumes "run_state (VolumeSnapshotMutate E cl (OVolumeSnapshot s)) [] = (Inr r, h)"
  shows "list_all (\<lambda>(q, a). \<not> isWrite q) h \<and>
    (case r of
       Some s' \<Rightarrow> (\<exists>sc c. classRead s sc h \<and> s' = s\<lparr>vs_volumeSnapshotClassName := Some c\<rparr> \<and>
         map_of (m_annotations (sc_meta sc)) storageClassVolumeSnapshotAnnotationName = Some c \<and>
         (vs_volumeSnapshotClassName s = None \<or> vs_volumeSnapshotClassName s = Some c))
     | None \<Rightarrow> vs_persistentVolumeClaimName s = None \<or>
         (\<exists>sc. classRead s sc h \<and> \<not> has_key (m_labels (sc_meta sc)) storageClassManagedbyLabelName \<and>
            (vs_volumeSnapshotClassName s = None \<longrightarrow>
               map_of (m_annotations (sc_meta sc)) storageClassVolumeSnapshotAnnotationName = None)))"
proof -
  from VolumeSnapshotMutate_wp [of E cl s]
  have *: "list_all (\<lambda>(q, a). \<not> isWrite q) h"
    "(vs_persistentVolumeClaimName s = None \<and> r = None) \<or>
       (\<exists>sc. classRead s sc h \<and> chooseSnapshotClass sc s = Inr r)"
    by (auto simp: wp_run assms)
  from *(2) show ?thesis
  proof (elim disjE exE conjE)
    fix sc
    assume sc: "classRead s sc h" "chooseSnapshotClass sc s = Inr r"
    note ok = chooseSnapshotClass_ok [OF sc(2)]
    show ?thesis
    proof (cases r)
      case None
      with ok sc(1) *(1) show ?thesis by simp (rule disjI2, rule exI [of _ sc], simp)
    next
      case (Some s')
      with ok obtain c where "s' = s\<lparr>vs_volumeSnapshotClassName := Some c\<rparr>"
        "map_of (m_annotations (sc_meta sc)) storageClassVolumeSnapshotAnnotationName = Some c"
        "vs_volumeSnapshotClassName s = None \<or> vs_volumeSnapshotClassName s = Some c" by blast
      with Some sc(1) *(1) show ?thesis by simp (rule exI [of _ sc], simp)
    qed
  qed (use *(1) in simp)
qed

text \<open>A claim of a managed storage class.\<close>

definition exSnapshot :: volumeSnapshot where
  "exSnapshot = \<lparr>vs_meta = emptyMeta\<lparr>m_name := ''snap'', m_namespace := ''app''\<rparr>, vs_mode = [],
     vs_persistentVolumeClaimName = Some ''data'', vs_volumeSnapshotContentName = None,
     vs_volumeSnapshotClassName = None,
     vs_status = \<lparr>vss_captureState = None, vss_childrenSnapshotRefs = [], vss_sourceRef = None,
       vss_conditions = []\<rparr>\<rparr>"

definition exClass :: storageClass where
  "exClass = \<lparr>sc_meta = emptyMeta\<lparr>m_name := ''fast'',
       m_labels := [(storageClassManagedbyLabelName, ''sds'')],
       m_annotations := [(storageClassVolumeSnapshotAnnotationName, ''fast-snap'')]\<rparr>,
     sc_provisioner = ''csi'', sc_volumeBindingMode = None\<rparr>"

definition exClassClaim :: persistentVolumeClaim where
  "exClassClaim = \<lparr>pvc_meta = emptyMeta\<lparr>m_name := ''data'', m_namespace := ''app''\<rparr>, pvc_volumeName = [],
     pvc_storageClassName = Some ''fast'', pvc_volumeMode = None, pvc_accessModes = [], pvc_requests = [],
     pvc_dataSourceRef = None, pvc_phase = []\<rparr>"

definition exClassServer :: "hist \<Rightarrow> req \<Rightarrow> resp" where
  "exClassServer h r = (if r = Get KPersistentVolumeClaim (''app'', ''data'') then RObj (OPvc exClassClaim)
     else if r = Get KStorageClass (''app'', ''fast'') then RObj (OStorageClass exClass) else RErr NotFound)"

theorem snapshot_class_is_annotated_witness:
  "\<exists>sc c h. run_state (VolumeSnapshotMutate (ref_env exClassServer (\<lambda>_. 0)) (Inr ()) (OVolumeSnapshot exSnapshot)) [] =
       (Inr (Some (exSnapshot\<lparr>vs_volumeSnapshotClassName := Some ''fast-snap''\<rparr>)), h) \<and>
     classRead exSnapshot sc h \<and>
     map_of (m_annotations (sc_meta sc)) storageClassVolumeSnapshotAnnotationName = Some c \<and> c = ''fast-snap''"
proof -
  let ?run = "run_state (VolumeSnapshotMutate (ref_env exClassServer (\<lambda>_. 0)) (Inr ()) (OVolumeSnapshot exSnapshot)) []"
  have "fst ?run = Inr (Some (exSnapshot\<lparr>vs_volumeSnapshotClassName := Some ''fast-snap''\<rparr>))"
    by (simp add: VolumeSnapshotMutate_def exSnapshot_def exClassClaim_def exClass_def exClassServer_def
        thenE_def getObj_def call_def chooseSnapshotClass_def has_key_def logged_def Let_def)
  then obtain h where run: "?run = (Inr (Some (exSnapshot\<lparr>vs_volumeSnapshotClassName := Some ''fast-snap''\<rparr>)), h)"
    by (cases ?run) simp
  from snapshot_class_is_annotated [OF run] run show ?thesis
    by (auto simp: exSnapshot_def)
qed

end
