(* ===== verification/Hooks.thy ===== *)
theory Hooks
  imports Kube_Lib
begin

text \<open>
  The module hooks under \<open>src/hooks/go\<close> that change the cluster: the removal of finalizers when the
  module is deleted (\<open>030-remove-finalizers-on-module-delete\<close>) and the grant for the executor of
  restore requests (\<open>040-vrr-provisioner-rbac\<close>). The result of making a client is an argument.
\<close>

section \<open>Constants\<close>

definition ModuleNamespace :: string where "ModuleNamespace = ''d8-storage-foundation''"
definition ModulePluralName :: string where "ModulePluralName = ''storage-foundation''"
definition VRRProvisionerExecutorClusterRoleName :: string where
  "VRRProvisionerExecutorClusterRoleName = ''d8:storage-foundation:vrr-provisioner-executor''"
definition CSIServiceAccountName :: string where "CSIServiceAccountName = ''csi''"
definition VRRExecutorNamespaces :: "string list" where
  "VRRExecutorNamespaces = [''d8-sds-local-volume'']"
definition AllowedProvisioners :: "string list" where "AllowedProvisioners = []"
definition WebhookConfigurationsToDelete :: "string list" where
  "WebhookConfigurationsToDelete = [ModuleNamespace @ ''-dataexport-validation'']"

text \<open>The kinds are named as group, version and kind.\<close>

definition CRGVKsForFinalizerRemoval :: "string list" where
  "CRGVKsForFinalizerRemoval =
     [''snapshot.storage.k8s.io/v1/VolumeSnapshot'', ''snapshot.storage.k8s.io/v1/VolumeSnapshotContent'',
      ''snapshot.storage.k8s.io/v1/VolumeSnapshotClass'', ''storage-foundation.deckhouse.io/v1alpha1/DataExport'',
      ''storage-foundation.deckhouse.io/v1alpha1/DataImport'']"

text \<open>\<open>errors.Join\<close> of the error so far, which may be nil, and another one.\<close>

definition errorsJoin :: "gerr option \<Rightarrow> gerr \<Rightarrow> gerr option" where
  "errorsJoin resultErr e =
     Some (Errorf [] ((case resultErr of None \<Rightarrow> [] | Some r \<Rightarrow> [r]) @ [e]))"

section \<open>Finalizers\<close>

text \<open>\<open>SetFinalizers(nil)\<close> through the interface that the kinds of the hook share.\<close>

fun setFinalizersNil :: "kobj \<Rightarrow> kobj" where
  "setFinalizersNil (OSecret x) = OSecret (x\<lparr>sec_meta := (sec_meta x)\<lparr>m_finalizers := []\<rparr>\<rparr>)"
| "setFinalizersNil (OConfigMap x) = OConfigMap (x\<lparr>cm_meta := (cm_meta x)\<lparr>m_finalizers := []\<rparr>\<rparr>)"
| "setFinalizersNil (OStorageClass x) = OStorageClass (x\<lparr>sc_meta := (sc_meta x)\<lparr>m_finalizers := []\<rparr>\<rparr>)"
| "setFinalizersNil (OUntyped x) = OUntyped (x\<lparr>un_meta := (un_meta x)\<lparr>m_finalizers := []\<rparr>\<rparr>)"
| "setFinalizersNil x = x"

definition removeFinalizersFromObject :: "env \<Rightarrow> kobj \<Rightarrow> string res io" where
  "removeFinalizersFromObject E obj = wrapE ''failed to patch'' (exec E (Patch False obj (setFinalizersNil obj)))"

fun removeFinalizersFromAll :: "env \<Rightarrow> kobj list \<Rightarrow> gerr option \<Rightarrow> gerr option io" where
  "removeFinalizersFromAll E [] resultErr = ret resultErr"
| "removeFinalizersFromAll E (x # xs) resultErr = do {
     r \<leftarrow> removeFinalizersFromObject E x;
     removeFinalizersFromAll E xs (case r of Inl e \<Rightarrow> errorsJoin resultErr e | Inr _ \<Rightarrow> resultErr) }"

definition cleanupSecrets :: "env \<Rightarrow> gerr option \<Rightarrow> gerr option io" where
  "cleanupSecrets E resultErr = do {
     r \<leftarrow> listReq E (ListIn KSecret ModuleNamespace) decSecret;
     (case r of
        Inl e \<Rightarrow> ret (errorsJoin resultErr (Errorf ''failed to list secrets'' [e]))
      | Inr items \<Rightarrow> removeFinalizersFromAll E (map OSecret items) resultErr) }"

definition cleanupConfigMaps :: "env \<Rightarrow> gerr option \<Rightarrow> gerr option io" where
  "cleanupConfigMaps E resultErr = do {
     r \<leftarrow> listReq E (ListIn KConfigMap ModuleNamespace) decConfigMap;
     (case r of
        Inl e \<Rightarrow> ret (errorsJoin resultErr (Errorf ''failed to list configmaps'' [e]))
      | Inr items \<Rightarrow> removeFinalizersFromAll E (map OConfigMap items) resultErr) }"

fun deleteWebhookConfigurations :: "env \<Rightarrow> string list \<Rightarrow> gerr option \<Rightarrow> gerr option io" where
  "deleteWebhookConfigurations E [] resultErr = ret resultErr"
| "deleteWebhookConfigurations E (name # names) resultErr = do {
     r \<leftarrow> getObj E KValidatingWebhookConfiguration decUntyped ([], name);
     (case r of
        Inl _ \<Rightarrow> deleteWebhookConfigurations E names resultErr
      | Inr vwc \<Rightarrow> do {
          d \<leftarrow> exec E (Delete KValidatingWebhookConfiguration ([], m_name (un_meta vwc)));
          deleteWebhookConfigurations E names
            (case d of
               Inl e \<Rightarrow> errorsJoin resultErr (Errorf (''failed to delete ValidatingWebhookConfiguration '' @ name) [e])
             | Inr _ \<Rightarrow> resultErr) }) }"

fun cleanupStorageClasses :: "env \<Rightarrow> string list \<Rightarrow> gerr option \<Rightarrow> gerr option io" where
  "cleanupStorageClasses E [] resultErr = ret resultErr"
| "cleanupStorageClasses E (provisioner # ps) resultErr = do {
     r \<leftarrow> listReq E (ListAll KStorageClass) decStorageClass;
     (case r of
        Inl e \<Rightarrow> ret (errorsJoin resultErr (Errorf ''failed to list storage classes'' [e]))
      | Inr items \<Rightarrow> do {
          resultErr' \<leftarrow> removeFinalizersFromAll E
            (map OStorageClass (filter (\<lambda>sc. sc_provisioner sc = provisioner) items)) resultErr;
          cleanupStorageClasses E ps resultErr' }) }"

fun cleanupCustomResources :: "env \<Rightarrow> string list \<Rightarrow> gerr option \<Rightarrow> gerr option io" where
  "cleanupCustomResources E [] resultErr = ret resultErr"
| "cleanupCustomResources E (gvk # gvks) resultErr = do {
     r \<leftarrow> listReq E (ListAll (KResource gvk)) decUntyped;
     (case r of
        Inl _ \<Rightarrow> cleanupCustomResources E gvks resultErr
      | Inr items \<Rightarrow> do {
          resultErr' \<leftarrow> removeFinalizersFromAll E
            (map OUntyped (filter (\<lambda>cr. m_finalizers (un_meta cr) \<noteq> []) items)) resultErr;
          cleanupCustomResources E gvks resultErr' }) }"

definition moduleCleanup :: "env \<Rightarrow> gerr option io" where
  "moduleCleanup E = do {
     e1 \<leftarrow> cleanupSecrets E None;
     e2 \<leftarrow> cleanupConfigMaps E e1;
     e3 \<leftarrow> deleteWebhookConfigurations E WebhookConfigurationsToDelete e2;
     e4 \<leftarrow> cleanupStorageClasses E AllowedProvisioners e3;
     cleanupCustomResources E CRGVKsForFinalizerRemoval e4 }"

definition handlerRemoveFinalizersOnModuleDelete :: "env \<Rightarrow> unit res \<Rightarrow> gerr option io" where
  "handlerRemoveFinalizersOnModuleDelete E newClient =
     (case newClient of
        Inl e \<Rightarrow> ret (Some (Errorf ''failed to initialize kube client'' [e]))
      | Inr _ \<Rightarrow> moduleCleanup E)"

section \<open>The grant of the restore executor\<close>

definition moduleLabels :: strmap where
  "moduleLabels = [(''heritage'', ''deckhouse''), (''module'', ModulePluralName)]"

definition bindingName :: "string \<Rightarrow> string" where
  "bindingName ns = VRRProvisionerExecutorClusterRoleName @ '':'' @ ns"

definition desiredClusterRole :: clusterRole where
  "desiredClusterRole =
     \<lparr>cr_meta = emptyMeta\<lparr>m_name := VRRProvisionerExecutorClusterRoleName, m_labels := moduleLabels\<rparr>,
      cr_rules =
        [\<lparr>pr_apiGroups = [''storage-foundation.deckhouse.io''], pr_resources = [''volumerestorerequests''],
          pr_verbs = [''get'', ''list'', ''watch'']\<rparr>,
         \<lparr>pr_apiGroups = [''''], pr_resources = [''persistentvolumeclaims''],
          pr_verbs = [''get'', ''list'', ''watch'', ''create'', ''update'', ''patch'']\<rparr>]\<rparr>"

definition desiredSubjects :: "string \<Rightarrow> roleSubject list" where
  "desiredSubjects ns = [\<lparr>rs_kind = ''ServiceAccount'', rs_name = CSIServiceAccountName, rs_namespace = ns\<rparr>]"

definition desiredClusterRoleBinding :: "string \<Rightarrow> clusterRoleBinding" where
  "desiredClusterRoleBinding ns =
     \<lparr>crb_meta = emptyMeta\<lparr>m_name := bindingName ns, m_labels := moduleLabels\<rparr>,
      crb_roleRef = (''rbac.authorization.k8s.io'', ''ClusterRole'', VRRProvisionerExecutorClusterRoleName),
      crb_subjects = desiredSubjects ns\<rparr>"

definition applyClusterRole :: "env \<Rightarrow> unit res io" where
  "applyClusterRole E = do {
     r \<leftarrow> getObj E KClusterRole decClusterRole ([], VRRProvisionerExecutorClusterRoleName);
     (case r of
        Inl err \<Rightarrow>
          if \<not> IsNotFound err then ret (Inl (Errorf ''get ClusterRole'' [err]))
          else thenE (wrapE ''create ClusterRole'' (exec E (Create (OClusterRole desiredClusterRole)))) (\<lambda>_. ret (Inr ()))
      | Inr existing \<Rightarrow>
          thenE (wrapE ''patch ClusterRole'' (exec E (Patch False (OClusterRole existing)
            (OClusterRole (existing\<lparr>cr_rules := cr_rules desiredClusterRole,
               cr_meta := (cr_meta existing)\<lparr>m_labels := moduleLabels\<rparr>\<rparr>))))) (\<lambda>_. ret (Inr ()))) }"

definition applyClusterRoleBinding :: "env \<Rightarrow> string \<Rightarrow> unit res io" where
  "applyClusterRoleBinding E ns = do {
     r \<leftarrow> getObj E KClusterRoleBinding decClusterRoleBinding ([], bindingName ns);
     (case r of
        Inl err \<Rightarrow>
          if \<not> IsNotFound err then ret (Inl (Errorf ''get ClusterRoleBinding'' [err]))
          else thenE (wrapE ''create ClusterRoleBinding''
                 (exec E (Create (OClusterRoleBinding (desiredClusterRoleBinding ns))))) (\<lambda>_. ret (Inr ()))
      | Inr existing \<Rightarrow>
          thenE (wrapE ''patch ClusterRoleBinding'' (exec E (Patch False (OClusterRoleBinding existing)
            (OClusterRoleBinding (existing\<lparr>crb_subjects := desiredSubjects ns,
               crb_meta := (crb_meta existing)\<lparr>m_labels := moduleLabels\<rparr>\<rparr>))))) (\<lambda>_. ret (Inr ()))) }"

fun applyBindings :: "env \<Rightarrow> string list \<Rightarrow> gerr option \<Rightarrow> gerr option io" where
  "applyBindings E [] resultErr = ret resultErr"
| "applyBindings E (ns # nss) resultErr = do {
     r \<leftarrow> applyClusterRoleBinding E ns;
     applyBindings E nss (case r of Inl e \<Rightarrow> errorsJoin resultErr e | Inr _ \<Rightarrow> resultErr) }"

definition handlerApply :: "env \<Rightarrow> unit res \<Rightarrow> gerr option io" where
  "handlerApply E newClient =
     (case newClient of
        Inl e \<Rightarrow> ret (Some (Errorf ''failed to initialize kube client'' [e]))
      | Inr _ \<Rightarrow> do {
          r \<leftarrow> applyClusterRole E;
          (case r of
             Inl e \<Rightarrow> ret (Some e)
           | Inr _ \<Rightarrow> applyBindings E VRRExecutorNamespaces None) })"

text \<open>A delete that counts a missing object as deleted.\<close>

definition deleteRole :: "env \<Rightarrow> kind \<Rightarrow> string \<Rightarrow> gerr option \<Rightarrow> gerr option io" where
  "deleteRole E k name resultErr = do {
     r \<leftarrow> exec E (Delete k ([], name));
     ret (case r of
            Inl e \<Rightarrow> if IsNotFound e then resultErr else errorsJoin resultErr (Errorf (''delete '' @ name) [e])
          | Inr _ \<Rightarrow> resultErr) }"

fun deleteBindings :: "env \<Rightarrow> string list \<Rightarrow> gerr option \<Rightarrow> gerr option io" where
  "deleteBindings E [] resultErr = ret resultErr"
| "deleteBindings E (ns # nss) resultErr = do {
     resultErr' \<leftarrow> deleteRole E KClusterRoleBinding (bindingName ns) resultErr;
     deleteBindings E nss resultErr' }"

definition handlerCleanup :: "env \<Rightarrow> unit res \<Rightarrow> gerr option io" where
  "handlerCleanup E newClient =
     (case newClient of
        Inl e \<Rightarrow> ret (Some (Errorf ''failed to initialize kube client'' [e]))
      | Inr _ \<Rightarrow> do {
          resultErr \<leftarrow> deleteBindings E VRRExecutorNamespaces None;
          deleteRole E KClusterRole VRRProvisionerExecutorClusterRoleName resultErr })"

section \<open>Nothing that was listed keeps its finalizers\<close>




text \<open>What the hook may write: the listed objects without their finalizers, and the end of the webhook.\<close>

definition hookAllowed :: "hist \<Rightarrow> req \<Rightarrow> bool" where
  "hookAllowed h r \<longleftrightarrow> \<not> isWrite r \<or>
     (\<exists>q xs x. (q, RList xs) \<in> set h \<and> x \<in> set xs \<and> r = Patch False x (setFinalizersNil x) \<and>
        (q = ListIn KSecret ModuleNamespace \<or> q = ListIn KConfigMap ModuleNamespace \<or>
         (\<exists>gvk \<in> set CRGVKsForFinalizerRemoval. q = ListAll (KResource gvk)))) \<or>
     (\<exists>n. r = Delete KValidatingWebhookConfiguration ([], n))"


text \<open>A part of the hook that asks for no list leaves the lists of the history as they were.\<close>

definition onlyWrites :: "hist \<Rightarrow> hist \<Rightarrow> bool" where
  "onlyWrites h h' \<longleftrightarrow> later h h' \<and> (\<forall>(q, a) \<in> set h'. (q, a) \<in> set h \<or> isWrite q \<or> (\<exists>k n. q = Get k n))"

lemma onlyWrites_refl [simp]: "onlyWrites h h"
  by (auto simp: onlyWrites_def)










lemma hookAllowed_free [simp]:
  "\<not> isWrite q \<Longrightarrow> hookAllowed h q" "hookAllowed h (Delete KValidatingWebhookConfiguration ([], n))"
  by (simp_all add: hookAllowed_def)

lemma errorsJoin_Some [simp]: "errorsJoin r e \<noteq> None"
  by (simp add: errorsJoin_def)










section \<open>The grant and its removal\<close>

text \<open>What the hook may write: the role with the two rules, and a binding of the executor's account to it.\<close>

definition grantAllowed :: "hist \<Rightarrow> req \<Rightarrow> bool" where
  "grantAllowed h r \<longleftrightarrow> \<not> isWrite r \<or> r = Create (OClusterRole desiredClusterRole) \<or>
     (\<exists>old. (Get KClusterRole ([], VRRProvisionerExecutorClusterRoleName), RObj (OClusterRole old)) \<in> set h \<and>
        r = Patch False (OClusterRole old) (OClusterRole (old\<lparr>cr_rules := cr_rules desiredClusterRole,
          cr_meta := (cr_meta old)\<lparr>m_labels := moduleLabels\<rparr>\<rparr>))) \<or>
     (\<exists>ns \<in> set VRRExecutorNamespaces. r = Create (OClusterRoleBinding (desiredClusterRoleBinding ns)) \<or>
        (\<exists>old. (Get KClusterRoleBinding ([], bindingName ns), RObj (OClusterRoleBinding old)) \<in> set h \<and>
           r = Patch False (OClusterRoleBinding old) (OClusterRoleBinding (old\<lparr>crb_subjects := desiredSubjects ns,
             crb_meta := (crb_meta old)\<lparr>m_labels := moduleLabels\<rparr>\<rparr>))))"

lemma applyClusterRole_kept:
  "obeys grantAllowed h \<Longrightarrow> wp (applyClusterRole E) (\<lambda>_. obeys grantAllowed) h"
  unfolding applyClusterRole_def
  by (auto simp: wp_rules intro!: wp_getObj wp_exec split: sum.splits) (auto simp: grantAllowed_def)

lemma applyClusterRoleBinding_kept:
  "obeys grantAllowed h \<Longrightarrow> ns \<in> set VRRExecutorNamespaces \<Longrightarrow>
     wp (applyClusterRoleBinding E ns) (\<lambda>_. obeys grantAllowed) h"
  unfolding applyClusterRoleBinding_def
  by (auto simp: wp_rules intro!: wp_getObj wp_exec split: sum.splits) (auto simp: grantAllowed_def)

lemma applyBindings_kept:
  "obeys grantAllowed h \<Longrightarrow> set nss \<subseteq> set VRRExecutorNamespaces \<Longrightarrow>
     wp (applyBindings E nss r) (\<lambda>_. obeys grantAllowed) h"
proof (induction nss arbitrary: h r)
  case (Cons ns nss)
  from Cons.prems have "wp (applyClusterRoleBinding E ns) (\<lambda>_. obeys grantAllowed) h"
    by (intro applyClusterRoleBinding_kept) auto
  then show ?case
    unfolding applyBindings.simps wp_bind
    by (rule wp_mono) (use Cons in auto)
qed (simp add: wp_return)

lemma handlerApply_kept: "wp (handlerApply E cl) (\<lambda>_. obeys grantAllowed) []"
proof -
  have "wp (applyBindings E VRRExecutorNamespaces None) (\<lambda>_. obeys grantAllowed) h" if "obeys grantAllowed h" for h
    using applyBindings_kept [OF that] by simp
  then show ?thesis
    unfolding handlerApply_def
    by (auto simp: wp_rules intro!: wp_mono [OF applyClusterRole_kept] split: sum.splits)
qed

lemma deleteRole_wp:
  "wp (deleteRole E k n r) (\<lambda>_ h'. later h h' \<and> (\<exists>a. (Delete k ([], n), a) \<in> set h')) h"
  unfolding deleteRole_def by (auto simp: wp_rules intro!: wp_exec)

lemma deleteBindings_wp:
  "wp (deleteBindings E nss r) (\<lambda>_ h'. later h h' \<and>
     (\<forall>ns \<in> set nss. \<exists>a. (Delete KClusterRoleBinding ([], bindingName ns), a) \<in> set h')) h"
proof (induction nss arbitrary: h r)
  case (Cons ns nss)
  show ?case
    unfolding deleteBindings.simps wp_bind
    by (rule wp_mono [OF deleteRole_wp], rule wp_mono [OF Cons.IH])
      (auto intro: later_trans dest: later_mem)
qed (simp add: wp_return)

text \<open>
  The grant of the restore executor is exact and does not outlive the module. Every write of the
  hook gives the role its two rules or binds the executor's account of a listed namespace, and
  leaves the role that an existing binding refers to as it is; the cleanup asks for the deletion
  of the role and of the binding of every listed namespace, whichever of the deletions fail.
\<close>

theorem executor_grant_is_exact:
  "obeys grantAllowed (snd (run_state (handlerApply E cl) [])) \<and>
   (\<exists>a. (Delete KClusterRole ([], VRRProvisionerExecutorClusterRoleName), a) \<in> set (snd (run_state (handlerCleanup E (Inr ())) []))) \<and>
   list_all (\<lambda>ns. \<exists>a. (Delete KClusterRoleBinding ([], m_name (crb_meta (desiredClusterRoleBinding ns))), a)
     \<in> set (snd (run_state (handlerCleanup E (Inr ())) []))) VRRExecutorNamespaces"
proof -
  have "wp (handlerCleanup E (Inr ())) (\<lambda>_ h. (\<exists>a. (Delete KClusterRole ([], VRRProvisionerExecutorClusterRoleName), a) \<in> set h) \<and>
      (\<forall>ns \<in> set VRRExecutorNamespaces. \<exists>a. (Delete KClusterRoleBinding ([], bindingName ns), a) \<in> set h)) []"
    unfolding handlerCleanup_def sum.case wp_bind
    by (rule wp_mono [OF deleteBindings_wp], rule wp_mono [OF deleteRole_wp]) (meson later_mem)
  with handlerApply_kept [of E cl] show ?thesis
    by (simp add: wp_run list_all_iff desiredClusterRoleBinding_def)
qed

end
