(* ===== verification/Snapshot_Domain.thy ===== *)
theory Snapshot_Domain
  imports Controllers
begin

text \<open>
  The domain controller of VolumeSnapshots, \<open>volumesnapshot_domain_controller.go\<close> and
  \<open>volumesnapshot_domain_adapter.go\<close> of \<open>src/images/controller/internal/controllers\<close>. The snapshot SDK is
  a package of another repository: its constants and its pure functions are the record \<open>sdk\<close>, an
  argument; its operations on the cluster are the requests \<open>Sdk\<close>, which the environment answers
  with the object as the SDK left it.
\<close>

section \<open>The adapter\<close>

text \<open>The state the SDK exchanges with the adapter: the children and the domain's half.\<close>

record sdkDomainState =
  sds_childrenSnapshotRefs :: "string list"
  sds_state :: domainCaptureState

definition emptyDomainState :: domainCaptureState where
  "emptyDomainState = \<lparr>dcs_manifestCaptureRequestName = [], dcs_volumeCaptureRequestName = [],
     dcs_excludedRefs = None, dcs_phase = [], dcs_reason = [], dcs_message = []\<rparr>"

definition emptyCoreState :: coreCaptureState where
  "emptyCoreState = \<lparr>ccs_manifestCaptured = None, ccs_dataCaptured = None\<rparr>"

definition GetDomainCaptureState :: "volumeSnapshot \<Rightarrow> sdkDomainState" where
  "GetDomainCaptureState vs =
     \<lparr>sds_childrenSnapshotRefs = vss_childrenSnapshotRefs (vs_status vs),
      sds_state =
        (case vss_captureState (vs_status vs) of
           None \<Rightarrow> emptyDomainState
         | Some cs \<Rightarrow> (case cs_domainSpecificController cs of None \<Rightarrow> emptyDomainState | Some d \<Rightarrow> d))\<rparr>"

definition vsNonNilExcludedRefs :: "string list option \<Rightarrow> string list option" where
  "vsNonNilExcludedRefs refs = (case refs of None \<Rightarrow> Some [] | Some rs \<Rightarrow> Some rs)"

definition ensureVSDomainSpecificController :: "captureStateStatus option \<Rightarrow> captureStateStatus" where
  "ensureVSDomainSpecificController cs =
     (let c = (case cs of None \<Rightarrow> \<lparr>cs_commonController = None, cs_domainSpecificController = None\<rparr> | Some c \<Rightarrow> c) in
      case cs_domainSpecificController c of
        None \<Rightarrow> c\<lparr>cs_domainSpecificController := Some emptyDomainState\<rparr>
      | Some _ \<Rightarrow> c)"

definition SetDomainCaptureState :: "volumeSnapshot \<Rightarrow> sdkDomainState \<Rightarrow> volumeSnapshot" where
  "SetDomainCaptureState vs st =
     (let c = ensureVSDomainSpecificController (vss_captureState (vs_status vs));
          d = (sds_state st)\<lparr>dcs_excludedRefs := vsNonNilExcludedRefs (dcs_excludedRefs (sds_state st))\<rparr> in
      vs\<lparr>vs_status := (vs_status vs)\<lparr>vss_childrenSnapshotRefs := sds_childrenSnapshotRefs st,
        vss_captureState := Some (c\<lparr>cs_domainSpecificController := Some d\<rparr>)\<rparr>\<rparr>)"

definition GetSnapshotSource :: "volumeSnapshot \<Rightarrow> snapshotSource option" where
  "GetSnapshotSource vs = vss_sourceRef (vs_status vs)"

definition SetSnapshotSource :: "volumeSnapshot \<Rightarrow> snapshotSource option \<Rightarrow> volumeSnapshot" where
  "SetSnapshotSource vs src = vs\<lparr>vs_status := (vs_status vs)\<lparr>vss_sourceRef := src\<rparr>\<rparr>"

definition vsCoreCaptureStateFrom :: "captureStateStatus option \<Rightarrow> coreCaptureState" where
  "vsCoreCaptureStateFrom cs =
     (case cs of
        None \<Rightarrow> emptyCoreState
      | Some c \<Rightarrow> (case cs_commonController c of None \<Rightarrow> emptyCoreState | Some core \<Rightarrow> core))"

definition CoreCaptureState :: "volumeSnapshot \<Rightarrow> coreCaptureState" where
  "CoreCaptureState vs = vsCoreCaptureStateFrom (vss_captureState (vs_status vs))"

text \<open>No status is the empty string.\<close>

definition ReadyStatus :: "env \<Rightarrow> volumeSnapshot \<Rightarrow> cstatus option" where
  "ReadyStatus E vs = map_option c_status (FindStatusCondition E (vss_conditions (vs_status vs)) ''Ready'')"

definition vsReadyReason :: "env \<Rightarrow> condition list \<Rightarrow> string" where
  "vsReadyReason E cs = (case FindStatusCondition E cs ''Ready'' of None \<Rightarrow> [] | Some c \<Rightarrow> c_reason c)"

definition vsReadyMessage :: "env \<Rightarrow> condition list \<Rightarrow> string" where
  "vsReadyMessage E cs = (case FindStatusCondition E cs ''Ready'' of None \<Rightarrow> [] | Some c \<Rightarrow> c_message c)"

text \<open>What the SDK can see of a snapshot through the adapter.\<close>

record adapterView =
  av_object :: objmeta
  av_domain :: sdkDomainState
  av_source :: "snapshotSource option"
  av_core :: coreCaptureState
  av_readyStatus :: "cstatus option"
  av_readyReason :: string
  av_readyMessage :: string

definition volumeSnapshotAdapter :: "env \<Rightarrow> volumeSnapshot \<Rightarrow> adapterView" where
  "volumeSnapshotAdapter E vs =
     \<lparr>av_object = vs_meta vs, av_domain = GetDomainCaptureState vs, av_source = GetSnapshotSource vs,
      av_core = CoreCaptureState vs, av_readyStatus = ReadyStatus E vs,
      av_readyReason = vsReadyReason E (vss_conditions (vs_status vs)),
      av_readyMessage = vsReadyMessage E (vss_conditions (vs_status vs))\<rparr>"

section \<open>The SDK\<close>

datatype captureOutcome = CaptureOutcomeCaptured | CaptureOutcomeFailed | OtherOutcome string

record sdk =
  sdk_APIGroup :: string
  sdk_ExcludeLabelKey :: string
  sdk_PhasePlanning :: string
  sdk_PhasePlanned :: string
  sdk_PhaseFinished :: string
  sdk_PhaseFailed :: string
  ManifestCaptureNeeded :: "adapterView \<Rightarrow> bool"
  CoreCaptureOutcome :: "adapterView \<Rightarrow> captureOutcome"


section \<open>The controller\<close>

definition labelForkProcessed :: string where
  "labelForkProcessed = ''storage-foundation.deckhouse.io/processed''"
definition labelSnapshotManaged :: "sdk \<Rightarrow> string" where
  "labelSnapshotManaged S = sdk_APIGroup S @ ''/managed''"
abbreviation managedValueTrue :: string where "managedValueTrue \<equiv> ''true''"
abbreviation managedValueFalse :: string where "managedValueFalse \<equiv> ''false''"
abbreviation VolumeSnapshotModeImport :: string where "VolumeSnapshotModeImport \<equiv> ''Import''"



definition setSnapshotLabels :: "(strmap \<Rightarrow> strmap) \<Rightarrow> volumeSnapshot \<Rightarrow> volumeSnapshot" where
  "setSnapshotLabels f vs = vs\<lparr>vs_meta := (vs_meta vs)\<lparr>m_labels := f (m_labels (vs_meta vs))\<rparr>\<rparr>"

definition latchedSnapshot :: "env \<Rightarrow> sdk \<Rightarrow> string \<Rightarrow> volumeSnapshot \<Rightarrow> volumeSnapshot" where
  "latchedSnapshot E S desired cur =
     (let labeled = setSnapshotLabels (AList.update (labelSnapshotManaged S) desired) cur in
      if desired = managedValueTrue then setSnapshotLabels (StampDeleteProtected E) labeled else labeled)"



definition sourceOf :: "persistentVolumeClaim \<Rightarrow> snapshotSource" where
  "sourceOf pvc = \<lparr>ss_apiVersion = ''v1'', ss_kind = ''PersistentVolumeClaim'', ss_name = m_name (pvc_meta pvc),
     ss_namespace = m_namespace (pvc_meta pvc), ss_uid = m_uid (pvc_meta pvc)\<rparr>"





section \<open>The adapter changes only its half\<close>

text \<open>
  The adapter is a lens on the domain's half of the status. What the SDK writes through it is
  what it reads back, except that a missing list of excluded objects becomes an empty one; the
  capture state of the core, the conditions, the published source, the spec and the metadata stay
  as they were, and publishing the source changes nothing else.
\<close>

theorem adapter_roundtrip:
  "GetDomainCaptureState (SetDomainCaptureState vs st) = st\<lparr>sds_state := (sds_state st)
     \<lparr>dcs_excludedRefs := Some (case dcs_excludedRefs (sds_state st) of None \<Rightarrow> [] | Some rs \<Rightarrow> rs)\<rparr>\<rparr> \<and>
   CoreCaptureState (SetDomainCaptureState vs st) = CoreCaptureState vs \<and>
   SetDomainCaptureState vs st = vs\<lparr>vs_status := (vs_status (SetDomainCaptureState vs st))
     \<lparr>vss_conditions := vss_conditions (vs_status vs), vss_sourceRef := vss_sourceRef (vs_status vs)\<rparr>\<rparr> \<and>
   GetSnapshotSource (SetSnapshotSource vs src) = src \<and>
   GetDomainCaptureState (SetSnapshotSource vs src) = GetDomainCaptureState vs \<and>
   CoreCaptureState (SetSnapshotSource vs src) = CoreCaptureState vs \<and>
   SetSnapshotSource (SetSnapshotSource vs src) (GetSnapshotSource vs) = vs"
  by (simp add: GetDomainCaptureState_def SetDomainCaptureState_def CoreCaptureState_def GetSnapshotSource_def
      SetSnapshotSource_def vsCoreCaptureStateFrom_def ensureVSDomainSpecificController_def vsNonNilExcludedRefs_def
      Let_def split: option.split)

section \<open>What the controller may ask for\<close>

text \<open>The snapshots of the domain: not deleted, processed by the fork, capturing a claim.\<close>

definition adoptable :: "volumeSnapshot \<Rightarrow> string \<Rightarrow> bool" where
  "adoptable vs claim \<longleftrightarrow> m_deletion (vs_meta vs) = None \<and>
     index_str (m_labels (vs_meta vs)) labelForkProcessed \<noteq> [] \<and> vs_mode vs \<noteq> VolumeSnapshotModeImport \<and>
     vs_persistentVolumeClaimName vs = Some claim \<and> claim \<noteq> []"

definition claimAs :: "hist \<Rightarrow> volumeSnapshot \<Rightarrow> string \<Rightarrow> persistentVolumeClaim option \<Rightarrow> bool" where
  "claimAs h vs claim p \<longleftrightarrow>
     (Get KPersistentVolumeClaim (m_namespace (vs_meta vs), claim),
        case p of None \<Rightarrow> RErr NotFound | Some pvc \<Rightarrow> RObj (OPvc pvc)) \<in> set h"

text \<open>The verdict that is latched: the veto of a claim that was read, or the lack of one.\<close>

definition verdict :: "sdk \<Rightarrow> hist \<Rightarrow> volumeSnapshot \<Rightarrow> string \<Rightarrow> string \<Rightarrow> bool" where
  "verdict S h vs claim desired \<longleftrightarrow>
     (\<exists>pvc. claimAs h vs claim (Some pvc) \<and> desired =
        (if has_key (m_labels (pvc_meta pvc)) (sdk_ExcludeLabelKey S) then managedValueFalse else managedValueTrue)) \<or>
     (claimAs h vs claim None \<and> desired = managedValueTrue)"

definition latchedTrue :: "env \<Rightarrow> sdk \<Rightarrow> hist \<Rightarrow> bool" where
  "latchedTrue E S h \<longleftrightarrow>
     (\<exists>cur. readAs h (OVolumeSnapshot cur) \<and>
        map_of (m_labels (vs_meta cur)) (labelSnapshotManaged S) = Some managedValueTrue) \<or>
     (\<exists>cur. accepted h (Patch False (OVolumeSnapshot cur)
        (OVolumeSnapshot (latchedSnapshot E S managedValueTrue cur))))"

definition inOrder :: "env \<Rightarrow> sdk \<Rightarrow> hist \<Rightarrow> volumeSnapshot \<Rightarrow> string \<Rightarrow> volumeSnapshot \<Rightarrow> sdkCall \<Rightarrow> bool" where
  "inOrder E S h vs0 claim vs c =
     (case c of
        PublishSnapshotSource src \<Rightarrow> (\<exists>pvc. claimAs h vs0 claim (Some pvc) \<and> src = sourceOf pvc)
      | EnsureManifestCapture targets \<Rightarrow>
          (\<exists>pvc v. claimAs h vs0 claim (Some pvc) \<and>
             targets = [(''v1'', ''PersistentVolumeClaim'', m_name (pvc_meta pvc))] \<and>
             accepted h (Sdk v (PublishSnapshotSource (sourceOf pvc))))
      | ApplyPhase phase msg \<Rightarrow>
          (phase = sdk_PhasePlanning S \<and> claimAs h vs0 claim None) \<or>
          (phase = sdk_PhasePlanned S \<and>
             (\<not> ManifestCaptureNeeded S (volumeSnapshotAdapter E vs) \<or>
              (\<exists>v targets. accepted h (Sdk v (EnsureManifestCapture targets))))) \<or>
          (phase = sdk_PhaseFinished S \<and>
             CoreCaptureOutcome S (volumeSnapshotAdapter E vs) = CaptureOutcomeCaptured \<and>
             (\<exists>v. (Sdk v (ApplyPhase (sdk_PhasePlanned S) None), RObj (OVolumeSnapshot vs)) \<in> set h)))"

definition domainAllowed :: "env \<Rightarrow> sdk \<Rightarrow> volumeSnapshot \<Rightarrow> hist \<Rightarrow> req \<Rightarrow> bool" where
  "domainAllowed E S vs0 h r \<longleftrightarrow> (\<exists>k m. r = Get k m) \<or>
     (\<exists>claim cur desired. adoptable vs0 claim \<and> verdict S h vs0 claim desired \<and>
        readAs h (OVolumeSnapshot cur) \<and> map_of (m_labels (vs_meta cur)) (labelSnapshotManaged S) = None \<and>
        r = Patch False (OVolumeSnapshot cur) (OVolumeSnapshot (latchedSnapshot E S desired cur))) \<or>
     (\<exists>claim vs c. adoptable vs0 claim \<and> latchedTrue E S h \<and>
        dcs_phase (sds_state (GetDomainCaptureState vs0)) \<notin> {sdk_PhaseFinished S, sdk_PhaseFailed S} \<and>
        inOrder E S h vs0 claim vs c \<and> r = Sdk vs c)"

lemma domainAllowed_get [simp]: "domainAllowed E S vs0 h (Get k m)"
  by (simp add: domainAllowed_def)





section \<open>The latch\<close>




section \<open>The protocol\<close>

















end
