(* ===== verification/Spec2Isabelle.thy ===== *)
theory Spec2Isabelle
  imports Request_Gc Data_Gc Watches Startup Webhooks Hooks Snapshot_Domain
begin

text \<open>
  Verification of the Deckhouse module \<open>storage-foundation\<close>: controllers that capture and
  restore volumes, controllers that import and export their data, and the HTTP server that
  moves the data.

  \<^bold>\<open>The program.\<close> A user creates a VolumeCaptureRequest (VCR), a VolumeRestoreRequest (VRR),
  a DataImport or a DataExport. The storage controller (\<open>src/images/controller\<close>) turns a VCR
  into a VolumeSnapshotContent or a detached PersistentVolume, observes the restore of a VRR,
  and anchors what it made to an ObjectKeeper. The data manager
  (\<open>src/images/data-manager-controller\<close>) runs a data server (\<open>src/images/data-exporter\<close>)
  beside a claim, publishes it through a Service and an Ingress and, for an import that
  populates a snapshot, creates a VCR of the filled claim and waits for it. The data server
  authorizes each request, stores uploads or serves the volume, and reports its state
  (Ready, Finished, IdleExpired) and the last access in the status of its DataImport or
  DataExport, where the data manager, which watches what it made, reads it. Finished objects are removed by a generic
  garbage collector (\<open>src/common/gc\<close>) with one manager per kind. Around them, a populator
  (\<open>src/images/populator\<close>) starts the server that fills the claim of an import, a domain
  controller enters VolumeSnapshots into the snapshot tree, webhooks check what is admitted, and
  hooks of the module clean up when it is deleted.

  \<^bold>\<open>How the code is modelled.\<close> A Go function is a HOL function of the same name; structs are
  records, errors are values of \<open>gerr\<close> in a sum (\<open>'a res\<close>), and a function that calls the
  API server is a computation of type \<open>'a io\<close>, a state monad over the history of requests
  and answers. The API server, its caches, every other writer and the clock are one
  parameter, the field \<open>api\<close> (\<open>clock\<close>) of the record \<open>env\<close>: an arbitrary function of the
  history. A theorem about a controller therefore holds for every interleaving with other
  writers, every stale read and every error. The helper packages outside the repository
  (condition helpers, \<open>RetryOnConflict\<close>, the protection stamp, SHA-256) are further fields;
  the predicate \<open>env_ok\<close> states what their documentation promises, as the locales
  \<open>condition_api\<close> and \<open>conflict_retry\<close>. Reference implementations interpret these locales, so
  \<open>env_ok\<close> is satisfied by the environments of the witnesses. Requests and their effects are reasoned about
  with the weakest precondition \<open>wp\<close> and the trace predicate of \<open>Api\<close>; loops over
  in-memory data are total functions.

  \<^bold>\<open>Bounds.\<close> The loops of the code that wait for the world take a number of attempts: the poll
  for an Ingress address (\<open>dm_pollAttempts\<close>; the code bounds it by two minutes at five-second
  steps), the waits of the DataExport controller (\<open>x_claimPolls\<close>, \<open>x_launchPolls\<close>,
  \<open>x_diskPolls\<close>, \<open>x_restorePolls\<close>: the attempts that fit in the timeout of the code after the
  immediate one) and the publication of an idle expiry (the code retries forever). Their
  theorems hold for every number of attempts; for the last, running out is the value that says
  so, and \<open>Data_Export_Props\<close> bounds the requests of each wait of the DataExport controller.
  \<open>RetryOnConflict\<close> is characterised by its contract; its reference has the five attempts of
  \<open>client-go\<close>. Offsets, sizes and identifiers of uploads keep Go's integer widths where the
  code parses or compares them (\<open>Http\<close>, \<open>Import_Fs\<close>, \<open>Server\<close>).

  \<^bold>\<open>The theories.\<close>
  \<^item> \<open>Prelude\<close>: Go errors as trees with \<open>errors.Is\<close>, result combinators, string maps.
  \<^item> \<open>Objects\<close>: the API kinds (\<open>src/api/v1alpha1\<close>) and the fields used of foreign kinds.
  \<^item> \<open>Api\<close>: requests, answers, histories, the monad and its \<open>wp\<close> rules.
  \<^item> \<open>Kube_Lib\<close>: the external helpers as locales with reference implementations.
  \<^item> \<open>Common\<close>: \<open>src/common\<close> (finalizers, phases, conditions, names, images, volumes).
  \<^item> \<open>Controllers\<close>: what the request controllers share (constants, terminal states).
  \<^item> \<open>Vcr\<close>, \<open>Vcr_Props\<close>: the VolumeCaptureRequest controller. One rule says which request it
    may send in which history; every operation is shown to obey it, and the properties read
    the rule: evidence for success, the anchoring of created contents, the owners of a
    detached volume, inertness of finished requests, the outcome of a Snapshot pass.
  \<^item> \<open>Vrr\<close>: the VolumeRestoreRequest controller, in the same way.
  \<^item> \<open>Gc\<close>: filter, settings, enqueueing and reconciler of the collector, with the locale
    \<open>gc_manager\<close> for what a manager promises; \<open>Request_Gc\<close> and \<open>Data_Gc\<close> interpret it for the
    two managers of each controller and derive that only finished, aged objects are deleted
    and that every one of them eventually may be.
  \<^item> \<open>Http\<close>, \<open>Paths\<close>, \<open>Repository\<close>: requests and response writers of \<open>net/http\<close>, lexical
    paths of \<open>path/filepath\<close>, and the data server's own API client
    (\<open>internal/repository/k8s.go\<close>) with the order of server states.
  \<^item> \<open>Import_Block\<close>, \<open>Import_Fs\<close>: the importers. The block importer is also a step relation of
    concurrent uploads with its invariant and a refinement from the handler; the filesystem
    importer works on an explicit file store.
  \<^item> \<open>Idle_Timer\<close>: heartbeat and expiry (\<open>internal/ttl_control\<close>) against a specification.
  \<^item> \<open>Export\<close>: the exporters: path resolution, listings, headers, files, block devices.
  \<^item> \<open>Server\<close>: authorization, middlewares, routes and their composition.
  \<^item> \<open>Publish\<close>: jobs, Deployments, the server container (\<open>src/common\<close>), the headless Service,
    the TLS secret and the Ingress (\<open>src/common/publish\<close>); what is written is read back as up
    to date, with the exceptions stated there.
  \<^item> \<open>Data_Import\<close>, \<open>Data_Import_Reconcile\<close>, \<open>Data_Import_Rules\<close>, \<open>Data_Import_Props\<close>: the
    DataImport controller: its claims, keeper, capture and artifact helpers; the whole
    reconciliation with its deferred status write; the rule of what it may send; its
    properties (no uncaptured data is deleted, outcomes need evidence and are final, fields
    of the pod survive, the finalizer goes last).
  \<^item> \<open>Publish_Rules\<close>: errors that can be retried, quiet parts of a controller, and the locale
    \<open>publish_client\<close> for what a controller that publishes relies on; both data controllers
    interpret it on their rules.
  \<^item> \<open>Data_Export\<close>, \<open>Data_Export_Reconcile\<close>: the DataExport controller: targets and the snapshot
    resolver (\<open>snapshot_resolver.go\<close>), the marks on a volume and on the user's claim, the
    take-over and the return of a volume, virtual disks, orphans, the export workload, and the
    whole reconciliation with its deferred status write (\<open>data_export_resource.go\<close>).
  \<^item> \<open>Data_Export_Rules\<close>, \<open>Data_Export_Kept\<close>, \<open>Data_Export_Status\<close>, \<open>Data_Export_Props\<close>: the
    rule of what it may send, that every operation keeps it, the invariant of the object in
    memory, and the properties: only idle volumes are taken, their data is protected until the
    user has them back, a volume is restored exactly, nothing of the user is deleted, snapshots
    of other namespaces stay closed, outcomes need evidence, the finalizer goes last, waits end.
  \<^item> \<open>Server_Pod\<close>: the controller that publishes the address of a server pod.
  \<^item> \<open>Populator\<close>: the functions of the volume populator (\<open>src/images/populator\<close>). What it deploys is
    what the DataImport controller waits for, the pod controller recognises and the Service
    selects, and the end of an import ends the population.
  \<^item> \<open>Snapshot_Domain\<close>: the domain controller of VolumeSnapshots and its adapter, with the snapshot
    SDK as a parameter: what it may label, and the order of its calls of the SDK.
  \<^item> \<open>Webhooks\<close>: the admission functions (\<open>src/images/webhooks/handlers\<close>); the validation agrees with
    the controller's classification of targets, the mutation fills in annotated classes only.
  \<^item> \<open>Hooks\<close>: the hooks of the module (\<open>src/hooks/go\<close>) that change the cluster: the removal of
    finalizers, which no error stops, and the grant of the restore executor.
  \<^item> \<open>Watches\<close>: the cache, the watches and the predicates of the data manager (\<open>cmd/main.go\<close>). Every
    object that is made for an import or an export wakes exactly its owner again; the exception
    of the Ingress is stated there.
  \<^item> \<open>Startup\<close>: the configuration of the controllers (\<open>src/common/config\<close>,
    \<open>src/images/controller/pkg/config\<close>) and the start of the data server: flags, certificates,
    and the order of the signals it sends. The arguments that the controllers give to its
    container start the server that they publish.
  \<^item> this theory: the properties that span components. The verdict of the import controller
    on a capture is the verdict of the capture controller, and the Ingress of an import lets
    the headers of the upload protocol of the data server through.

  \<^bold>\<open>Not modelled.\<close> The frameworks that call the code or that it calls (the work queues of the
  controller runtime, the populator machinery, the snapshot SDK, the webhook library, the flag
  parser, cryptography, the module SDK with its certificate hooks) are parameters or left out:
  the theorems about a controller are about a reconciliation of an arbitrary key. Left out as
  well: the construction of clients, schemes and managers in the \<open>main\<close> functions of the
  controllers and of the populator, the watches of the request controllers, signals and the
  shutdown of the data server, loggers, generated deep copies, release tooling. Log messages are
  no part of the model, and the texts of errors and conditions are kept only as far as the code
  compares or stores them.
\<close>

section \<open>The capture contract\<close>

text \<open>
  The DataImport controller reads the conditions of a capture request with a loop of its own;
  it finds what the capture controller's helper finds.
\<close>

lemma capture_verdict:
  assumes "env_ok E"
  shows "fst (volumeCaptureRequestFailed v) \<longleftrightarrow>
      isVolumeCaptureTerminal E (vcs_conditions (vcr_status v)) \<and>
      \<not> isConditionTrue E (vcs_conditions (vcr_status v)) ConditionTypeReady"
    and "volumeCaptureRequestReady v \<Longrightarrow>
      isConditionTrue E (vcs_conditions (vcr_status v)) ConditionTypeReady"
  by (auto simp: volumeCaptureRequestFailed_def volumeCaptureRequestReady_def vcrReadyCondition_def
    GetCondition_find [OF assms] isVolumeCaptureTerminal_def isConditionTrue_def split: option.splits if_splits)

lemma capture_artifact:
  "volumeCaptureArtifact v k = Inr a \<Longrightarrow> dataArtifactRef (vcr_status v) = Some a \<and> ar_kind a = k"
  by (auto simp: volumeCaptureArtifact_def dataArtifactRef_def Let_def split: option.splits if_splits)

text \<open>
  C12. The two controllers agree on a capture. For every status that a reconciliation of a
  VolumeCaptureRequest writes, whatever the API server answers: the DataImport controller
  takes it for failed or for ready only when the capture controller has finished it, with a
  completion time, so a pending capture neither fails nor completes an import; and where it
  accepts the VolumeSnapshotContent of a ready request, the capture controller had read that
  content, with that UID, as ready to use and without a CSI error.
\<close>

theorem import_trusts_finished_captures:
  assumes "env_ok E" "api E [] (Get KVolumeCaptureRequest n) = RObj (OVcr vcr)"
    and "snd (run_state (vcrReconcile E n) []) = p @ (StatusPatch (OVcr b) (OVcr c), a) # s"
  shows "(fst (volumeCaptureRequestFailed c) \<or> volumeCaptureRequestReady c \<longrightarrow>
      vcs_completionTimestamp (vcr_status c) \<noteq> None) \<and>
    (volumeCaptureRequestReady c \<and> volumeCaptureArtifact c artifactKindVolumeSnapshotContent = Inr art \<longrightarrow>
      (\<exists>v. (Get KVolumeSnapshotContent ([], ar_name art), RObj (OVsc v)) \<in> set p \<and>
         ar_uid art = m_uid (vsc_meta v) \<and> vscReadyToUse v \<and> vscErrorMessage v = None))"
proof -
  have "vcrAllowed E vcr p (StatusPatch (OVcr b) (OVcr c))"
    using vcrReconcile_kept [OF assms(1,2)] unfolding assms(3) by (rule obeys_split)
  then have good: "goodStatus E p (vcr_status c)"
    by (auto elim!: vcrAllowed_statusE)
  show ?thesis
    using good capture_verdict [OF assms(1), of c] capture_artifact [of c _ art]
    by (auto simp: goodStatus_def captured_def isVolumeCaptureTerminal_def isConditionTrue_def
      split: option.splits)
qed

theorem import_trusts_finished_captures_witness:
  "\<exists>p s v. vcrRun exVcr (RObj (OVsc exVsc)) = p @ (StatusPatch (OVcr exVcr) (OVcr exDone), ROk) # s \<and>
     volumeCaptureRequestReady exDone \<and>
     (Get KVolumeSnapshotContent ([], ''snapshot-u1-000000000000''), RObj (OVsc v)) \<in> set p \<and> vscReadyToUse v"
proof -
  let ?h = "vcrRun exVcr (RObj (OVsc exVsc))" and ?art = "the (dataArtifactRef (vcr_status exDone))"
  have "8 < length ?h" "?h ! 8 = (StatusPatch (OVcr exVcr) (OVcr exDone), ROk)" by code_simp+
  then have h: "?h = take 8 ?h @ (StatusPatch (OVcr exVcr) (OVcr exDone), ROk) # drop (Suc 8) ?h"
    by (metis id_take_nth_drop)
  have r: "volumeCaptureRequestReady exDone" by code_simp
  have "volumeCaptureArtifact exDone artifactKindVolumeSnapshotContent = Inr ?art" by code_simp
  moreover have "ar_name ?art = ''snapshot-u1-000000000000''" by code_simp
  ultimately show ?thesis
    using import_trusts_finished_captures [OF ref_env_ok exSrv_subject h, of ?art] h r by auto
qed

section \<open>The published upload endpoint\<close>


definition headerNames :: "httpWriter \<Rightarrow> string set" where
  "headerNames w = fst ` set (w_headers w)"


text \<open>The headers an answer may have so far.\<close>

definition within :: "string set \<Rightarrow> httpWriter \<Rightarrow> bool" where
  "within H w \<longleftrightarrow> headerNames w \<subseteq> H"

lemma within_simps [simp]:
  "k \<in> H \<Longrightarrow> within H w \<Longrightarrow> within H (Header_Set k v w)"
  "within H (WriteHeader code w) = within H w" "within H newWriter"
  "''Content-Type'' \<in> H \<Longrightarrow> within H w \<Longrightarrow> within H (httpError msg code w)"
  by (auto simp: within_def headerNames_def Header_Set_def WriteHeader_def newWriter_def httpError_def
    Write_def Let_def dom_update split: option.splits)

definition uploadHeaders :: "string set" where
  "uploadHeaders = {''X-Next-Offset'', ''X-Expected-Offset'', ''X-Device-Size'', ''Content-Type'', ''Content-Length''}"

lemma uploadHeaders_mem [simp]:
  "''X-Next-Offset'' \<in> uploadHeaders" "''X-Expected-Offset'' \<in> uploadHeaders"
  "''X-Device-Size'' \<in> uploadHeaders" "''Content-Type'' \<in> uploadHeaders" "''Content-Length'' \<in> uploadHeaders"
  by (simp_all add: uploadHeaders_def)






end
